(* ===== verification/Prelude.thy ===== *)
theory Prelude
  imports Main "HOL-Library.Char_ord" "HOL-Library.List_Lexorder"
begin

text \<open>
  Shared ground of the development: the result types every component uses, the parts of
  Go's standard library the sources call (\<^verbatim>\<open>fmt\<close>, \<^verbatim>\<open>strconv\<close>, \<^verbatim>\<open>strings\<close>, \<^verbatim>\<open>sort\<close>), the loops
  over a \<^verbatim>\<open>map[string]bool\<close> that occur in several files, and the generic lemmas on them.

  Go strings are byte sequences, so they are \<^typ>\<open>string\<close> here; the order of
  \<^verbatim>\<open>sort.Strings\<close> is the bytewise lexicographic order of
  \<^verbatim>\<open>List_Lexorder\<close> over \<^verbatim>\<open>Char_ord\<close>. The quoting verb is exact on ASCII; bytes from 0x80 on are
  passed through, which is what Go does with printable UTF-8.
\<close>

named_theorems go_fmt \<open>unfolding the Go formatting functions\<close>
named_theorems loop_simps \<open>closed forms of the loops over a set of names already seen\<close>

section \<open>Results\<close>

text \<open>A Go \<^verbatim>\<open>error\<close>: \<^const>\<open>None\<close> is \<^verbatim>\<open>nil\<close>, \<^const>\<open>Some\<close> carries the text of \<^verbatim>\<open>Error()\<close>.\<close>

type_synonym go_error = "string option"

text \<open>What \<^verbatim>\<open>client.Get\<close> yields: the object, a NotFound error, or any other error.\<close>

datatype 'a got = Found 'a | NotFound | Failed string

fun is_found :: "'a got \<Rightarrow> bool" where
  "is_found (Found _) = True"
| "is_found _ = False"

fun got_option :: "'a got \<Rightarrow> 'a option" where
  "got_option (Found x) = Some x"
| "got_option _ = None"

text \<open>
  A Go function body made of checks \<^verbatim>\<open>if err := check(); err != nil { return err }\<close>: the
  first error found, or \<^verbatim>\<open>nil\<close>.
\<close>

fun first_error :: "go_error list \<Rightarrow> go_error" where
  "first_error [] = None"
| "first_error (e # es) = (case e of None \<Rightarrow> first_error es | Some m \<Rightarrow> Some m)"

definition fail_when :: "bool \<Rightarrow> string \<Rightarrow> go_error" where
  "fail_when b msg = (if b then Some msg else None)"

lemma fail_when_None [simp]: "fail_when b msg = None \<longleftrightarrow> \<not> b"
  by (simp add: fail_when_def)

lemma first_error_None [simp]: "first_error es = None \<longleftrightarrow> (\<forall>e\<in>set es. e = None)"
  by (induction es) (auto split: option.split)

declare first_error.simps [simp del]

section \<open>The standard library\<close>

definition dquote :: char where "dquote = CHR 0x22"
definition backslash :: char where "backslash = CHR 0x5C"

definition hex_digit :: "nat \<Rightarrow> char" where
  "hex_digit n = (if n < 10 then char_of (48 + n) else char_of (87 + n))"

definition hex_byte :: "nat \<Rightarrow> string" where
  "hex_byte n = [hex_digit (n div 16), hex_digit (n mod 16)]"

definition quote_char :: "char \<Rightarrow> string" where
  "quote_char c =
    (let n = of_char c :: nat in
     if c = dquote \<or> c = backslash then [backslash, c]
     else if n = 7 then [backslash, CHR ''a'']
     else if n = 8 then [backslash, CHR ''b'']
     else if n = 12 then [backslash, CHR ''f'']
     else if n = 10 then [backslash, CHR ''n'']
     else if n = 13 then [backslash, CHR ''r'']
     else if n = 9 then [backslash, CHR ''t'']
     else if n = 11 then [backslash, CHR ''v'']
     else if n < 32 \<or> n = 127 then [backslash, CHR ''x''] @ hex_byte n
     else [c])"

text \<open>\<^verbatim>\<open>fmt\<close>'s \<^verbatim>\<open>%q\<close> of a string.\<close>

definition fmt_q :: "string \<Rightarrow> string" where
  "fmt_q s = [dquote] @ concat (map quote_char s) @ [dquote]"

fun join_sep :: "string \<Rightarrow> string list \<Rightarrow> string" where
  "join_sep sep [] = []"
| "join_sep sep [x] = x"
| "join_sep sep (x # y # xs) = x @ sep @ join_sep sep (y # xs)"

text \<open>\<^verbatim>\<open>fmt\<close>'s \<^verbatim>\<open>%v\<close> of a \<^verbatim>\<open>[]string\<close>.\<close>

definition fmt_v :: "string list \<Rightarrow> string" where
  "fmt_v xs = ''['' @ join_sep '' '' xs @ '']''"

fun nat_digits :: "nat \<Rightarrow> string" where
  "nat_digits n = (if n < 10 then [char_of (48 + n)]
                   else nat_digits (n div 10) @ [char_of (48 + n mod 10)])"

declare nat_digits.simps [simp del]

text \<open>\<^verbatim>\<open>strconv.Itoa\<close> and \<^verbatim>\<open>%d\<close>.\<close>

definition itoa :: "int \<Rightarrow> string" where
  "itoa i = (if i < 0 then ''-'' @ nat_digits (nat (- i)) else nat_digits (nat i))"

definition has_prefix :: "string \<Rightarrow> string \<Rightarrow> bool" where
  "has_prefix s p = (take (length p) s = p)"

text \<open>\<^verbatim>\<open>strings.TrimRight\<close> with a one-character cutset.\<close>

definition trim_right :: "string \<Rightarrow> char \<Rightarrow> string" where
  "trim_right s c = rev (dropWhile (\<lambda>x. x = c) (rev s))"

lemmas [go_fmt] = fmt_q_def fmt_v_def quote_char_def hex_byte_def hex_digit_def
  dquote_def backslash_def itoa_def

section \<open>Loops over a set of names already seen\<close>

text \<open>
  The idiom \<^verbatim>\<open>if !seen[v] { seen[v] = true; out = append(out, v) }\<close>, with the
  \<^verbatim>\<open>map[string]bool\<close> as the set of its keys.
\<close>

fun keep_first :: "'a set \<Rightarrow> 'a list \<Rightarrow> 'a list" where
  "keep_first seen [] = []"
| "keep_first seen (x # xs) =
     (if x \<in> seen then keep_first seen xs else x # keep_first (insert x seen) xs)"

text \<open>The idiom that stops at the first name already seen.\<close>

fun first_seen :: "'a set \<Rightarrow> 'a list \<Rightarrow> 'a option" where
  "first_seen seen [] = None"
| "first_seen seen (x # xs) = (if x \<in> seen then Some x else first_seen (insert x seen) xs)"

lemma set_keep_first [simp, loop_simps]: "set (keep_first seen xs) = set xs - seen"
  by (induction seen xs rule: keep_first.induct) auto

lemma distinct_keep_first [simp, intro]: "distinct (keep_first seen xs)"
  by (induction seen xs rule: keep_first.induct) auto

lemma keep_first_id: "distinct xs \<Longrightarrow> set xs \<inter> seen = {} \<Longrightarrow> keep_first seen xs = xs"
  by (induction seen xs rule: keep_first.induct) auto

lemma keep_first_append:
  "keep_first seen (xs @ ys) = keep_first seen xs @ keep_first (seen \<union> set xs) ys"
proof (induction seen xs rule: keep_first.induct)
  case (1 seen)
  then show ?case by simp
next
  case (2 seen x xs)
  then show ?case by (cases "x \<in> seen") (simp_all add: insert_absorb)
qed

lemma first_seen_None [simp, loop_simps]:
  "first_seen seen xs = None \<longleftrightarrow> distinct xs \<and> set xs \<inter> seen = {}"
  by (induction seen xs rule: first_seen.induct) auto

lemma first_seen_Some:
  "first_seen seen xs = Some x \<Longrightarrow> x \<in> set xs \<and> (x \<in> seen \<or> \<not> distinct xs)"
  by (induction seen xs rule: first_seen.induct) (auto split: if_splits)

section \<open>Facts on the standard library\<close>

lemma quote_char_nonempty [simp]: "quote_char c \<noteq> []"
  by (simp add: quote_char_def Let_def)

lemma fmt_q_nonempty [simp]: "fmt_q s \<noteq> []"
  by (simp add: fmt_q_def)

lemma has_prefix_append [simp]: "has_prefix (p @ s) p"
  by (simp add: has_prefix_def)

lemma has_prefix_iff: "has_prefix s p \<longleftrightarrow> (\<exists>t. s = p @ t)"
  by (metis append_take_drop_id has_prefix_append has_prefix_def)

lemma trim_right_idem [simp]: "trim_right (trim_right s c) c = trim_right s c"
proof -
  have "\<And>xs :: string. dropWhile (\<lambda>x. x = c) (dropWhile (\<lambda>x. x = c) xs) = dropWhile (\<lambda>x. x = c) xs"
    by (induct_tac xs) auto
  then show ?thesis by (simp add: trim_right_def)
qed

lemma is_found_iff: "is_found g \<longleftrightarrow> (\<exists>x. g = Found x)"
  by (cases g) auto

end
