(* ===== verification/Api_Types.thy ===== *)
theory Api_Types
  imports Prelude
begin

text \<open>
  The resource model of \<^verbatim>\<open>api/v1alpha1\<close>: one record per Go struct, in the order of the
  \<^verbatim>\<open>*_types.go\<close> files. A pointer field is an \<^typ>\<open>'a option\<close>, a slice a list, a string-based
  enumeration a string with its declared constants (Go admits any string there, the
  empty one included, and the code compares it as a string), an \<^verbatim>\<open>int32\<close> or \<^verbatim>\<open>int64\<close> an
  \<^typ>\<open>int\<close> (the code only compares, copies and prints them). The Kubernetes structs the
  code copies without looking inside (resource requirements, a raw JSON extension, an
  environment value source) are their serialized text.
\<close>

section \<open>Kubernetes metadata and payloads\<close>

type_synonym raw_extension = string
type_synonym resource_requirements = string

record object_meta =
  meta_name :: string
  meta_namespace :: string
  meta_generation :: int
  meta_resourceVersion :: string

record namespaced_name =
  nn_namespace :: string
  nn_name :: string

abbreviation NamespacedName :: "string \<Rightarrow> string \<Rightarrow> namespaced_name" where
  "NamespacedName ns n \<equiv> \<lparr>nn_namespace = ns, nn_name = n\<rparr>"

definition meta_key :: "object_meta \<Rightarrow> namespaced_name" where
  "meta_key m = NamespacedName (meta_namespace m) (meta_name m)"

record condition =
  cond_type :: string
  cond_status :: string
  cond_reason :: string
  cond_message :: string
  cond_observedGeneration :: int
  cond_lastTransitionTime :: string

abbreviation ConditionTrue :: string where "ConditionTrue \<equiv> ''True''"
abbreviation ConditionFalse :: string where "ConditionFalse \<equiv> ''False''"

record env_var =
  env_name :: string
  env_value :: string
  env_valueFrom :: "string option"

abbreviation EnvVar :: "string \<Rightarrow> string \<Rightarrow> env_var" where
  "EnvVar n v \<equiv> \<lparr>env_name = n, env_value = v, env_valueFrom = None\<rparr>"

text \<open>A probe: the exec command and timings the code sets, and the rest of a declared one.\<close>

record probe =
  probe_exec :: "string list"
  probe_initialDelaySeconds :: int
  probe_periodSeconds :: int
  probe_timeoutSeconds :: int
  probe_failureThreshold :: int
  probe_rest :: string

section \<open>Shared types (common\_types.go)\<close>

record local_reference =
  ref_name :: string

abbreviation LocalReference :: "string \<Rightarrow> local_reference" where
  "LocalReference n \<equiv> \<lparr>ref_name = n\<rparr>"

record secret_key_reference =
  skr_name :: string
  skr_key :: string

record config_map_key_reference =
  cmr_name :: string
  cmr_key :: string

abbreviation ConditionReady :: string where "ConditionReady \<equiv> ''Ready''"
abbreviation ConditionResolved :: string where "ConditionResolved \<equiv> ''Resolved''"
abbreviation ConditionPolicyCompliant :: string where "ConditionPolicyCompliant \<equiv> ''PolicyCompliant''"

abbreviation ReasonReconciled :: string where "ReasonReconciled \<equiv> ''Reconciled''"
abbreviation ReasonReferenceMissing :: string where "ReasonReferenceMissing \<equiv> ''ReferenceNotFound''"
abbreviation ReasonProgressing :: string where "ReasonProgressing \<equiv> ''Progressing''"
abbreviation ReasonCreateFailed :: string where "ReasonCreateFailed \<equiv> ''CreateFailed''"
abbreviation ReasonInvalidSpec :: string where "ReasonInvalidSpec \<equiv> ''InvalidSpec''"
abbreviation ReasonSecretMissing :: string where "ReasonSecretMissing \<equiv> ''SecretNotFound''"
abbreviation ReasonPolicyViolation :: string where "ReasonPolicyViolation \<equiv> ''PolicyViolation''"

section \<open>Agent (agent\_types.go)\<close>

record agent_workspace_spec =
  ws_repository :: string
  ws_branch :: string
  ws_credentialRef :: "local_reference option"
  ws_mountPath :: string
  ws_size :: string
  ws_storageClassName :: "string option"

record agent_expose_spec =
  expose_port :: int
  expose_description :: string

record agent_pvc_volume_source =
  pvcs_claimName :: string

record agent_object_volume_source =
  objs_name :: string
  objs_optional :: "bool option"

record agent_empty_dir_volume_source =
  eds_sizeLimit :: "string option"
  eds_medium :: string

record agent_volume =
  av_name :: string
  av_mountPath :: string
  av_readOnly :: bool
  av_persistentVolumeClaim :: "agent_pvc_volume_source option"
  av_configMap :: "agent_object_volume_source option"
  av_secret :: "agent_object_volume_source option"
  av_emptyDir :: "agent_empty_dir_volume_source option"

record agent_runtime_spec =
  rt_image :: string
  rt_replicas :: int
  rt_port :: int
  rt_env :: "env_var list"
  rt_serviceAccountName :: string
  rt_resources :: resource_requirements
  rt_readinessProbe :: "probe option"
  rt_runtimeClassName :: string
  rt_volumes :: "agent_volume list"

record agent_spec =
  as_description :: string
  as_agentClassRef :: "local_reference option"
  as_modelRef :: "local_reference option"
  as_promptRef :: "local_reference option"
  as_toolRefs :: "local_reference list"
  as_toolSetRefs :: "local_reference list"
  as_skillRefs :: "local_reference list"
  as_policyRefs :: "local_reference list"
  as_toolPolicyRefs :: "local_reference list"
  as_credentialRefs :: "local_reference list"
  as_runtime :: "agent_runtime_spec option"
  as_workspace :: "agent_workspace_spec option"
  as_expose :: "agent_expose_spec option"

abbreviation AgentPhasePending :: string where "AgentPhasePending \<equiv> ''Pending''"
abbreviation AgentPhaseReady :: string where "AgentPhaseReady \<equiv> ''Ready''"
abbreviation AgentPhaseDegraded :: string where "AgentPhaseDegraded \<equiv> ''Degraded''"

record agent_status =
  ast_conditions :: "condition list"
  ast_observedGeneration :: int
  ast_phase :: string
  ast_resolvedConfigHash :: string
  ast_resolvedRefs :: nat
  ast_runtimeAvailableReplicas :: int
  ast_peerEndpoint :: string
  ast_workspaceClaim :: string

record agent =
  ag_meta :: object_meta
  ag_spec :: agent_spec
  ag_status :: agent_status

abbreviation ag_name :: "agent \<Rightarrow> string" where "ag_name a \<equiv> meta_name (ag_meta a)"
abbreviation ag_namespace :: "agent \<Rightarrow> string" where "ag_namespace a \<equiv> meta_namespace (ag_meta a)"

section \<open>AgentClass (agentclass\_types.go)\<close>

record agent_class_spec =
  cs_description :: string
  cs_defaultModelRef :: "local_reference option"
  cs_defaultPromptRef :: "local_reference option"
  cs_defaultPolicyRefs :: "local_reference list"
  cs_defaultToolPolicyRefs :: "local_reference list"
  cs_defaultToolRefs :: "local_reference list"
  cs_defaultSkillRefs :: "local_reference list"

text \<open>The statuses that hold nothing but conditions and the observed generation.\<close>

record basic_status =
  st_conditions :: "condition list"
  st_observedGeneration :: int

record agent_class =
  ac_meta :: object_meta
  ac_spec :: agent_class_spec
  ac_status :: basic_status

section \<open>Credential (credential\_types.go)\<close>

record credential_spec =
  crs_secretRef :: secret_key_reference
  crs_description :: string

record credential_status = basic_status +
  crst_secretFound :: "bool option"

record credential =
  cr_meta :: object_meta
  cr_spec :: credential_spec
  cr_status :: credential_status

section \<open>MCPServer (mcpserver\_types.go)\<close>

record mcp_server_spec =
  mss_image :: string
  mss_externalEndpoint :: string
  mss_transport :: string
  mss_port :: int
  mss_replicas :: int
  mss_env :: "env_var list"
  mss_resources :: resource_requirements

record mcp_server_status = basic_status +
  msst_endpoint :: string
  msst_availableReplicas :: int

record mcp_server =
  ms_meta :: object_meta
  ms_spec :: mcp_server_spec
  ms_status :: mcp_server_status

section \<open>Model (model\_types.go)\<close>

record model_defaults =
  md_temperature :: "string option"
  md_maxTokens :: "int option"

record model_spec =
  mos_provider :: string
  mos_modelName :: string
  mos_endpoint :: string
  mos_credentialRef :: "local_reference option"
  mos_defaults :: "model_defaults option"

record model =
  mo_meta :: object_meta
  mo_spec :: model_spec
  mo_status :: basic_status

section \<open>Policy (policy\_types.go)\<close>

record access_rule =
  rule_allow :: "string list"
  rule_deny :: "string list"

record policy_spec =
  pos_models :: "access_rule option"
  pos_mcp :: "access_rule option"
  pos_tools :: "access_rule option"

record policy =
  po_meta :: object_meta
  po_spec :: policy_spec
  po_status :: basic_status

section \<open>PromptTemplate (prompttemplate\_types.go)\<close>

record role_prompt =
  rp_role :: string
  rp_content :: string

record few_shot_example =
  fs_input :: string
  fs_output :: string

record prompt_template_spec =
  pts_version :: string
  pts_system :: string
  pts_roles :: "role_prompt list"
  pts_fewShot :: "few_shot_example list"
  pts_template :: string

record prompt_template =
  pt_meta :: object_meta
  pt_spec :: prompt_template_spec
  pt_status :: basic_status

section \<open>Skill (skill\_types.go)\<close>

record skill_spec =
  sks_description :: string
  sks_version :: string
  sks_content :: string
  sks_contentConfigMapRef :: "config_map_key_reference option"
  sks_allowedTools :: "string list"

record skill_status = basic_status +
  skst_contentSource :: string

record skill =
  sk_meta :: object_meta
  sk_spec :: skill_spec
  sk_status :: skill_status

section \<open>Tool (tool\_types.go)\<close>

abbreviation ToolTypeHTTP :: string where "ToolTypeHTTP \<equiv> ''http''"
abbreviation ToolTypeMCP :: string where "ToolTypeMCP \<equiv> ''mcp''"

record tool_spec =
  tos_type :: string
  tos_description :: string
  tos_version :: string
  tos_mcpToolName :: string
  tos_endpoint :: string
  tos_mcpServerRef :: "local_reference option"
  tos_agentRef :: "local_reference option"
  tos_timeoutSeconds :: "int option"
  tos_inputSchema :: "raw_extension option"
  tos_outputSchema :: "raw_extension option"

record tool_status = basic_status +
  tost_healthy :: "bool option"

record tool =
  to_meta :: object_meta
  to_spec :: tool_spec
  to_status :: tool_status

section \<open>ToolPolicy (toolpolicy\_types.go)\<close>

abbreviation ToolActionAllow :: string where "ToolActionAllow \<equiv> ''allow''"
abbreviation ToolActionDeny :: string where "ToolActionDeny \<equiv> ''deny''"

record tool_rule =
  tr_tool :: string
  tr_action :: string
  tr_maxCallsPerSession :: "int option"

record tool_policy_spec =
  tps_rules :: "tool_rule list"
  tps_defaultAction :: string

record tool_policy =
  tp_meta :: object_meta
  tp_spec :: tool_policy_spec
  tp_status :: basic_status

section \<open>ToolSet (toolset\_types.go)\<close>

record tool_set_spec =
  tss_description :: string
  tss_toolRefs :: "local_reference list"

record tool_set_status = basic_status +
  tsst_resolvedTools :: int

record tool_set =
  ts_meta :: object_meta
  ts_spec :: tool_set_spec
  ts_status :: tool_set_status

section \<open>Trigger (trigger\_types.go)\<close>

record trigger_spec =
  trs_agentRef :: local_reference
  trs_image :: string
  trs_credentialRef :: "local_reference option"
  trs_config :: "raw_extension option"
  trs_replicas :: int
  trs_env :: "env_var list"
  trs_resources :: resource_requirements

abbreviation TriggerPhasePending :: string where "TriggerPhasePending \<equiv> ''Pending''"
abbreviation TriggerPhaseRunning :: string where "TriggerPhaseRunning \<equiv> ''Running''"
abbreviation TriggerPhaseDegraded :: string where "TriggerPhaseDegraded \<equiv> ''Degraded''"

record trigger_status = basic_status +
  trst_phase :: string
  trst_availableReplicas :: int
  trst_agentEndpoint :: string

record trigger =
  trg_meta :: object_meta
  trg_spec :: trigger_spec
  trg_status :: trigger_status

section \<open>Effective Agent spec (ApplyClassDefaults)\<close>

text \<open>
  \<^verbatim>\<open>ApplyClassDefaults\<close>: the Agent's own value wins, a class default fills a gap. The
  Operator and the Registry both use it.
\<close>

definition or_default :: "'a option \<Rightarrow> 'a option \<Rightarrow> 'a option" where
  "or_default own d = (if own = None \<and> d \<noteq> None then d else own)"

definition or_default_list :: "'a list \<Rightarrow> 'a list \<Rightarrow> 'a list" where
  "or_default_list own d = (if own = [] \<and> d \<noteq> [] then d else own)"

definition ApplyClassDefaults :: "agent_spec \<Rightarrow> agent_class option \<Rightarrow> agent_spec" where
  "ApplyClassDefaults spec class =
    (case class of
       None \<Rightarrow> spec
     | Some c \<Rightarrow>
        (let d = ac_spec c in
         spec\<lparr>as_modelRef := or_default (as_modelRef spec) (cs_defaultModelRef d),
              as_promptRef := or_default (as_promptRef spec) (cs_defaultPromptRef d),
              as_policyRefs := or_default_list (as_policyRefs spec) (cs_defaultPolicyRefs d),
              as_toolPolicyRefs := or_default_list (as_toolPolicyRefs spec) (cs_defaultToolPolicyRefs d),
              as_toolRefs := or_default_list (as_toolRefs spec) (cs_defaultToolRefs d),
              as_skillRefs := or_default_list (as_skillRefs spec) (cs_defaultSkillRefs d)\<rparr>))"

lemma or_default_simps [simp]:
  "or_default (Some x) d = Some x" "or_default None d = d"
  "or_default_list (x # xs) e = x # xs" "or_default_list [] e = e"
  by (auto simp: or_default_def or_default_list_def)

lemma or_default_absorb [simp]:
  "or_default (or_default a d) d = or_default a d"
  "or_default_list (or_default_list xs e) e = or_default_list xs e"
  by (auto simp: or_default_def or_default_list_def)

lemma ApplyClassDefaults_None [simp]: "ApplyClassDefaults spec None = spec"
  by (simp add: ApplyClassDefaults_def)

lemma ApplyClassDefaults_fields [simp]:
  "as_modelRef (ApplyClassDefaults s (Some c)) = or_default (as_modelRef s) (cs_defaultModelRef (ac_spec c))"
  "as_promptRef (ApplyClassDefaults s (Some c)) = or_default (as_promptRef s) (cs_defaultPromptRef (ac_spec c))"
  "as_policyRefs (ApplyClassDefaults s (Some c)) = or_default_list (as_policyRefs s) (cs_defaultPolicyRefs (ac_spec c))"
  "as_toolPolicyRefs (ApplyClassDefaults s (Some c)) =
     or_default_list (as_toolPolicyRefs s) (cs_defaultToolPolicyRefs (ac_spec c))"
  "as_toolRefs (ApplyClassDefaults s (Some c)) = or_default_list (as_toolRefs s) (cs_defaultToolRefs (ac_spec c))"
  "as_skillRefs (ApplyClassDefaults s (Some c)) = or_default_list (as_skillRefs s) (cs_defaultSkillRefs (ac_spec c))"
  by (simp_all add: ApplyClassDefaults_def Let_def)

lemma ApplyClassDefaults_frame [simp]:
  "as_toolSetRefs (ApplyClassDefaults s c) = as_toolSetRefs s"
  "as_credentialRefs (ApplyClassDefaults s c) = as_credentialRefs s"
  "as_runtime (ApplyClassDefaults s c) = as_runtime s"
  "as_workspace (ApplyClassDefaults s c) = as_workspace s"
  "as_expose (ApplyClassDefaults s c) = as_expose s"
  "as_agentClassRef (ApplyClassDefaults s c) = as_agentClassRef s"
  by (simp_all add: ApplyClassDefaults_def Let_def split: option.split)

section \<open>Sample objects\<close>

text \<open>Small concrete objects, used to evaluate the definitions at closed inputs.\<close>

definition sample_meta :: "string \<Rightarrow> object_meta" where
  "sample_meta n = \<lparr>meta_name = n, meta_namespace = ''default'', meta_generation = 1,
                    meta_resourceVersion = ''7''\<rparr>"

definition sample_status :: basic_status where
  "sample_status = \<lparr>st_conditions = [], st_observedGeneration = 0\<rparr>"

definition sample_agent_spec :: agent_spec where
  "sample_agent_spec =
     \<lparr>as_description = [], as_agentClassRef = None, as_modelRef = Some (LocalReference ''gpt''),
      as_promptRef = None, as_toolRefs = [LocalReference ''search''], as_toolSetRefs = [],
      as_skillRefs = [], as_policyRefs = [], as_toolPolicyRefs = [], as_credentialRefs = [],
      as_runtime = None, as_workspace = None, as_expose = None\<rparr>"

definition sample_agent :: agent where
  "sample_agent =
     \<lparr>ag_meta = sample_meta ''bot'', ag_spec = sample_agent_spec,
      ag_status = \<lparr>ast_conditions = [], ast_observedGeneration = 0, ast_phase = [],
        ast_resolvedConfigHash = [], ast_resolvedRefs = 0, ast_runtimeAvailableReplicas = 0,
        ast_peerEndpoint = [], ast_workspaceClaim = []\<rparr>\<rparr>"

definition sample_policy :: "string \<Rightarrow> access_rule option \<Rightarrow> policy" where
  "sample_policy n r =
     \<lparr>po_meta = sample_meta n,
      po_spec = \<lparr>pos_models = r, pos_mcp = None, pos_tools = None\<rparr>,
      po_status = sample_status\<rparr>"

definition sample_tool_policy :: "string \<Rightarrow> tool_rule list \<Rightarrow> string \<Rightarrow> tool_policy" where
  "sample_tool_policy n rs d =
     \<lparr>tp_meta = sample_meta n, tp_spec = \<lparr>tps_rules = rs, tps_defaultAction = d\<rparr>,
      tp_status = sample_status\<rparr>"

lemmas sample_defs = sample_meta_def sample_status_def sample_agent_spec_def sample_agent_def
  sample_policy_def sample_tool_policy_def

end
