(* ===== verification/Policy_Merge.thy ===== *)
theory Policy_Merge
  imports Api_Types "HOL-Library.Multiset"
begin

text \<open>
  What a set of Policy and ToolPolicy objects means: \<^verbatim>\<open>api/v1alpha1/policy_merge.go\<close> and
  the skill scope check of \<^verbatim>\<open>api/v1alpha1/skill_scope.go\<close>, with their correctness: the
  merged access rule permits exactly what every merged rule permits (so a Policy can only
  narrow), the report of violations is empty exactly when the declaration is permitted,
  and a ToolPolicy, unlike a Policy, can widen.
\<close>

section \<open>The code\<close>

record effective_policy =
  eff_sources :: "string list"
  eff_models :: "access_rule option"
  eff_mcp :: "access_rule option"
  eff_tools :: "access_rule option"
  eff_toolRules :: "tool_rule list"
  eff_defaultToolAction :: string

record agent_references =
  refs_model :: string
  refs_tools :: "string list"
  refs_mcpServers :: "string list"

definition containsWildcard :: "string list \<Rightarrow> bool" where
  "containsWildcard xs = (''*'' \<in> set xs)"

definition union :: "string list \<Rightarrow> string list \<Rightarrow> string list" where
  "union a b = keep_first {} (a @ b)"

definition intersectOrKeep :: "string list \<Rightarrow> string list \<Rightarrow> string list" where
  "intersectOrKeep a b =
    (if a = [] then b
     else if b = [] then a
     else if containsWildcard a then b
     else if containsWildcard b then a
     else filter (\<lambda>v. v \<in> set b) a)"

definition mergeAccessRule :: "access_rule option \<Rightarrow> access_rule option \<Rightarrow> access_rule option" where
  "mergeAccessRule into add =
    (case add of
       None \<Rightarrow> into
     | Some r \<Rightarrow>
        (case into of
           None \<Rightarrow> Some r
         | Some i \<Rightarrow>
            (let out = \<lparr>rule_allow = intersectOrKeep (rule_allow i) (rule_allow r),
                        rule_deny = union (rule_deny i) (rule_deny r)\<rparr>
             in if rule_allow i \<noteq> [] \<and> rule_allow r \<noteq> [] \<and> rule_allow out = []
                then Some (out\<lparr>rule_allow := [], rule_deny := union (rule_deny out) [''*'']\<rparr>)
                else Some out)))"

definition mergePolicy :: "effective_policy \<Rightarrow> policy \<Rightarrow> effective_policy" where
  "mergePolicy eff p =
    eff\<lparr>eff_sources := eff_sources eff @ [''Policy/'' @ meta_name (po_meta p)],
        eff_models := mergeAccessRule (eff_models eff) (pos_models (po_spec p)),
        eff_mcp := mergeAccessRule (eff_mcp eff) (pos_mcp (po_spec p)),
        eff_tools := mergeAccessRule (eff_tools eff) (pos_tools (po_spec p))\<rparr>"

definition mergeToolPolicy :: "effective_policy \<Rightarrow> tool_policy \<Rightarrow> effective_policy" where
  "mergeToolPolicy eff tp =
    eff\<lparr>eff_sources := eff_sources eff @ [''ToolPolicy/'' @ meta_name (tp_meta tp)],
        eff_toolRules := eff_toolRules eff @ tps_rules (tp_spec tp),
        eff_defaultToolAction :=
          (if tps_defaultAction (tp_spec tp) = ToolActionDeny then ToolActionDeny
           else eff_defaultToolAction eff)\<rparr>"

definition empty_policy :: effective_policy where
  "empty_policy = \<lparr>eff_sources = [], eff_models = None, eff_mcp = None, eff_tools = None,
                   eff_toolRules = [], eff_defaultToolAction = ToolActionAllow\<rparr>"

definition MergePolicies :: "policy list \<Rightarrow> tool_policy list \<Rightarrow> effective_policy option" where
  "MergePolicies ps tps =
    (if ps = [] \<and> tps = [] then None
     else Some (foldl mergeToolPolicy (foldl mergePolicy empty_policy ps) tps))"

definition PolicySources :: "effective_policy option \<Rightarrow> string list" where
  "PolicySources e = (case e of None \<Rightarrow> [] | Some p \<Rightarrow> eff_sources p)"

definition Permits :: "access_rule option \<Rightarrow> string \<Rightarrow> bool" where
  "Permits r name =
    (case r of
       None \<Rightarrow> True
     | Some r \<Rightarrow>
        (if list_ex (\<lambda>d. d = name \<or> d = ''*'') (rule_deny r) then False
         else if rule_allow r = [] then True
         else list_ex (\<lambda>a. a = name \<or> a = ''*'') (rule_allow r)))"

fun matchToolRuleFrom :: "tool_rule option \<Rightarrow> tool_rule list \<Rightarrow> string \<Rightarrow> tool_rule option" where
  "matchToolRuleFrom wildcard [] name = wildcard"
| "matchToolRuleFrom wildcard (r # rs) name =
    (if tr_tool r = name then Some r
     else if tr_tool r = ''*''
       then matchToolRuleFrom (if wildcard = None then Some r else wildcard) rs name
     else matchToolRuleFrom wildcard rs name)"

definition MatchToolRule :: "tool_rule list \<Rightarrow> string \<Rightarrow> tool_rule option" where
  "MatchToolRule rules name = matchToolRuleFrom None rules name"

definition modelViolations :: "effective_policy \<Rightarrow> agent_references \<Rightarrow> string list" where
  "modelViolations e refs =
    (if eff_models e \<noteq> None \<and> refs_model refs \<noteq> ''''
     then (if \<not> Permits (eff_models e) (refs_model refs)
           then [''model '' @ fmt_q (refs_model refs) @ '' is denied by policy''] else [])
     else [])"

definition mcpViolation :: "effective_policy \<Rightarrow> string \<Rightarrow> string list" where
  "mcpViolation e name =
    (if eff_mcp e \<noteq> None \<and> \<not> Permits (eff_mcp e) name
     then [''mcpServer '' @ fmt_q name @ '' is denied by policy''] else [])"

definition toolViolation :: "effective_policy \<Rightarrow> string \<Rightarrow> string list" where
  "toolViolation e name =
    (if eff_tools e \<noteq> None \<and> \<not> Permits (eff_tools e) name
     then [''tool '' @ fmt_q name @ '' is denied by policy'']
     else (case MatchToolRule (eff_toolRules e) name of
             Some rule \<Rightarrow>
               (if tr_action rule = ToolActionDeny
                then [''tool '' @ fmt_q name @ '' is denied by a ToolPolicy rule (matched ''
                      @ fmt_q (tr_tool rule) @ '')'']
                else [])
           | None \<Rightarrow>
               (if eff_defaultToolAction e = ToolActionDeny
                then [''tool '' @ fmt_q name @
                      '' matches no ToolPolicy rule and the default action is deny'']
                else [])))"

definition Violations :: "effective_policy option \<Rightarrow> agent_references \<Rightarrow> string list" where
  "Violations e refs =
    (case e of
       None \<Rightarrow> []
     | Some p \<Rightarrow>
        sort (modelViolations p refs
              @ concat (map (mcpViolation p) (refs_mcpServers refs))
              @ concat (map (toolViolation p) (refs_tools refs))))"

record skill_tool_scope =
  scope_skill :: string
  scope_allowedTools :: "string list"

definition skillToolViolation :: "string set \<Rightarrow> skill_tool_scope \<Rightarrow> string list" where
  "skillToolViolation available sk =
    concat (map (\<lambda>tool. if tool \<notin> available
                        then [''skill '' @ fmt_q (scope_skill sk) @ '' allows tool '' @ fmt_q tool
                              @ '', which the Agent does not reference'']
                        else [])
                (scope_allowedTools sk))"

definition SkillToolViolations :: "skill_tool_scope list \<Rightarrow> string list \<Rightarrow> string list" where
  "SkillToolViolations skills availableTools =
    (if skills = [] then []
     else sort (concat (map (skillToolViolation (set availableTools)) skills)))"

section \<open>The contract of a merge that can only narrow\<close>

locale narrowing_merge =
  fixes permits :: "'r \<Rightarrow> 'n \<Rightarrow> bool"
    and merge :: "'r \<Rightarrow> 'r \<Rightarrow> 'r"
    and unconstrained :: 'r
  assumes permits_unconstrained: "permits unconstrained n"
    and permits_merge: "permits (merge a b) n \<longleftrightarrow> permits a n \<and> permits b n"
begin

lemma permits_foldl:
  "permits (foldl (\<lambda>acc p. merge acc (f p)) a ps) n \<longleftrightarrow> permits a n \<and> (\<forall>p\<in>set ps. permits (f p) n)"
  by (induction ps arbitrary: a) (auto simp: permits_merge)

lemma permits_all:
  "permits (foldl (\<lambda>acc p. merge acc (f p)) unconstrained ps) n \<longleftrightarrow> (\<forall>p\<in>set ps. permits (f p) n)"
  by (simp add: permits_foldl permits_unconstrained)

lemma permits_antimono:
  assumes "set ps \<subseteq> set qs"
    and "permits (foldl (\<lambda>acc p. merge acc (f p)) unconstrained qs) n"
  shows "permits (foldl (\<lambda>acc p. merge acc (f p)) unconstrained ps) n"
  using assms by (auto simp: permits_all)

end

section \<open>Access rules\<close>

lemma set_union [simp]: "set (union a b) = set a \<union> set b"
  by (simp add: union_def)

lemma distinct_union [simp]: "distinct (union a b)"
  by (simp add: union_def)

lemma Permits_None [simp]: "Permits None n"
  by (simp add: Permits_def)

lemma Permits_Some:
  "Permits (Some r) n \<longleftrightarrow>
     n \<notin> set (rule_deny r) \<and> ''*'' \<notin> set (rule_deny r) \<and>
     (rule_allow r = [] \<or> n \<in> set (rule_allow r) \<or> ''*'' \<in> set (rule_allow r))"
  by (auto simp: Permits_def list_ex_iff)

text \<open>An allow list, read as the set of names it admits.\<close>

definition admits :: "string list \<Rightarrow> string \<Rightarrow> bool" where
  "admits xs n \<longleftrightarrow> xs = [] \<or> n \<in> set xs \<or> ''*'' \<in> set xs"

lemma Permits_admits:
  "Permits (Some r) n \<longleftrightarrow> n \<notin> set (rule_deny r) \<and> ''*'' \<notin> set (rule_deny r) \<and> admits (rule_allow r) n"
  by (auto simp: Permits_Some admits_def)

lemma admits_intersect:
  assumes "a = [] \<or> b = [] \<or> intersectOrKeep a b \<noteq> []"
  shows "admits (intersectOrKeep a b) n \<longleftrightarrow> admits a n \<and> admits b n"
  using assms by (auto simp: intersectOrKeep_def admits_def containsWildcard_def)

lemma disjoint_admits_none:
  assumes "a \<noteq> []" "b \<noteq> []" "intersectOrKeep a b = []"
  shows "\<not> (admits a n \<and> admits b n)"
  using assms
  by (auto simp: intersectOrKeep_def admits_def containsWildcard_def filter_empty_conv split: if_splits)

lemma Permits_mergeAccessRule:
  "Permits (mergeAccessRule a b) n \<longleftrightarrow> Permits a n \<and> Permits b n"
proof (cases a; cases b)
  fix i r
  assume ab: "a = Some i" "b = Some r"
  show ?thesis
  proof (cases "rule_allow i \<noteq> [] \<and> rule_allow r \<noteq> [] \<and>
                intersectOrKeep (rule_allow i) (rule_allow r) = []")
    case True
    then have "\<not> Permits (mergeAccessRule a b) n"
      by (simp add: ab mergeAccessRule_def Let_def Permits_admits)
    moreover from True have "\<not> (Permits a n \<and> Permits b n)"
      using disjoint_admits_none by (auto simp: ab Permits_admits)
    ultimately show ?thesis by blast
  next
    case False
    then have "admits (intersectOrKeep (rule_allow i) (rule_allow r)) n
                 \<longleftrightarrow> admits (rule_allow i) n \<and> admits (rule_allow r) n"
      by (intro admits_intersect) blast
    with False show ?thesis
      by (auto simp: ab mergeAccessRule_def Let_def Permits_admits)
  qed
qed (simp_all add: mergeAccessRule_def)

interpretation ar: narrowing_merge Permits mergeAccessRule None
  by unfold_locales (simp_all add: Permits_mergeAccessRule)

section \<open>Merged policies\<close>

lemma foldl_mergePolicy_fields:
  "eff_models (foldl mergePolicy e ps) =
     foldl (\<lambda>acc p. mergeAccessRule acc (pos_models (po_spec p))) (eff_models e) ps"
  "eff_mcp (foldl mergePolicy e ps) =
     foldl (\<lambda>acc p. mergeAccessRule acc (pos_mcp (po_spec p))) (eff_mcp e) ps"
  "eff_tools (foldl mergePolicy e ps) =
     foldl (\<lambda>acc p. mergeAccessRule acc (pos_tools (po_spec p))) (eff_tools e) ps"
  "eff_toolRules (foldl mergePolicy e ps) = eff_toolRules e"
  "eff_defaultToolAction (foldl mergePolicy e ps) = eff_defaultToolAction e"
  by (induction ps arbitrary: e) (simp_all add: mergePolicy_def)

lemma foldl_mergeToolPolicy_fields:
  "eff_models (foldl mergeToolPolicy e tps) = eff_models e"
  "eff_mcp (foldl mergeToolPolicy e tps) = eff_mcp e"
  "eff_tools (foldl mergeToolPolicy e tps) = eff_tools e"
  "eff_toolRules (foldl mergeToolPolicy e tps) =
     eff_toolRules e @ concat (map (\<lambda>tp. tps_rules (tp_spec tp)) tps)"
  by (induction tps arbitrary: e) (simp_all add: mergeToolPolicy_def)

lemma foldl_mergeToolPolicy_default:
  "eff_defaultToolAction (foldl mergeToolPolicy e tps) = ToolActionDeny \<longleftrightarrow>
     eff_defaultToolAction e = ToolActionDeny \<or>
     (\<exists>tp\<in>set tps. tps_defaultAction (tp_spec tp) = ToolActionDeny)"
  by (induction tps arbitrary: e) (auto simp: mergeToolPolicy_def)

lemma empty_policy_fields [simp]:
  "eff_models empty_policy = None" "eff_mcp empty_policy = None" "eff_tools empty_policy = None"
  "eff_toolRules empty_policy = []" "eff_defaultToolAction empty_policy = ToolActionAllow"
  "eff_sources empty_policy = []"
  by (simp_all add: empty_policy_def)

lemmas merged_fields = foldl_mergePolicy_fields foldl_mergeToolPolicy_fields
  foldl_mergeToolPolicy_default

lemma matchToolRuleFrom_find:
  "matchToolRuleFrom w rs n =
     (case find (\<lambda>r. tr_tool r = n) rs of
        Some r \<Rightarrow> Some r
      | None \<Rightarrow> (case w of Some r \<Rightarrow> Some r | None \<Rightarrow> find (\<lambda>r. tr_tool r = ''*'') rs))"
  by (induction w rs n rule: matchToolRuleFrom.induct) (auto split: option.splits)

section \<open>What a declaration is allowed, read off the Policy and ToolPolicy objects\<close>

text \<open>
  The specification the merge implements: a name is allowed when every Policy permits it,
  and a tool's action is the one of the first rule naming it, else of the first wildcard
  rule, else deny when some ToolPolicy defaults to deny.
\<close>

definition policies_permit :: "(policy_spec \<Rightarrow> access_rule option) \<Rightarrow> policy list \<Rightarrow> string \<Rightarrow> bool" where
  "policies_permit dim ps n \<longleftrightarrow> (\<forall>p\<in>set ps. Permits (dim (po_spec p)) n)"

definition all_rules :: "tool_policy list \<Rightarrow> tool_rule list" where
  "all_rules tps = concat (map (\<lambda>tp. tps_rules (tp_spec tp)) tps)"

definition tool_denied :: "tool_policy list \<Rightarrow> string \<Rightarrow> bool" where
  "tool_denied tps n \<longleftrightarrow>
    (case find (\<lambda>r. tr_tool r = n) (all_rules tps) of
       Some r \<Rightarrow> tr_action r = ToolActionDeny
     | None \<Rightarrow>
        (case find (\<lambda>r. tr_tool r = ''*'') (all_rules tps) of
           Some r \<Rightarrow> tr_action r = ToolActionDeny
         | None \<Rightarrow> (\<exists>tp\<in>set tps. tps_defaultAction (tp_spec tp) = ToolActionDeny)))"

definition declaration_permitted :: "policy list \<Rightarrow> tool_policy list \<Rightarrow> agent_references \<Rightarrow> bool" where
  "declaration_permitted ps tps refs \<longleftrightarrow>
     (refs_model refs = '''' \<or> policies_permit pos_models ps (refs_model refs)) \<and>
     (\<forall>m\<in>set (refs_mcpServers refs). policies_permit pos_mcp ps m) \<and>
     (\<forall>t\<in>set (refs_tools refs). policies_permit pos_tools ps t \<and> \<not> tool_denied tps t)"

lemma merged_permits:
  assumes "MergePolicies ps tps = Some e"
  shows "Permits (eff_models e) n \<longleftrightarrow> policies_permit pos_models ps n"
    and "Permits (eff_mcp e) n \<longleftrightarrow> policies_permit pos_mcp ps n"
    and "Permits (eff_tools e) n \<longleftrightarrow> policies_permit pos_tools ps n"
proof -
  from assms have e: "e = foldl mergeToolPolicy (foldl mergePolicy empty_policy ps) tps"
    by (auto simp: MergePolicies_def split: if_splits)
  show "Permits (eff_models e) n \<longleftrightarrow> policies_permit pos_models ps n"
    and "Permits (eff_mcp e) n \<longleftrightarrow> policies_permit pos_mcp ps n"
    and "Permits (eff_tools e) n \<longleftrightarrow> policies_permit pos_tools ps n"
    by (simp_all add: e merged_fields ar.permits_all policies_permit_def)
qed

lemma merged_rules:
  assumes "MergePolicies ps tps = Some e"
  shows "eff_toolRules e = all_rules tps"
    and "eff_defaultToolAction e = ToolActionDeny \<longleftrightarrow>
           (\<exists>tp\<in>set tps. tps_defaultAction (tp_spec tp) = ToolActionDeny)"
  using assms by (auto simp: MergePolicies_def merged_fields all_rules_def split: if_splits)

lemma toolViolation_Nil:
  assumes "MergePolicies ps tps = Some e"
  shows "toolViolation e n = [] \<longleftrightarrow> policies_permit pos_tools ps n \<and> \<not> tool_denied tps n"
proof -
  have "eff_tools e = None \<longrightarrow> Permits (eff_tools e) n" by simp
  then show ?thesis
    unfolding toolViolation_def tool_denied_def MatchToolRule_def matchToolRuleFrom_find
      merged_rules(1) [OF assms] merged_permits(3) [OF assms, symmetric]
    using merged_rules(2) [OF assms]
    by (auto split: option.splits)
qed

lemma mcpViolation_Nil:
  assumes "MergePolicies ps tps = Some e"
  shows "mcpViolation e n = [] \<longleftrightarrow> policies_permit pos_mcp ps n"
  unfolding mcpViolation_def merged_permits(2) [OF assms, symmetric]
  by (cases "eff_mcp e") auto

lemma modelViolations_Nil:
  assumes "MergePolicies ps tps = Some e"
  shows "modelViolations e refs = [] \<longleftrightarrow>
           refs_model refs = [] \<or> policies_permit pos_models ps (refs_model refs)"
  unfolding modelViolations_def merged_permits(1) [OF assms, symmetric]
  by (cases "eff_models e") auto

lemma sort_Nil_iff [simp]: "sort xs = [] \<longleftrightarrow> xs = []"
  by (metis length_0_conv length_sort)

lemma Violations_Nil_iff: "Violations (MergePolicies ps tps) refs = [] \<longleftrightarrow> declaration_permitted ps tps refs"
proof (cases "MergePolicies ps tps")
  case None
  then have e: "ps = []" "tps = []" by (auto simp: MergePolicies_def split: if_splits)
  show ?thesis
    by (simp add: e MergePolicies_def Violations_def declaration_permitted_def policies_permit_def
        tool_denied_def all_rules_def)
next
  case (Some e)
  then show ?thesis
    by (auto simp: Violations_def declaration_permitted_def modelViolations_Nil [OF Some]
        mcpViolation_Nil [OF Some] toolViolation_Nil [OF Some])
qed

lemma sort_cong_mset: "mset xs = mset ys \<Longrightarrow> sort xs = sort (ys :: 'a::linorder list)"
  by (metis mset_sort properties_for_sort sorted_sort)

section \<open>Properties\<close>

text \<open>
  C7. Merging Policies is exact in each of the three dimensions (models, MCP servers, tools):
  the merged rule permits a name if and only if every merged Policy permits it. Allow lists
  intersect, deny lists union, wildcards and empty lists do not leak, and two disjoint
  allow lists permit nothing.
\<close>

theorem MergePolicies_exact:
  assumes "MergePolicies ps tps = Some e"
  shows "(Permits (eff_models e) n \<longleftrightarrow> (\<forall>p\<in>set ps. Permits (pos_models (po_spec p)) n)) \<and>
         (Permits (eff_mcp e) n \<longleftrightarrow> (\<forall>p\<in>set ps. Permits (pos_mcp (po_spec p)) n)) \<and>
         (Permits (eff_tools e) n \<longleftrightarrow> (\<forall>p\<in>set ps. Permits (pos_tools (po_spec p)) n))"
  using merged_permits [OF assms, of n] by (simp add: policies_permit_def)


theorem MergePolicies_exact_witness:
  "\<exists>e. MergePolicies [sample_policy ''a'' (Some \<lparr>rule_allow = [''gpt'', ''opus''], rule_deny = []\<rparr>),
                      sample_policy ''b'' (Some \<lparr>rule_allow = [''*''], rule_deny = [''gpt'']\<rparr>)] [] = Some e \<and>
       Permits (eff_models e) ''opus'' \<and> \<not> Permits (eff_models e) ''gpt''"
proof -
  let ?ps = "[sample_policy ''a'' (Some \<lparr>rule_allow = [''gpt'', ''opus''], rule_deny = []\<rparr>),
              sample_policy ''b'' (Some \<lparr>rule_allow = [''*''], rule_deny = [''gpt'']\<rparr>)]"
  obtain e where e: "MergePolicies ?ps [] = Some e" by (simp add: MergePolicies_def)
  have "Permits (eff_models e) ''opus''" "\<not> Permits (eff_models e) ''gpt''"
    using MergePolicies_exact [OF e, of "''opus''"] MergePolicies_exact [OF e, of "''gpt''"]
    by (simp_all add: sample_defs Permits_Some)
  with e show ?thesis by blast
qed

text \<open>
  C8. The violation report is sound and complete: it is empty exactly when the declaration is
  permitted by the Policy and ToolPolicy objects themselves (every Policy permits the model,
  the MCP servers and the tools, and no ToolPolicy rule or default denies a tool).
\<close>

theorem Violations_correct:
  "Violations (MergePolicies ps tps) refs = [] \<longleftrightarrow> declaration_permitted ps tps refs"
  by (rule Violations_Nil_iff)

text \<open>
  Attaching another Policy can only narrow: if a declaration passes under a set of
  Policies, it passes under every subset of them (the ToolPolicies being the same).
\<close>

lemma attaching_Policy_narrows:
  assumes "set ps \<subseteq> set qs" and "Violations (MergePolicies qs tps) refs = []"
  shows "Violations (MergePolicies ps tps) refs = []"
  using assms unfolding Violations_Nil_iff
  by (auto simp: declaration_permitted_def policies_permit_def)

text \<open>
  C35. A ToolPolicy, unlike a Policy, can widen: there are ToolPolicies under which a declaration
  is refused, such that attaching one more ToolPolicy makes it permitted.
\<close>

theorem attaching_ToolPolicy_can_widen:
  "\<exists>ps tps tp refs. Violations (MergePolicies ps tps) refs \<noteq> [] \<and>
                    Violations (MergePolicies ps (tps @ [tp])) refs = []"
proof -
  define m where "m = \<lparr>meta_name = ''a'', meta_namespace = ''default'', meta_generation = 1,
                       meta_resourceVersion = ''1''\<rparr>"
  define st where "st = \<lparr>st_conditions = [], st_observedGeneration = 0\<rparr>"
  define tp1 where "tp1 = \<lparr>tp_meta = m, tp_spec = \<lparr>tps_rules = [], tps_defaultAction = ''deny''\<rparr>, tp_status = st\<rparr>"
  define tp2 where "tp2 = \<lparr>tp_meta = m,
      tp_spec = \<lparr>tps_rules = [\<lparr>tr_tool = ''shell'', tr_action = ''allow'', tr_maxCallsPerSession = None\<rparr>],
                 tps_defaultAction = ''''\<rparr>, tp_status = st\<rparr>"
  define refs where "refs = \<lparr>refs_model = '''', refs_tools = [''shell''], refs_mcpServers = []\<rparr>"
  have "\<not> declaration_permitted [] [tp1] refs" and "declaration_permitted [] ([tp1] @ [tp2]) refs"
    by (simp_all add: declaration_permitted_def policies_permit_def tool_denied_def all_rules_def
        tp1_def tp2_def refs_def)
  then show ?thesis unfolding Violations_Nil_iff by blast
qed

text \<open>
  Tool rule matching: an exact name match anywhere wins (the first one), else the first
  wildcard rule applies, else there is no match.
\<close>

lemma MatchToolRule_correct:
  "MatchToolRule rs n =
     (case find (\<lambda>r. tr_tool r = n) rs of
        Some r \<Rightarrow> Some r
      | None \<Rightarrow> find (\<lambda>r. tr_tool r = ''*'') rs)"
  by (simp add: MatchToolRule_def matchToolRuleFrom_find cong: option.case_cong)

text \<open>
  The report does not depend on the order in which references were gathered: two
  declarations with the same model and the same multisets of tools and MCP servers get the
  same (sorted) report, so a status message does not flap.
\<close>

lemma Violations_order_independent:
  assumes "refs_model r = refs_model r'"
    and "mset (refs_tools r) = mset (refs_tools r')"
    and "mset (refs_mcpServers r) = mset (refs_mcpServers r')"
  shows "Violations e r = Violations e r'"
proof (cases e)
  case None
  then show ?thesis by (simp add: Violations_def)
next
  case (Some p)
  have conc: "mset (concat (map f xs)) = \<Sum>\<^sub># (image_mset (mset \<circ> f) (mset xs))" for f :: "string \<Rightarrow> string list" and xs
    by (induction xs) simp_all
  have "modelViolations p r = modelViolations p r'"
    using assms(1) by (simp add: modelViolations_def)
  then show ?thesis
    unfolding Some Violations_def option.case
    by (intro sort_cong_mset) (simp add: conc assms(2,3))
qed


text \<open>
  The skill scope check is exact: it reports nothing exactly when every tool a referenced
  Skill allows is one the Agent can reach.
\<close>

lemma SkillToolViolations_correct:
  "SkillToolViolations skills tools = [] \<longleftrightarrow>
     (\<forall>sk\<in>set skills. set (scope_allowedTools sk) \<subseteq> set tools)"
  by (auto simp: SkillToolViolations_def skillToolViolation_def)


end
