(* ===== verification/Validation.thy ===== *)
theory Validation
  imports Api_Types
begin

text \<open>
  Structural validation, \<^verbatim>\<open>api/v1alpha1/validation.go\<close>: the checks the admission webhooks
  and the controllers share. Every \<^verbatim>\<open>Validate\<close> returns the first problem found, as the
  code does; the theorems read each of them as a predicate on the spec. The parser of
  resource quantities (\<^verbatim>\<open>resource.ParseQuantity\<close>) is a parameter: it returns the error
  text or the canonical quantity.
\<close>

section \<open>The code\<close>

type_synonym quantity_parser = "string \<Rightarrow> string + string"

fun toolPolicyValidateFrom :: "(string \<rightharpoonup> string) \<Rightarrow> tool_rule list \<Rightarrow> go_error" where
  "toolPolicyValidateFrom seen [] = None"
| "toolPolicyValidateFrom seen (r # rs) =
    (if tr_tool r = ''*'' then toolPolicyValidateFrom seen rs
     else (case seen (tr_tool r) of
             Some prev \<Rightarrow>
               (if prev \<noteq> tr_action r
                then Some (''tool '' @ fmt_q (tr_tool r) @ '' has conflicting actions '' @ fmt_q prev
                           @ '' and '' @ fmt_q (tr_action r))
                else toolPolicyValidateFrom (seen(tr_tool r \<mapsto> tr_action r)) rs)
           | None \<Rightarrow> toolPolicyValidateFrom (seen(tr_tool r \<mapsto> tr_action r)) rs))"

definition ToolPolicySpec_Validate :: "tool_policy_spec \<Rightarrow> go_error" where
  "ToolPolicySpec_Validate s = toolPolicyValidateFrom Map.empty (tps_rules s)"

definition ToolSpec_Validate :: "tool_spec \<Rightarrow> go_error" where
  "ToolSpec_Validate s = first_error
    [fail_when (tos_mcpServerRef s \<noteq> None \<and> tos_agentRef s \<noteq> None)
       ''set only one of spec.mcpServerRef or spec.agentRef, not both'',
     fail_when (tos_type s = ToolTypeMCP \<and> tos_mcpServerRef s = None \<and> tos_agentRef s = None)
       ''tool of type mcp requires spec.mcpServerRef or spec.agentRef'',
     fail_when (tos_agentRef s \<noteq> None \<and> tos_type s \<noteq> ToolTypeMCP)
       (''spec.agentRef requires type mcp, got '' @ fmt_q (tos_type s))]"

definition envNames :: "env_var list \<Rightarrow> string list" where
  "envNames env = map env_name env"

definition refNames :: "local_reference list \<Rightarrow> string list" where
  "refNames refs = map ref_name refs"

definition firstDuplicate :: "string list \<Rightarrow> string" where
  "firstDuplicate names = (case first_seen {} names of None \<Rightarrow> '''' | Some n \<Rightarrow> n)"

definition EnvCredentialsPath :: string where
  "EnvCredentialsPath = ''AGENTPLANE_CREDENTIALS_PATH''"

definition EnvAgentEndpoint :: string where
  "EnvAgentEndpoint = ''AGENTPLANE_AGENT_ENDPOINT''"

definition EnvCredentialPath :: string where
  "EnvCredentialPath = ''AGENTPLANE_CREDENTIAL_PATH''"

definition ReservedRuntimeEnv :: "string list" where
  "ReservedRuntimeEnv = [EnvCredentialsPath]"

definition ReservedTriggerEnv :: "string list" where
  "ReservedTriggerEnv =
    [EnvAgentEndpoint, ''AGENTPLANE_AGENT_NAME'', ''AGENTPLANE_AGENT_NAMESPACE'',
     ''AGENTPLANE_TRIGGER_NAME'', ''AGENTPLANE_TRIGGER_CONFIG'', EnvCredentialPath]"

definition ReservedVolumeNames :: "string list" where
  "ReservedVolumeNames = [''workspace'', ''tmp'', ''git-credential'', ''model-credential'']"

definition credentialsDirPath :: string where
  "credentialsDirPath = ''/var/run/agentplane/credentials''"

definition ReservedMountPaths :: "string list" where
  "ReservedMountPaths =
    [''/tmp'', ''/var/run/agentplane/git'', ''/var/run/agentplane/model'', credentialsDirPath]"

definition ReservedVolumeNamePrefix :: string where
  "ReservedVolumeNamePrefix = ''credential-''"

fun firstReservedEnv :: "string set \<Rightarrow> env_var list \<Rightarrow> string \<Rightarrow> go_error" where
  "firstReservedEnv reserved [] field = None"
| "firstReservedEnv reserved (e # es) field =
    (if env_name e \<in> reserved
     then Some (field @ '' may not set '' @ fmt_q (env_name e) @ '': it is injected by the Operator'')
     else firstReservedEnv reserved es field)"

definition validateRuntimeEnv :: "agent_spec \<Rightarrow> go_error" where
  "validateRuntimeEnv s =
    (case as_runtime s of
       None \<Rightarrow> None
     | Some rt \<Rightarrow> firstReservedEnv (set ReservedRuntimeEnv) (rt_env rt) ''spec.runtime.env'')"

definition cleanMountPath :: "string \<Rightarrow> string" where
  "cleanMountPath p = (let clean = trim_right p (CHR ''/'') in if clean = '''' then ''/'' else clean)"

definition checkVolume :: "string set \<Rightarrow> string set \<Rightarrow> agent_volume \<Rightarrow> go_error" where
  "checkVolume reservedPaths seenPaths v =
    (let clean = cleanMountPath (av_mountPath v) in
     first_error
      [fail_when (av_name v \<in> set ReservedVolumeNames)
         (''spec.runtime.volumes: '' @ fmt_q (av_name v) @ '' is a volume name the Operator manages''),
       fail_when (has_prefix (av_name v) ReservedVolumeNamePrefix)
         (''spec.runtime.volumes: '' @ fmt_q (av_name v) @ '' uses the '' @ fmt_q ReservedVolumeNamePrefix
          @ '' prefix, which the Operator reserves for spec.credentialRefs''),
       fail_when (\<not> has_prefix (av_mountPath v) ''/'')
         (''spec.runtime.volumes: mountPath '' @ fmt_q (av_mountPath v) @ '' for volume ''
          @ fmt_q (av_name v) @ '' must be absolute''),
       fail_when (clean \<in> reservedPaths)
         (''spec.runtime.volumes: mountPath '' @ fmt_q (av_mountPath v) @ '' for volume ''
          @ fmt_q (av_name v) @ '' is used by the Operator''),
       fail_when (has_prefix clean (credentialsDirPath @ ''/''))
         (''spec.runtime.volumes: mountPath '' @ fmt_q (av_mountPath v) @ '' for volume ''
          @ fmt_q (av_name v) @ '' is inside '' @ credentialsDirPath @ '', which the Operator manages''),
       fail_when (clean \<in> seenPaths)
         (''spec.runtime.volumes: duplicate mountPath '' @ fmt_q (av_mountPath v))])"

fun validateVolumesFrom :: "string set \<Rightarrow> string set \<Rightarrow> agent_volume list \<Rightarrow> go_error" where
  "validateVolumesFrom reservedPaths seenPaths [] = None"
| "validateVolumesFrom reservedPaths seenPaths (v # vs) =
    (case checkVolume reservedPaths seenPaths v of
       Some e \<Rightarrow> Some e
     | None \<Rightarrow> validateVolumesFrom reservedPaths (insert (cleanMountPath (av_mountPath v)) seenPaths) vs)"

definition reservedPathsOf :: "agent_spec \<Rightarrow> string set" where
  "reservedPathsOf s =
    set ReservedMountPaths \<union>
    (case as_workspace s of
       None \<Rightarrow> {}
     | Some ws \<Rightarrow> {if ws_mountPath ws = '''' then ''/workspace'' else ws_mountPath ws})"

definition validateVolumes :: "agent_spec \<Rightarrow> go_error" where
  "validateVolumes s =
    (case as_runtime s of
       None \<Rightarrow> None
     | Some rt \<Rightarrow> (if rt_volumes rt = [] then None
                  else validateVolumesFrom (reservedPathsOf s) {} (rt_volumes rt)))"

definition validateWorkspace :: "quantity_parser \<Rightarrow> agent_spec \<Rightarrow> go_error" where
  "validateWorkspace pq s =
    (case as_workspace s of
       None \<Rightarrow> None
     | Some ws \<Rightarrow> first_error
        [fail_when (as_runtime s = None)
           ''spec.workspace requires spec.runtime: the working directory is mounted into the runtime pod'',
         fail_when (ws_repository ws = '''' \<and> ws_branch ws \<noteq> '''')
           ''spec.workspace.branch needs spec.workspace.repository: there is nothing to check out'',
         fail_when (ws_repository ws = '''' \<and> ws_credentialRef ws \<noteq> None)
           ''spec.workspace.credentialRef needs spec.workspace.repository: there is nothing to authenticate against'',
         fail_when (ws_mountPath ws \<noteq> '''' \<and> \<not> has_prefix (ws_mountPath ws) ''/'')
           (''spec.workspace.mountPath '' @ fmt_q (ws_mountPath ws) @ '' must be absolute''),
         (if ws_size ws = '''' then None
          else (case pq (ws_size ws) of
                  Inl e \<Rightarrow> Some (''spec.workspace.size '' @ fmt_q (ws_size ws)
                                 @ '' is not a valid quantity: '' @ e)
                | Inr _ \<Rightarrow> None))])"

definition validateExpose :: "agent_spec \<Rightarrow> go_error" where
  "validateExpose s =
    fail_when (as_expose s \<noteq> None \<and> as_runtime s = None)
      ''spec.expose requires spec.runtime: there is no runtime to publish''"

definition duplicateError :: "string \<Rightarrow> local_reference list \<Rightarrow> go_error" where
  "duplicateError field refs =
    (let dup = firstDuplicate (refNames refs)
     in fail_when (dup \<noteq> '''') (''duplicate '' @ field @ '' '' @ fmt_q dup))"

definition AgentSpec_Validate :: "quantity_parser \<Rightarrow> agent_spec \<Rightarrow> go_error" where
  "AgentSpec_Validate pq s = first_error
    [duplicateError ''toolRef'' (as_toolRefs s),
     duplicateError ''toolSetRef'' (as_toolSetRefs s),
     duplicateError ''skillRef'' (as_skillRefs s),
     duplicateError ''policyRef'' (as_policyRefs s),
     duplicateError ''toolPolicyRef'' (as_toolPolicyRefs s),
     duplicateError ''credentialRef'' (as_credentialRefs s),
     validateWorkspace pq s,
     validateVolumes s,
     validateRuntimeEnv s,
     validateExpose s]"

definition SkillSpec_Validate :: "skill_spec \<Rightarrow> go_error" where
  "SkillSpec_Validate s =
    (let hasInline = sks_content s \<noteq> ''''; hasRef = sks_contentConfigMapRef s \<noteq> None in
     if hasInline \<and> hasRef
     then Some ''set only one of spec.content or spec.contentConfigMapRef, not both''
     else if \<not> hasInline \<and> \<not> hasRef
     then Some ''one of spec.content or spec.contentConfigMapRef is required''
     else None)"

definition TriggerSpec_Validate :: "trigger_spec \<Rightarrow> go_error" where
  "TriggerSpec_Validate s = first_error
    [fail_when (ref_name (trs_agentRef s) = '''') ''spec.agentRef.name is required'',
     firstReservedEnv (set ReservedTriggerEnv) (trs_env s) ''spec.env'',
     (let dup = firstDuplicate (envNames (trs_env s))
      in fail_when (dup \<noteq> '''') (''duplicate env var '' @ fmt_q dup))]"

section \<open>Closed forms of the loops\<close>

lemma firstDuplicate_empty:
  assumes "'''' \<notin> set names"
  shows "firstDuplicate names = '''' \<longleftrightarrow> distinct names"
  using assms by (auto simp: firstDuplicate_def dest: first_seen_Some split: option.splits)

lemma firstReservedEnv_None [simp]:
  "firstReservedEnv reserved env field = None \<longleftrightarrow> set (envNames env) \<inter> reserved = {}"
  by (induction env) (auto simp: envNames_def)

lemma agree_step:
 assumes "seen (T r) = None \<or> seen (T r) = Some (A r)" "T r \<noteq> star"
 shows "(\<forall>x\<in>set rs. T x \<noteq> star \<longrightarrow>
            (\<forall>a. (seen(T r \<mapsto> A r)) (T x) = Some a \<longrightarrow> a = A x) \<and> (\<forall>q\<in>set rs. T q = T x \<longrightarrow> A q = A x)) \<longleftrightarrow> 
   (\<forall>x\<in>set (r#rs). T x \<noteq> star \<longrightarrow>
            (\<forall>a. seen (T x) = Some a \<longrightarrow> a = A x) \<and> (\<forall>q\<in>set (r#rs). T q = T x \<longrightarrow> A q = A x))" (is "?L = ?R")
proof
  assume L: ?L
  then have *: "\<And>x. x \<in> set rs \<Longrightarrow> T x = T r \<Longrightarrow> A x = A r" using assms(2)
    by (metis fun_upd_same)
  show ?R
  proof (intro ballI impI conjI allI)
    fix x a assume "x \<in> set (r#rs)" "T x \<noteq> star" "seen (T x) = Some a"
    then show "a = A x"
      using L assms(1) * by (metis fun_upd_other option.distinct(1) option.inject set_ConsD)
  next
    fix x q assume "x \<in> set (r#rs)" "T x \<noteq> star" "q \<in> set (r#rs)" "T q = T x"
    then show "A q = A x" using L * by (metis set_ConsD)
  qed
next
  assume R: ?R
  show ?L
  proof (intro ballI impI conjI allI)
    fix x a assume "x \<in> set rs" "T x \<noteq> star" "(seen(T r \<mapsto> A r)) (T x) = Some a"
    then show "a = A x" using R  by (metis fun_upd_apply list.set_intros(1,2) option.inject)
  next
    fix x q assume "x \<in> set rs" "T x \<noteq> star" "q \<in> set rs" "T q = T x"
    then show "A q = A x" using R by (metis list.set_intros(2))
  qed
qed

lemma toolPolicyValidateFrom_None:
  "toolPolicyValidateFrom seen rs = None \<longleftrightarrow>
     (\<forall>r\<in>set rs. tr_tool r \<noteq> ''*'' \<longrightarrow>
        (\<forall>a. seen (tr_tool r) = Some a \<longrightarrow> a = tr_action r) \<and>
        (\<forall>q\<in>set rs. tr_tool q = tr_tool r \<longrightarrow> tr_action q = tr_action r))"
proof (induction rs arbitrary: seen)
  case (Cons r rs)
  consider (star) "tr_tool r = ''*''"
    | (agree) "tr_tool r \<noteq> ''*''" "seen (tr_tool r) = None \<or> seen (tr_tool r) = Some (tr_action r)"
    | (clash) a where "tr_tool r \<noteq> ''*''" "seen (tr_tool r) = Some a" "a \<noteq> tr_action r"
    by (cases "seen (tr_tool r)") auto
  then show ?case
  proof cases
    case star
    with Cons.IH [of seen] show ?thesis by auto
  next
    case agree
    then have "toolPolicyValidateFrom seen (r # rs) = toolPolicyValidateFrom (seen(tr_tool r \<mapsto> tr_action r)) rs"
      by auto
    then show ?thesis
      by (simp only: Cons.IH agree_step [of seen tr_tool r tr_action "''*''" rs, OF agree(2,1)])
  next
    case clash
    then show ?thesis by auto
  qed
qed simp

definition volume_ok :: "string set \<Rightarrow> agent_volume \<Rightarrow> bool" where
  "volume_ok reservedPaths v \<longleftrightarrow>
     av_name v \<notin> set ReservedVolumeNames \<and>
     \<not> has_prefix (av_name v) ReservedVolumeNamePrefix \<and>
     has_prefix (av_mountPath v) ''/'' \<and>
     cleanMountPath (av_mountPath v) \<notin> reservedPaths \<and>
     \<not> has_prefix (cleanMountPath (av_mountPath v)) (credentialsDirPath @ ''/'')"

lemma validateVolumesFrom_None:
  "validateVolumesFrom reserved seen vs = None \<longleftrightarrow>
     (\<forall>v\<in>set vs. volume_ok reserved v) \<and>
     distinct (map (cleanMountPath \<circ> av_mountPath) vs) \<and>
     set (map (cleanMountPath \<circ> av_mountPath) vs) \<inter> seen = {}"
proof (induction reserved seen vs rule: validateVolumesFrom.induct)
  case (2 reserved seen v vs)
  have "checkVolume reserved seen v = None \<longleftrightarrow>
          volume_ok reserved v \<and> cleanMountPath (av_mountPath v) \<notin> seen"
    by (auto simp: checkVolume_def volume_ok_def Let_def)
  with 2 show ?case by (auto split: option.split)
qed simp

section \<open>Well-formed specs\<close>

definition workspace_ok :: "quantity_parser \<Rightarrow> agent_spec \<Rightarrow> agent_workspace_spec \<Rightarrow> bool" where
  "workspace_ok pq s ws \<longleftrightarrow>
     as_runtime s \<noteq> None \<and>
     (ws_repository ws = [] \<longrightarrow> ws_branch ws = [] \<and> ws_credentialRef ws = None) \<and>
     (ws_mountPath ws = [] \<or> has_prefix (ws_mountPath ws) ''/'') \<and>
     (ws_size ws = [] \<or> (\<exists>q. pq (ws_size ws) = Inr q))"

definition runtime_ok :: "agent_spec \<Rightarrow> agent_runtime_spec \<Rightarrow> bool" where
  "runtime_ok s rt \<longleftrightarrow>
     (\<forall>v\<in>set (rt_volumes rt). volume_ok (reservedPathsOf s) v) \<and>
     distinct (map (cleanMountPath \<circ> av_mountPath) (rt_volumes rt)) \<and>
     EnvCredentialsPath \<notin> set (envNames (rt_env rt))"

definition ref_lists :: "agent_spec \<Rightarrow> local_reference list list" where
  "ref_lists s = [as_toolRefs s, as_toolSetRefs s, as_skillRefs s, as_policyRefs s,
                  as_toolPolicyRefs s, as_credentialRefs s]"

text \<open>Every reference has a name (the CRD's \<^verbatim>\<open>MinLength=1\<close>).\<close>

definition refs_named :: "agent_spec \<Rightarrow> bool" where
  "refs_named s \<longleftrightarrow> (\<forall>refs\<in>set (ref_lists s). [] \<notin> set (refNames refs))"

definition agent_spec_ok :: "quantity_parser \<Rightarrow> agent_spec \<Rightarrow> bool" where
  "agent_spec_ok pq s \<longleftrightarrow>
     (\<forall>refs\<in>set (ref_lists s). distinct (refNames refs)) \<and>
     (\<forall>ws. as_workspace s = Some ws \<longrightarrow> workspace_ok pq s ws) \<and>
     (\<forall>rt. as_runtime s = Some rt \<longrightarrow> runtime_ok s rt) \<and>
     (as_expose s \<noteq> None \<longrightarrow> as_runtime s \<noteq> None)"

lemma duplicateError_None:
  "[] \<notin> set (refNames refs) \<Longrightarrow> duplicateError field refs = None \<longleftrightarrow> distinct (refNames refs)"
  by (simp add: duplicateError_def Let_def firstDuplicate_empty)

lemma validateWorkspace_None:
  "validateWorkspace pq s = None \<longleftrightarrow> (\<forall>ws. as_workspace s = Some ws \<longrightarrow> workspace_ok pq s ws)"
  by (auto simp: validateWorkspace_def workspace_ok_def split: option.splits sum.splits if_splits)

lemma validateVolumes_None:
  "validateVolumes s = None \<longleftrightarrow>
     (\<forall>rt. as_runtime s = Some rt \<longrightarrow>
        (\<forall>v\<in>set (rt_volumes rt). volume_ok (reservedPathsOf s) v) \<and>
        distinct (map (cleanMountPath \<circ> av_mountPath) (rt_volumes rt)))"
  by (auto simp: validateVolumes_def validateVolumesFrom_None split: option.split)

lemma validateRuntimeEnv_None:
  "validateRuntimeEnv s = None \<longleftrightarrow>
     (\<forall>rt. as_runtime s = Some rt \<longrightarrow> EnvCredentialsPath \<notin> set (envNames (rt_env rt)))"
  by (auto simp: validateRuntimeEnv_def ReservedRuntimeEnv_def split: option.split)

lemma AgentSpec_Validate_iff:
  assumes "refs_named s"
  shows "AgentSpec_Validate pq s = None \<longleftrightarrow> agent_spec_ok pq s"
  using assms
  by (auto simp: AgentSpec_Validate_def agent_spec_ok_def refs_named_def ref_lists_def
      duplicateError_None validateWorkspace_None validateVolumes_None validateRuntimeEnv_None
      validateExpose_def runtime_ok_def)

lemma AgentSpec_Validate_runtime_ok:
  assumes "AgentSpec_Validate pq s = None" and "as_runtime s = Some rt"
  shows "runtime_ok s rt"
  using assms
  by (auto simp: AgentSpec_Validate_def validateVolumes_None validateRuntimeEnv_None runtime_ok_def)

lemma trim_right_slash_id:
  "p \<noteq> [] \<Longrightarrow> last p \<noteq> CHR ''/'' \<Longrightarrow> trim_right p (CHR ''/'') = p"
  by (cases p rule: rev_cases) (simp_all add: trim_right_def)

section \<open>Properties\<close>

text \<open>
  C12. Structural validation of an Agent is exact: for specs whose references are all named, it
  accepts exactly the specs in which no list names the same object twice, a workspace has a
  runtime, a repository for its branch and credential, an absolute mount path and a parsable
  size, the runtime's volumes avoid every name and path the Operator manages and do not
  share a path, the environment does not set the credentials variable, and an exposed Agent
  has a runtime.
\<close>

theorem AgentSpec_Validate_exact:
  assumes "refs_named s"
  shows "AgentSpec_Validate pq s = None \<longleftrightarrow> agent_spec_ok pq s"
  using assms by (rule AgentSpec_Validate_iff)

theorem AgentSpec_Validate_exact_witness:
  "refs_named sample_agent_spec \<and> AgentSpec_Validate (\<lambda>q. Inr q) sample_agent_spec = None"
proof -
  have n: "refs_named sample_agent_spec"
    by (simp add: refs_named_def ref_lists_def sample_agent_spec_def refNames_def)
  have "agent_spec_ok (\<lambda>q. Inr q) sample_agent_spec"
    by (simp add: agent_spec_ok_def ref_lists_def sample_agent_spec_def refNames_def)
  with n AgentSpec_Validate_exact [OF n, of "\<lambda>q. Inr q"] show ?thesis by simp
qed

text \<open>
  No accepted volume shadows the working directory, when the workspace's mount path carries
  no trailing slash: the volume's cleaned path differs from where the workspace is mounted.
\<close>

lemma accepted_volume_not_on_workspace:
  assumes "AgentSpec_Validate pq s = None"
    and "as_runtime s = Some rt" and "v \<in> set (rt_volumes rt)"
    and "as_workspace s = Some ws" and "ws_mountPath ws \<noteq> []" and "last (ws_mountPath ws) \<noteq> CHR ''/''"
  shows "cleanMountPath (av_mountPath v) \<noteq> cleanMountPath (ws_mountPath ws)"
proof -
  from assms(1,2,3) have "cleanMountPath (av_mountPath v) \<notin> reservedPathsOf s"
    using AgentSpec_Validate_runtime_ok by (auto simp: runtime_ok_def volume_ok_def)
  moreover from assms(4,5) have "ws_mountPath ws \<in> reservedPathsOf s"
    by (simp add: reservedPathsOf_def)
  moreover from assms(5,6) have "cleanMountPath (ws_mountPath ws) = ws_mountPath ws"
    by (simp add: cleanMountPath_def trim_right_slash_id)
  ultimately show ?thesis by metis
qed

definition shadowing_spec :: "string \<Rightarrow> string \<Rightarrow> agent_spec" where
  "shadowing_spec mount path =
     sample_agent_spec
       \<lparr>as_runtime := Some \<lparr>rt_image = ''img'', rt_replicas = 1, rt_port = 0, rt_env = [],
          rt_serviceAccountName = [], rt_resources = [], rt_readinessProbe = None,
          rt_runtimeClassName = [],
          rt_volumes = [\<lparr>av_name = ''nas'', av_mountPath = path, av_readOnly = False,
             av_persistentVolumeClaim = Some \<lparr>pvcs_claimName = ''nas''\<rparr>, av_configMap = None,
             av_secret = None, av_emptyDir = None\<rparr>]\<rparr>,
        as_workspace := Some \<lparr>ws_repository = [], ws_branch = [], ws_credentialRef = None,
          ws_mountPath = mount, ws_size = [], ws_storageClassName = None\<rparr>\<rparr>"

lemma shadowing_spec_accepted:
  assumes "refs_named (shadowing_spec mount path)"
    and "has_prefix mount ''/''" and "has_prefix path ''/''"
    and "cleanMountPath path \<notin> insert mount (set ReservedMountPaths)"
    and "\<not> has_prefix (cleanMountPath path) (credentialsDirPath @ ''/'')"
    and "mount \<noteq> []"
  shows "AgentSpec_Validate pq (shadowing_spec mount path) = None"
  unfolding AgentSpec_Validate_iff [OF assms(1)] using assms
  by (auto simp: agent_spec_ok_def shadowing_spec_def sample_agent_spec_def ref_lists_def refNames_def
      workspace_ok_def runtime_ok_def volume_ok_def reservedPathsOf_def envNames_def
      ReservedVolumeNames_def has_prefix_def ReservedVolumeNamePrefix_def)

text \<open>
  The guard on trailing slashes is needed: a workspace mounted at a path with a trailing slash is not
  normalised before it is reserved, so a volume at the very same directory is accepted.
\<close>

lemma trailing_slash_shadows_workspace:
  "AgentSpec_Validate (\<lambda>q. Inr q) (shadowing_spec ''/work/'' ''/work'') = None \<and>
   cleanMountPath ''/work'' = cleanMountPath ''/work/''"
proof
  have "refs_named (shadowing_spec ''/work/'' ''/work'')"
    by (simp add: refs_named_def ref_lists_def shadowing_spec_def sample_agent_spec_def refNames_def)
  then show "AgentSpec_Validate (\<lambda>q. Inr q) (shadowing_spec ''/work/'' ''/work'') = None"
    by (rule shadowing_spec_accepted)
       (simp_all add: has_prefix_def cleanMountPath_def trim_right_def ReservedMountPaths_def
          credentialsDirPath_def)
  show "cleanMountPath ''/work'' = cleanMountPath ''/work/''"
    by (simp add: cleanMountPath_def trim_right_def)
qed

text \<open>
  The validators of the other kinds are exact too: a ToolPolicy is accepted exactly when no
  specific tool has two different actions; a Tool exactly when at most one backing reference
  is set, an mcp tool has one and only an mcp tool names an Agent; a Skill exactly when it
  has one content source.
\<close>

lemma other_specs_Validate_exact:
  "(ToolPolicySpec_Validate tps = None \<longleftrightarrow>
      (\<forall>r\<in>set (tps_rules tps). \<forall>q\<in>set (tps_rules tps).
         tr_tool r \<noteq> ''*'' \<and> tr_tool q = tr_tool r \<longrightarrow> tr_action q = tr_action r)) \<and>
   (ToolSpec_Validate ts = None \<longleftrightarrow>
      (case (tos_mcpServerRef ts, tos_agentRef ts) of
         (None, None) \<Rightarrow> tos_type ts \<noteq> ToolTypeMCP
       | (Some _, None) \<Rightarrow> True
       | (None, Some _) \<Rightarrow> tos_type ts = ToolTypeMCP
       | (Some _, Some _) \<Rightarrow> False)) \<and>
   (SkillSpec_Validate ss = None \<longleftrightarrow> (sks_content ss \<noteq> [] \<longleftrightarrow> sks_contentConfigMapRef ss = None))"
  by (auto simp: ToolPolicySpec_Validate_def toolPolicyValidateFrom_None ToolSpec_Validate_def
      SkillSpec_Validate_def Let_def split: option.splits)

end
