(* ===== verification/Kube.thy ===== *)
theory Kube
  imports Validation
begin

text \<open>
  The Kubernetes side of the Operator, as the controllers see it. The API server, the
  controller-runtime client and the apimachinery helpers are not part of the repository:
  they are the fields of one record \<open>kube\<close>, an argument of every definition that
  uses them. A state of the cluster is a value of an arbitrary type; reading it gives a
  \<open>reader\<close> (what \<^verbatim>\<open>Get\<close> answers for every key), every write returns its error and
  the next state. What the theorems assume of these functions is stated as named laws:
  the locale \<open>status_conditions\<close> for \<^verbatim>\<open>meta.SetStatusCondition\<close>.

  The workload types hold the fields the controllers write.
\<close>

section \<open>Workload objects\<close>

type_synonym labels = "(string \<times> string) list"

record owner_ref =
  owner_kind :: string
  owner_name :: string
  owner_controller :: bool

datatype volume_source =
    PvcSource string bool
  | ConfigMapSource string "bool option"
  | SecretSource string "bool option"
  | EmptyDirSource string "string option"

record volume =
  vol_name :: string
  vol_source :: volume_source

record volume_mount =
  vm_name :: string
  vm_mountPath :: string
  vm_readOnly :: bool

record security_context =
  sc_allowPrivilegeEscalation :: bool
  sc_readOnlyRootFilesystem :: bool
  sc_runAsNonRoot :: bool
  sc_dropCapabilities :: "string list"
  sc_seccompProfile :: string

record container =
  con_name :: string
  con_image :: string
  con_command :: "string list"
  con_env :: "env_var list"
  con_ports :: "(string \<times> int) list"
  con_resources :: resource_requirements
  con_readinessProbe :: "probe option"
  con_volumeMounts :: "volume_mount list"
  con_securityContext :: "security_context option"

record deployment =
  dep_key :: namespaced_name
  dep_owners :: "owner_ref list"
  dep_labels :: labels
  dep_replicas :: "int option"
  dep_selector :: labels
  dep_strategy :: string
  dep_templateLabels :: labels
  dep_initContainers :: "container list"
  dep_containers :: "container list"
  dep_volumes :: "volume list"
  dep_fsGroup :: "int option"
  dep_serviceAccountName :: string
  dep_runtimeClassName :: "string option"
  dep_availableReplicas :: int

record service_port =
  sp_name :: string
  sp_port :: int
  sp_targetPort :: int
  sp_protocol :: string

record service =
  svc_key :: namespaced_name
  svc_owners :: "owner_ref list"
  svc_labels :: labels
  svc_selector :: labels
  svc_ports :: "service_port list"

record persistent_volume_claim =
  pvc_key :: namespaced_name
  pvc_owners :: "owner_ref list"
  pvc_labels :: labels
  pvc_accessModes :: "string list"
  pvc_storageClassName :: "string option"
  pvc_storageRequest :: string

record config_map =
  cm_data :: "string \<rightharpoonup> string"

record secret =
  sec_data :: "string \<rightharpoonup> string"

section \<open>The client\<close>

datatype client_object =
    OAgent agent | OAgentClass agent_class | OModel model | OPromptTemplate prompt_template
  | OTool tool | OToolSet tool_set | OSkill skill | OPolicy policy | OToolPolicy tool_policy
  | OCredential credential | OMCPServer mcp_server | OTrigger trigger

datatype object_kind =
    KAgent | KAgentClass | KModel | KPromptTemplate | KTool | KToolSet | KSkill | KPolicy
  | KToolPolicy | KCredential | KMCPServer

record reader =
  getAgent :: "namespaced_name \<Rightarrow> agent got"
  getAgentClass :: "namespaced_name \<Rightarrow> agent_class got"
  getModel :: "namespaced_name \<Rightarrow> model got"
  getPromptTemplate :: "namespaced_name \<Rightarrow> prompt_template got"
  getTool :: "namespaced_name \<Rightarrow> tool got"
  getToolSet :: "namespaced_name \<Rightarrow> tool_set got"
  getSkill :: "namespaced_name \<Rightarrow> skill got"
  getPolicy :: "namespaced_name \<Rightarrow> policy got"
  getToolPolicy :: "namespaced_name \<Rightarrow> tool_policy got"
  getCredential :: "namespaced_name \<Rightarrow> credential got"
  getMCPServer :: "namespaced_name \<Rightarrow> mcp_server got"
  getTrigger :: "namespaced_name \<Rightarrow> trigger got"
  getConfigMap :: "namespaced_name \<Rightarrow> config_map got"
  getSecret :: "namespaced_name \<Rightarrow> secret got"
  getDeployment :: "namespaced_name \<Rightarrow> deployment got"
  getService :: "namespaced_name \<Rightarrow> service got"
  getPVC :: "namespaced_name \<Rightarrow> persistent_volume_claim got"

fun map_got :: "('a \<Rightarrow> 'b) \<Rightarrow> 'a got \<Rightarrow> 'b got" where
  "map_got f (Found x) = Found (f x)"
| "map_got f NotFound = NotFound"
| "map_got f (Failed e) = Failed e"

text \<open>\<^verbatim>\<open>Get(ctx, key, obj)\<close> into an object of a kind given at run time.\<close>

fun getObject :: "reader \<Rightarrow> object_kind \<Rightarrow> namespaced_name \<Rightarrow> client_object got" where
  "getObject rd KAgent key = map_got OAgent (getAgent rd key)"
| "getObject rd KAgentClass key = map_got OAgentClass (getAgentClass rd key)"
| "getObject rd KModel key = map_got OModel (getModel rd key)"
| "getObject rd KPromptTemplate key = map_got OPromptTemplate (getPromptTemplate rd key)"
| "getObject rd KTool key = map_got OTool (getTool rd key)"
| "getObject rd KToolSet key = map_got OToolSet (getToolSet rd key)"
| "getObject rd KSkill key = map_got OSkill (getSkill rd key)"
| "getObject rd KPolicy key = map_got OPolicy (getPolicy rd key)"
| "getObject rd KToolPolicy key = map_got OToolPolicy (getToolPolicy rd key)"
| "getObject rd KCredential key = map_got OCredential (getCredential rd key)"
| "getObject rd KMCPServer key = map_got OMCPServer (getMCPServer rd key)"

fun object_meta_of :: "client_object \<Rightarrow> object_meta" where
  "object_meta_of (OAgent x) = ag_meta x"
| "object_meta_of (OAgentClass x) = ac_meta x"
| "object_meta_of (OModel x) = mo_meta x"
| "object_meta_of (OPromptTemplate x) = pt_meta x"
| "object_meta_of (OTool x) = to_meta x"
| "object_meta_of (OToolSet x) = ts_meta x"
| "object_meta_of (OSkill x) = sk_meta x"
| "object_meta_of (OPolicy x) = po_meta x"
| "object_meta_of (OToolPolicy x) = tp_meta x"
| "object_meta_of (OCredential x) = cr_meta x"
| "object_meta_of (OMCPServer x) = ms_meta x"
| "object_meta_of (OTrigger x) = trg_meta x"

datatype write_outcome = WriteOk | WriteAlreadyExists | WriteNotFound | WriteFailed string

record 'w kube =
  reads :: "'w \<Rightarrow> reader"
  statusUpdate :: "client_object \<Rightarrow> 'w \<Rightarrow> go_error \<times> 'w"
  createOrUpdateDeployment ::
    "namespaced_name \<Rightarrow> (deployment \<Rightarrow> string + deployment) \<Rightarrow> 'w \<Rightarrow> go_error \<times> 'w"
  createOrUpdateService ::
    "namespaced_name \<Rightarrow> (service \<Rightarrow> string + service) \<Rightarrow> 'w \<Rightarrow> go_error \<times> 'w"
  createPVC :: "persistent_volume_claim \<Rightarrow> 'w \<Rightarrow> write_outcome \<times> 'w"
  deleteDeployment :: "deployment \<Rightarrow> 'w \<Rightarrow> write_outcome \<times> 'w"
  deleteService :: "service \<Rightarrow> 'w \<Rightarrow> write_outcome \<times> 'w"
  setStatusCondition :: "condition list \<Rightarrow> condition \<Rightarrow> condition list"
  setControllerReference :: "object_meta \<Rightarrow> owner_ref list \<Rightarrow> string + owner_ref list"
  isControlledBy :: "owner_ref list \<Rightarrow> object_meta \<Rightarrow> bool"
  parseQuantity :: quantity_parser

text \<open>
  The opening of every \<^verbatim>\<open>Reconcile\<close>: get the object, ignore NotFound, return any other
  error.
\<close>

fun reconcileGet :: "'a got \<Rightarrow> ('a \<Rightarrow> 'w \<Rightarrow> go_error \<times> 'w) \<Rightarrow> 'w \<Rightarrow> go_error \<times> 'w" where
  "reconcileGet (Found x) body w = body x w"
| "reconcileGet NotFound body w = (None, w)"
| "reconcileGet (Failed e) body w = (Some e, w)"

section \<open>Conditions\<close>

text \<open>\<^verbatim>\<open>setCondition\<close> of agent\_controller.go.\<close>

definition setCondition ::
  "'w kube \<Rightarrow> condition list \<Rightarrow> string \<Rightarrow> string \<Rightarrow> string \<Rightarrow> string \<Rightarrow> int \<Rightarrow> condition list" where
  "setCondition k conds t status reason msg gen =
     setStatusCondition k conds
       \<lparr>cond_type = t, cond_status = status, cond_reason = reason, cond_message = msg,
        cond_observedGeneration = gen, cond_lastTransitionTime = []\<rparr>"

text \<open>What a reader of the status sees of a condition type: status, reason, message, generation.\<close>

definition condition_of :: "condition list \<Rightarrow> string \<Rightarrow> (string \<times> string \<times> string \<times> int) option" where
  "condition_of cs t =
     map_option (\<lambda>c. (cond_status c, cond_reason c, cond_message c, cond_observedGeneration c))
       (find (\<lambda>c. cond_type c = t) cs)"

text \<open>
  The documented behaviour of \<^verbatim>\<open>meta.SetStatusCondition\<close>: the condition of that type takes
  the new status, reason, message and generation, all other types are untouched.
\<close>

locale status_conditions =
  fixes upsert :: "condition list \<Rightarrow> condition \<Rightarrow> condition list"
  assumes condition_of_upsert:
    "condition_of (upsert cs c) t =
       (if t = cond_type c
        then Some (cond_status c, cond_reason c, cond_message c, cond_observedGeneration c)
        else condition_of cs t)"
begin

lemma upsert_same:
  "cond_type c = t \<Longrightarrow> condition_of (upsert cs c) t =
     Some (cond_status c, cond_reason c, cond_message c, cond_observedGeneration c)"
  by (simp add: condition_of_upsert)

lemma upsert_other: "cond_type c \<noteq> t \<Longrightarrow> condition_of (upsert cs c) t = condition_of cs t"
  by (simp add: condition_of_upsert)

lemma upsert_last_wins:
  "cond_type c = cond_type d \<Longrightarrow>
     condition_of (upsert (upsert cs c) d) t = condition_of (upsert cs d) t"
  by (simp add: condition_of_upsert)

end

lemma condition_of_setCondition:
  assumes "status_conditions (setStatusCondition k)"
  shows "condition_of (setCondition k cs t st r m g) u =
           (if u = t then Some (st, r, m, g) else condition_of cs u)"
  by (simp add: setCondition_def status_conditions.condition_of_upsert [OF assms])

text \<open>A function that behaves as documented, with the clock reading as a parameter.\<close>

fun upsertCondition :: "string \<Rightarrow> condition list \<Rightarrow> condition \<Rightarrow> condition list" where
  "upsertCondition now [] c =
     [if cond_lastTransitionTime c = [] then c\<lparr>cond_lastTransitionTime := now\<rparr> else c]"
| "upsertCondition now (d # ds) c =
     (if cond_type d = cond_type c
      then c\<lparr>cond_lastTransitionTime :=
               (if cond_status d = cond_status c then cond_lastTransitionTime d
                else if cond_lastTransitionTime c = [] then now else cond_lastTransitionTime c)\<rparr> # ds
      else d # upsertCondition now ds c)"

lemma upsertCondition_spec:
  "condition_of (upsertCondition now cs c) t =
     (if t = cond_type c
      then Some (cond_status c, cond_reason c, cond_message c, cond_observedGeneration c)
      else condition_of cs t)"
  by (induction now cs c rule: upsertCondition.induct) (auto simp: condition_of_def)

interpretation upc: status_conditions "upsertCondition now" for now
  by unfold_locales (rule upsertCondition_spec)

section \<open>A recording client\<close>

text \<open>
  A client over a fixed snapshot of reads that records the writes it is sent, with the
  create-or-update and owner functions written from their documentation. It instantiates
  the parameter at closed inputs, and gives a statement about \<^emph>\<open>which\<close> objects a pass
  writes a meaning.
\<close>

datatype api_write =
    WStatus client_object | WDeployment deployment | WService service
  | WPVC persistent_volume_claim | WDeleteDeployment deployment | WDeleteService service

type_synonym recording = "reader \<times> api_write list"

definition blank_deployment :: "namespaced_name \<Rightarrow> deployment" where
  "blank_deployment key =
     \<lparr>dep_key = key, dep_owners = [], dep_labels = [], dep_replicas = None, dep_selector = [],
      dep_strategy = [], dep_templateLabels = [], dep_initContainers = [], dep_containers = [],
      dep_volumes = [], dep_fsGroup = None, dep_serviceAccountName = [], dep_runtimeClassName = None,
      dep_availableReplicas = 0\<rparr>"

definition blank_service :: "namespaced_name \<Rightarrow> service" where
  "blank_service key = \<lparr>svc_key = key, svc_owners = [], svc_labels = [], svc_selector = [], svc_ports = []\<rparr>"

fun record_write :: "api_write \<Rightarrow> recording \<Rightarrow> recording" where
  "record_write x (rd, ws) = (rd, ws @ [x])"

fun record_mutation :: "'a got \<Rightarrow> 'a \<Rightarrow> ('a \<Rightarrow> string + 'a) \<Rightarrow> ('a \<Rightarrow> api_write) \<Rightarrow> recording \<Rightarrow> go_error \<times> recording" where
  "record_mutation (Failed e) blank f wr w = (Some e, w)"
| "record_mutation NotFound blank f wr w =
     (case f blank of Inl e \<Rightarrow> (Some e, w) | Inr x \<Rightarrow> (None, record_write (wr x) w))"
| "record_mutation (Found y) blank f wr w =
     (case f y of Inl e \<Rightarrow> (Some e, w) | Inr x \<Rightarrow> (None, record_write (wr x) w))"

definition recording_kube :: "recording kube" where
  "recording_kube =
    \<lparr>reads = fst,
     statusUpdate = (\<lambda>obj w. (None, record_write (WStatus obj) w)),
     createOrUpdateDeployment = (\<lambda>key f w.
       record_mutation (getDeployment (fst w) key) (blank_deployment key) f WDeployment w),
     createOrUpdateService = (\<lambda>key f w.
       record_mutation (getService (fst w) key) (blank_service key) f WService w),
     createPVC = (\<lambda>p w. (WriteOk, record_write (WPVC p) w)),
     deleteDeployment = (\<lambda>d w. (WriteOk, record_write (WDeleteDeployment d) w)),
     deleteService = (\<lambda>s w. (WriteOk, record_write (WDeleteService s) w)),
     setStatusCondition = upsertCondition ''now'',
     setControllerReference = (\<lambda>m owners. Inr [\<lparr>owner_kind = ''CR'', owner_name = meta_name m, owner_controller = True\<rparr>]),
     isControlledBy = (\<lambda>owners m. list_ex (\<lambda>r. owner_name r = meta_name m \<and> owner_controller r) owners),
     parseQuantity = Inr\<rparr>"

definition empty_reader :: reader where
  "empty_reader =
    \<lparr>getAgent = (\<lambda>_. NotFound), getAgentClass = (\<lambda>_. NotFound), getModel = (\<lambda>_. NotFound),
     getPromptTemplate = (\<lambda>_. NotFound), getTool = (\<lambda>_. NotFound), getToolSet = (\<lambda>_. NotFound),
     getSkill = (\<lambda>_. NotFound), getPolicy = (\<lambda>_. NotFound), getToolPolicy = (\<lambda>_. NotFound),
     getCredential = (\<lambda>_. NotFound), getMCPServer = (\<lambda>_. NotFound), getTrigger = (\<lambda>_. NotFound),
     getConfigMap = (\<lambda>_. NotFound), getSecret = (\<lambda>_. NotFound), getDeployment = (\<lambda>_. NotFound),
     getService = (\<lambda>_. NotFound), getPVC = (\<lambda>_. NotFound)\<rparr>"

lemma recording_kube_conditions: "status_conditions (setStatusCondition recording_kube)"
  by (simp add: recording_kube_def upc.status_conditions_axioms)

lemma map_got_simps [simp]:
  "map_got f g = NotFound \<longleftrightarrow> g = NotFound" "map_got f g = Failed e \<longleftrightarrow> g = Failed e"
  "is_found (map_got f g) = is_found g"
  by (cases g; simp)+

end
