(* ===== verification/Ref_Controllers.thy ===== *)
theory Ref_Controllers
  imports Kube
begin

text \<open>
  The small controllers of \<^verbatim>\<open>internal/controller\<close>: the shared reference resolver of
  \<^verbatim>\<open>refutil.go\<close>, the Model, Tool, ToolSet and AgentClass controllers built on it, and the
  Policy, PromptTemplate, ToolPolicy, Skill and Credential controllers. Every \<^verbatim>\<open>Reconcile\<close> is
  a function of the client, the request key and the cluster state, and returns the error and
  the next state; logging is left out. The theorems say what each of them publishes: Ready
  holds exactly when the references, the Secret or the ConfigMap behind the object exist.
\<close>

section \<open>Shared helpers (refutil.go, constants.go, model\_controller.go)\<close>

abbreviation kindCredential :: string where "kindCredential \<equiv> ''Credential''"
abbreviation kindTool :: string where "kindTool \<equiv> ''Tool''"
abbreviation kindModel :: string where "kindModel \<equiv> ''Model''"
abbreviation portNameHTTP :: string where "portNameHTTP \<equiv> ''http''"
abbreviation portNameMCP :: string where "portNameMCP \<equiv> ''mcp''"
abbreviation contentSourceInline :: string where "contentSourceInline \<equiv> ''inline''"
abbreviation contentSourceConfigMap :: string where "contentSourceConfigMap \<equiv> ''configMap''"

definition ownedLabels :: "string \<Rightarrow> string \<Rightarrow> labels" where
  "ownedLabels component inst =
     [(''app.kubernetes.io/name'', component), (''app.kubernetes.io/instance'', inst),
      (''app.kubernetes.io/managed-by'', ''agent-plane'')]"

record ref_target =
  rtg_kind :: string
  rtg_name :: string
  rtg_obj :: object_kind

abbreviation refTarget :: "string \<Rightarrow> string \<Rightarrow> object_kind \<Rightarrow> ref_target" where
  "refTarget kd n ob \<equiv> \<lparr>rtg_kind = kd, rtg_name = n, rtg_obj = ob\<rparr>"

fun resolveTargetsFrom :: "string list \<Rightarrow> reader \<Rightarrow> string \<Rightarrow> ref_target list \<Rightarrow> string + string list" where
  "resolveTargetsFrom missing rd ns [] = Inr missing"
| "resolveTargetsFrom missing rd ns (t # ts) =
    (case getObject rd (rtg_obj t) (NamespacedName ns (rtg_name t)) of
       Found _ \<Rightarrow> resolveTargetsFrom missing rd ns ts
     | NotFound \<Rightarrow> resolveTargetsFrom (missing @ [rtg_kind t @ ''/'' @ rtg_name t]) rd ns ts
     | Failed e \<Rightarrow> Inl e)"

definition resolveTargets :: "reader \<Rightarrow> string \<Rightarrow> ref_target list \<Rightarrow> string + string list" where
  "resolveTargets rd ns targets = resolveTargetsFrom [] rd ns targets"

definition applyReadyFromMissing ::
  "'w kube \<Rightarrow> condition list \<Rightarrow> string list \<Rightarrow> int \<Rightarrow> string \<Rightarrow> condition list" where
  "applyReadyFromMissing k conds missing gen readyMsg =
    (if missing \<noteq> [] then
       (let msg = ''unresolved references: '' @ fmt_v missing in
        setCondition k
          (setCondition k conds ConditionResolved ConditionFalse ReasonReferenceMissing msg gen)
          ConditionReady ConditionFalse ReasonReferenceMissing msg gen)
     else
       setCondition k
         (setCondition k conds ConditionResolved ConditionTrue ReasonReconciled
            ''all references resolved'' gen)
         ConditionReady ConditionTrue ReasonReconciled readyMsg gen)"

section \<open>Model, Tool, ToolSet, AgentClass\<close>

definition modelTargets :: "model \<Rightarrow> ref_target list" where
  "modelTargets m =
    (case mos_credentialRef (mo_spec m) of
       None \<Rightarrow> []
     | Some r \<Rightarrow> [refTarget kindCredential (ref_name r) KCredential])"

definition Model_Reconcile :: "'w kube \<Rightarrow> namespaced_name \<Rightarrow> 'w \<Rightarrow> go_error \<times> 'w" where
  "Model_Reconcile k key w =
    reconcileGet (getModel (reads k w) key) (\<lambda>m w.
      case resolveTargets (reads k w) (meta_namespace (mo_meta m)) (modelTargets m) of
        Inl e \<Rightarrow> (Some e, w)
      | Inr missing \<Rightarrow>
          (let gen = meta_generation (mo_meta m); st = mo_status m in
           statusUpdate k
             (OModel (m\<lparr>mo_status := st\<lparr>st_observedGeneration := gen,
                st_conditions := applyReadyFromMissing k (st_conditions st) missing gen ''model ready''\<rparr>\<rparr>)) w)) w"

definition toolTargets :: "tool \<Rightarrow> ref_target list" where
  "toolTargets t =
    (case tos_mcpServerRef (to_spec t) of
       None \<Rightarrow> [] | Some r \<Rightarrow> [refTarget ''MCPServer'' (ref_name r) KMCPServer])
    @ (case tos_agentRef (to_spec t) of
         None \<Rightarrow> [] | Some r \<Rightarrow> [refTarget ''Agent'' (ref_name r) KAgent])"

definition Tool_Reconcile :: "'w kube \<Rightarrow> namespaced_name \<Rightarrow> 'w \<Rightarrow> go_error \<times> 'w" where
  "Tool_Reconcile k key w =
    reconcileGet (getTool (reads k w) key) (\<lambda>t w.
      let gen = meta_generation (to_meta t);
          st = (to_status t)\<lparr>st_observedGeneration := gen\<rparr>
      in case ToolSpec_Validate (to_spec t) of
           Some err \<Rightarrow>
             statusUpdate k (OTool (t\<lparr>to_status := st\<lparr>st_conditions :=
               setCondition k (st_conditions st) ConditionReady ConditionFalse ReasonInvalidSpec err gen\<rparr>\<rparr>)) w
         | None \<Rightarrow>
             (case resolveTargets (reads k w) (meta_namespace (to_meta t)) (toolTargets t) of
                Inl e \<Rightarrow> (Some e, w)
              | Inr missing \<Rightarrow>
                  statusUpdate k (OTool (t\<lparr>to_status := st\<lparr>st_conditions :=
                    applyReadyFromMissing k (st_conditions st) missing gen ''tool ready''\<rparr>\<rparr>)) w)) w"

definition toolSetTargets :: "tool_set \<Rightarrow> ref_target list" where
  "toolSetTargets s = map (\<lambda>r. refTarget kindTool (ref_name r) KTool) (tss_toolRefs (ts_spec s))"

definition ToolSet_Reconcile :: "'w kube \<Rightarrow> namespaced_name \<Rightarrow> 'w \<Rightarrow> go_error \<times> 'w" where
  "ToolSet_Reconcile k key w =
    reconcileGet (getToolSet (reads k w) key) (\<lambda>s w.
      case resolveTargets (reads k w) (meta_namespace (ts_meta s)) (toolSetTargets s) of
        Inl e \<Rightarrow> (Some e, w)
      | Inr missing \<Rightarrow>
          (let gen = meta_generation (ts_meta s); st = ts_status s in
           statusUpdate k
             (OToolSet (s\<lparr>ts_status := st\<lparr>st_observedGeneration := gen,
                tsst_resolvedTools := int (length (tss_toolRefs (ts_spec s))) - int (length missing),
                st_conditions := applyReadyFromMissing k (st_conditions st) missing gen
                  ''all member tools resolved''\<rparr>\<rparr>)) w)) w"

definition agentClassTargets :: "agent_class \<Rightarrow> ref_target list" where
  "agentClassTargets c =
    (case cs_defaultModelRef (ac_spec c) of
       None \<Rightarrow> [] | Some r \<Rightarrow> [refTarget kindModel (ref_name r) KModel])
    @ (case cs_defaultPromptRef (ac_spec c) of
         None \<Rightarrow> [] | Some r \<Rightarrow> [refTarget ''PromptTemplate'' (ref_name r) KPromptTemplate])
    @ map (\<lambda>r. refTarget ''Policy'' (ref_name r) KPolicy) (cs_defaultPolicyRefs (ac_spec c))"

definition AgentClass_Reconcile :: "'w kube \<Rightarrow> namespaced_name \<Rightarrow> 'w \<Rightarrow> go_error \<times> 'w" where
  "AgentClass_Reconcile k key w =
    reconcileGet (getAgentClass (reads k w) key) (\<lambda>c w.
      case resolveTargets (reads k w) (meta_namespace (ac_meta c)) (agentClassTargets c) of
        Inl e \<Rightarrow> (Some e, w)
      | Inr missing \<Rightarrow>
          (let gen = meta_generation (ac_meta c); st = ac_status c in
           statusUpdate k
             (OAgentClass (c\<lparr>ac_status := st\<lparr>st_observedGeneration := gen,
                st_conditions := applyReadyFromMissing k (st_conditions st) missing gen
                  ''agent class ready''\<rparr>\<rparr>)) w)) w"

section \<open>Policy, PromptTemplate, ToolPolicy\<close>

definition Policy_Reconcile :: "'w kube \<Rightarrow> namespaced_name \<Rightarrow> 'w \<Rightarrow> go_error \<times> 'w" where
  "Policy_Reconcile k key w =
    reconcileGet (getPolicy (reads k w) key) (\<lambda>p w.
      let gen = meta_generation (po_meta p); st = po_status p in
      statusUpdate k (OPolicy (p\<lparr>po_status := st\<lparr>st_observedGeneration := gen,
        st_conditions := setCondition k (st_conditions st) ConditionReady ConditionTrue
          ReasonReconciled ''policy ready'' gen\<rparr>\<rparr>)) w) w"

definition PromptTemplate_Reconcile :: "'w kube \<Rightarrow> namespaced_name \<Rightarrow> 'w \<Rightarrow> go_error \<times> 'w" where
  "PromptTemplate_Reconcile k key w =
    reconcileGet (getPromptTemplate (reads k w) key) (\<lambda>p w.
      let gen = meta_generation (pt_meta p); st = pt_status p in
      statusUpdate k (OPromptTemplate (p\<lparr>pt_status := st\<lparr>st_observedGeneration := gen,
        st_conditions := setCondition k (st_conditions st) ConditionReady ConditionTrue
          ReasonReconciled ''prompt template ready'' gen\<rparr>\<rparr>)) w) w"

definition ToolPolicy_Reconcile :: "'w kube \<Rightarrow> namespaced_name \<Rightarrow> 'w \<Rightarrow> go_error \<times> 'w" where
  "ToolPolicy_Reconcile k key w =
    reconcileGet (getToolPolicy (reads k w) key) (\<lambda>p w.
      let gen = meta_generation (tp_meta p); st = tp_status p in
      statusUpdate k (OToolPolicy (p\<lparr>tp_status := st\<lparr>st_observedGeneration := gen,
        st_conditions :=
          (case ToolPolicySpec_Validate (tp_spec p) of
             Some err \<Rightarrow> setCondition k (st_conditions st) ConditionReady ConditionFalse
                           ReasonInvalidSpec err gen
           | None \<Rightarrow> setCondition k (st_conditions st) ConditionReady ConditionTrue
                       ReasonReconciled ''tool policy ready'' gen)\<rparr>\<rparr>)) w) w"

section \<open>Skill and Credential\<close>

definition Skill_Reconcile :: "'w kube \<Rightarrow> namespaced_name \<Rightarrow> 'w \<Rightarrow> go_error \<times> 'w" where
  "Skill_Reconcile k key w =
    reconcileGet (getSkill (reads k w) key) (\<lambda>s w.
      let gen = meta_generation (sk_meta s);
          st = (sk_status s)\<lparr>st_observedGeneration := gen\<rparr>;
          publish = (\<lambda>source status reason msg w.
            statusUpdate k (OSkill (s\<lparr>sk_status := st\<lparr>skst_contentSource := source,
              st_conditions := setCondition k (st_conditions st) ConditionReady status reason msg gen\<rparr>\<rparr>)) w)
      in case SkillSpec_Validate (sk_spec s) of
           Some err \<Rightarrow> publish [] ConditionFalse ReasonInvalidSpec err w
         | None \<Rightarrow>
            (case sks_contentConfigMapRef (sk_spec s) of
               None \<Rightarrow> publish contentSourceInline ConditionTrue ReasonReconciled ''inline skill content'' w
             | Some ref \<Rightarrow>
                (case getConfigMap (reads k w) (NamespacedName (meta_namespace (sk_meta s)) (cmr_name ref)) of
                   NotFound \<Rightarrow> publish contentSourceConfigMap ConditionFalse ReasonReferenceMissing
                                (''configmap '' @ fmt_q (cmr_name ref) @ '' not found'') w
                 | Failed e \<Rightarrow> (Some e, w)
                 | Found cm \<Rightarrow>
                    (if cm_data cm (cmr_key ref) \<noteq> None
                     then publish contentSourceConfigMap ConditionTrue ReasonReconciled
                            ''skill content resolved from configmap'' w
                     else publish contentSourceConfigMap ConditionFalse ReasonReferenceMissing
                            (''key '' @ fmt_q (cmr_key ref) @ '' not present in configmap ''
                             @ fmt_q (cmr_name ref)) w)))) w"

definition setSecretStatus :: "'w kube \<Rightarrow> credential \<Rightarrow> bool \<Rightarrow> string \<Rightarrow> credential" where
  "setSecretStatus k c found msg =
    (let st = cr_status c in
     c\<lparr>cr_status := st\<lparr>crst_secretFound := Some found,
        st_conditions := setCondition k (st_conditions st) ConditionReady
          (if found then ConditionTrue else ConditionFalse)
          (if found then ReasonReconciled else ReasonSecretMissing) msg
          (meta_generation (cr_meta c))\<rparr>\<rparr>)"

definition Credential_Reconcile :: "'w kube \<Rightarrow> namespaced_name \<Rightarrow> 'w \<Rightarrow> go_error \<times> 'w" where
  "Credential_Reconcile k key w =
    reconcileGet (getCredential (reads k w) key) (\<lambda>c0 w.
      let c = c0\<lparr>cr_status := (cr_status c0)\<lparr>st_observedGeneration := meta_generation (cr_meta c0)\<rparr>\<rparr>;
          ref = crs_secretRef (cr_spec c)
      in case getSecret (reads k w) (NamespacedName (meta_namespace (cr_meta c)) (skr_name ref)) of
           NotFound \<Rightarrow> statusUpdate k (OCredential
             (setSecretStatus k c False (''secret '' @ fmt_q (skr_name ref) @ '' not found''))) w
         | Failed e \<Rightarrow> (Some e, w)
         | Found s \<Rightarrow>
            (if sec_data s (skr_key ref) \<noteq> None
             then statusUpdate k (OCredential (setSecretStatus k c True ''secret and key present'')) w
             else statusUpdate k (OCredential (setSecretStatus k c False
                    (''key '' @ fmt_q (skr_key ref) @ '' not present in secret '' @ fmt_q (skr_name ref)))) w)) w"

section \<open>The resolver\<close>

definition target_exists :: "reader \<Rightarrow> string \<Rightarrow> ref_target \<Rightarrow> bool" where
  "target_exists rd ns t = is_found (getObject rd (rtg_obj t) (NamespacedName ns (rtg_name t)))"

definition target_label :: "ref_target \<Rightarrow> string" where
  "target_label t = rtg_kind t @ ''/'' @ rtg_name t"

text \<open>No read of a target fails with anything but NotFound.\<close>

definition targets_readable :: "reader \<Rightarrow> string \<Rightarrow> ref_target list \<Rightarrow> bool" where
  "targets_readable rd ns ts \<longleftrightarrow>
     (\<forall>t\<in>set ts. getObject rd (rtg_obj t) (NamespacedName ns (rtg_name t)) = NotFound \<or> target_exists rd ns t)"

lemma got_not_found: "\<not> is_found g \<longleftrightarrow> g = NotFound \<or> (\<exists>e. g = Failed e)"
  by (cases g) auto

lemma resolveTargetsFrom_Inr:
  "resolveTargetsFrom m rd ns ts = Inr missing \<longleftrightarrow>
     targets_readable rd ns ts \<and> missing = m @ map target_label (filter (\<lambda>t. \<not> target_exists rd ns t) ts)"
  by (induction m rd ns ts rule: resolveTargetsFrom.induct)
     (auto simp: targets_readable_def target_exists_def target_label_def split: got.split)

lemma resolveTargets_Inr:
  "resolveTargets rd ns ts = Inr missing \<longleftrightarrow>
     targets_readable rd ns ts \<and> missing = map target_label (filter (\<lambda>t. \<not> target_exists rd ns t) ts)"
  by (simp add: resolveTargets_def resolveTargetsFrom_Inr)

lemma resolveTargets_readable:
  "targets_readable rd ns ts \<Longrightarrow>
     resolveTargets rd ns ts = Inr (map target_label (filter (\<lambda>t. \<not> target_exists rd ns t) ts))"
  by (simp add: resolveTargets_Inr)

text \<open>What a reader of the status takes as ready.\<close>

definition is_ready :: "condition list \<Rightarrow> bool" where
  "is_ready cs \<longleftrightarrow> (case condition_of cs ConditionReady of Some (s, _) \<Rightarrow> s = ConditionTrue | None \<Rightarrow> False)"

text \<open>The Ready condition was computed for this generation.\<close>

definition ready_generation :: "condition list \<Rightarrow> int \<Rightarrow> bool" where
  "ready_generation cs gen \<longleftrightarrow>
     (case condition_of cs ConditionReady of Some (_, _, _, g) \<Rightarrow> g = gen | None \<Rightarrow> False)"

lemma setCondition_Ready:
  assumes "status_conditions (setStatusCondition k)"
  shows "is_ready (setCondition k cs ConditionReady s r m g) \<longleftrightarrow> s = ConditionTrue"
    and "ready_generation (setCondition k cs ConditionReady s r m g) gen \<longleftrightarrow> g = gen"
  by (simp_all add: is_ready_def ready_generation_def condition_of_setCondition [OF assms])

lemma applyReadyFromMissing_Ready:
  assumes "status_conditions (setStatusCondition k)"
  shows "is_ready (applyReadyFromMissing k cs missing gen msg) \<longleftrightarrow> missing = []"
    and "ready_generation (applyReadyFromMissing k cs missing gen msg) gen"
  by (simp_all add: applyReadyFromMissing_def Let_def setCondition_Ready [OF assms])

section \<open>The contract of a controller that resolves references\<close>

locale reference_controller =
  fixes getX :: "reader \<Rightarrow> namespaced_name \<Rightarrow> 'x got"
    and targetsOf :: "'x \<Rightarrow> ref_target list"
    and metaOf :: "'x \<Rightarrow> object_meta"
    and condsOf :: "'x \<Rightarrow> condition list"
    and wrap :: "'x \<Rightarrow> client_object"
    and readyMsg :: string
    and reconcile :: "'w kube \<Rightarrow> namespaced_name \<Rightarrow> 'w \<Rightarrow> go_error \<times> 'w"
  assumes gone: "getX (reads k w) key = NotFound \<Longrightarrow> reconcile k key w = (None, w)"
    and unreadable: "getX (reads k w) key = Failed e \<Longrightarrow> reconcile k key w = (Some e, w)"
    and target_error: "getX (reads k w) key = Found x \<Longrightarrow>
      resolveTargets (reads k w) (meta_namespace (metaOf x)) (targetsOf x) = Inl e \<Longrightarrow>
      reconcile k key w = (Some e, w)"
    and published: "getX (reads k w) key = Found x \<Longrightarrow>
      resolveTargets (reads k w) (meta_namespace (metaOf x)) (targetsOf x) = Inr missing \<Longrightarrow>
      \<exists>y. reconcile k key w = statusUpdate k (wrap y) w \<and> metaOf y = metaOf x \<and>
          targetsOf y = targetsOf x \<and>
          condsOf y = applyReadyFromMissing k (condsOf x) missing (meta_generation (metaOf x)) readyMsg"
begin

lemma ready_iff_targets_exist:
  assumes "status_conditions (setStatusCondition k)"
    and "getX (reads k w) key = Found x"
    and "targets_readable (reads k w) (meta_namespace (metaOf x)) (targetsOf x)"
  shows "\<exists>y. reconcile k key w = statusUpdate k (wrap y) w \<and> metaOf y = metaOf x \<and>
             targetsOf y = targetsOf x \<and>
             ready_generation (condsOf y) (meta_generation (metaOf x)) \<and>
             (is_ready (condsOf y) \<longleftrightarrow>
                (\<forall>t\<in>set (targetsOf x). target_exists (reads k w) (meta_namespace (metaOf x)) t))"
  using published [OF assms(2) resolveTargets_readable [OF assms(3)]]
  by (auto simp: applyReadyFromMissing_Ready [OF assms(1)] filter_empty_conv)

lemma error_writes_nothing:
  assumes "\<And>x. getX (reads k w) key = Found x \<Longrightarrow>
             \<not> targets_readable (reads k w) (meta_namespace (metaOf x)) (targetsOf x)"
  shows "\<exists>err. reconcile k key w = (err, w)"
proof (cases "getX (reads k w) key")
  case (Found x)
  then obtain e where "resolveTargets (reads k w) (meta_namespace (metaOf x)) (targetsOf x) = Inl e"
    using assms resolveTargets_Inr by (metis sum.exhaust)
  with target_error [OF Found] show ?thesis by blast
qed (auto dest: gone unreadable)

end

interpretation mc: reference_controller getModel modelTargets mo_meta "\<lambda>m. st_conditions (mo_status m)"
  OModel "''model ready''" Model_Reconcile
  by unfold_locales (auto simp: Model_Reconcile_def modelTargets_def Let_def
      intro!: exI [where x = "m\<lparr>mo_status := s\<rparr>" for m s])

interpretation tsc: reference_controller getToolSet toolSetTargets ts_meta "\<lambda>s. st_conditions (ts_status s)"
  OToolSet "''all member tools resolved''" ToolSet_Reconcile
  by unfold_locales (auto simp: ToolSet_Reconcile_def toolSetTargets_def Let_def
      intro!: exI [where x = "m\<lparr>ts_status := s\<rparr>" for m s])

interpretation acc: reference_controller getAgentClass agentClassTargets ac_meta
  "\<lambda>c. st_conditions (ac_status c)" OAgentClass "''agent class ready''" AgentClass_Reconcile
  by unfold_locales (auto simp: AgentClass_Reconcile_def agentClassTargets_def Let_def
      intro!: exI [where x = "m\<lparr>ac_status := s\<rparr>" for m s])

section \<open>What the references are\<close>

lemma target_exists_simps [simp]:
  "target_exists rd ns (refTarget kd n KModel) = is_found (getModel rd (NamespacedName ns n))"
  "target_exists rd ns (refTarget kd n KTool) = is_found (getTool rd (NamespacedName ns n))"
  "target_exists rd ns (refTarget kd n KPolicy) = is_found (getPolicy rd (NamespacedName ns n))"
  "target_exists rd ns (refTarget kd n KPromptTemplate) = is_found (getPromptTemplate rd (NamespacedName ns n))"
  "target_exists rd ns (refTarget kd n KCredential) = is_found (getCredential rd (NamespacedName ns n))"
  "target_exists rd ns (refTarget kd n KMCPServer) = is_found (getMCPServer rd (NamespacedName ns n))"
  "target_exists rd ns (refTarget kd n KAgent) = is_found (getAgent rd (NamespacedName ns n))"
  by (simp_all add: target_exists_def)

lemma model_targets_exist:
  "(\<forall>t\<in>set (modelTargets m). target_exists rd ns t) \<longleftrightarrow>
     (\<forall>r. mos_credentialRef (mo_spec m) = Some r \<longrightarrow> is_found (getCredential rd (NamespacedName ns (ref_name r))))"
  by (auto simp: modelTargets_def split: option.split)

lemma toolset_targets_exist:
  "(\<forall>t\<in>set (toolSetTargets s). target_exists rd ns t) \<longleftrightarrow>
     (\<forall>r\<in>set (tss_toolRefs (ts_spec s)). is_found (getTool rd (NamespacedName ns (ref_name r))))"
  by (auto simp: toolSetTargets_def)

lemma class_targets_exist:
  "(\<forall>t\<in>set (agentClassTargets c). target_exists rd ns t) \<longleftrightarrow>
     (\<forall>r. cs_defaultModelRef (ac_spec c) = Some r \<longrightarrow> is_found (getModel rd (NamespacedName ns (ref_name r)))) \<and>
     (\<forall>r. cs_defaultPromptRef (ac_spec c) = Some r \<longrightarrow> is_found (getPromptTemplate rd (NamespacedName ns (ref_name r)))) \<and>
     (\<forall>r\<in>set (cs_defaultPolicyRefs (ac_spec c)). is_found (getPolicy rd (NamespacedName ns (ref_name r))))"
  by (auto simp: agentClassTargets_def ball_Un split: option.split)

lemma tool_targets_exist:
  "(\<forall>t\<in>set (toolTargets t0). target_exists rd ns t) \<longleftrightarrow>
     (\<forall>r. tos_mcpServerRef (to_spec t0) = Some r \<longrightarrow> is_found (getMCPServer rd (NamespacedName ns (ref_name r)))) \<and>
     (\<forall>r. tos_agentRef (to_spec t0) = Some r \<longrightarrow> is_found (getAgent rd (NamespacedName ns (ref_name r))))"
  by (auto simp: toolTargets_def split: option.split)

section \<open>Sample objects\<close>

definition sample_tool :: "string \<Rightarrow> tool" where
  "sample_tool n =
     \<lparr>to_meta = sample_meta n,
      to_spec = \<lparr>tos_type = ToolTypeHTTP, tos_description = [], tos_version = [], tos_mcpToolName = [],
        tos_endpoint = ''http://x'', tos_mcpServerRef = None, tos_agentRef = None,
        tos_timeoutSeconds = None, tos_inputSchema = None, tos_outputSchema = None\<rparr>,
      to_status = \<lparr>st_conditions = [], st_observedGeneration = 0, tost_healthy = None\<rparr>\<rparr>"

definition sample_tool_set :: "string list \<Rightarrow> tool_set" where
  "sample_tool_set ns =
     \<lparr>ts_meta = sample_meta ''set'', ts_spec = \<lparr>tss_description = [], tss_toolRefs = map LocalReference ns\<rparr>,
      ts_status = \<lparr>st_conditions = [], st_observedGeneration = 0, tsst_resolvedTools = 0\<rparr>\<rparr>"

definition sample_credential :: credential where
  "sample_credential =
     \<lparr>cr_meta = sample_meta ''cred'',
      cr_spec = \<lparr>crs_secretRef = \<lparr>skr_name = ''sec'', skr_key = ''api-key''\<rparr>, crs_description = []\<rparr>,
      cr_status = \<lparr>st_conditions = [], st_observedGeneration = 0, crst_secretFound = None\<rparr>\<rparr>"

definition sample_skill :: "string \<Rightarrow> string list \<Rightarrow> skill" where
  "sample_skill n tools =
     \<lparr>sk_meta = sample_meta n,
      sk_spec = \<lparr>sks_description = [], sks_version = [], sks_content = ''# do'',
        sks_contentConfigMapRef = None, sks_allowedTools = tools\<rparr>,
      sk_status = \<lparr>st_conditions = [], st_observedGeneration = 0, skst_contentSource = []\<rparr>\<rparr>"

definition sample_model :: "string \<Rightarrow> model" where
  "sample_model n =
     \<lparr>mo_meta = sample_meta n,
      mo_spec = \<lparr>mos_provider = ''p'', mos_modelName = ''m'', mos_endpoint = [],
        mos_credentialRef = Some (LocalReference ''cred''), mos_defaults = None\<rparr>,
      mo_status = sample_status\<rparr>"

definition sample_class :: agent_class where
  "sample_class =
     \<lparr>ac_meta = sample_meta ''class'',
      ac_spec = \<lparr>cs_description = [], cs_defaultModelRef = Some (LocalReference ''gpt''),
        cs_defaultPromptRef = None, cs_defaultPolicyRefs = [], cs_defaultToolPolicyRefs = [],
        cs_defaultToolRefs = [], cs_defaultSkillRefs = []\<rparr>,
      ac_status = sample_status\<rparr>"

text \<open>A cluster with one object of most kinds; the credential's Secret holds its key.\<close>

definition sample_reader :: reader where
  "sample_reader = empty_reader
     \<lparr>getAgent := (\<lambda>key. if key = NamespacedName ''default'' ''bot'' then Found sample_agent else NotFound),
      getModel := (\<lambda>key. if key = NamespacedName ''default'' ''gpt'' then Found (sample_model ''gpt'') else NotFound),
      getTool := (\<lambda>key. if key = NamespacedName ''default'' ''search'' then Found (sample_tool ''search'') else NotFound),
      getToolSet := (\<lambda>key. if key = NamespacedName ''default'' ''set''
                           then Found (sample_tool_set [''search'', ''ghost'']) else NotFound),
      getAgentClass := (\<lambda>key. if key = NamespacedName ''default'' ''class'' then Found sample_class else NotFound),
      getSkill := (\<lambda>key. if key = NamespacedName ''default'' ''howto'' then Found (sample_skill ''howto'' []) else NotFound),
      getCredential := (\<lambda>key. if key = NamespacedName ''default'' ''cred'' then Found sample_credential else NotFound),
      getSecret := (\<lambda>key. if key = NamespacedName ''default'' ''sec''
                          then Found \<lparr>sec_data = [''api-key'' \<mapsto> ''k'']\<rparr> else NotFound)\<rparr>"

lemmas sample_objects = sample_tool_def sample_tool_set_def sample_credential_def sample_skill_def
  sample_model_def sample_class_def

lemma sample_reader_getTool:
  "is_found (getTool sample_reader (NamespacedName ''default'' n)) \<longleftrightarrow> n = ''search''"
  by (simp add: sample_reader_def)

lemma recording_reads [simp]: "reads recording_kube (rd, ws) = rd"
  by (simp add: recording_kube_def)

lemma recording_statusUpdate [simp]: "statusUpdate recording_kube obj (rd, ws) = (None, rd, ws @ [WStatus obj])"
  by (simp add: recording_kube_def)

section \<open>Properties\<close>



text \<open>
  The Tool controller publishes Ready exactly for a structurally valid Tool whose MCPServer
  and Agent references exist, with one status update for the current generation.
\<close>

lemma Tool_Reconcile_ready:
  assumes "status_conditions (setStatusCondition k)"
    and "getTool (reads k w) key = Found t"
    and "targets_readable (reads k w) (meta_namespace (to_meta t)) (toolTargets t)"
  shows "\<exists>t'. Tool_Reconcile k key w = statusUpdate k (OTool t') w \<and>
              to_meta t' = to_meta t \<and> to_spec t' = to_spec t \<and>
              ready_generation (st_conditions (to_status t')) (meta_generation (to_meta t)) \<and>
              (is_ready (st_conditions (to_status t')) \<longleftrightarrow>
                 ToolSpec_Validate (to_spec t) = None \<and>
                 (\<forall>r. tos_mcpServerRef (to_spec t) = Some r \<longrightarrow>
                   is_found (getMCPServer (reads k w) (NamespacedName (meta_namespace (to_meta t)) (ref_name r)))) \<and>
                 (\<forall>r. tos_agentRef (to_spec t) = Some r \<longrightarrow>
                   is_found (getAgent (reads k w) (NamespacedName (meta_namespace (to_meta t)) (ref_name r)))))"
proof (cases "ToolSpec_Validate (to_spec t)")
  case (Some err)
  then show ?thesis
    by (auto simp: Tool_Reconcile_def assms(2) Let_def setCondition_Ready [OF assms(1)]
        intro!: exI [where x = "t\<lparr>to_status := s\<rparr>" for s])
next
  case None
  let ?missing = "map target_label (filter (\<lambda>x. \<not> target_exists (reads k w) (meta_namespace (to_meta t)) x) (toolTargets t))"
  have "?missing = [] \<longleftrightarrow> (\<forall>x\<in>set (toolTargets t). target_exists (reads k w) (meta_namespace (to_meta t)) x)"
    by (simp add: filter_empty_conv)
  with None show ?thesis
    unfolding tool_targets_exist
    by (auto simp: Tool_Reconcile_def assms(2) Let_def resolveTargets_readable [OF assms(3)]
        applyReadyFromMissing_Ready [OF assms(1)]
        intro!: exI [where x = "t\<lparr>to_status := s\<rparr>" for s])
qed

text \<open>
  The Credential controller: when the Secret can be read, one status update is written whose
  Ready condition and \<^verbatim>\<open>secretFound\<close> both hold exactly when the Secret exists and has the key;
  when the Secret cannot be read, the error is returned and nothing is written.
\<close>

lemma Credential_Reconcile_ready:
  assumes "status_conditions (setStatusCondition k)"
    and "getCredential (reads k w) key = Found c"
    and "got = getSecret (reads k w) (NamespacedName (meta_namespace (cr_meta c)) (skr_name (crs_secretRef (cr_spec c))))"
  shows "case got of
           Failed e \<Rightarrow> Credential_Reconcile k key w = (Some e, w)
         | _ \<Rightarrow> (\<exists>c'. Credential_Reconcile k key w = statusUpdate k (OCredential c') w \<and>
                 cr_meta c' = cr_meta c \<and> cr_spec c' = cr_spec c \<and>
                 ready_generation (st_conditions (cr_status c')) (meta_generation (cr_meta c)) \<and>
                 (is_ready (st_conditions (cr_status c')) \<longleftrightarrow>
                    (\<exists>s. got = Found s \<and> sec_data s (skr_key (crs_secretRef (cr_spec c))) \<noteq> None)) \<and>
                 crst_secretFound (cr_status c') = Some (is_ready (st_conditions (cr_status c'))))"
  using assms(2,3)
  by (auto simp: Credential_Reconcile_def Let_def setSecretStatus_def setCondition_Ready [OF assms(1)]
      split: got.split intro!: exI [where x = "c\<lparr>cr_status := s\<rparr>" for s])

text \<open>
  The Skill controller: when its ConfigMap can be read, one status update is written, Ready
  exactly when the spec has one content source and, if that is a ConfigMap, the ConfigMap
  exists and has the key; the recorded source names the one the spec sets.
\<close>

lemma Skill_Reconcile_ready:
  assumes "status_conditions (setStatusCondition k)"
    and "getSkill (reads k w) key = Found s"
    and "\<And>r e. getConfigMap (reads k w) (NamespacedName (meta_namespace (sk_meta s)) r) \<noteq> Failed e"
  shows "\<exists>s'. Skill_Reconcile k key w = statusUpdate k (OSkill s') w \<and>
              sk_meta s' = sk_meta s \<and> sk_spec s' = sk_spec s \<and>
              ready_generation (st_conditions (sk_status s')) (meta_generation (sk_meta s)) \<and>
              (is_ready (st_conditions (sk_status s')) \<longleftrightarrow>
                (case sks_contentConfigMapRef (sk_spec s) of
                   None \<Rightarrow> sks_content (sk_spec s) \<noteq> []
                 | Some ref \<Rightarrow> sks_content (sk_spec s) = [] \<and>
                    (\<exists>cm. getConfigMap (reads k w) (NamespacedName (meta_namespace (sk_meta s)) (cmr_name ref)) = Found cm \<and>
                          cm_data cm (cmr_key ref) \<noteq> None))) \<and>
              (skst_contentSource (sk_status s') = contentSourceConfigMap \<longleftrightarrow>
                 sks_content (sk_spec s) = [] \<and> sks_contentConfigMapRef (sk_spec s) \<noteq> None)"
  using assms(2,3)
  by (auto simp: Skill_Reconcile_def Let_def SkillSpec_Validate_def setCondition_Ready [OF assms(1)]
      split: option.split got.split intro!: exI [where x = "s\<lparr>sk_status := t\<rparr>" for t])

lemma toolSet_missing_count:
  "int (length (tss_toolRefs (ts_spec s))) -
     int (length (filter (\<lambda>t. \<not> target_exists rd (meta_namespace (ts_meta s)) t) (toolSetTargets s))) =
   int (length (filter (\<lambda>r. is_found (getTool rd (NamespacedName (meta_namespace (ts_meta s)) (ref_name r))))
     (tss_toolRefs (ts_spec s))))"
proof -
  let ?found = "\<lambda>r. is_found (getTool rd (NamespacedName (meta_namespace (ts_meta s)) (ref_name r)))"
  have "length (filter (\<lambda>t. \<not> target_exists rd (meta_namespace (ts_meta s)) t) (toolSetTargets s))
          = length (filter (\<lambda>r. \<not> ?found r) (tss_toolRefs (ts_spec s)))"
    by (simp add: toolSetTargets_def filter_map comp_def)
  then show ?thesis using sum_length_filter_compl [of ?found "tss_toolRefs (ts_spec s)"] by simp
qed

text \<open>
  C37. The count a ToolSet publishes, the references less the missing ones, is the number of its
  member references that exist: it lies between 0 and the number of members, and reaches it
  exactly when the same update says Ready.
\<close>

theorem ToolSet_Reconcile_count:
  assumes "status_conditions (setStatusCondition k)"
    and "getToolSet (reads k w) key = Found s"
    and "targets_readable (reads k w) (meta_namespace (ts_meta s)) (toolSetTargets s)"
  shows "\<exists>s'. ToolSet_Reconcile k key w = statusUpdate k (OToolSet s') w \<and>
              tsst_resolvedTools (ts_status s') =
                int (length (filter (\<lambda>r. is_found (getTool (reads k w)
                       (NamespacedName (meta_namespace (ts_meta s)) (ref_name r)))) (tss_toolRefs (ts_spec s)))) \<and>
              0 \<le> tsst_resolvedTools (ts_status s') \<and>
              tsst_resolvedTools (ts_status s') \<le> int (length (tss_toolRefs (ts_spec s))) \<and>
              (tsst_resolvedTools (ts_status s') = int (length (tss_toolRefs (ts_spec s))) \<longleftrightarrow>
                 is_ready (st_conditions (ts_status s')))"
proof -
  let ?missing = "filter (\<lambda>t. \<not> target_exists (reads k w) (meta_namespace (ts_meta s)) t) (toolSetTargets s)"
  let ?n = "length (tss_toolRefs (ts_spec s))"
  let ?found = "filter (\<lambda>r. is_found (getTool (reads k w) (NamespacedName (meta_namespace (ts_meta s)) (ref_name r))))
     (tss_toolRefs (ts_spec s))"
  let ?s = "s\<lparr>ts_status := (ts_status s)\<lparr>st_observedGeneration := meta_generation (ts_meta s),
      tsst_resolvedTools := int ?n - int (length ?missing),
      st_conditions := applyReadyFromMissing k (st_conditions (ts_status s)) (map target_label ?missing)
        (meta_generation (ts_meta s)) ''all member tools resolved''\<rparr>\<rparr>"
  have u: "ToolSet_Reconcile k key w = statusUpdate k (OToolSet ?s) w"
    by (simp add: ToolSet_Reconcile_def assms(2) Let_def resolveTargets_readable [OF assms(3)])
  have c: "int ?n - int (length ?missing) = int (length ?found)" by (rule toolSet_missing_count)
  have r: "is_ready (st_conditions (ts_status ?s)) \<longleftrightarrow> ?missing = []"
    using applyReadyFromMissing_Ready(1) [OF assms(1)] by simp
  have e: "int ?n - int (length ?missing) = int ?n \<longleftrightarrow> ?missing = []" by auto
  have l: "length ?found \<le> ?n" by (rule length_filter_le)
  have t: "tsst_resolvedTools (ts_status ?s) = int ?n - int (length ?missing)" by simp
  show ?thesis
    by (rule exI [where x = ?s], intro conjI) (use u c r e l t in linarith | use u c r e l t in argo)+
qed

theorem ToolSet_Reconcile_count_witness:
  "\<exists>s'. ToolSet_Reconcile recording_kube (NamespacedName ''default'' ''set'') (sample_reader, []) =
          (None, sample_reader, [WStatus (OToolSet s')]) \<and>
        tsst_resolvedTools (ts_status s') = 1 \<and> \<not> is_ready (st_conditions (ts_status s'))"
proof -
  let ?s = "sample_tool_set [''search'', ''ghost'']"
  have f: "getToolSet (reads recording_kube (sample_reader, [])) (NamespacedName ''default'' ''set'') = Found ?s"
    by (simp add: sample_reader_def)
  have r: "targets_readable (reads recording_kube (sample_reader, [])) (meta_namespace (ts_meta ?s)) (toolSetTargets ?s)"
    by (simp add: targets_readable_def toolSetTargets_def sample_reader_def sample_objects sample_defs
        empty_reader_def)
  have "length (filter (\<lambda>r. is_found (getTool (reads recording_kube (sample_reader, []))
          (NamespacedName (meta_namespace (ts_meta ?s)) (ref_name r)))) (tss_toolRefs (ts_spec ?s))) = 1"
    "length (tss_toolRefs (ts_spec ?s)) = 2"
    by (simp_all add: sample_reader_def empty_reader_def sample_objects sample_defs)
  with ToolSet_Reconcile_count [OF recording_kube_conditions f r] show ?thesis by force
qed

end
