(* ===== verification/Go_Hash.thy ===== *)
theory Go_Hash
  imports Prelude "HOL-Library.Word"
begin

text \<open>
  The parts of Go's standard library behind the configuration hash of an Agent:
  \<^verbatim>\<open>encoding/json\<close> of strings, \<^verbatim>\<open>crypto/sha256\<close> and \<^verbatim>\<open>encoding/hex\<close>. Strings are byte
  sequences; the JSON escapes are Go's (HTML characters escaped, as \<^verbatim>\<open>json.Marshal\<close> does) and
  exact on ASCII. SHA-256 is the function of FIPS 180-4 on 32-bit words with wrap-around.
  The lemmas: an encoded string can be read back, so the encoding is injective and
  self-delimiting; a digest is 32 bytes, its text 64 hexadecimal digits.
\<close>

unbundle bit_operations_syntax

section \<open>encoding/json: strings\<close>

definition json_escape :: "nat \<Rightarrow> string" where
  "json_escape n = [backslash, CHR ''u'', CHR ''0'', CHR ''0''] @ hex_byte n"

definition json_char :: "char \<Rightarrow> string" where
  "json_char c =
    (let n = of_char c :: nat in
     if c = dquote \<or> c = backslash then [backslash, c]
     else if n = 8 then [backslash, CHR ''b'']
     else if n = 12 then [backslash, CHR ''f'']
     else if n = 10 then [backslash, CHR ''n'']
     else if n = 13 then [backslash, CHR ''r'']
     else if n = 9 then [backslash, CHR ''t'']
     else if n < 32 \<or> c = CHR ''<'' \<or> c = CHR ''>'' \<or> c = CHR ''&'' then json_escape n
     else [c])"

definition json_string :: "string \<Rightarrow> string" where
  "json_string s = [dquote] @ concat (map json_char s) @ [dquote]"

text \<open>Reading one encoded character back.\<close>

definition hex_value :: "char \<Rightarrow> nat" where
  "hex_value c = (let n = of_char c :: nat in if n < 58 then n - 48 else n - 87)"

fun json_scan :: "string \<Rightarrow> (char \<times> string) option" where
  "json_scan [] = None"
| "json_scan (c # cs) =
    (if c \<noteq> backslash then Some (c, cs)
     else (case cs of
             [] \<Rightarrow> None
           | d # ds \<Rightarrow>
              (if d = CHR ''b'' then Some (char_of (8::nat), ds)
               else if d = CHR ''f'' then Some (char_of (12::nat), ds)
               else if d = CHR ''n'' then Some (char_of (10::nat), ds)
               else if d = CHR ''r'' then Some (char_of (13::nat), ds)
               else if d = CHR ''t'' then Some (char_of (9::nat), ds)
               else if d = CHR ''u'' then
                 (case ds of
                    _ # _ # x # y # rest \<Rightarrow> Some (char_of (16 * hex_value x + hex_value y), rest)
                  | _ \<Rightarrow> None)
               else Some (d, ds))))"

lemma of_char_hex_digit: "n < 16 \<Longrightarrow> (of_char (hex_digit n) :: nat) = (if n < 10 then 48 + n else 87 + n)"
  by (auto simp: hex_digit_def of_char_of)

lemma hex_value_digit [simp]: "n < 16 \<Longrightarrow> hex_value (hex_digit n) = n"
  by (simp add: hex_value_def of_char_hex_digit Let_def)

lemma of_char_less_256 [simp]: "(of_char c :: nat) < 256"
  by (metis nat_of_char_less_256)

lemma char_eq_of_nat: "(of_char c :: nat) = n \<Longrightarrow> char_of n = c"
  by (metis char_of_char)

lemma json_scan_escape:
  assumes "n < 256"
  shows "json_scan (json_escape n @ x) = Some (char_of n, x)"
proof -
  have "n div 16 < 16" "n mod 16 < 16" using assms by auto
  then show ?thesis by (simp add: json_escape_def hex_byte_def backslash_def)
qed

lemma json_scan_char [simp]: "json_scan (json_char c @ x) = Some (c, x)"
proof -
  have "json_scan (json_escape (of_char c) @ x) = Some (c, x)"
    by (simp add: json_scan_escape del: json_scan.simps)
  moreover have "char_of n = c" if "of_char c = n" for n :: nat
    using that by (rule char_eq_of_nat)
  ultimately show ?thesis
    by (auto simp: json_char_def Let_def backslash_def dquote_def simp del: char_of_char)
qed

lemma json_char_head: "json_char c = d # ds \<Longrightarrow> d \<noteq> dquote"
  by (auto simp: json_char_def Let_def dquote_def backslash_def json_escape_def split: if_splits)

lemma json_char_nonempty [simp]: "json_char c \<noteq> []"
  by (simp add: json_char_def json_escape_def Let_def)

lemma json_char_cancel: "json_char c @ x = json_char d @ y \<longleftrightarrow> c = d \<and> x = y"
  by (metis json_scan_char option.inject prod.inject)

lemma json_char_not_quote: "json_char c @ x \<noteq> dquote # y"
  using json_char_head [of c] by (cases "json_char c") auto

lemma json_chars_cancel:
  "concat (map json_char s) @ dquote # x = concat (map json_char t) @ dquote # y \<longleftrightarrow> s = t \<and> x = y"
proof (induction s arbitrary: t)
  case Nil
  then show ?case using json_char_not_quote by (cases t) (auto, metis)
next
  case (Cons c s)
  then show ?case
    using json_char_not_quote by (cases t) (auto simp: json_char_cancel)
qed

lemma json_string_cancel [simp]: "json_string s @ x = json_string t @ y \<longleftrightarrow> s = t \<and> x = y"
  by (simp add: json_string_def json_chars_cancel)

lemma json_string_inject [simp]: "json_string s = json_string t \<longleftrightarrow> s = t"
  using json_string_cancel [of s "[]" t "[]"] by simp

section \<open>crypto/sha256\<close>

type_synonym w32 = "32 word"

definition rotr :: "nat \<Rightarrow> w32 \<Rightarrow> w32" where
  "rotr n x = drop_bit n x OR push_bit (32 - n) x"

definition sha_k :: "w32 list" where
  "sha_k = [
    1116352408, 1899447441, 3049323471, 3921009573, 961987163, 1508970993, 2453635748, 2870763221,
    3624381080, 310598401, 607225278, 1426881987, 1925078388, 2162078206, 2614888103, 3248222580,
    3835390401, 4022224774, 264347078, 604807628, 770255983, 1249150122, 1555081692, 1996064986,
    2554220882, 2821834349, 2952996808, 3210313671, 3336571891, 3584528711, 113926993, 338241895,
    666307205, 773529912, 1294757372, 1396182291, 1695183700, 1986661051, 2177026350, 2456956037,
    2730485921, 2820302411, 3259730800, 3345764771, 3516065817, 3600352804, 4094571909, 275423344,
    430227734, 506948616, 659060556, 883997877, 958139571, 1322822218, 1537002063, 1747873779,
    1955562222, 2024104815, 2227730452, 2361852424, 2428436474, 2756734187, 3204031479, 3329325298]"

definition sha_init :: "w32 list" where
  "sha_init = [
    1779033703, 3144134277, 1013904242, 2773480762, 1359893119, 2600822924, 528734635, 1541459225]"

fun be_bytes :: "nat \<Rightarrow> nat \<Rightarrow> nat list" where
  "be_bytes 0 n = []"
| "be_bytes (Suc k) n = be_bytes k (n div 256) @ [n mod 256]"

definition be_word :: "nat list \<Rightarrow> w32" where
  "be_word bs = word_of_nat (foldl (\<lambda>a b. a * 256 + b) 0 bs)"

fun chunks :: "nat \<Rightarrow> nat \<Rightarrow> 'a list \<Rightarrow> 'a list list" where
  "chunks 0 n xs = []"
| "chunks (Suc k) n xs = take n xs # chunks k n (drop n xs)"

definition sha_pad :: "nat list \<Rightarrow> nat list" where
  "sha_pad bs = bs @ [128] @ replicate ((119 - length bs mod 64) mod 64) 0
                @ be_bytes 8 ((8 * length bs) mod 2 ^ 64)"

text \<open>The message schedule, newest word first.\<close>

fun sha_extend :: "nat \<Rightarrow> w32 list \<Rightarrow> w32 list" where
  "sha_extend 0 rw = rw"
| "sha_extend (Suc k) rw =
     (let w15 = rw ! 14; w2 = rw ! 1;
          s0 = rotr 7 w15 XOR rotr 18 w15 XOR drop_bit 3 w15;
          s1 = rotr 17 w2 XOR rotr 19 w2 XOR drop_bit 10 w2
      in sha_extend k ((rw ! 15 + s0 + rw ! 6 + s1) # rw))"

fun sha_round :: "w32 list \<Rightarrow> w32 \<times> w32 \<Rightarrow> w32 list" where
  "sha_round [a, b, c, d, e, f, g, h] (kt, wt) =
     (let t1 = h + (rotr 6 e XOR rotr 11 e XOR rotr 25 e) + ((e AND f) XOR (NOT e AND g)) + kt + wt;
          t2 = (rotr 2 a XOR rotr 13 a XOR rotr 22 a) + ((a AND b) XOR (a AND c) XOR (b AND c))
      in [t1 + t2, a, b, c, d + t1, e, f, g])"
| "sha_round st _ = st"

definition sha_block :: "w32 list \<Rightarrow> nat list \<Rightarrow> w32 list" where
  "sha_block st bs =
     (let ws = rev (sha_extend 48 (rev (map be_word (chunks 16 4 bs))))
      in map2 (+) st (foldl sha_round st (zip sha_k ws)))"

definition sha256 :: "nat list \<Rightarrow> nat list" where
  "sha256 bs = (let p = sha_pad bs in
     concat (map (\<lambda>w. be_bytes 4 (unat w)) (foldl sha_block sha_init (chunks (length p div 64) 64 p))))"

definition hex_encode :: "nat list \<Rightarrow> string" where
  "hex_encode bs = concat (map hex_byte bs)"

lemma length_be_bytes [simp]: "length (be_bytes k n) = k"
  by (induction k arbitrary: n) simp_all

lemma be_bytes_less: "b \<in> set (be_bytes k n) \<Longrightarrow> b < 256"
  by (induction k arbitrary: n) auto

lemma sha_round_length [simp]: "length (sha_round st p) = length st"
  by (induction st p rule: sha_round.induct) (simp_all add: Let_def)

lemma foldl_keeps_length:
  "(\<And>st x. length (f st x) = length st) \<Longrightarrow> length (foldl f st xs) = length st"
  by (induction xs arbitrary: st) simp_all

lemma sha_block_length [simp]: "length (sha_block st bs) = length st"
  by (simp add: sha_block_def Let_def foldl_keeps_length)

lemma length_sha256: "length (sha256 bs) = 32"
  by (simp add: sha256_def Let_def length_concat comp_def sum_list_triv foldl_keeps_length sha_init_def)

lemma sha256_bytes: "b \<in> set (sha256 bs) \<Longrightarrow> b < 256"
  by (auto simp: sha256_def Let_def dest: be_bytes_less)

lemma length_hex_encode: "length (hex_encode bs) = 2 * length bs"
  by (induction bs) (simp_all add: hex_encode_def hex_byte_def)

lemma hex_encode_digits:
  assumes "\<And>b. b \<in> set bs \<Longrightarrow> b < 256" and "c \<in> set (hex_encode bs)"
  shows "\<exists>n<16. c = hex_digit n"
proof -
  from assms(2) obtain b where b: "b \<in> set bs" "c = hex_digit (b div 16) \<or> c = hex_digit (b mod 16)"
    by (auto simp: hex_encode_def hex_byte_def)
  moreover from b assms(1) have "b div 16 < 16" by (simp add: div_less_iff_less_mult)
  ultimately show ?thesis by (metis mod_less_divisor zero_less_numeral)
qed

end
