(* ===== verification/Agent_Resolve.thy ===== *)
theory Agent_Resolve
  imports Policy_Merge Ref_Controllers Go_Hash
begin

text \<open>
  Reference resolution of an Agent, the first half of
  \<^verbatim>\<open>internal/controller/agent_controller.go\<close>: \<^verbatim>\<open>collect\<close>, \<^verbatim>\<open>resolveRefs\<close>, \<^verbatim>\<open>dedupe\<close> and
  \<^verbatim>\<open>configHash\<close>. One pass reads a single snapshot of the cluster, the manager's cache. The
  lemmas read every field of the result as a function of the snapshot; the properties say
  that the missing list is exact, that the tool surface is the direct tools and the tools of
  the ToolSets, and that the hash input determines the resolved references.
\<close>

section \<open>The code\<close>

record resolved_ref =
  rr_kind :: string
  rr_name :: string
  rr_resourceVersion :: string

record mounted_credential =
  mc_name :: string
  mc_secret :: string

record peer_ref =
  pr_tool :: string
  pr_agent :: string

record resolution =
  res_refs :: "resolved_ref list"
  res_missing :: "string list"
  res_policies :: "policy list"
  res_toolPolicies :: "tool_policy list"
  res_declared :: agent_references
  res_skillScopes :: "skill_tool_scope list"
  res_credentials :: "mounted_credential list"
  res_gitSecret :: string
  res_peers :: "peer_ref list"

definition empty_resolution :: resolution where
  "empty_resolution =
    \<lparr>res_refs = [], res_missing = [], res_policies = [], res_toolPolicies = [],
     res_declared = \<lparr>refs_model = [], refs_tools = [], refs_mcpServers = []\<rparr>,
     res_skillScopes = [], res_credentials = [], res_gitSecret = [], res_peers = []\<rparr>"

fun collect :: "client_object \<Rightarrow> resolution \<Rightarrow> resolution" where
  "collect (OPolicy p) res = res\<lparr>res_policies := res_policies res @ [p]\<rparr>"
| "collect (OToolPolicy p) res = res\<lparr>res_toolPolicies := res_toolPolicies res @ [p]\<rparr>"
| "collect (OSkill s) res =
    (if sks_allowedTools (sk_spec s) \<noteq> []
     then res\<lparr>res_skillScopes := res_skillScopes res @
            [\<lparr>scope_skill = meta_name (sk_meta s), scope_allowedTools = sks_allowedTools (sk_spec s)\<rparr>]\<rparr>
     else res)"
| "collect (OCredential c) res =
    res\<lparr>res_credentials := res_credentials res @
      [\<lparr>mc_name = meta_name (cr_meta c), mc_secret = skr_name (crs_secretRef (cr_spec c))\<rparr>]\<rparr>"
| "collect _ res = res"

record target =
  tgt_kind :: string
  tgt_name :: string
  tgt_obj :: object_kind
  tgt_git :: bool

abbreviation mkTarget :: "string \<Rightarrow> object_kind \<Rightarrow> local_reference \<Rightarrow> target" where
  "mkTarget kd ob r \<equiv> \<lparr>tgt_kind = kd, tgt_name = ref_name r, tgt_obj = ob, tgt_git = False\<rparr>"

definition optTarget :: "string \<Rightarrow> object_kind \<Rightarrow> local_reference option \<Rightarrow> target list" where
  "optTarget kd ob r = (case r of None \<Rightarrow> [] | Some x \<Rightarrow> [mkTarget kd ob x])"

definition gitTarget :: "agent_spec \<Rightarrow> target list" where
  "gitTarget spec =
    (case as_workspace spec of
       None \<Rightarrow> []
     | Some ws \<Rightarrow>
        (if ws_repository ws \<noteq> [] then
           (case ws_credentialRef ws of
              None \<Rightarrow> []
            | Some r \<Rightarrow> [\<lparr>tgt_kind = kindCredential, tgt_name = ref_name r, tgt_obj = KCredential, tgt_git = True\<rparr>])
         else []))"

definition agentTargets :: "agent_spec \<Rightarrow> agent_spec \<Rightarrow> target list" where
  "agentTargets spec eff =
    optTarget ''AgentClass'' KAgentClass (as_agentClassRef spec)
    @ optTarget kindModel KModel (as_modelRef eff)
    @ optTarget ''PromptTemplate'' KPromptTemplate (as_promptRef eff)
    @ map (mkTarget kindTool KTool) (as_toolRefs eff)
    @ map (mkTarget ''ToolSet'' KToolSet) (as_toolSetRefs eff)
    @ map (mkTarget ''Skill'' KSkill) (as_skillRefs eff)
    @ map (mkTarget ''Policy'' KPolicy) (as_policyRefs eff)
    @ map (mkTarget ''ToolPolicy'' KToolPolicy) (as_toolPolicyRefs eff)
    @ map (mkTarget kindCredential KCredential) (as_credentialRefs spec)
    @ gitTarget spec"

definition agentClassOf :: "reader \<Rightarrow> agent \<Rightarrow> agent_class option" where
  "agentClassOf rd a =
    (case as_agentClassRef (ag_spec a) of
       None \<Rightarrow> None
     | Some r \<Rightarrow> got_option (getAgentClass rd (NamespacedName (ag_namespace a) (ref_name r))))"

fun gitSecretOf :: "client_object \<Rightarrow> string" where
  "gitSecretOf (OCredential c) = skr_name (crs_secretRef (cr_spec c))"
| "gitSecretOf _ = []"

definition recordTarget :: "target \<Rightarrow> client_object \<Rightarrow> resolution \<Rightarrow> resolution" where
  "recordTarget t obj res =
    (let res1 = res\<lparr>res_refs := res_refs res @
           [\<lparr>rr_kind = tgt_kind t, rr_name = tgt_name t,
             rr_resourceVersion = meta_resourceVersion (object_meta_of obj)\<rparr>]\<rparr>
     in if tgt_git t then res1\<lparr>res_gitSecret := gitSecretOf obj\<rparr> else collect obj res1)"

fun resolveLoop :: "reader \<Rightarrow> string \<Rightarrow> target list \<Rightarrow> resolution \<Rightarrow> string + resolution" where
  "resolveLoop rd ns [] res = Inr res"
| "resolveLoop rd ns (t # ts) res =
    (case getObject rd (tgt_obj t) (NamespacedName ns (tgt_name t)) of
       Found obj \<Rightarrow> resolveLoop rd ns ts (recordTarget t obj res)
     | NotFound \<Rightarrow>
         resolveLoop rd ns ts
           (res\<lparr>res_missing := res_missing res @ [tgt_kind t @ ''/'' @ tgt_name t]\<rparr>)
     | Failed e \<Rightarrow> Inl e)"

definition dedupe :: "string list \<Rightarrow> string list" where
  "dedupe names = keep_first {} names"

definition toolNames :: "reader \<Rightarrow> string \<Rightarrow> agent_spec \<Rightarrow> string list" where
  "toolNames rd ns eff =
    map ref_name (as_toolRefs eff)
    @ concat (map (\<lambda>r. case getToolSet rd (NamespacedName ns (ref_name r)) of
                         Found ts \<Rightarrow> map ref_name (tss_toolRefs (ts_spec ts))
                       | _ \<Rightarrow> []) (as_toolSetRefs eff))"

definition mcpNamesOf :: "reader \<Rightarrow> string \<Rightarrow> string \<Rightarrow> string list" where
  "mcpNamesOf rd ns name =
    (case getTool rd (NamespacedName ns name) of
       Found t \<Rightarrow> (case tos_mcpServerRef (to_spec t) of None \<Rightarrow> [] | Some r \<Rightarrow> [ref_name r])
     | _ \<Rightarrow> [])"

definition peersOf :: "reader \<Rightarrow> string \<Rightarrow> string \<Rightarrow> peer_ref list" where
  "peersOf rd ns name =
    (case getTool rd (NamespacedName ns name) of
       Found t \<Rightarrow> (case tos_agentRef (to_spec t) of
                     None \<Rightarrow> [] | Some r \<Rightarrow> [\<lparr>pr_tool = name, pr_agent = ref_name r\<rparr>])
     | _ \<Rightarrow> [])"

definition modelMissing :: string where
  "modelMissing = ''Model (set spec.modelRef or an AgentClass defaultModelRef)''"

definition resolveRefs :: "reader \<Rightarrow> agent \<Rightarrow> string + resolution" where
  "resolveRefs rd a =
    (let ns = ag_namespace a;
         eff = ApplyClassDefaults (ag_spec a) (agentClassOf rd a);
         targets = agentTargets (ag_spec a) eff;
         res0 = empty_resolution
           \<lparr>res_declared := (case as_modelRef eff of
                               None \<Rightarrow> res_declared empty_resolution
                             | Some r \<Rightarrow> (res_declared empty_resolution)\<lparr>refs_model := ref_name r\<rparr>),
            res_missing := (if as_modelRef eff = None then [modelMissing] else [])\<rparr>
     in case resolveLoop rd ns targets res0 of
          Inl e \<Rightarrow> Inl e
        | Inr res \<Rightarrow>
           (let tools = dedupe (toolNames rd ns eff) in
            Inr (res\<lparr>res_declared := (res_declared res)
                       \<lparr>refs_tools := tools,
                        refs_mcpServers := dedupe (concat (map (mcpNamesOf rd ns) tools))\<rparr>,
                     res_peers := concat (map (peersOf rd ns) tools)\<rparr>)))"

definition json_field :: "string \<Rightarrow> string \<Rightarrow> string" where
  "json_field n v = json_string n @ '':'' @ json_string v"

definition json_ref :: "resolved_ref \<Rightarrow> string" where
  "json_ref r = ''{'' @ json_field ''kind'' (rr_kind r) @ '','' @ json_field ''name'' (rr_name r) @ '',''
                @ json_field ''resourceVersion'' (rr_resourceVersion r) @ ''}''"

text \<open>\<^verbatim>\<open>json.Marshal\<close> of the slice; an empty one is \<^verbatim>\<open>nil\<close> here and prints \<^verbatim>\<open>null\<close>.\<close>

definition json_refs :: "resolved_ref list \<Rightarrow> string" where
  "json_refs rs = (if rs = [] then ''null'' else ''['' @ join_sep '','' (map json_ref rs) @ '']'')"

definition configHash :: "resolved_ref list \<Rightarrow> string" where
  "configHash rs = hex_encode (sha256 (map of_char (json_refs rs)))"

section \<open>What the loop gathers\<close>

text \<open>The object behind a target, and whether reading it failed.\<close>

definition tgt_get :: "reader \<Rightarrow> string \<Rightarrow> target \<Rightarrow> client_object got" where
  "tgt_get rd ns t = getObject rd (tgt_obj t) (NamespacedName ns (tgt_name t))"

definition tgt_label :: "target \<Rightarrow> string" where
  "tgt_label t = tgt_kind t @ ''/'' @ tgt_name t"

lemma resolveLoop_missing:
  "resolveLoop rd ns ts res = Inr res' \<Longrightarrow>
     res_missing res' = res_missing res @ map tgt_label (filter (\<lambda>t. tgt_get rd ns t = NotFound) ts)"
proof (induction ts arbitrary: res)
  case (Cons t ts)
  have "res_missing (recordTarget t obj r) = res_missing r" for obj r
    by (cases obj) (simp_all add: recordTarget_def Let_def)
  with Cons show ?case by (auto simp: tgt_get_def tgt_label_def split: got.splits)
qed simp

lemma resolveLoop_Inl_iff:
  "(\<exists>e. resolveLoop rd ns ts res = Inl e) \<longleftrightarrow> (\<exists>t\<in>set ts. \<exists>e. tgt_get rd ns t = Failed e)"
  by (induction ts arbitrary: res) (auto simp: tgt_get_def split: got.splits)

text \<open>
  A field of the result that grows by what each found object contributes and that nothing
  else in the loop touches.
\<close>

locale gathered =
  fixes proj :: "resolution \<Rightarrow> 'a list" and contrib :: "target \<Rightarrow> client_object \<Rightarrow> 'a list"
  assumes proj_record: "proj (recordTarget t obj res) = proj res @ contrib t obj"
    and proj_missing: "proj (res\<lparr>res_missing := m\<rparr>) = proj res"
begin

definition contribution :: "reader \<Rightarrow> string \<Rightarrow> target \<Rightarrow> 'a list" where
  "contribution rd ns t = (case tgt_get rd ns t of Found obj \<Rightarrow> contrib t obj | _ \<Rightarrow> [])"

lemma proj_loop:
  "resolveLoop rd ns ts res = Inr res' \<Longrightarrow> proj res' = proj res @ concat (map (contribution rd ns) ts)"
  by (induction ts arbitrary: res)
     (auto simp: contribution_def tgt_get_def proj_record proj_missing split: got.splits)

end

fun policy_contrib :: "target \<Rightarrow> client_object \<Rightarrow> policy list" where
  "policy_contrib t (OPolicy p) = (if tgt_git t then [] else [p])"
| "policy_contrib t _ = []"

fun tool_policy_contrib :: "target \<Rightarrow> client_object \<Rightarrow> tool_policy list" where
  "tool_policy_contrib t (OToolPolicy p) = (if tgt_git t then [] else [p])"
| "tool_policy_contrib t _ = []"

fun scope_contrib :: "target \<Rightarrow> client_object \<Rightarrow> skill_tool_scope list" where
  "scope_contrib t (OSkill s) =
    (if tgt_git t \<or> sks_allowedTools (sk_spec s) = [] then []
     else [\<lparr>scope_skill = meta_name (sk_meta s), scope_allowedTools = sks_allowedTools (sk_spec s)\<rparr>])"
| "scope_contrib t _ = []"

fun credential_contrib :: "target \<Rightarrow> client_object \<Rightarrow> mounted_credential list" where
  "credential_contrib t (OCredential c) =
    (if tgt_git t then []
     else [\<lparr>mc_name = meta_name (cr_meta c), mc_secret = skr_name (crs_secretRef (cr_spec c))\<rparr>])"
| "credential_contrib t _ = []"

definition ref_contrib :: "target \<Rightarrow> client_object \<Rightarrow> resolved_ref list" where
  "ref_contrib t obj =
    [\<lparr>rr_kind = tgt_kind t, rr_name = tgt_name t, rr_resourceVersion = meta_resourceVersion (object_meta_of obj)\<rparr>]"

interpretation gp: gathered res_policies policy_contrib
  by (unfold_locales, case_tac [1] obj) (simp_all add: recordTarget_def Let_def)

interpretation gt: gathered res_toolPolicies tool_policy_contrib
  by (unfold_locales, case_tac [1] obj) (simp_all add: recordTarget_def Let_def)

interpretation gs: gathered res_skillScopes scope_contrib
  by (unfold_locales, case_tac [1] obj) (simp_all add: recordTarget_def Let_def)

interpretation gc: gathered res_credentials credential_contrib
  by (unfold_locales, case_tac [1] obj) (simp_all add: recordTarget_def Let_def)

interpretation gr: gathered res_refs ref_contrib
  by (unfold_locales, case_tac [1] obj) (simp_all add: recordTarget_def Let_def ref_contrib_def)

lemma resolveLoop_frame:
  "resolveLoop rd ns ts res = Inr res' \<Longrightarrow> res_declared res' = res_declared res \<and> res_peers res' = res_peers res"
proof (induction ts arbitrary: res)
  case (Cons t ts)
  have "res_declared (recordTarget t obj r) = res_declared r \<and> res_peers (recordTarget t obj r) = res_peers r" for obj r
    by (cases obj) (simp_all add: recordTarget_def Let_def)
  with Cons show ?case by (auto split: got.splits)
qed simp

section \<open>The gathered objects as a function of the snapshot\<close>

lemma case_map_got [simp]:
  "(case map_got f g of Found obj \<Rightarrow> h obj | NotFound \<Rightarrow> c | Failed e \<Rightarrow> d e) =
   (case g of Found x \<Rightarrow> h (f x) | NotFound \<Rightarrow> c | Failed e \<Rightarrow> d e)"
  by (cases g) simp_all

lemma case_got_const [simp]: "(case g of Found x \<Rightarrow> c | NotFound \<Rightarrow> c | Failed e \<Rightarrow> c) = c"
  by (cases g) simp_all

text \<open>The objects a list of references finds, in order.\<close>

definition found_all :: "(namespaced_name \<Rightarrow> 'a got) \<Rightarrow> string \<Rightarrow> local_reference list \<Rightarrow> 'a list" where
  "found_all get ns refs =
     concat (map (\<lambda>r. case get (NamespacedName ns (ref_name r)) of Found x \<Rightarrow> [x] | _ \<Rightarrow> []) refs)"

definition mounted :: "credential \<Rightarrow> mounted_credential" where
  "mounted c = \<lparr>mc_name = meta_name (cr_meta c), mc_secret = skr_name (crs_secretRef (cr_spec c))\<rparr>"

definition scope_of :: "skill \<Rightarrow> skill_tool_scope" where
  "scope_of s = \<lparr>scope_skill = meta_name (sk_meta s), scope_allowedTools = sks_allowedTools (sk_spec s)\<rparr>"

lemma found_all_simps [simp]:
  "found_all get ns [] = []"
  "found_all get ns (r # rs) =
     (case get (NamespacedName ns (ref_name r)) of Found x \<Rightarrow> [x] | _ \<Rightarrow> []) @ found_all get ns rs"
  by (simp_all add: found_all_def)

lemma set_found_all: "x \<in> set (found_all get ns refs) \<longleftrightarrow> (\<exists>r\<in>set refs. get (NamespacedName ns (ref_name r)) = Found x)"
  by (induction refs) (auto split: got.split)

lemma concat_map_Nil [simp]: "concat (map (\<lambda>x. []) xs) = []"
  by (induction xs) simp_all

lemma contribution_other [simp]:
  "tgt_obj t \<noteq> KPolicy \<Longrightarrow> gp.contribution rd ns t = []"
  "tgt_obj t \<noteq> KToolPolicy \<Longrightarrow> gt.contribution rd ns t = []"
  "tgt_obj t \<noteq> KSkill \<Longrightarrow> gs.contribution rd ns t = []"
  "tgt_obj t \<noteq> KCredential \<or> tgt_git t \<Longrightarrow> gc.contribution rd ns t = []"
  by (cases "tgt_obj t";
      auto simp: gp.contribution_def gt.contribution_def gs.contribution_def gc.contribution_def tgt_get_def
        split: got.split)+

lemma contribution_own [simp]:
  "gp.contribution rd ns (mkTarget kd KPolicy r) =
     (case getPolicy rd (NamespacedName ns (ref_name r)) of Found x \<Rightarrow> [x] | _ \<Rightarrow> [])"
  "gt.contribution rd ns (mkTarget kd KToolPolicy r) =
     (case getToolPolicy rd (NamespacedName ns (ref_name r)) of Found x \<Rightarrow> [x] | _ \<Rightarrow> [])"
  "gs.contribution rd ns (mkTarget kd KSkill r) =
     map scope_of (filter (\<lambda>s. sks_allowedTools (sk_spec s) \<noteq> [])
       (case getSkill rd (NamespacedName ns (ref_name r)) of Found x \<Rightarrow> [x] | _ \<Rightarrow> []))"
  "gc.contribution rd ns (mkTarget kd KCredential r) =
     map mounted (case getCredential rd (NamespacedName ns (ref_name r)) of Found x \<Rightarrow> [x] | _ \<Rightarrow> [])"
  by (auto simp: gp.contribution_def gt.contribution_def gs.contribution_def gc.contribution_def tgt_get_def
      scope_of_def mounted_def split: got.split)

lemma set_optTarget: "t \<in> set (optTarget kd ob r) \<longleftrightarrow> (\<exists>x. r = Some x \<and> t = mkTarget kd ob x)"
  by (cases r) (auto simp: optTarget_def)

lemma set_gitTarget: "t \<in> set (gitTarget spec) \<Longrightarrow> tgt_git t \<and> tgt_obj t = KCredential"
proof (cases "as_workspace spec")
  case (Some ws)
  moreover assume "t \<in> set (gitTarget spec)"
  ultimately show ?thesis by (cases "ws_credentialRef ws"; cases "ws_repository ws = []") (simp_all add: gitTarget_def)
qed (simp add: gitTarget_def)

lemma concat_map_empty: "(\<And>x. x \<in> set xs \<Longrightarrow> f x = []) \<Longrightarrow> concat (map f xs) = []"
  by (induction xs) simp_all

lemma contribution_opt [simp]:
  "ob \<noteq> KPolicy \<Longrightarrow> concat (map (gp.contribution rd ns) (optTarget kd ob r)) = []"
  "ob \<noteq> KToolPolicy \<Longrightarrow> concat (map (gt.contribution rd ns) (optTarget kd ob r)) = []"
  "ob \<noteq> KSkill \<Longrightarrow> concat (map (gs.contribution rd ns) (optTarget kd ob r)) = []"
  "ob \<noteq> KCredential \<Longrightarrow> concat (map (gc.contribution rd ns) (optTarget kd ob r)) = []"
  "concat (map (gp.contribution rd ns) (gitTarget spec)) = []"
  "concat (map (gt.contribution rd ns) (gitTarget spec)) = []"
  "concat (map (gs.contribution rd ns) (gitTarget spec)) = []"
  "concat (map (gc.contribution rd ns) (gitTarget spec)) = []"
  by (rule concat_map_empty, auto simp: set_optTarget dest: set_gitTarget)+

lemma policies_gathered:
  "concat (map (gp.contribution rd ns) (agentTargets spec eff)) = found_all (getPolicy rd) ns (as_policyRefs eff)"
  by (simp add: agentTargets_def comp_def found_all_def)

lemma tool_policies_gathered:
  "concat (map (gt.contribution rd ns) (agentTargets spec eff)) = found_all (getToolPolicy rd) ns (as_toolPolicyRefs eff)"
  by (simp add: agentTargets_def comp_def found_all_def)

lemma scopes_gathered:
  "concat (map (gs.contribution rd ns) (agentTargets spec eff)) =
     map scope_of (filter (\<lambda>s. sks_allowedTools (sk_spec s) \<noteq> []) (found_all (getSkill rd) ns (as_skillRefs eff)))"
  by (simp add: agentTargets_def comp_def found_all_def filter_concat map_concat comp_def)

lemma credentials_gathered:
  "concat (map (gc.contribution rd ns) (agentTargets spec eff)) =
     map mounted (found_all (getCredential rd) ns (as_credentialRefs spec))"
  by (simp add: agentTargets_def comp_def found_all_def map_concat comp_def)

lemma resolveLoop_append:
  "resolveLoop rd ns (ts @ us) res = Inr r \<longleftrightarrow>
     (\<exists>r1. resolveLoop rd ns ts res = Inr r1 \<and> resolveLoop rd ns us r1 = Inr r)"
  by (induction ts arbitrary: res) (auto split: got.split)

lemma recordTarget_gitSecret: "\<not> tgt_git t \<Longrightarrow> res_gitSecret (recordTarget t obj r) = res_gitSecret r"
  by (cases obj) (simp_all add: recordTarget_def Let_def)

lemma resolveLoop_no_git:
  "resolveLoop rd ns ts res = Inr r \<Longrightarrow> \<forall>t\<in>set ts. \<not> tgt_git t \<Longrightarrow> res_gitSecret r = res_gitSecret res"
  by (induction ts arbitrary: res) (auto simp: recordTarget_gitSecret split: got.splits)

text \<open>The Secret of the workspace credential, when the Agent clones with one and it exists.\<close>

definition git_secret :: "reader \<Rightarrow> string \<Rightarrow> agent_spec \<Rightarrow> string" where
  "git_secret rd ns spec =
    (case as_workspace spec of
       None \<Rightarrow> []
     | Some ws \<Rightarrow>
        (if ws_repository ws = [] then []
         else (case ws_credentialRef ws of
                 None \<Rightarrow> []
               | Some r \<Rightarrow> (case getCredential rd (NamespacedName ns (ref_name r)) of
                             Found c \<Rightarrow> skr_name (crs_secretRef (cr_spec c))
                           | _ \<Rightarrow> []))))"

lemma resolveLoop_gitTarget:
  assumes "resolveLoop rd ns (gitTarget spec) res = Inr r" and "res_gitSecret res = []"
  shows "res_gitSecret r = git_secret rd ns spec"
proof (cases "as_workspace spec")
  case (Some ws)
  then show ?thesis
    using assms
    by (cases "ws_credentialRef ws"; cases "ws_repository ws = []";
        cases "getCredential rd (NamespacedName ns (ref_name (the (ws_credentialRef ws))))")
       (auto simp: gitTarget_def git_secret_def recordTarget_def Let_def)
qed (use assms in \<open>auto simp: gitTarget_def git_secret_def\<close>)

definition agent_eff :: "reader \<Rightarrow> agent \<Rightarrow> agent_spec" where
  "agent_eff rd a = ApplyClassDefaults (ag_spec a) (agentClassOf rd a)"

definition agent_tgts :: "reader \<Rightarrow> agent \<Rightarrow> target list" where
  "agent_tgts rd a = agentTargets (ag_spec a) (agent_eff rd a)"

definition res_start :: "agent_spec \<Rightarrow> resolution" where
  "res_start eff = empty_resolution
     \<lparr>res_declared := (case as_modelRef eff of
                         None \<Rightarrow> res_declared empty_resolution
                       | Some r \<Rightarrow> (res_declared empty_resolution)\<lparr>refs_model := ref_name r\<rparr>),
      res_missing := (if as_modelRef eff = None then [modelMissing] else [])\<rparr>"

lemma res_start_fields [simp]:
  "res_policies (res_start eff) = []" "res_toolPolicies (res_start eff) = []"
  "res_skillScopes (res_start eff) = []" "res_credentials (res_start eff) = []"
  "res_gitSecret (res_start eff) = []" "res_refs (res_start eff) = []"
  "res_missing (res_start eff) = (if as_modelRef eff = None then [modelMissing] else [])"
  "refs_model (res_declared (res_start eff)) = (case as_modelRef eff of None \<Rightarrow> [] | Some r \<Rightarrow> ref_name r)"
  by (auto simp: res_start_def empty_resolution_def split: option.split)

lemma resolveRefs_Inr:
  "resolveRefs rd a = Inr res \<longleftrightarrow>
    (\<exists>r. resolveLoop rd (ag_namespace a) (agent_tgts rd a) (res_start (agent_eff rd a)) = Inr r \<and>
         res = r\<lparr>res_declared := (res_declared r)
                   \<lparr>refs_tools := dedupe (toolNames rd (ag_namespace a) (agent_eff rd a)),
                    refs_mcpServers := dedupe (concat (map (mcpNamesOf rd (ag_namespace a))
                      (dedupe (toolNames rd (ag_namespace a) (agent_eff rd a)))))\<rparr>,
                 res_peers := concat (map (peersOf rd (ag_namespace a))
                      (dedupe (toolNames rd (ag_namespace a) (agent_eff rd a))))\<rparr>)"
  by (auto simp: resolveRefs_def Let_def agent_tgts_def agent_eff_def res_start_def split: sum.split)

lemma resolveRefs_Inl:
  "(\<exists>e. resolveRefs rd a = Inl e) \<longleftrightarrow>
     (\<exists>t\<in>set (agent_tgts rd a). \<exists>e. tgt_get rd (ag_namespace a) t = Failed e)"
  unfolding resolveLoop_Inl_iff [where res = "res_start (agent_eff rd a)", symmetric]
  by (auto simp: resolveRefs_def Let_def agent_tgts_def agent_eff_def res_start_def split: sum.split)

lemma non_git_targets:
  "\<exists>pre. agentTargets spec eff = pre @ gitTarget spec \<and> (\<forall>t\<in>set pre. \<not> tgt_git t)"
  unfolding agentTargets_def
  by (intro exI conjI, simp only: append_assoc [symmetric]) (auto simp: set_optTarget)

lemma resolveRefs_fields:
  assumes "resolveRefs rd a = Inr res"
  shows "res_policies res = found_all (getPolicy rd) (ag_namespace a) (as_policyRefs (agent_eff rd a))"
    and "res_toolPolicies res = found_all (getToolPolicy rd) (ag_namespace a) (as_toolPolicyRefs (agent_eff rd a))"
    and "res_skillScopes res = map scope_of (filter (\<lambda>s. sks_allowedTools (sk_spec s) \<noteq> [])
           (found_all (getSkill rd) (ag_namespace a) (as_skillRefs (agent_eff rd a))))"
    and "res_credentials res = map mounted (found_all (getCredential rd) (ag_namespace a) (as_credentialRefs (ag_spec a)))"
    and "res_gitSecret res = git_secret rd (ag_namespace a) (ag_spec a)"
    and "res_missing res = (if as_modelRef (agent_eff rd a) = None then [modelMissing] else [])
           @ map tgt_label (filter (\<lambda>t. tgt_get rd (ag_namespace a) t = NotFound) (agent_tgts rd a))"
proof -
  from assms obtain r where
    loop: "resolveLoop rd (ag_namespace a) (agent_tgts rd a) (res_start (agent_eff rd a)) = Inr r"
    and eqs: "res_policies res = res_policies r" "res_toolPolicies res = res_toolPolicies r"
      "res_skillScopes res = res_skillScopes r" "res_credentials res = res_credentials r"
      "res_gitSecret res = res_gitSecret r" "res_missing res = res_missing r"
    unfolding resolveRefs_Inr by auto
  show "res_policies res = found_all (getPolicy rd) (ag_namespace a) (as_policyRefs (agent_eff rd a))"
    using gp.proj_loop [OF loop] by (simp add: eqs agent_tgts_def policies_gathered)
  show "res_toolPolicies res = found_all (getToolPolicy rd) (ag_namespace a) (as_toolPolicyRefs (agent_eff rd a))"
    using gt.proj_loop [OF loop] by (simp add: eqs agent_tgts_def tool_policies_gathered)
  show "res_skillScopes res = map scope_of (filter (\<lambda>s. sks_allowedTools (sk_spec s) \<noteq> [])
           (found_all (getSkill rd) (ag_namespace a) (as_skillRefs (agent_eff rd a))))"
    using gs.proj_loop [OF loop] by (simp add: eqs agent_tgts_def scopes_gathered)
  show "res_credentials res = map mounted (found_all (getCredential rd) (ag_namespace a) (as_credentialRefs (ag_spec a)))"
    using gc.proj_loop [OF loop] by (simp add: eqs agent_tgts_def credentials_gathered)
  show "res_missing res = (if as_modelRef (agent_eff rd a) = None then [modelMissing] else [])
           @ map tgt_label (filter (\<lambda>t. tgt_get rd (ag_namespace a) t = NotFound) (agent_tgts rd a))"
    using resolveLoop_missing [OF loop] by (simp add: eqs)
  obtain pre where pre: "agent_tgts rd a = pre @ gitTarget (ag_spec a)" "\<forall>t\<in>set pre. \<not> tgt_git t"
    using non_git_targets unfolding agent_tgts_def by blast
  from loop obtain r1 where "resolveLoop rd (ag_namespace a) pre (res_start (agent_eff rd a)) = Inr r1"
    and "resolveLoop rd (ag_namespace a) (gitTarget (ag_spec a)) r1 = Inr r"
    unfolding pre(1) resolveLoop_append by blast
  then show "res_gitSecret res = git_secret rd (ag_namespace a) (ag_spec a)"
    using resolveLoop_no_git [OF _ pre(2)] resolveLoop_gitTarget by (simp add: eqs)
qed

lemma resolveRefs_declared:
  assumes "resolveRefs rd a = Inr res"
  shows "refs_model (res_declared res) = (case as_modelRef (agent_eff rd a) of None \<Rightarrow> [] | Some r \<Rightarrow> ref_name r)"
    and "refs_tools (res_declared res) = dedupe (toolNames rd (ag_namespace a) (agent_eff rd a))"
    and "refs_mcpServers (res_declared res) =
           dedupe (concat (map (mcpNamesOf rd (ag_namespace a)) (refs_tools (res_declared res))))"
    and "res_peers res = concat (map (peersOf rd (ag_namespace a)) (refs_tools (res_declared res)))"
  using assms resolveLoop_frame by (force simp: resolveRefs_Inr)+

lemma set_dedupe [simp]: "set (dedupe xs) = set xs"
  by (simp add: dedupe_def)

lemma distinct_dedupe [simp]: "distinct (dedupe xs)"
  by (simp add: dedupe_def)

text \<open>The tools an Agent reaches, read off the snapshot.\<close>

definition reaches_tool :: "reader \<Rightarrow> agent \<Rightarrow> string \<Rightarrow> bool" where
  "reaches_tool rd a n \<longleftrightarrow>
     n \<in> ref_name ` set (as_toolRefs (agent_eff rd a)) \<or>
     (\<exists>r\<in>set (as_toolSetRefs (ag_spec a)). \<exists>ts.
        getToolSet rd (NamespacedName (ag_namespace a) (ref_name r)) = Found ts \<and>
        n \<in> ref_name ` set (tss_toolRefs (ts_spec ts)))"

lemma set_toolNames:
  "set (toolNames rd (ag_namespace a) (agent_eff rd a)) = {n. reaches_tool rd a n}"
  by (auto simp: toolNames_def reaches_tool_def agent_eff_def split: got.splits) (metis got.exhaust imageI)

lemma set_mcpNamesOf:
  "m \<in> set (mcpNamesOf rd ns n) \<longleftrightarrow>
     (\<exists>t. getTool rd (NamespacedName ns n) = Found t \<and> map_option ref_name (tos_mcpServerRef (to_spec t)) = Some m)"
proof (cases "getTool rd (NamespacedName ns n)")
  case (Found t)
  then show ?thesis by (cases "tos_mcpServerRef (to_spec t)") (auto simp: mcpNamesOf_def)
qed (simp_all add: mcpNamesOf_def)

lemma set_peersOf:
  "p \<in> set (peersOf rd ns n) \<longleftrightarrow> pr_tool p = n \<and>
     (\<exists>t. getTool rd (NamespacedName ns n) = Found t \<and> map_option ref_name (tos_agentRef (to_spec t)) = Some (pr_agent p))"
proof (cases "getTool rd (NamespacedName ns n)")
  case (Found t)
  then show ?thesis by (cases "tos_agentRef (to_spec t)"; cases p) (auto simp: peersOf_def)
qed (simp_all add: peersOf_def)

text \<open>Everything the Agent points at exists, and it has a model.\<close>

definition references_exist :: "reader \<Rightarrow> agent \<Rightarrow> bool" where
  "references_exist rd a \<longleftrightarrow>
    (let key = (\<lambda>r. NamespacedName (ag_namespace a) (ref_name r)); spec = ag_spec a; eff = agent_eff rd a in
     (\<forall>r. as_agentClassRef spec = Some r \<longrightarrow> is_found (getAgentClass rd (key r))) \<and>
     (\<exists>r. as_modelRef eff = Some r \<and> is_found (getModel rd (key r))) \<and>
     (\<forall>r. as_promptRef eff = Some r \<longrightarrow> is_found (getPromptTemplate rd (key r))) \<and>
     (\<forall>r\<in>set (as_toolRefs eff). is_found (getTool rd (key r))) \<and>
     (\<forall>r\<in>set (as_toolSetRefs spec). is_found (getToolSet rd (key r))) \<and>
     (\<forall>r\<in>set (as_skillRefs eff). is_found (getSkill rd (key r))) \<and>
     (\<forall>r\<in>set (as_policyRefs eff). is_found (getPolicy rd (key r))) \<and>
     (\<forall>r\<in>set (as_toolPolicyRefs eff). is_found (getToolPolicy rd (key r))) \<and>
     (\<forall>r\<in>set (as_credentialRefs spec). is_found (getCredential rd (key r))) \<and>
     (\<forall>ws r. as_workspace spec = Some ws \<longrightarrow> ws_repository ws \<noteq> [] \<longrightarrow> ws_credentialRef ws = Some r \<longrightarrow>
        is_found (getCredential rd (key r))))"

text \<open>No reference lookup of the pass fails with an error other than NotFound.\<close>

definition references_readable :: "reader \<Rightarrow> agent \<Rightarrow> bool" where
  "references_readable rd a \<longleftrightarrow> (\<forall>t\<in>set (agent_tgts rd a). \<forall>e. tgt_get rd (ag_namespace a) t \<noteq> Failed e)"

lemma resolveRefs_total: "(\<exists>res. resolveRefs rd a = Inr res) \<longleftrightarrow> references_readable rd a"
  using resolveRefs_Inl [of rd a] by (cases "resolveRefs rd a") (simp_all add: references_readable_def)

lemma is_found_tgt_get: "is_found (tgt_get rd ns t) \<longleftrightarrow> is_found (getObject rd (tgt_obj t) (NamespacedName ns (tgt_name t)))"
  by (simp add: tgt_get_def)

lemma ball_gitTarget:
  "(\<forall>t\<in>set (gitTarget spec). is_found (tgt_get rd ns t)) \<longleftrightarrow>
     (\<forall>ws r. as_workspace spec = Some ws \<longrightarrow> ws_repository ws \<noteq> [] \<longrightarrow> ws_credentialRef ws = Some r \<longrightarrow>
        is_found (getCredential rd (NamespacedName ns (ref_name r))))"
proof (cases "as_workspace spec")
  case (Some ws)
  then show ?thesis by (cases "ws_credentialRef ws"; cases "ws_repository ws = []") (simp_all add: gitTarget_def tgt_get_def)
qed (simp add: gitTarget_def)

lemma references_exist_iff:
  "references_exist rd a \<longleftrightarrow>
     as_modelRef (agent_eff rd a) \<noteq> None \<and>
     (\<forall>t\<in>set (agent_tgts rd a). is_found (tgt_get rd (ag_namespace a) t))"
proof -
  have opt: "(\<forall>t\<in>set (optTarget kd ob r). P t) \<longleftrightarrow> (\<forall>x. r = Some x \<longrightarrow> P (mkTarget kd ob x))" for kd ob r P
    by (auto simp: set_optTarget)
  have ts: "as_toolSetRefs (agent_eff rd a) = as_toolSetRefs (ag_spec a)"
    by (simp add: agent_eff_def)
  show ?thesis
    unfolding references_exist_def agent_tgts_def agentTargets_def set_append ball_Un opt ball_gitTarget
      set_map ball_simps Let_def ts
    by (auto simp: is_found_tgt_get)
qed

lemma resolveRefs_missing_Nil:
  assumes "resolveRefs rd a = Inr res"
  shows "res_missing res = [] \<longleftrightarrow> references_exist rd a"
proof -
  have "is_found g \<longleftrightarrow> g \<noteq> NotFound" if "\<forall>e. g \<noteq> Failed e" for g :: "client_object got"
    using that by (cases g) auto
  moreover have "references_readable rd a" using assms resolveRefs_total by blast
  ultimately show ?thesis
    unfolding references_exist_iff resolveRefs_fields(6) [OF assms]
    by (auto simp: filter_empty_conv references_readable_def)
qed

section \<open>Injectivity of the hash input\<close>

lemma json_field_cancel: "json_field n v @ x = json_field n w @ y \<longleftrightarrow> v = w \<and> x = y"
  by (simp add: json_field_def)

lemma json_ref_cancel: "json_ref r @ x = json_ref q @ y \<longleftrightarrow> r = q \<and> x = y"
  by (cases r; cases q) (auto simp: json_ref_def json_field_cancel)

lemma json_ref_inject: "json_ref r = json_ref q \<longleftrightarrow> r = q"
  using json_ref_cancel [of r "[]" q "[]"] by simp

lemma json_ref_not_bracket: "json_ref r @ x \<noteq> CHR '']'' # y" "CHR '']'' # y \<noteq> json_ref r @ x" "json_ref r \<noteq> []"
  by (simp_all add: json_ref_def)

lemmas json_ref_rules = json_ref_cancel json_ref_inject json_ref_not_bracket

lemma join_json_inject:
  "join_sep '','' (map json_ref rs) @ '']'' = join_sep '','' (map json_ref qs) @ '']'' \<Longrightarrow> rs = qs"
proof (induction rs arbitrary: qs rule: induct_list012)
  case 1
  then show ?case
    by (cases qs rule: remdups_adj.cases) (auto simp: json_ref_rules)
next
  case (2 r)
  then show ?case
    by (cases qs rule: remdups_adj.cases) (auto simp: json_ref_rules)
next
  case (3 r r' rs)
  show ?case
  proof (cases qs rule: remdups_adj.cases)
    case (3 q q' qs')
    with "3.prems" "3.IH"(2) [of "q' # qs'"] show ?thesis by (auto simp: json_ref_rules)
  qed (use "3.prems" in \<open>auto simp: json_ref_rules\<close>)
qed

lemma json_refs_inject: "json_refs rs = json_refs qs \<longleftrightarrow> rs = qs"
  using join_json_inject [of rs qs] by (auto simp: json_refs_def)

section \<open>Sample cluster\<close>

lemma sample_agent_eff: "agent_eff sample_reader sample_agent = sample_agent_spec"
  by (simp add: agent_eff_def agentClassOf_def sample_agent_def sample_agent_spec_def)

lemma sample_agent_tgts:
  "agent_tgts sample_reader sample_agent =
     [mkTarget kindModel KModel (LocalReference ''gpt''), mkTarget kindTool KTool (LocalReference ''search'')]"
  unfolding agent_tgts_def sample_agent_eff
  by (simp add: agentTargets_def optTarget_def gitTarget_def sample_agent_def sample_agent_spec_def)

lemma sample_agent_ns: "ag_namespace sample_agent = ''default''" "ag_name sample_agent = ''bot''"
  by (simp_all add: sample_agent_def sample_meta_def)

lemma sample_tgt_get:
  "tgt_get sample_reader ''default'' \<lparr>tgt_kind = kindModel, tgt_name = ''gpt'', tgt_obj = KModel, tgt_git = False\<rparr> = Found (OModel (sample_model ''gpt''))"
  "tgt_get sample_reader ''default'' \<lparr>tgt_kind = kindTool, tgt_name = ''search'', tgt_obj = KTool, tgt_git = False\<rparr> = Found (OTool (sample_tool ''search''))"
  by (simp_all add: tgt_get_def sample_reader_def)

lemma sample_readable: "references_readable sample_reader sample_agent"
  by (simp add: references_readable_def sample_agent_tgts sample_agent_ns sample_tgt_get)

lemma sample_exists: "references_exist sample_reader sample_agent"
  unfolding references_exist_iff
  by (simp add: sample_agent_tgts sample_agent_ns sample_tgt_get sample_agent_eff sample_agent_spec_def)

section \<open>Properties\<close>


text \<open>
  C25. The policed surface is the real one: the declared tools are listed once each and are
  exactly the direct tools (own or class default) and the members of the existing ToolSets;
  the declared MCP servers are, once each, exactly those an existing declared tool names; and
  the peer edges are exactly the Agents the declared tools name.
\<close>

theorem resolveRefs_surface:
  assumes "resolveRefs rd a = Inr res"
  shows "distinct (refs_tools (res_declared res)) \<and>
         set (refs_tools (res_declared res)) = {n. reaches_tool rd a n} \<and>
         distinct (refs_mcpServers (res_declared res)) \<and>
         set (refs_mcpServers (res_declared res)) =
           {m. \<exists>n t. reaches_tool rd a n \<and> getTool rd (NamespacedName (ag_namespace a) n) = Found t \<and>
                     map_option ref_name (tos_mcpServerRef (to_spec t)) = Some m} \<and>
         set (res_peers res) =
           {p. reaches_tool rd a (pr_tool p) \<and>
               (\<exists>t. getTool rd (NamespacedName (ag_namespace a) (pr_tool p)) = Found t \<and>
                    map_option ref_name (tos_agentRef (to_spec t)) = Some (pr_agent p))}"
proof (intro conjI)
  note d = resolveRefs_declared [OF assms]
  show "distinct (refs_tools (res_declared res))" by (simp add: d)
  show tools: "set (refs_tools (res_declared res)) = {n. reaches_tool rd a n}"
    by (simp add: d set_toolNames)
  show "distinct (refs_mcpServers (res_declared res))" by (simp add: d)
  show "set (refs_mcpServers (res_declared res)) =
           {m. \<exists>n t. reaches_tool rd a n \<and> getTool rd (NamespacedName (ag_namespace a) n) = Found t \<and>
                     map_option ref_name (tos_mcpServerRef (to_spec t)) = Some m}"
    unfolding d(3) set_dedupe set_concat set_map tools by (auto simp: set_mcpNamesOf)
  show "set (res_peers res) =
           {p. reaches_tool rd a (pr_tool p) \<and>
               (\<exists>t. getTool rd (NamespacedName (ag_namespace a) (pr_tool p)) = Found t \<and>
                    map_option ref_name (tos_agentRef (to_spec t)) = Some (pr_agent p))}"
    unfolding d(4) set_concat set_map tools by (auto simp: set_peersOf)
qed

theorem resolveRefs_surface_witness:
  "\<exists>res. resolveRefs sample_reader sample_agent = Inr res \<and> ''search'' \<in> set (refs_tools (res_declared res))"
proof -
  obtain res where r: "resolveRefs sample_reader sample_agent = Inr res"
    using resolveRefs_total sample_readable by blast
  have "reaches_tool sample_reader sample_agent ''search''"
    unfolding reaches_tool_def sample_agent_eff by (simp add: sample_agent_spec_def)
  with resolveRefs_surface [OF r] r show ?thesis by blast
qed

text \<open>
  The policies an Agent is held to are those of its effective spec, in reference order: the
  Policy and ToolPolicy objects that exist under the names its own lists give, or the class
  defaults where a list is empty. Skill scopes, mounted credentials and the git Secret are
  gathered from the same snapshot; the git credential is not mounted a second time.
\<close>

lemma resolveRefs_gathers:
  assumes "resolveRefs rd a = Inr res"
  shows "res_policies res = found_all (getPolicy rd) (ag_namespace a) (as_policyRefs (agent_eff rd a)) \<and>
         res_toolPolicies res = found_all (getToolPolicy rd) (ag_namespace a) (as_toolPolicyRefs (agent_eff rd a)) \<and>
         res_skillScopes res = map scope_of (filter (\<lambda>s. sks_allowedTools (sk_spec s) \<noteq> [])
           (found_all (getSkill rd) (ag_namespace a) (as_skillRefs (agent_eff rd a)))) \<and>
         res_credentials res = map mounted (found_all (getCredential rd) (ag_namespace a) (as_credentialRefs (ag_spec a))) \<and>
         res_gitSecret res = git_secret rd (ag_namespace a) (ag_spec a)"
  using resolveRefs_fields [OF assms] by blast


text \<open>
  Class defaults: applying them is idempotent, an Agent's own model, prompt and non-empty
  lists always win, a default fills only a gap, and a class never touches what it cannot
  hand down (tool sets, credentials, runtime, workspace, exposure).
\<close>

lemma ApplyClassDefaults_correct:
  "ApplyClassDefaults (ApplyClassDefaults s (Some c)) (Some c) = ApplyClassDefaults s (Some c) \<and>
   (case as_modelRef s of Some r \<Rightarrow> as_modelRef (ApplyClassDefaults s (Some c)) = Some r
    | None \<Rightarrow> as_modelRef (ApplyClassDefaults s (Some c)) = cs_defaultModelRef (ac_spec c)) \<and>
   as_policyRefs (ApplyClassDefaults s (Some c)) =
     (if as_policyRefs s = [] then cs_defaultPolicyRefs (ac_spec c) else as_policyRefs s) \<and>
   as_toolPolicyRefs (ApplyClassDefaults s (Some c)) =
     (if as_toolPolicyRefs s = [] then cs_defaultToolPolicyRefs (ac_spec c) else as_toolPolicyRefs s) \<and>
   as_toolRefs (ApplyClassDefaults s (Some c)) =
     (if as_toolRefs s = [] then cs_defaultToolRefs (ac_spec c) else as_toolRefs s) \<and>
   as_skillRefs (ApplyClassDefaults s (Some c)) =
     (if as_skillRefs s = [] then cs_defaultSkillRefs (ac_spec c) else as_skillRefs s) \<and>
   (as_toolSetRefs (ApplyClassDefaults s (Some c)), as_credentialRefs (ApplyClassDefaults s (Some c)),
    as_runtime (ApplyClassDefaults s (Some c)), as_workspace (ApplyClassDefaults s (Some c)),
    as_expose (ApplyClassDefaults s (Some c))) =
     (as_toolSetRefs s, as_credentialRefs s, as_runtime s, as_workspace s, as_expose s)"
  by (auto simp: ApplyClassDefaults_def Let_def or_default_list_def split: option.split)

end
