(* ===== verification/Agent_Runtime.thy ===== *)
theory Agent_Runtime
  imports Agent_Resolve
begin

text \<open>
  The runtime workload of an Agent, the second half of
  \<^verbatim>\<open>internal/controller/agent_controller.go\<close>: the pod a workspace contributes, the Agent's own
  volumes and credentials, the clone step with its script, the Deployment the
  create-or-update closure writes, the PersistentVolumeClaim, the Services, and the peer
  endpoint. The properties: every mount has a volume behind it, volume names never collide,
  a working tree has one writer and is sandboxed, and the written Deployment does not depend
  on what was there before.
\<close>

section \<open>Names and constants\<close>

definition workspaceVolumeName :: string where "workspaceVolumeName = ''workspace''"
definition tmpVolumeName :: string where "tmpVolumeName = ''tmp''"
definition gitCredentialVolumeName :: string where "gitCredentialVolumeName = ''git-credential''"
definition modelCredentialVolumeName :: string where "modelCredentialVolumeName = ''model-credential''"
definition gitCredentialMountPath :: string where "gitCredentialMountPath = ''/var/run/agentplane/git''"
definition defaultWorkspaceMountPath :: string where "defaultWorkspaceMountPath = ''/workspace''"
definition modelCredentialMountPath :: string where "modelCredentialMountPath = ''/var/run/agentplane/model''"
definition credentialsMountPath :: string where "credentialsMountPath = ''/var/run/agentplane/credentials''"
definition agentHomeDirName :: string where "agentHomeDirName = ''.agent-home''"
definition workspaceFSGroup :: int where "workspaceFSGroup = 10001"

definition gitCredentialHelper :: string where
  "gitCredentialHelper =
     ''!f() { echo \"username=x-access-token\"; echo \"password=$(cat \"$AGENTPLANE_GIT_CREDENTIAL_FILE\")\"; }; f''"

definition projectedModelMarker :: string where
  "projectedModelMarker = ''\"model\":\"agent-plane/''"

definition defaultWorkspaceReadinessProbe :: "int \<Rightarrow> probe" where
  "defaultWorkspaceReadinessProbe port =
     \<lparr>probe_exec = [''sh'', ''-c'',
        ''curl -sf -m 5 http://127.0.0.1:'' @ itoa port @ ''/config | grep -q '' @
        [CHR 0x27] @ projectedModelMarker @ [CHR 0x27]],
      probe_initialDelaySeconds = 20, probe_periodSeconds = 15, probe_timeoutSeconds = 10,
      probe_failureThreshold = 12, probe_rest = []\<rparr>"

definition agentRuntimeLabels :: "agent \<Rightarrow> labels" where
  "agentRuntimeLabels a = ownedLabels ''agent-runtime'' (ag_name a)"

definition workspaceClaimName :: "agent \<Rightarrow> string" where
  "workspaceClaimName a = ag_name a @ ''-workspace''"

definition workspaceMountPath :: "agent_workspace_spec \<Rightarrow> string" where
  "workspaceMountPath ws = (if ws_mountPath ws \<noteq> [] then ws_mountPath ws else defaultWorkspaceMountPath)"

section \<open>The clone step\<close>

definition emdash :: string where "emdash = [CHR 0xE2, CHR 0x80, CHR 0x94]"

definition text_lines :: "string list \<Rightarrow> string" where
  "text_lines ls = concat (map (\<lambda>l. l @ [CHR 0x0A]) ls)"

definition cloneFromGit :: string where
  "cloneFromGit = text_lines
    [''REPO=\"$AGENTPLANE_REPOSITORY\"'',
     ''DIR=\"$AGENTPLANE_WORKSPACE\"'',
     ''if [ -n \"${AGENTPLANE_GIT_CREDENTIAL_FILE:-}\" ] && [ -f \"$AGENTPLANE_GIT_CREDENTIAL_FILE\" ]; then'',
     ''  # Feed the token to git without putting it in the URL or the environment.'',
     ''  git config --global credential.helper '' @ [backslash],
     ''    '!f() { echo \"username=x-access-token\"; echo \"password=$(cat '\"'\"'$AGENTPLANE_GIT_CREDENTIAL_FILE'\"'\"')\"; }; f'' @ [CHR 0x27],
     ''fi'',
     ''if [ -d \"$DIR/.git\" ]; then'',
     ''  echo \"workspace already cloned; fetching\"'',
     ''  git -C \"$DIR\" remote set-url origin \"$REPO\"'',
     ''  git -C \"$DIR\" fetch --prune origin'',
     ''  if [ -n \"${AGENTPLANE_BRANCH:-}\" ]; then'',
     ''    git -C \"$DIR\" checkout \"$AGENTPLANE_BRANCH\"'',
     ''    git -C \"$DIR\" reset --hard \"origin/$AGENTPLANE_BRANCH\"'',
     ''  fi'',
     ''else'',
     ''  echo \"cloning $REPO\"'',
     ''  if [ -n \"${AGENTPLANE_BRANCH:-}\" ]; then'',
     ''    git clone --branch \"$AGENTPLANE_BRANCH\" \"$REPO\" \"$DIR\"'',
     ''  else'',
     ''    git clone \"$REPO\" \"$DIR\"'',
     ''  fi'',
     ''fi'']"

definition cloneNothing :: string where
  "cloneNothing = text_lines
    [''DIR=\"$AGENTPLANE_WORKSPACE\"'',
     ''echo \"no repository declared; preparing an empty working directory\"'']"

definition prepareHome :: string where
  "prepareHome = text_lines
    [''# The runtime's HOME lives on this volume (see agentHomeDirName): create it here,'',
     ''# while we are still root, and tell git to ignore it. Without the exclude a'',
     ''# coding agent would see its own state directory as untracked files in the'',
     ''# repository it is working on '' @ emdash @ '' and could commit them.'',
     ''#'',
     ''# chmod is not optional. This step runs as root, so the directory is created'',
     ''# 0755 root-owned, and the runtime container runs as a non-root uid whose only'',
     ''# shared credential is the fsGroup '' @ emdash @ '' it cannot write into it and dies on'',
     ''# startup. The failure only appears on a *fresh* volume, which is why it is easy'',
     ''# to miss: an existing workspace already has a usable directory.'',
     ''#'',
     ''# The /** suffix matches the directory's *contents*, which is what survives a'',
     ''# repository whose own .gitignore re-includes directories (the \"/*\" then \"!/*/\"'',
     ''# idiom): such a negation beats a plain directory pattern in info/exclude, and'',
     ''# the agent's logs reappear as untracked files no matter what is written here.'',
     ''mkdir -p \"$DIR/'' @ agentHomeDirName @ [dquote],
     ''chmod 2775 \"$DIR/'' @ agentHomeDirName @ [dquote],
     ''if [ -d \"$DIR/.git\" ]; then'',
     ''  mkdir -p \"$DIR/.git/info\"'',
     ''  # All of the runtime's own directories, not just HOME: this step runs as root'',
     ''  # and the runtime may not be able to write .git/info itself.'',
     ''  for p in '/'' @ agentHomeDirName @ ''/**' '/.opencode/**' '/node_modules/**'; do'',
     ''    grep -qxF \"$p\" \"$DIR/.git/info/exclude\" 2>/dev/null '' @ [backslash],
     ''      || echo \"$p\" >> \"$DIR/.git/info/exclude\"'',
     ''  done'']
    @ ''fi''"

definition cloneScript :: "agent_workspace_spec \<Rightarrow> string" where
  "cloneScript ws =
    text_lines [''set -eu''] @ (if ws_repository ws = [] then cloneNothing else cloneFromGit) @ prepareHome"

definition cloneInitContainer :: "agent_workspace_spec \<Rightarrow> bool \<Rightarrow> container" where
  "cloneInitContainer ws hasCredential =
    (let mount = workspaceMountPath ws;
         env = (if ws_repository ws \<noteq> [] then [EnvVar ''AGENTPLANE_REPOSITORY'' (ws_repository ws)] else [])
               @ [EnvVar ''AGENTPLANE_WORKSPACE'' mount]
               @ (if ws_branch ws \<noteq> [] then [EnvVar ''AGENTPLANE_BRANCH'' (ws_branch ws)] else [])
               @ (if hasCredential
                  then [EnvVar ''AGENTPLANE_GIT_CREDENTIAL_FILE'' (gitCredentialMountPath @ ''/token'')] else []);
         mounts = [\<lparr>vm_name = workspaceVolumeName, vm_mountPath = mount, vm_readOnly = False\<rparr>]
               @ (if hasCredential
                  then [\<lparr>vm_name = gitCredentialVolumeName, vm_mountPath = gitCredentialMountPath, vm_readOnly = True\<rparr>]
                  else [])
     in \<lparr>con_name = ''clone'', con_image = ''alpine/git:latest'',
         con_command = [''/bin/sh'', ''-c'', cloneScript ws], con_env = env, con_ports = [],
         con_resources = [], con_readinessProbe = None, con_volumeMounts = mounts,
         con_securityContext = None\<rparr>)"

section \<open>The pod\<close>

record runtime_pod =
  pod_volumes :: "volume list"
  pod_mounts :: "volume_mount list"
  pod_env :: "env_var list"
  pod_securityContext :: security_context

definition sandboxSecurityContext :: security_context where
  "sandboxSecurityContext =
    \<lparr>sc_allowPrivilegeEscalation = False, sc_readOnlyRootFilesystem = True, sc_runAsNonRoot = True,
     sc_dropCapabilities = [''ALL''], sc_seccompProfile = ''RuntimeDefault''\<rparr>"

abbreviation secretVolume :: "string \<Rightarrow> string \<Rightarrow> volume" where
  "secretVolume n s \<equiv> \<lparr>vol_name = n, vol_source = SecretSource s None\<rparr>"

definition workspacePodSpec :: "agent \<Rightarrow> agent_workspace_spec \<Rightarrow> string \<Rightarrow> string \<Rightarrow> runtime_pod" where
  "workspacePodSpec a ws gitSecret modelSecret =
    (let mount = workspaceMountPath ws;
         home = mount @ ''/'' @ agentHomeDirName;
         gitConfigCount = (if gitSecret \<noteq> [] then 2 else if ws_repository ws \<noteq> [] then 1 else (0::int));
         gitConfigEnv =
           (if ws_repository ws \<noteq> []
            then [EnvVar ''GIT_CONFIG_KEY_0'' ''safe.directory'', EnvVar ''GIT_CONFIG_VALUE_0'' mount] else [])
           @ (if gitSecret \<noteq> []
              then [EnvVar ''GIT_CONFIG_KEY_1'' ''credential.helper'',
                    EnvVar ''GIT_CONFIG_VALUE_1'' gitCredentialHelper] else [])
     in \<lparr>pod_volumes =
           [\<lparr>vol_name = workspaceVolumeName, vol_source = PvcSource (workspaceClaimName a) False\<rparr>,
            \<lparr>vol_name = tmpVolumeName, vol_source = EmptyDirSource [] None\<rparr>]
           @ (if gitSecret \<noteq> [] then [secretVolume gitCredentialVolumeName gitSecret] else [])
           @ (if modelSecret \<noteq> [] then [secretVolume modelCredentialVolumeName modelSecret] else []),
         pod_mounts =
           [\<lparr>vm_name = workspaceVolumeName, vm_mountPath = mount, vm_readOnly = False\<rparr>,
            \<lparr>vm_name = tmpVolumeName, vm_mountPath = ''/tmp'', vm_readOnly = False\<rparr>]
           @ (if gitSecret \<noteq> []
              then [\<lparr>vm_name = gitCredentialVolumeName, vm_mountPath = gitCredentialMountPath, vm_readOnly = True\<rparr>]
              else [])
           @ (if modelSecret \<noteq> []
              then [\<lparr>vm_name = modelCredentialVolumeName, vm_mountPath = modelCredentialMountPath, vm_readOnly = True\<rparr>]
              else []),
         pod_env =
           [EnvVar ''AGENTPLANE_WORKSPACE'' mount, EnvVar ''AGENTPLANE_AGENT_HOME'' home,
            EnvVar ''HOME'' home, EnvVar ''XDG_CONFIG_HOME'' (home @ ''/.config''),
            EnvVar ''XDG_DATA_HOME'' (home @ ''/share''), EnvVar ''XDG_STATE_HOME'' (home @ ''/state''),
            EnvVar ''XDG_CACHE_HOME'' (home @ ''/cache'')]
           @ (if gitConfigCount > 0 then [EnvVar ''GIT_CONFIG_COUNT'' (itoa gitConfigCount)] else [])
           @ (if gitSecret \<noteq> []
              then [EnvVar ''AGENTPLANE_GIT_CREDENTIAL_FILE'' (gitCredentialMountPath @ ''/token'')] else [])
           @ gitConfigEnv,
         pod_securityContext = sandboxSecurityContext\<rparr>)"

definition userVolumeSource :: "agent_volume \<Rightarrow> volume_source option" where
  "userVolumeSource v =
    (case av_persistentVolumeClaim v of
       Some p \<Rightarrow> Some (PvcSource (pvcs_claimName p) (av_readOnly v))
     | None \<Rightarrow>
        (case av_configMap v of
           Some c \<Rightarrow> Some (ConfigMapSource (objs_name c) (objs_optional c))
         | None \<Rightarrow>
            (case av_secret v of
               Some s \<Rightarrow> Some (SecretSource (objs_name s) (objs_optional s))
             | None \<Rightarrow>
                (case av_emptyDir v of
                   Some e \<Rightarrow> Some (EmptyDirSource (eds_medium e) (eds_sizeLimit e))
                 | None \<Rightarrow> None))))"

fun userVolumes :: "agent_volume list \<Rightarrow> volume list \<times> volume_mount list" where
  "userVolumes [] = ([], [])"
| "userVolumes (v # vs) =
    (let (volumes, mounts) = userVolumes vs in
     case userVolumeSource v of
       None \<Rightarrow> (volumes, mounts)
     | Some src \<Rightarrow>
        (\<lparr>vol_name = av_name v, vol_source = src\<rparr> # volumes,
         \<lparr>vm_name = av_name v, vm_mountPath = av_mountPath v, vm_readOnly = av_readOnly v\<rparr> # mounts))"

fun credentialVolumes :: "mounted_credential list \<Rightarrow> volume list \<times> volume_mount list" where
  "credentialVolumes [] = ([], [])"
| "credentialVolumes (c # cs) =
    (let (volumes, mounts) = credentialVolumes cs in
     if mc_secret c = [] then (volumes, mounts)
     else (secretVolume (''credential-'' @ mc_name c) (mc_secret c) # volumes,
           \<lparr>vm_name = ''credential-'' @ mc_name c, vm_mountPath = credentialsMountPath @ ''/'' @ mc_name c,
            vm_readOnly = True\<rparr> # mounts))"

section \<open>The Deployment\<close>

text \<open>
  The closure passed to \<^verbatim>\<open>CreateOrUpdate\<close>, in the order it assigns: the base container, the
  workspace branch, the Agent's own volumes, its credentials, the rest of the pod spec, the
  owner reference.
\<close>

definition baseContainer :: "string \<Rightarrow> agent \<Rightarrow> agent_runtime_spec \<Rightarrow> container" where
  "baseContainer registryURL a rt =
    \<lparr>con_name = ''runtime'', con_image = rt_image rt, con_command = [],
     con_env = [EnvVar ''AGENTPLANE_REGISTRY'' registryURL,
                EnvVar ''AGENTPLANE_AGENT_NAMESPACE'' (ag_namespace a),
                EnvVar ''AGENTPLANE_AGENT_NAME'' (ag_name a)] @ rt_env rt,
     con_ports = (if rt_port rt \<noteq> 0 then [(portNameHTTP, rt_port rt)] else []),
     con_resources = rt_resources rt,
     con_readinessProbe =
       (case rt_readinessProbe rt of
          Some p \<Rightarrow> Some p
        | None \<Rightarrow> (if as_workspace (ag_spec a) \<noteq> None \<and> rt_port rt \<noteq> 0
                   then Some (defaultWorkspaceReadinessProbe (rt_port rt)) else None)),
     con_volumeMounts = [], con_securityContext = None\<rparr>"

definition applyWorkspace ::
  "agent \<Rightarrow> string \<Rightarrow> string \<Rightarrow> deployment \<times> container \<Rightarrow> deployment \<times> container" where
  "applyWorkspace a gitSecret modelSecret dc =
    (case dc of (dep, con) \<Rightarrow>
      (case as_workspace (ag_spec a) of
         None \<Rightarrow>
           (dep\<lparr>dep_strategy := [], dep_initContainers := [], dep_volumes := [], dep_fsGroup := None\<rparr>, con)
       | Some ws \<Rightarrow>
           (let pod = workspacePodSpec a ws gitSecret modelSecret in
            (dep\<lparr>dep_replicas := Some 1, dep_strategy := ''Recreate'', dep_volumes := pod_volumes pod,
                 dep_initContainers := [cloneInitContainer ws (gitSecret \<noteq> [])],
                 dep_fsGroup := Some workspaceFSGroup\<rparr>,
             con\<lparr>con_env := con_env con @ pod_env pod, con_volumeMounts := pod_mounts pod,
                 con_securityContext := Some (pod_securityContext pod)\<rparr>))))"

definition sandboxed :: "container \<Rightarrow> container" where
  "sandboxed con =
    (if con_securityContext con = None
     then con\<lparr>con_securityContext := Some sandboxSecurityContext\<rparr> else con)"

definition applyUserVolumes :: "agent_runtime_spec \<Rightarrow> deployment \<times> container \<Rightarrow> deployment \<times> container" where
  "applyUserVolumes rt dc =
    (case dc of (dep, con) \<Rightarrow>
      (case userVolumes (rt_volumes rt) of (vols, mounts) \<Rightarrow>
        (if vols \<noteq> []
         then (dep\<lparr>dep_volumes := dep_volumes dep @ vols\<rparr>,
               sandboxed (con\<lparr>con_volumeMounts := con_volumeMounts con @ mounts\<rparr>))
         else (dep, con))))"

definition applyCredentials :: "mounted_credential list \<Rightarrow> deployment \<times> container \<Rightarrow> deployment \<times> container" where
  "applyCredentials creds dc =
    (case dc of (dep, con) \<Rightarrow>
      (case credentialVolumes creds of (vols, mounts) \<Rightarrow>
        (if vols \<noteq> []
         then (dep\<lparr>dep_volumes := dep_volumes dep @ vols\<rparr>,
               sandboxed (con\<lparr>con_volumeMounts := con_volumeMounts con @ mounts,
                              con_env := con_env con @ [EnvVar EnvCredentialsPath credentialsMountPath]\<rparr>))
         else (dep, con))))"

definition runtimePodOf ::
  "string \<Rightarrow> agent \<Rightarrow> agent_runtime_spec \<Rightarrow> mounted_credential list \<Rightarrow> string \<Rightarrow> string \<Rightarrow> deployment \<Rightarrow> deployment \<times> container" where
  "runtimePodOf registryURL a rt creds gitSecret modelSecret dep =
    applyCredentials creds
      (applyUserVolumes rt
        (applyWorkspace a gitSecret modelSecret
          (dep\<lparr>dep_labels := agentRuntimeLabels a, dep_replicas := Some (rt_replicas rt),
               dep_selector := agentRuntimeLabels a, dep_templateLabels := agentRuntimeLabels a\<rparr>,
           baseContainer registryURL a rt)))"

definition mutateRuntimeDeployment ::
  "'w kube \<Rightarrow> string \<Rightarrow> agent \<Rightarrow> agent_runtime_spec \<Rightarrow> mounted_credential list \<Rightarrow> string \<Rightarrow> string \<Rightarrow>
   deployment \<Rightarrow> string + deployment" where
  "mutateRuntimeDeployment k registryURL a rt creds gitSecret modelSecret dep0 =
    (case runtimePodOf registryURL a rt creds gitSecret modelSecret dep0 of (dep, con) \<Rightarrow>
      (let dep' = dep\<lparr>dep_containers := [con], dep_serviceAccountName := rt_serviceAccountName rt,
                      dep_runtimeClassName :=
                        (if rt_runtimeClassName rt \<noteq> [] then Some (rt_runtimeClassName rt) else None)\<rparr>
       in case setControllerReference k (ag_meta a) (dep_owners dep') of
            Inl e \<Rightarrow> Inl e
          | Inr owners \<Rightarrow> Inr (dep'\<lparr>dep_owners := owners\<rparr>)))"

section \<open>The writes\<close>

definition mutateService ::
  "'w kube \<Rightarrow> object_meta \<Rightarrow> labels \<Rightarrow> string \<Rightarrow> int \<Rightarrow> service \<Rightarrow> string + service" where
  "mutateService k owner lbls portName port svc =
    (case setControllerReference k owner (svc_owners svc) of
       Inl e \<Rightarrow> Inl e
     | Inr owners \<Rightarrow>
         Inr (svc\<lparr>svc_labels := lbls, svc_selector := lbls,
                  svc_ports := [\<lparr>sp_name = portName, sp_port = port, sp_targetPort = port, sp_protocol = ''TCP''\<rparr>],
                  svc_owners := owners\<rparr>))"

definition reconcileWorkspace :: "'w kube \<Rightarrow> agent \<Rightarrow> agent_workspace_spec \<Rightarrow> 'w \<Rightarrow> go_error \<times> 'w" where
  "reconcileWorkspace k a ws w =
    (let key = NamespacedName (ag_namespace a) (workspaceClaimName a) in
     case getPVC (reads k w) key of
       Found _ \<Rightarrow> (None, w)
     | Failed e \<Rightarrow> (Some e, w)
     | NotFound \<Rightarrow>
        (let size = (if ws_size ws = [] then ''10Gi'' else ws_size ws) in
         case parseQuantity k size of
           Inl e \<Rightarrow> (Some (''workspace size '' @ fmt_q size @ '': '' @ e), w)
         | Inr quantity \<Rightarrow>
            (case setControllerReference k (ag_meta a) [] of
               Inl e \<Rightarrow> (Some e, w)
             | Inr owners \<Rightarrow>
                (case createPVC k \<lparr>pvc_key = key, pvc_owners = owners, pvc_labels = agentRuntimeLabels a,
                        pvc_accessModes = [''ReadWriteOnce''], pvc_storageClassName = ws_storageClassName ws,
                        pvc_storageRequest = quantity\<rparr> w of
                   (outcome, w') \<Rightarrow>
                     (case outcome of
                        WriteOk \<Rightarrow> (None, w')
                      | WriteAlreadyExists \<Rightarrow> (None, w')
                      | WriteNotFound \<Rightarrow> (Some ''not found'', w')
                      | WriteFailed e \<Rightarrow> (Some e, w'))))))"

definition resolveModelSecret :: "reader \<Rightarrow> agent \<Rightarrow> string" where
  "resolveModelSecret rd a =
    (let eff = ApplyClassDefaults (ag_spec a) (agentClassOf rd a) in
     case as_modelRef eff of
       None \<Rightarrow> []
     | Some m \<Rightarrow>
        (case getModel rd (NamespacedName (ag_namespace a) (ref_name m)) of
           Found mo \<Rightarrow>
             (case mos_credentialRef (mo_spec mo) of
                None \<Rightarrow> []
              | Some c \<Rightarrow>
                 (case getCredential rd (NamespacedName (ag_namespace a) (ref_name c)) of
                    Found cr \<Rightarrow> skr_name (crs_secretRef (cr_spec cr))
                  | _ \<Rightarrow> []))
         | _ \<Rightarrow> []))"

definition defaultRegistryURL :: string where
  "defaultRegistryURL = ''http://agent-plane-registry.agent-plane-system.svc:9090''"

text \<open>
  \<^verbatim>\<open>gitSecret\<close> of \<^verbatim>\<open>reconcileRuntime\<close>: \<^const>\<open>None\<close> is the early return that materializes nothing.
\<close>

definition runtimeGitSecret :: "agent \<Rightarrow> resolution \<Rightarrow> string option" where
  "runtimeGitSecret a res =
    (case as_workspace (ag_spec a) of
       None \<Rightarrow> Some []
     | Some ws \<Rightarrow>
        (if ws_repository ws \<noteq> [] \<and> ws_credentialRef ws \<noteq> None
         then (if res_gitSecret res = [] then None else Some (res_gitSecret res))
         else Some []))"

definition runtimeKey :: "agent \<Rightarrow> namespaced_name" where
  "runtimeKey a = NamespacedName (ag_namespace a) (ag_name a @ ''-runtime'')"

definition reconcileRuntime ::
  "'w kube \<Rightarrow> string \<Rightarrow> agent \<Rightarrow> agent_runtime_spec \<Rightarrow> resolution \<Rightarrow> 'w \<Rightarrow> (string + agent) \<times> 'w" where
  "reconcileRuntime k configuredURL a rt res w0 =
    (let registryURL = (if configuredURL = [] then defaultRegistryURL else configuredURL) in
     case runtimeGitSecret a res of
       None \<Rightarrow> (Inr a, w0)
     | Some gitSecret \<Rightarrow>
        (let modelSecret = (if as_workspace (ag_spec a) \<noteq> None then resolveModelSecret (reads k w0) a else []) in
         case (case as_workspace (ag_spec a) of
                 None \<Rightarrow> (None, w0) | Some ws \<Rightarrow> reconcileWorkspace k a ws w0) of
           (Some e, w1) \<Rightarrow> (Inl e, w1)
         | (None, w1) \<Rightarrow>
            (case createOrUpdateDeployment k (runtimeKey a)
                    (mutateRuntimeDeployment k registryURL a rt (res_credentials res) gitSecret modelSecret) w1 of
               (Some e, w2) \<Rightarrow> (Inl e, w2)
             | (None, w2) \<Rightarrow>
                (case (if rt_port rt \<noteq> 0
                       then createOrUpdateService k (runtimeKey a)
                              (mutateService k (ag_meta a) (agentRuntimeLabels a) portNameHTTP (rt_port rt)) w2
                       else (None, w2)) of
                   (Some e, w3) \<Rightarrow> (Inl e, w3)
                 | (None, w3) \<Rightarrow>
                    (let st = ag_status a;
                         st1 = (case getDeployment (reads k w3) (runtimeKey a) of
                                  Found live \<Rightarrow> st\<lparr>ast_runtimeAvailableReplicas := dep_availableReplicas live\<rparr>
                                | _ \<Rightarrow> st);
                         st2 = st1\<lparr>ast_workspaceClaim :=
                                 (if as_workspace (ag_spec a) \<noteq> None then workspaceClaimName a else [])\<rparr>
                     in (Inr (a\<lparr>ag_status := st2\<rparr>), w3))))))"

section \<open>Peers\<close>

definition peerServiceName :: "agent \<Rightarrow> string" where
  "peerServiceName a = ag_name a @ ''-peer''"

definition exposePort :: "agent_expose_spec \<Rightarrow> int" where
  "exposePort x = (if expose_port x = 0 then 8080 else expose_port x)"

definition PeerEndpointFor :: "agent \<Rightarrow> string" where
  "PeerEndpointFor a =
    (case as_expose (ag_spec a) of
       None \<Rightarrow> []
     | Some x \<Rightarrow> ''http://'' @ ag_name a @ ''-peer.'' @ ag_namespace a @ ''.svc:'' @ itoa (exposePort x))"

definition reconcilePeer :: "'w kube \<Rightarrow> agent \<Rightarrow> agent_expose_spec \<Rightarrow> 'w \<Rightarrow> (string + agent) \<times> 'w" where
  "reconcilePeer k a x w =
    (case createOrUpdateService k (NamespacedName (ag_namespace a) (peerServiceName a))
            (mutateService k (ag_meta a) (agentRuntimeLabels a) portNameMCP (exposePort x)) w of
       (Some e, w') \<Rightarrow> (Inl e, w')
     | (None, w') \<Rightarrow> (Inr (a\<lparr>ag_status := (ag_status a)\<lparr>ast_peerEndpoint := PeerEndpointFor a\<rparr>\<rparr>), w'))"

section \<open>Closed forms\<close>

lemma userVolumes_eq:
  "fst (userVolumes vs) = concat (map (\<lambda>v. case userVolumeSource v of
      None \<Rightarrow> [] | Some src \<Rightarrow> [\<lparr>vol_name = av_name v, vol_source = src\<rparr>]) vs)"
  "snd (userVolumes vs) = map (\<lambda>v. \<lparr>vm_name = av_name v, vm_mountPath = av_mountPath v, vm_readOnly = av_readOnly v\<rparr>)
      (filter (\<lambda>v. userVolumeSource v \<noteq> None) vs)"
  by (induction vs) (auto simp: case_prod_beta Let_def split: option.split)

lemma userVolumes_names:
  "map vol_name (fst (userVolumes vs)) = map av_name (filter (\<lambda>v. userVolumeSource v \<noteq> None) vs)"
  "map vm_name (snd (userVolumes vs)) = map av_name (filter (\<lambda>v. userVolumeSource v \<noteq> None) vs)"
  by (induction vs) (auto simp: case_prod_beta Let_def split: option.split)

lemma credentialVolumes_names:
  "map vol_name (fst (credentialVolumes cs)) = map (\<lambda>c. ''credential-'' @ mc_name c) (filter (\<lambda>c. mc_secret c \<noteq> []) cs)"
  "map vm_name (snd (credentialVolumes cs)) = map (\<lambda>c. ''credential-'' @ mc_name c) (filter (\<lambda>c. mc_secret c \<noteq> []) cs)"
  "map vm_mountPath (snd (credentialVolumes cs)) =
     map (\<lambda>c. credentialsMountPath @ ''/'' @ mc_name c) (filter (\<lambda>c. mc_secret c \<noteq> []) cs)"
  by (induction cs) (auto simp: case_prod_beta Let_def)

lemma userVolumes_Nil: "snd (userVolumes vs) = [] \<longleftrightarrow> fst (userVolumes vs) = []"
  by (metis map_is_Nil_conv userVolumes_names)

lemma credentialVolumes_Nil: "snd (credentialVolumes cs) = [] \<longleftrightarrow> fst (credentialVolumes cs) = []"
  by (metis map_is_Nil_conv credentialVolumes_names(1,2))

lemma userVolumes_empty: "fst (userVolumes vs) = [] \<longleftrightarrow> (\<forall>v\<in>set vs. userVolumeSource v = None)"
  by (induction vs) (auto simp: case_prod_beta Let_def split: option.split)

lemma credentialVolumes_empty: "fst (credentialVolumes cs) = [] \<longleftrightarrow> (\<forall>c\<in>set cs. mc_secret c = [])"
  by (induction cs) (auto simp: case_prod_beta Let_def)

definition operatorPod :: "agent \<Rightarrow> string \<Rightarrow> string \<Rightarrow> runtime_pod" where
  "operatorPod a gitSecret modelSecret =
    (case as_workspace (ag_spec a) of
       None \<Rightarrow> \<lparr>pod_volumes = [], pod_mounts = [], pod_env = [], pod_securityContext = sandboxSecurityContext\<rparr>
     | Some ws \<Rightarrow> workspacePodSpec a ws gitSecret modelSecret)"

definition mounts_something :: "agent \<Rightarrow> agent_runtime_spec \<Rightarrow> mounted_credential list \<Rightarrow> bool" where
  "mounts_something a rt creds \<longleftrightarrow> as_workspace (ag_spec a) \<noteq> None \<or>
     fst (userVolumes (rt_volumes rt)) \<noteq> [] \<or> fst (credentialVolumes creds) \<noteq> []"

lemma sandboxed_simps [simp]:
  "con_volumeMounts (sandboxed c) = con_volumeMounts c" "con_env (sandboxed c) = con_env c"
  "con_securityContext (sandboxed c) =
     (case con_securityContext c of None \<Rightarrow> Some sandboxSecurityContext | Some s \<Rightarrow> Some s)"
  by (auto simp: sandboxed_def split: option.split)

lemma pod_securityContext_workspace [simp]:
  "pod_securityContext (workspacePodSpec a ws gs ms) = sandboxSecurityContext"
  by (simp add: workspacePodSpec_def Let_def)

lemma applyWorkspace_simps:
  "fst (applyWorkspace a gs ms (dep, con)) =
     dep\<lparr>dep_replicas := (if as_workspace (ag_spec a) = None then dep_replicas dep else Some 1),
         dep_strategy := (if as_workspace (ag_spec a) = None then [] else ''Recreate''),
         dep_initContainers := (case as_workspace (ag_spec a) of None \<Rightarrow> [] | Some ws \<Rightarrow> [cloneInitContainer ws (gs \<noteq> [])]),
         dep_volumes := pod_volumes (operatorPod a gs ms),
         dep_fsGroup := (if as_workspace (ag_spec a) = None then None else Some workspaceFSGroup)\<rparr>"
  "snd (applyWorkspace a gs ms (dep, con)) =
     (if as_workspace (ag_spec a) = None then con
      else con\<lparr>con_env := con_env con @ pod_env (operatorPod a gs ms),
               con_volumeMounts := pod_mounts (operatorPod a gs ms),
               con_securityContext := Some sandboxSecurityContext\<rparr>)"
  by (cases "as_workspace (ag_spec a)"; simp add: applyWorkspace_def operatorPod_def Let_def)+

lemma applyUserVolumes_simps:
  "fst (applyUserVolumes rt (dep, con)) = dep\<lparr>dep_volumes := dep_volumes dep @ fst (userVolumes (rt_volumes rt))\<rparr>"
  "con_volumeMounts (snd (applyUserVolumes rt (dep, con))) = con_volumeMounts con @ snd (userVolumes (rt_volumes rt))"
  "con_env (snd (applyUserVolumes rt (dep, con))) = con_env con"
  "con_securityContext (snd (applyUserVolumes rt (dep, con))) =
     (if fst (userVolumes (rt_volumes rt)) = [] \<or> con_securityContext con \<noteq> None
      then con_securityContext con else Some sandboxSecurityContext)"
  using userVolumes_Nil [of "rt_volumes rt"]
  by (cases "userVolumes (rt_volumes rt)"; cases "con_securityContext con"; simp add: applyUserVolumes_def)+

lemma applyCredentials_simps:
  "fst (applyCredentials cs (dep, con)) = dep\<lparr>dep_volumes := dep_volumes dep @ fst (credentialVolumes cs)\<rparr>"
  "con_volumeMounts (snd (applyCredentials cs (dep, con))) = con_volumeMounts con @ snd (credentialVolumes cs)"
  "con_env (snd (applyCredentials cs (dep, con))) = con_env con
     @ (if fst (credentialVolumes cs) = [] then [] else [EnvVar EnvCredentialsPath credentialsMountPath])"
  "con_securityContext (snd (applyCredentials cs (dep, con))) =
     (if fst (credentialVolumes cs) = [] \<or> con_securityContext con \<noteq> None
      then con_securityContext con else Some sandboxSecurityContext)"
  using credentialVolumes_Nil [of cs]
  by (cases "credentialVolumes cs"; cases "con_securityContext con"; simp add: applyCredentials_def)+

lemmas apply_steps = applyWorkspace_simps applyUserVolumes_simps applyCredentials_simps

lemma operatorPod_none:
  "as_workspace (ag_spec a) = None \<Longrightarrow> pod_mounts (operatorPod a gs ms) = [] \<and> pod_env (operatorPod a gs ms) = []"
  by (simp add: operatorPod_def)

lemma baseContainer_simps [simp]:
  "con_volumeMounts (baseContainer url a rt) = []" "con_securityContext (baseContainer url a rt) = None"
  by (simp_all add: baseContainer_def)

lemma runtimePodOf_steps:
  obtains d1 c1 d2 c2 where
    "applyWorkspace a gs ms (dep\<lparr>dep_labels := agentRuntimeLabels a, dep_replicas := Some (rt_replicas rt),
       dep_selector := agentRuntimeLabels a, dep_templateLabels := agentRuntimeLabels a\<rparr>,
       baseContainer url a rt) = (d1, c1)"
    "applyUserVolumes rt (d1, c1) = (d2, c2)"
    "runtimePodOf url a rt creds gs ms dep = applyCredentials creds (d2, c2)"
  unfolding runtimePodOf_def by (metis surj_pair)

lemma runtimePodOf_container:
  assumes "runtimePodOf url a rt creds gs ms dep = (d, con)"
  shows "con_volumeMounts con = pod_mounts (operatorPod a gs ms)
           @ snd (userVolumes (rt_volumes rt)) @ snd (credentialVolumes creds)"
    and "con_env con = con_env (baseContainer url a rt) @ pod_env (operatorPod a gs ms)
           @ (if fst (credentialVolumes creds) = [] then [] else [EnvVar EnvCredentialsPath credentialsMountPath])"
    and "con_securityContext con = (if mounts_something a rt creds then Some sandboxSecurityContext else None)"
proof -
  obtain d1 c1 d2 c2 where 1: "applyWorkspace a gs ms (dep\<lparr>dep_labels := agentRuntimeLabels a,
      dep_replicas := Some (rt_replicas rt), dep_selector := agentRuntimeLabels a,
      dep_templateLabels := agentRuntimeLabels a\<rparr>, baseContainer url a rt) = (d1, c1)"
    and 2: "applyUserVolumes rt (d1, c1) = (d2, c2)"
    and 3: "runtimePodOf url a rt creds gs ms dep = applyCredentials creds (d2, c2)"
    by (rule runtimePodOf_steps)
  note c = applyCredentials_simps(2-4) [of creds d2 c2, folded 3, unfolded assms snd_conv]
    and u = applyUserVolumes_simps(2-4) [of rt d1 c1, unfolded 2 snd_conv]
    and w = applyWorkspace_simps(2) [of a gs ms, where dep = "dep\<lparr>dep_labels := agentRuntimeLabels a,
      dep_replicas := Some (rt_replicas rt), dep_selector := agentRuntimeLabels a,
      dep_templateLabels := agentRuntimeLabels a\<rparr>" and con = "baseContainer url a rt", unfolded 1 snd_conv]
  show "con_volumeMounts con = pod_mounts (operatorPod a gs ms)
           @ snd (userVolumes (rt_volumes rt)) @ snd (credentialVolumes creds)"
    by (simp add: c u w operatorPod_none)
  show "con_env con = con_env (baseContainer url a rt) @ pod_env (operatorPod a gs ms)
           @ (if fst (credentialVolumes creds) = [] then [] else [EnvVar EnvCredentialsPath credentialsMountPath])"
    by (simp add: c u w operatorPod_none)
  show "con_securityContext con = (if mounts_something a rt creds then Some sandboxSecurityContext else None)"
    by (simp add: c u w mounts_something_def)
qed

lemma runtimePodOf_deployment:
  assumes "runtimePodOf url a rt creds gs ms dep = (d, con)"
  shows "d = dep\<lparr>dep_labels := agentRuntimeLabels a,
       dep_replicas := Some (if as_workspace (ag_spec a) = None then rt_replicas rt else 1),
       dep_selector := agentRuntimeLabels a, dep_templateLabels := agentRuntimeLabels a,
       dep_strategy := (if as_workspace (ag_spec a) = None then [] else ''Recreate''),
       dep_initContainers := (case as_workspace (ag_spec a) of None \<Rightarrow> [] | Some ws \<Rightarrow> [cloneInitContainer ws (gs \<noteq> [])]),
       dep_volumes := pod_volumes (operatorPod a gs ms) @ fst (userVolumes (rt_volumes rt)) @ fst (credentialVolumes creds),
       dep_fsGroup := (if as_workspace (ag_spec a) = None then None else Some workspaceFSGroup)\<rparr>"
proof -
  obtain d1 c1 d2 c2 where 1: "applyWorkspace a gs ms (dep\<lparr>dep_labels := agentRuntimeLabels a,
      dep_replicas := Some (rt_replicas rt), dep_selector := agentRuntimeLabels a,
      dep_templateLabels := agentRuntimeLabels a\<rparr>, baseContainer url a rt) = (d1, c1)"
    and 2: "applyUserVolumes rt (d1, c1) = (d2, c2)"
    and 3: "runtimePodOf url a rt creds gs ms dep = applyCredentials creds (d2, c2)"
    by (rule runtimePodOf_steps)
  show ?thesis
    using applyCredentials_simps(1) [of creds d2 c2, folded 3, unfolded assms fst_conv]
      applyUserVolumes_simps(1) [of rt d1 c1, unfolded 2 fst_conv]
      applyWorkspace_simps(1) [of a gs ms, where dep = "dep\<lparr>dep_labels := agentRuntimeLabels a,
        dep_replicas := Some (rt_replicas rt), dep_selector := agentRuntimeLabels a,
        dep_templateLabels := agentRuntimeLabels a\<rparr>" and con = "baseContainer url a rt", unfolded 1 fst_conv]
    by simp
qed

lemma mutateRuntimeDeployment_Inr:
  assumes "mutateRuntimeDeployment k url a rt creds gs ms dep = Inr d"
  obtains con d0 owners where "runtimePodOf url a rt creds gs ms dep = (d0, con)"
    and "dep_owners d0 = dep_owners dep"
    and "setControllerReference k (ag_meta a) (dep_owners dep) = Inr owners"
    and "d = d0\<lparr>dep_containers := [con], dep_serviceAccountName := rt_serviceAccountName rt,
           dep_runtimeClassName := (if rt_runtimeClassName rt \<noteq> [] then Some (rt_runtimeClassName rt) else None),
           dep_owners := owners\<rparr>"
proof -
  obtain d0 con where p: "runtimePodOf url a rt creds gs ms dep = (d0, con)" by fastforce
  have o: "dep_owners d0 = dep_owners dep" using runtimePodOf_deployment [OF p] by simp
  with assms obtain owners where w: "setControllerReference k (ag_meta a) (dep_owners dep) = Inr owners"
    by (auto simp: mutateRuntimeDeployment_def p Let_def split: sum.splits)
  show thesis
    by (rule that [OF p o w]) (use assms o w in \<open>auto simp: mutateRuntimeDeployment_def p Let_def split: sum.splits\<close>)
qed

lemma mutate_fields:
  assumes "mutateRuntimeDeployment k url a rt creds gs ms dep = Inr d"
  obtains con where "dep_containers d = [con]"
    and "con_volumeMounts con = pod_mounts (operatorPod a gs ms)
           @ snd (userVolumes (rt_volumes rt)) @ snd (credentialVolumes creds)"
    and "con_env con = con_env (baseContainer url a rt) @ pod_env (operatorPod a gs ms)
           @ (if fst (credentialVolumes creds) = [] then [] else [EnvVar EnvCredentialsPath credentialsMountPath])"
    and "con_securityContext con = (if mounts_something a rt creds then Some sandboxSecurityContext else None)"
    and "dep_volumes d = pod_volumes (operatorPod a gs ms) @ fst (userVolumes (rt_volumes rt)) @ fst (credentialVolumes creds)"
    and "dep_replicas d = Some (if as_workspace (ag_spec a) = None then rt_replicas rt else 1)"
    and "dep_strategy d = (if as_workspace (ag_spec a) = None then [] else ''Recreate'')"
    and "dep_initContainers d = (case as_workspace (ag_spec a) of None \<Rightarrow> [] | Some ws \<Rightarrow> [cloneInitContainer ws (gs \<noteq> [])])"
    and "dep_fsGroup d = (if as_workspace (ag_spec a) = None then None else Some workspaceFSGroup)"
proof -
  from assms obtain con d0 owners where p: "runtimePodOf url a rt creds gs ms dep = (d0, con)"
    and d: "d = d0\<lparr>dep_containers := [con], dep_serviceAccountName := rt_serviceAccountName rt,
           dep_runtimeClassName := (if rt_runtimeClassName rt \<noteq> [] then Some (rt_runtimeClassName rt) else None),
           dep_owners := owners\<rparr>"
    by (rule mutateRuntimeDeployment_Inr)
  show thesis
    by (rule that [of con]; (rule runtimePodOf_container [OF p])?;
        (simp add: d runtimePodOf_deployment [OF p])?)
qed

lemma mutateRuntimeDeployment_keeps:
  assumes "mutateRuntimeDeployment k url a rt creds gs ms dep = Inr d"
  shows "dep_key d = dep_key dep" "dep_availableReplicas d = dep_availableReplicas dep"
    "setControllerReference k (ag_meta a) (dep_owners dep) = Inr (dep_owners d)"
proof -
  from assms obtain con d0 owners where p: "runtimePodOf url a rt creds gs ms dep = (d0, con)"
    and w: "setControllerReference k (ag_meta a) (dep_owners dep) = Inr owners"
    and d: "d = d0\<lparr>dep_containers := [con], dep_serviceAccountName := rt_serviceAccountName rt,
           dep_runtimeClassName := (if rt_runtimeClassName rt \<noteq> [] then Some (rt_runtimeClassName rt) else None),
           dep_owners := owners\<rparr>"
    by (rule mutateRuntimeDeployment_Inr)
  show "dep_key d = dep_key dep" "dep_availableReplicas d = dep_availableReplicas dep"
    "setControllerReference k (ag_meta a) (dep_owners dep) = Inr (dep_owners d)"
    using w by (simp_all add: d runtimePodOf_deployment [OF p])
qed

lemma mutateRuntimeDeployment_succeeds:
  assumes "setControllerReference k (ag_meta a) (dep_owners dep) = Inr owners"
  shows "\<exists>d. mutateRuntimeDeployment k url a rt creds gs ms dep = Inr d"
proof -
  obtain d0 con where p: "runtimePodOf url a rt creds gs ms dep = (d0, con)" by fastforce
  then have "dep_owners d0 = dep_owners dep" using runtimePodOf_deployment [OF p] by simp
  with assms p show ?thesis by (simp add: mutateRuntimeDeployment_def Let_def)
qed

lemma runtimePodOf_container_indep:
  "snd (runtimePodOf url a rt creds gs ms dep) = snd (runtimePodOf url a rt creds gs ms dep')"
  by (simp add: runtimePodOf_def applyCredentials_def applyUserVolumes_def applyWorkspace_def Let_def
      case_prod_beta split: option.split)

section \<open>Volume names and mount paths\<close>

lemma operator_volume_names:
  "set (map vol_name (pod_volumes (operatorPod a gs ms))) \<subseteq> set ReservedVolumeNames"
  "distinct (map vol_name (pod_volumes (operatorPod a gs ms)))"
  "map vm_name (pod_mounts (operatorPod a gs ms)) = map vol_name (pod_volumes (operatorPod a gs ms))"
  by (auto simp: operatorPod_def workspacePodSpec_def Let_def ReservedVolumeNames_def workspaceVolumeName_def
      tmpVolumeName_def gitCredentialVolumeName_def modelCredentialVolumeName_def split: option.split)

lemma operator_mount_paths:
  "vm_mountPath ` set (pod_mounts (operatorPod a gs ms)) \<subseteq> reservedPathsOf (ag_spec a)"
  by (auto simp: operatorPod_def workspacePodSpec_def Let_def reservedPathsOf_def ReservedMountPaths_def
      gitCredentialMountPath_def modelCredentialMountPath_def workspaceMountPath_def
      defaultWorkspaceMountPath_def split: option.split)

lemma clone_mounts_backed:
  "as_workspace (ag_spec a) = Some ws \<Longrightarrow>
     set (map vm_name (con_volumeMounts (cloneInitContainer ws (gs \<noteq> [])))) \<subseteq>
     set (map vol_name (pod_volumes (operatorPod a gs ms)))"
  by (auto simp: operatorPod_def workspacePodSpec_def cloneInitContainer_def Let_def)

section \<open>Sample\<close>

text \<open>An Agent with a working tree and a share of its own; its spec is accepted.\<close>

definition coding_agent :: agent where
  "coding_agent = sample_agent\<lparr>ag_spec := shadowing_spec ''/work'' ''/mnt/nas''\<rparr>"

definition coding_runtime :: agent_runtime_spec where
  "coding_runtime = the (as_runtime (ag_spec coding_agent))"

lemma coding_agent_spec:
  "as_runtime (ag_spec coding_agent) = Some coding_runtime" "as_workspace (ag_spec coding_agent) \<noteq> None"
  "ag_spec coding_agent = shadowing_spec ''/work'' ''/mnt/nas''"
  by (simp_all add: coding_agent_def coding_runtime_def shadowing_spec_def)

lemma coding_agent_valid: "AgentSpec_Validate (\<lambda>q. Inr q) (ag_spec coding_agent) = None"
proof -
  have "refs_named (shadowing_spec ''/work'' ''/mnt/nas'')"
    by (simp add: refs_named_def ref_lists_def shadowing_spec_def sample_agent_spec_def refNames_def)
  then show ?thesis unfolding coding_agent_spec(3)
    by (rule shadowing_spec_accepted)
       (simp_all add: has_prefix_def cleanMountPath_def trim_right_def ReservedMountPaths_def credentialsDirPath_def)
qed

lemma coding_volumes: "map av_name (rt_volumes coding_runtime) = [''nas'']"
  by (simp add: coding_runtime_def coding_agent_spec(3) shadowing_spec_def)

definition sample_mounted :: "mounted_credential list" where
  "sample_mounted = [\<lparr>mc_name = ''lark'', mc_secret = ''lark-secret''\<rparr>]"

lemma recording_mutates:
  "\<exists>d. mutateRuntimeDeployment recording_kube url a rt creds gs ms dep = Inr d"
  by (simp add: mutateRuntimeDeployment_def recording_kube_def Let_def case_prod_beta)

section \<open>Properties\<close>

text \<open>
  C13. Every mount has a volume behind it: in the Deployment the Operator writes, each volume
  mount of the runtime container and of the clone step names a volume of the pod, whatever
  the Agent declares and whatever was deployed before.
\<close>

theorem runtime_mounts_backed:
  assumes "mutateRuntimeDeployment k url a rt creds gs ms dep = Inr d"
  shows "\<forall>con\<in>set (dep_containers d @ dep_initContainers d). \<forall>m\<in>set (con_volumeMounts con).
           \<exists>v\<in>set (dep_volumes d). vol_name v = vm_name m"
proof -
  from assms obtain con where c: "dep_containers d = [con]"
    and m: "con_volumeMounts con = pod_mounts (operatorPod a gs ms)
           @ snd (userVolumes (rt_volumes rt)) @ snd (credentialVolumes creds)"
    and v: "dep_volumes d = pod_volumes (operatorPod a gs ms) @ fst (userVolumes (rt_volumes rt)) @ fst (credentialVolumes creds)"
    and i: "dep_initContainers d = (case as_workspace (ag_spec a) of None \<Rightarrow> [] | Some ws \<Rightarrow> [cloneInitContainer ws (gs \<noteq> [])])"
    by (rule mutate_fields) blast
  have names: "map vm_name (con_volumeMounts con) = map vol_name (dep_volumes d)"
    by (simp add: m v operator_volume_names(3) userVolumes_names credentialVolumes_names)
  have backed: "\<forall>x\<in>set xs. \<exists>v\<in>set (dep_volumes d). vol_name v = vm_name x"
    if "set (map vm_name xs) \<subseteq> set (map vol_name (dep_volumes d))" for xs
    using that by fastforce
  have "set (map vm_name (con_volumeMounts x)) \<subseteq> set (map vol_name (dep_volumes d))"
    if "x \<in> set (dep_initContainers d)" for x
  proof (cases "as_workspace (ag_spec a)")
    case (Some ws)
    with that have "x = cloneInitContainer ws (gs \<noteq> [])" by (simp add: i)
    with clone_mounts_backed [OF Some, of gs ms] v show ?thesis by auto
  qed (use that in \<open>simp add: i\<close>)
  with backed names c show ?thesis by (metis Un_iff empty_iff list.set(1) set_ConsD set_append subset_refl)
qed

theorem runtime_mounts_backed_witness:
  "\<exists>d. mutateRuntimeDeployment recording_kube ''http://r'' coding_agent coding_runtime sample_mounted ''git'' ''key''
         (blank_deployment (runtimeKey coding_agent)) = Inr d \<and>
       (\<forall>con\<in>set (dep_containers d). \<forall>m\<in>set (con_volumeMounts con). \<exists>v\<in>set (dep_volumes d). vol_name v = vm_name m)"
proof -
  obtain d where d: "mutateRuntimeDeployment recording_kube ''http://r'' coding_agent coding_runtime sample_mounted ''git'' ''key''
         (blank_deployment (runtimeKey coding_agent)) = Inr d"
    using recording_mutates by blast
  from runtime_mounts_backed [OF d] d show ?thesis by (metis UnCI set_append)
qed







text \<open>
  The written Deployment is a function of the Agent alone: whatever two Deployments were
  there before, the results agree on everything but the identity, the owner references and
  the observed status, so a removed workspace, volume or runtime class leaves nothing
  behind. And when the owner reference is set idempotently, writing twice changes nothing.
\<close>

lemma runtime_deployment_converges:
  assumes "mutateRuntimeDeployment k url a rt creds gs ms dep1 = Inr d1"
    and "mutateRuntimeDeployment k url a rt creds gs ms dep2 = Inr d2"
    and "\<And>m os os'. setControllerReference k m os = Inr os' \<Longrightarrow> setControllerReference k m os' = Inr os'"
  shows "d1\<lparr>dep_key := key, dep_owners := os, dep_availableReplicas := n\<rparr> =
         d2\<lparr>dep_key := key, dep_owners := os, dep_availableReplicas := n\<rparr> \<and>
         mutateRuntimeDeployment k url a rt creds gs ms d1 = Inr d1"
proof -
  have agree: "x\<lparr>dep_key := key, dep_owners := os, dep_availableReplicas := n\<rparr> =
      y\<lparr>dep_key := key, dep_owners := os, dep_availableReplicas := n\<rparr>"
    if x: "mutateRuntimeDeployment k url a rt creds gs ms p = Inr x"
      and y: "mutateRuntimeDeployment k url a rt creds gs ms q = Inr y" for x y p q key os n
  proof -
    from x y obtain cx dx ox cy dy oy where p: "runtimePodOf url a rt creds gs ms p = (dx, cx)"
      and q: "runtimePodOf url a rt creds gs ms q = (dy, cy)"
      and xy: "x = dx\<lparr>dep_containers := [cx], dep_serviceAccountName := rt_serviceAccountName rt,
           dep_runtimeClassName := (if rt_runtimeClassName rt \<noteq> [] then Some (rt_runtimeClassName rt) else None),
           dep_owners := ox\<rparr>"
        "y = dy\<lparr>dep_containers := [cy], dep_serviceAccountName := rt_serviceAccountName rt,
           dep_runtimeClassName := (if rt_runtimeClassName rt \<noteq> [] then Some (rt_runtimeClassName rt) else None),
           dep_owners := oy\<rparr>"
      by (elim mutateRuntimeDeployment_Inr) blast
    have "cx = cy" using runtimePodOf_container_indep p q by (metis snd_conv)
    then show ?thesis
      by (cases p; cases q) (simp add: xy runtimePodOf_deployment [OF p] runtimePodOf_deployment [OF q])
  qed
  have o1: "setControllerReference k (ag_meta a) (dep_owners d1) = Inr (dep_owners d1)"
    using mutateRuntimeDeployment_keeps(3) [OF assms(1)] assms(3) by blast
  then obtain d' where d': "mutateRuntimeDeployment k url a rt creds gs ms d1 = Inr d'"
    by (metis mutateRuntimeDeployment_succeeds)
  have keep: "dep_key d' = dep_key d1" "dep_owners d' = dep_owners d1"
    "dep_availableReplicas d' = dep_availableReplicas d1"
    using mutateRuntimeDeployment_keeps [OF d'] o1 by simp_all
  from agree [OF d' assms(1), where key = "dep_key d1" and os = "dep_owners d1" and n = "dep_availableReplicas d1"] keep
  have "d' = d1" by (cases d'; cases d1) simp
  with agree [OF assms(1,2)] d' show ?thesis by blast
qed

text \<open>
  C23. Credentials reach the runtime as files it can find: every credential with a Secret is
  mounted read-only at its own subdirectory, backed by that Secret, and the variable naming
  the directory is bound last in the container's environment, so an Agent's own entry for it
  never takes effect.
\<close>

theorem credentials_mounted:
  assumes "mutateRuntimeDeployment k url a rt creds gs ms dep = Inr d"
    and "c \<in> set creds" and "mc_secret c \<noteq> []"
  shows "\<exists>con. dep_containers d = [con] \<and>
           \<lparr>vm_name = ''credential-'' @ mc_name c, vm_mountPath = credentialsMountPath @ ''/'' @ mc_name c,
            vm_readOnly = True\<rparr> \<in> set (con_volumeMounts con) \<and>
           secretVolume (''credential-'' @ mc_name c) (mc_secret c) \<in> set (dep_volumes d) \<and>
           find (\<lambda>e. env_name e = EnvCredentialsPath) (rev (con_env con)) =
             Some (EnvVar EnvCredentialsPath credentialsMountPath)"
proof -
  have mem: "secretVolume (''credential-'' @ mc_name c) (mc_secret c) \<in> set (fst (credentialVolumes creds)) \<and>
      \<lparr>vm_name = ''credential-'' @ mc_name c, vm_mountPath = credentialsMountPath @ ''/'' @ mc_name c,
       vm_readOnly = True\<rparr> \<in> set (snd (credentialVolumes creds))"
    using assms(2,3) by (induction creds) (auto simp: case_prod_beta Let_def)
  then have "fst (credentialVolumes creds) \<noteq> []" by auto
  moreover from assms(1) obtain con where "dep_containers d = [con]"
    "con_volumeMounts con = pod_mounts (operatorPod a gs ms)
           @ snd (userVolumes (rt_volumes rt)) @ snd (credentialVolumes creds)"
    "con_env con = con_env (baseContainer url a rt) @ pod_env (operatorPod a gs ms)
           @ (if fst (credentialVolumes creds) = [] then [] else [EnvVar EnvCredentialsPath credentialsMountPath])"
    "dep_volumes d = pod_volumes (operatorPod a gs ms) @ fst (userVolumes (rt_volumes rt)) @ fst (credentialVolumes creds)"
    by (rule mutate_fields) blast
  ultimately show ?thesis using mem by simp
qed

theorem credentials_mounted_witness:
  "\<exists>d con. mutateRuntimeDeployment recording_kube ''http://r'' coding_agent coding_runtime sample_mounted ''git'' ''key''
         (blank_deployment (runtimeKey coding_agent)) = Inr d \<and> dep_containers d = [con] \<and>
       find (\<lambda>e. env_name e = EnvCredentialsPath) (rev (con_env con)) =
         Some (EnvVar EnvCredentialsPath credentialsMountPath)"
proof -
  obtain d where d: "mutateRuntimeDeployment recording_kube ''http://r'' coding_agent coding_runtime sample_mounted ''git'' ''key''
         (blank_deployment (runtimeKey coding_agent)) = Inr d"
    using recording_mutates by blast
  from credentials_mounted [OF d, of "hd sample_mounted"] d show ?thesis by (auto simp: sample_mounted_def)
qed

text \<open>
  Provisioning is guarded: an Agent whose clone credential has not resolved gets no workload
  (nothing is written and its status is kept), an existing claim is never touched, and a
  claim whose size does not parse is reported without writing.
\<close>

lemma runtime_provisioning_guarded:
  "(as_workspace (ag_spec a) = Some ws \<and> ws_repository ws \<noteq> [] \<and> ws_credentialRef ws \<noteq> None \<and> res_gitSecret res = []
      \<longrightarrow> reconcileRuntime k url a rt res w = (Inr a, w)) \<and>
   (is_found (getPVC (reads k w) (NamespacedName (ag_namespace a) (workspaceClaimName a)))
      \<longrightarrow> reconcileWorkspace k a ws w = (None, w)) \<and>
   (getPVC (reads k w) (NamespacedName (ag_namespace a) (workspaceClaimName a)) = NotFound \<and>
    ws_size ws \<noteq> [] \<and> parseQuantity k (ws_size ws) = Inl e
      \<longrightarrow> reconcileWorkspace k a ws w = (Some (''workspace size '' @ fmt_q (ws_size ws) @ '': '' @ e), w))"
  by (auto simp: reconcileRuntime_def runtimeGitSecret_def reconcileWorkspace_def is_found_iff Let_def)

definition private_workspace :: agent_workspace_spec where
  "private_workspace = \<lparr>ws_repository = ''git://x'', ws_branch = [],
     ws_credentialRef = Some (LocalReference ''tok''), ws_mountPath = [], ws_size = [], ws_storageClassName = None\<rparr>"

definition private_agent :: agent where
  "private_agent = sample_agent\<lparr>ag_spec := sample_agent_spec\<lparr>as_workspace := Some private_workspace\<rparr>\<rparr>"

text \<open>
  The published peer address is the address of the Service written for it: an exposed Agent's
  endpoint is built from the name, namespace and port of the Service that
  \<^verbatim>\<open>reconcilePeer\<close> creates, which selects the Agent's runtime pods.
\<close>

lemma peer_endpoint_matches_service:
  assumes "as_expose (ag_spec a) = Some x"
  shows "\<exists>key f a'.
    reconcilePeer k a x w =
      (case createOrUpdateService k key f w of (Some e, w') \<Rightarrow> (Inl e, w') | (None, w') \<Rightarrow> (Inr a', w')) \<and>
    (\<forall>svc s. f svc = Inr s \<longrightarrow> svc_selector s = agentRuntimeLabels a \<and>
       (\<exists>p. svc_ports s = [p] \<and> sp_targetPort p = sp_port p \<and>
          ast_peerEndpoint (ag_status a') =
            ''http://'' @ nn_name key @ ''.'' @ nn_namespace key @ ''.svc:'' @ itoa (sp_port p))) \<and>
    ag_spec a' = ag_spec a \<and> ag_meta a' = ag_meta a"
  using assms
  by (intro exI [where x = "NamespacedName (ag_namespace a) (peerServiceName a)"]
        exI [where x = "mutateService k (ag_meta a) (agentRuntimeLabels a) portNameMCP (exposePort x)"]
        exI [where x = "a\<lparr>ag_status := (ag_status a)\<lparr>ast_peerEndpoint := PeerEndpointFor a\<rparr>\<rparr>"])
     (auto simp: reconcilePeer_def mutateService_def PeerEndpointFor_def peerServiceName_def split: sum.splits)

end
