(* ===== verification/Agent_Controller.thy ===== *)
theory Agent_Controller
  imports Agent_Runtime
begin

text \<open>
  The Agent controller's \<^verbatim>\<open>Reconcile\<close> (\<^verbatim>\<open>internal/controller/agent_controller.go\<close>): structural
  validation, reference resolution, the runtime workload, the peer Service, the policy
  check, and the status it publishes. A pass either stops with the error it returns or
  publishes the Agent with its new status; every published status is characterised:
  the Agent is Ready exactly when its spec is valid, everything it points at exists and its
  Policies, its Skills and its peers admit the declaration.
\<close>

section \<open>The code\<close>

definition peerViolation :: "reader \<Rightarrow> agent \<Rightarrow> peer_ref \<Rightarrow> string list" where
  "peerViolation rd a p =
    (if pr_agent p = ag_name a
     then [''tool '' @ fmt_q (pr_tool p) @ '' points at this Agent itself; an Agent cannot consult itself'']
     else (case getAgent rd (NamespacedName (ag_namespace a) (pr_agent p)) of
             NotFound \<Rightarrow> [''tool '' @ fmt_q (pr_tool p) @ '' references Agent '' @ fmt_q (pr_agent p)
                          @ '', which does not exist'']
           | Failed _ \<Rightarrow> []
           | Found target \<Rightarrow>
              (if as_expose (ag_spec target) = None
               then [''tool '' @ fmt_q (pr_tool p) @ '' references Agent '' @ fmt_q (pr_agent p)
                     @ '', which does not set spec.expose and so answers no peers'']
               else [])))"

definition peerViolations :: "reader \<Rightarrow> agent \<Rightarrow> peer_ref list \<Rightarrow> string list" where
  "peerViolations rd a peers = sort (concat (map (peerViolation rd a) peers))"

definition violationMessage :: "string list \<Rightarrow> effective_policy option \<Rightarrow> string" where
  "violationMessage violations p =
    (case p of
       None \<Rightarrow> ''declaration not permitted: '' @ fmt_v violations
     | Some e \<Rightarrow>
        (if eff_sources e = [] then ''declaration not permitted: '' @ fmt_v violations
         else ''declaration not permitted: '' @ fmt_v violations
              @ '' (policies: '' @ fmt_v (eff_sources e) @ '')''))"

definition policyCompliantMessage :: "effective_policy option \<Rightarrow> string" where
  "policyCompliantMessage p =
    (case p of
       None \<Rightarrow> ''no policies referenced''
     | Some e \<Rightarrow> ''references permitted by '' @ fmt_v (eff_sources e))"

text \<open>The parts of the pass that end in a status update.\<close>

definition invalidAgent :: "'w kube \<Rightarrow> agent \<Rightarrow> string \<Rightarrow> agent" where
  "invalidAgent k a err =
    (let st = ag_status a; gen = meta_generation (ag_meta a) in
     a\<lparr>ag_status := st\<lparr>ast_phase := AgentPhaseDegraded, ast_resolvedConfigHash := [],
        ast_conditions := setCondition k (ast_conditions st) ConditionReady ConditionFalse
          ReasonInvalidSpec err gen\<rparr>\<rparr>)"

definition missingAgent :: "'w kube \<Rightarrow> agent \<Rightarrow> string list \<Rightarrow> agent" where
  "missingAgent k a missing =
    (let st = ag_status a; gen = meta_generation (ag_meta a);
         msg = ''unresolved references: '' @ fmt_v missing in
     a\<lparr>ag_status := st\<lparr>ast_phase := AgentPhaseDegraded, ast_resolvedConfigHash := [],
        ast_conditions :=
          setCondition k
            (setCondition k (ast_conditions st) ConditionResolved ConditionFalse ReasonReferenceMissing msg gen)
            ConditionReady ConditionFalse ReasonReferenceMissing msg gen\<rparr>\<rparr>)"

definition agentViolations :: "reader \<Rightarrow> agent \<Rightarrow> resolution \<Rightarrow> string list" where
  "agentViolations rd a res =
    Violations (MergePolicies (res_policies res) (res_toolPolicies res)) (res_declared res)
    @ SkillToolViolations (res_skillScopes res) (refs_tools (res_declared res))
    @ peerViolations rd a (res_peers res)"

definition decidedAgent :: "'w kube \<Rightarrow> reader \<Rightarrow> agent \<Rightarrow> resolution \<Rightarrow> agent" where
  "decidedAgent k rd a res =
    (let st = ag_status a; gen = meta_generation (ag_meta a);
         resolved = setCondition k (ast_conditions st) ConditionResolved ConditionTrue ReasonReconciled
                      ''all references resolved'' gen;
         policy = MergePolicies (res_policies res) (res_toolPolicies res);
         violations = agentViolations rd a res
     in if violations \<noteq> [] then
          (let msg = violationMessage violations policy in
           a\<lparr>ag_status := st\<lparr>ast_phase := AgentPhaseDegraded, ast_resolvedConfigHash := [],
              ast_conditions :=
                setCondition k
                  (setCondition k resolved ConditionPolicyCompliant ConditionFalse ReasonPolicyViolation msg gen)
                  ConditionReady ConditionFalse ReasonPolicyViolation msg gen\<rparr>\<rparr>)
        else
          a\<lparr>ag_status := st\<lparr>ast_phase := AgentPhaseReady, ast_resolvedConfigHash := configHash (res_refs res),
             ast_conditions :=
               setCondition k
                 (setCondition k resolved ConditionPolicyCompliant ConditionTrue ReasonReconciled
                    (policyCompliantMessage policy) gen)
                 ConditionReady ConditionTrue ReasonReconciled ''agent configuration assembled'' gen\<rparr>\<rparr>)"

datatype agent_pass = Stop go_error | Publish agent

definition agentWorkloads :: "'w kube \<Rightarrow> string \<Rightarrow> agent \<Rightarrow> resolution \<Rightarrow> 'w \<Rightarrow> (string + agent) \<times> 'w" where
  "agentWorkloads k url a res w =
    (case (case as_runtime (ag_spec a) of
             None \<Rightarrow> (Inr a, w) | Some rt \<Rightarrow> reconcileRuntime k url a rt res w) of
       (Inl e, w1) \<Rightarrow> (Inl e, w1)
     | (Inr a1, w1) \<Rightarrow>
        (case as_expose (ag_spec a1) of
           None \<Rightarrow> (Inr (a1\<lparr>ag_status := (ag_status a1)\<lparr>ast_peerEndpoint := []\<rparr>\<rparr>), w1)
         | Some x \<Rightarrow> reconcilePeer k a1 x w1))"

definition agentPass :: "'w kube \<Rightarrow> string \<Rightarrow> namespaced_name \<Rightarrow> 'w \<Rightarrow> agent_pass \<times> 'w" where
  "agentPass k url key w =
    (case getAgent (reads k w) key of
       NotFound \<Rightarrow> (Stop None, w)
     | Failed e \<Rightarrow> (Stop (Some e), w)
     | Found a0 \<Rightarrow>
        (let a = a0\<lparr>ag_status := (ag_status a0)\<lparr>ast_observedGeneration := meta_generation (ag_meta a0)\<rparr>\<rparr> in
         case AgentSpec_Validate (parseQuantity k) (ag_spec a) of
           Some err \<Rightarrow> (Publish (invalidAgent k a err), w)
         | None \<Rightarrow>
            (case resolveRefs (reads k w) a of
               Inl e \<Rightarrow> (Stop (Some e), w)
             | Inr res \<Rightarrow>
                (case agentWorkloads k url
                        (a\<lparr>ag_status := (ag_status a)\<lparr>ast_resolvedRefs := length (res_refs res)\<rparr>\<rparr>) res w of
                   (Inl e, w2) \<Rightarrow> (Stop (Some e), w2)
                 | (Inr a2, w2) \<Rightarrow>
                    (if res_missing res \<noteq> [] then (Publish (missingAgent k a2 (res_missing res)), w2)
                     else (Publish (decidedAgent k (reads k w2) a2 res), w2))))))"

definition Agent_Reconcile :: "'w kube \<Rightarrow> string \<Rightarrow> namespaced_name \<Rightarrow> 'w \<Rightarrow> go_error \<times> 'w" where
  "Agent_Reconcile k url key w =
    (case agentPass k url key w of
       (Stop e, w') \<Rightarrow> (e, w')
     | (Publish a, w') \<Rightarrow> statusUpdate k (OAgent a) w')"

section \<open>The workload steps keep the Agent's identity\<close>

lemma reconcileRuntime_keeps:
  assumes "reconcileRuntime k url a rt res w = (Inr a1, w1)"
  shows "ag_spec a1 = ag_spec a \<and> ag_meta a1 = ag_meta a \<and>
         ast_conditions (ag_status a1) = ast_conditions (ag_status a) \<and>
         ast_observedGeneration (ag_status a1) = ast_observedGeneration (ag_status a) \<and>
         ast_resolvedRefs (ag_status a1) = ast_resolvedRefs (ag_status a)"
  using assms
  by (auto simp: reconcileRuntime_def Let_def split: option.splits prod.splits if_splits got.splits)

lemma reconcilePeer_keeps:
  assumes "reconcilePeer k a x w = (Inr a1, w1)"
  shows "ag_spec a1 = ag_spec a \<and> ag_meta a1 = ag_meta a \<and>
         ast_conditions (ag_status a1) = ast_conditions (ag_status a) \<and>
         ast_observedGeneration (ag_status a1) = ast_observedGeneration (ag_status a) \<and>
         ast_resolvedRefs (ag_status a1) = ast_resolvedRefs (ag_status a)"
  using assms by (auto simp: reconcilePeer_def split: option.splits prod.splits)

lemma agentWorkloads_keeps:
  assumes "agentWorkloads k url a res w = (Inr a2, w2)"
  shows "ag_spec a2 = ag_spec a \<and> ag_meta a2 = ag_meta a \<and>
         ast_conditions (ag_status a2) = ast_conditions (ag_status a) \<and>
         ast_observedGeneration (ag_status a2) = ast_observedGeneration (ag_status a) \<and>
         ast_resolvedRefs (ag_status a2) = ast_resolvedRefs (ag_status a)"
proof -
  from assms obtain a1 w1 where
    "(case as_runtime (ag_spec a) of None \<Rightarrow> (Inr a, w) | Some rt \<Rightarrow> reconcileRuntime k url a rt res w) = (Inr a1, w1)"
    and 2: "(case as_expose (ag_spec a1) of
           None \<Rightarrow> (Inr (a1\<lparr>ag_status := (ag_status a1)\<lparr>ast_peerEndpoint := []\<rparr>\<rparr>), w1)
         | Some x \<Rightarrow> reconcilePeer k a1 x w1) = (Inr a2, w2)"
    by (auto simp: agentWorkloads_def split: prod.splits sum.splits)
  then have 1: "ag_spec a1 = ag_spec a \<and> ag_meta a1 = ag_meta a \<and>
         ast_conditions (ag_status a1) = ast_conditions (ag_status a) \<and>
         ast_observedGeneration (ag_status a1) = ast_observedGeneration (ag_status a) \<and>
         ast_resolvedRefs (ag_status a1) = ast_resolvedRefs (ag_status a)"
    by (cases "as_runtime (ag_spec a)") (auto dest: reconcileRuntime_keeps)
  show ?thesis
  proof (cases "as_expose (ag_spec a1)")
    case None
    with 1 2 show ?thesis by auto
  next
    case (Some x)
    with 2 have "reconcilePeer k a1 x w1 = (Inr a2, w2)" by simp
    from reconcilePeer_keeps [OF this] 1 show ?thesis by simp
  qed
qed

section \<open>What a published status says\<close>

lemma agentClassOf_status [simp]: "agentClassOf rd (a\<lparr>ag_status := st\<rparr>) = agentClassOf rd a"
  by (simp add: agentClassOf_def cong: option.case_cong)

lemma resolveRefs_status [simp]: "resolveRefs rd (a\<lparr>ag_status := st\<rparr>) = resolveRefs rd a"
  by (simp add: resolveRefs_def)

definition same_agent :: "agent \<Rightarrow> agent \<Rightarrow> bool" where
  "same_agent a b \<longleftrightarrow> ag_spec a = ag_spec b \<and> ag_meta a = ag_meta b"

lemma agentPass_Publish:
  assumes "getAgent (reads k w) key = Found a" and "agentPass k url key w = (Publish a', w')"
  obtains (invalid) b err where "AgentSpec_Validate (parseQuantity k) (ag_spec a) = Some err"
      "same_agent b a" "ast_observedGeneration (ag_status b) = meta_generation (ag_meta a)"
      "a' = invalidAgent k b err" "w' = w"
  | (missing) b res where "AgentSpec_Validate (parseQuantity k) (ag_spec a) = None"
      "resolveRefs (reads k w) a = Inr res" "res_missing res \<noteq> []"
      "same_agent b a" "ast_observedGeneration (ag_status b) = meta_generation (ag_meta a)"
      "a' = missingAgent k b (res_missing res)"
  | (decided) b res where "AgentSpec_Validate (parseQuantity k) (ag_spec a) = None"
      "resolveRefs (reads k w) a = Inr res" "res_missing res = []"
      "same_agent b a" "ast_observedGeneration (ag_status b) = meta_generation (ag_meta a)"
      "a' = decidedAgent k (reads k w') b res"
proof -
  let ?a = "a\<lparr>ag_status := (ag_status a)\<lparr>ast_observedGeneration := meta_generation (ag_meta a)\<rparr>\<rparr>"
  show thesis
  proof (cases "AgentSpec_Validate (parseQuantity k) (ag_spec a)")
    case (Some err)
    show thesis
      by (rule invalid [of err ?a]) (use assms Some in \<open>auto simp: agentPass_def Let_def same_agent_def\<close>)
  next
    case None
    with assms obtain res where res: "resolveRefs (reads k w) a = Inr res"
      by (auto simp: agentPass_def Let_def split: sum.splits)
    let ?b = "?a\<lparr>ag_status := (ag_status ?a)\<lparr>ast_resolvedRefs := length (res_refs res)\<rparr>\<rparr>"
    from assms None res obtain b w2 where b: "agentWorkloads k url ?b res w = (Inr b, w2)"
      and p: "(if res_missing res \<noteq> [] then (Publish (missingAgent k b (res_missing res)), w2)
           else (Publish (decidedAgent k (reads k w2) b res), w2)) = (Publish a', w')"
      by (auto simp: agentPass_def Let_def split: sum.splits prod.splits)
    from agentWorkloads_keeps [OF b]
    have keep: "same_agent b a" "ast_observedGeneration (ag_status b) = meta_generation (ag_meta a)"
      by (simp_all add: same_agent_def)
    show thesis
    proof (cases "res_missing res = []")
      case True
      with p decided [OF None res True keep] show thesis by auto
    next
      case False
      with p missing [OF None res False keep] show thesis by auto
    qed
  qed
qed

text \<open>A peer Tool resolves to an Agent that answers, or to one that cannot be read right now.\<close>

definition peer_answers :: "reader \<Rightarrow> agent \<Rightarrow> peer_ref \<Rightarrow> bool" where
  "peer_answers rd a p \<longleftrightarrow> pr_agent p \<noteq> ag_name a \<and>
    (case getAgent rd (NamespacedName (ag_namespace a) (pr_agent p)) of
       Found t \<Rightarrow> as_expose (ag_spec t) \<noteq> None | NotFound \<Rightarrow> False | Failed _ \<Rightarrow> True)"

lemma peerViolation_Nil: "peerViolation rd a p = [] \<longleftrightarrow> peer_answers rd a p"
  by (cases "getAgent rd (NamespacedName (ag_namespace a) (pr_agent p))")
     (simp_all add: peerViolation_def peer_answers_def)

lemma peerViolations_Nil: "peerViolations rd a peers = [] \<longleftrightarrow> (\<forall>p\<in>set peers. peer_answers rd a p)"
  by (auto simp: peerViolations_def peerViolation_Nil)

definition admitted :: "reader \<Rightarrow> agent \<Rightarrow> resolution \<Rightarrow> bool" where
  "admitted rd a res \<longleftrightarrow>
     declaration_permitted (res_policies res) (res_toolPolicies res) (res_declared res) \<and>
     (\<forall>sk\<in>set (res_skillScopes res). set (scope_allowedTools sk) \<subseteq> set (refs_tools (res_declared res))) \<and>
     (\<forall>p\<in>set (res_peers res). peer_answers rd a p)"

lemma SkillToolViolations_Nil:
  "SkillToolViolations skills tools = [] \<longleftrightarrow> (\<forall>sk\<in>set skills. set (scope_allowedTools sk) \<subseteq> set tools)"
  by (auto simp: SkillToolViolations_def skillToolViolation_def)

lemma agentViolations_Nil: "agentViolations rd a res = [] \<longleftrightarrow> admitted rd a res"
  by (simp add: agentViolations_def admitted_def Violations_Nil_iff SkillToolViolations_Nil peerViolations_Nil)

lemma admitted_same: "same_agent b a \<Longrightarrow> admitted rd b res \<longleftrightarrow> admitted rd a res"
  by (simp add: admitted_def peer_answers_def same_agent_def)

lemma agentViolations_same: "same_agent b a \<Longrightarrow> agentViolations rd b res = [] \<longleftrightarrow> admitted rd a res"
  by (simp add: agentViolations_Nil admitted_same)

text \<open>One published status, in the four facts a reader of it relies on.\<close>

definition status_ready :: "agent \<Rightarrow> string \<Rightarrow> bool" where
  "status_ready a hash \<longleftrightarrow> ast_phase (ag_status a) = AgentPhaseReady \<and>
     is_ready (ast_conditions (ag_status a)) \<and> ast_resolvedConfigHash (ag_status a) = hash"

definition status_degraded :: "agent \<Rightarrow> bool" where
  "status_degraded a \<longleftrightarrow> ast_phase (ag_status a) = AgentPhaseDegraded \<and>
     \<not> is_ready (ast_conditions (ag_status a)) \<and> ast_resolvedConfigHash (ag_status a) = []"

definition status_current :: "agent \<Rightarrow> agent \<Rightarrow> bool" where
  "status_current a' a \<longleftrightarrow> same_agent a' a \<and>
     ast_observedGeneration (ag_status a') = meta_generation (ag_meta a) \<and>
     ready_generation (ast_conditions (ag_status a')) (meta_generation (ag_meta a))"

locale condition_writer =
  fixes k :: "'w kube"
  assumes sc: "status_conditions (setStatusCondition k)"
begin

lemma invalidAgent_status:
  assumes "same_agent b a" "ast_observedGeneration (ag_status b) = meta_generation (ag_meta a)"
  shows "status_degraded (invalidAgent k b err)" "status_current (invalidAgent k b err) a"
  using assms
  by (simp_all add: status_degraded_def status_current_def invalidAgent_def Let_def setCondition_Ready [OF sc]
      same_agent_def)

lemma missingAgent_status:
  assumes "same_agent b a" "ast_observedGeneration (ag_status b) = meta_generation (ag_meta a)"
  shows "status_degraded (missingAgent k b ms)" "status_current (missingAgent k b ms) a"
  using assms
  by (simp_all add: status_degraded_def status_current_def missingAgent_def Let_def setCondition_Ready [OF sc]
      same_agent_def)

lemma decidedAgent_status:
  assumes "same_agent b a" "ast_observedGeneration (ag_status b) = meta_generation (ag_meta a)"
  shows "if admitted rd a res then status_ready (decidedAgent k rd b res) (configHash (res_refs res))
         else status_degraded (decidedAgent k rd b res)"
    and "status_current (decidedAgent k rd b res) a"
  using assms agentViolations_same [OF assms(1), of rd res]
  by (auto simp: status_ready_def status_degraded_def status_current_def decidedAgent_def Let_def
      setCondition_Ready [OF sc] same_agent_def)

end

interpretation rk: condition_writer recording_kube
  by (rule condition_writer.intro) (rule recording_kube_conditions)

section \<open>Passes on a recording client\<close>

lemma plain_agent_pass:
  assumes "getAgent (reads k w) key = Found a" and "AgentSpec_Validate (parseQuantity k) (ag_spec a) = None"
    and "as_runtime (ag_spec a) = None" and "as_expose (ag_spec a) = None"
    and "resolveRefs (reads k w) a = Inr res"
  shows "\<exists>a'. agentPass k url key w = (Publish a', w)"
  using assms by (simp add: agentPass_def agentWorkloads_def Let_def)

lemma recording_createDeployment:
  "getDeployment rd key = NotFound \<Longrightarrow>
   createOrUpdateDeployment recording_kube key f (rd, ws) =
     (case f (blank_deployment key) of Inl e \<Rightarrow> (Some e, rd, ws) | Inr d \<Rightarrow> (None, rd, ws @ [WDeployment d]))"
  by (auto simp: recording_kube_def split: sum.split)

lemma recording_parseQuantity [simp]: "parseQuantity recording_kube = Inr"
  by (simp add: recording_kube_def)

lemma reconcileRuntime_recorded:
  assumes "as_workspace (ag_spec a) = None" and "rt_port rt = 0"
    and "getDeployment rd (runtimeKey a) = NotFound"
  shows "\<exists>a' d. reconcileRuntime recording_kube url a rt res (rd, ws) = (Inr a', rd, ws @ [WDeployment d])"
proof -
  obtain d where d: "mutateRuntimeDeployment recording_kube (if url = [] then defaultRegistryURL else url) a rt
      (res_credentials res) [] [] (blank_deployment (runtimeKey a)) = Inr d"
    using recording_mutates by blast
  show ?thesis
    by (simp add: reconcileRuntime_def runtimeGitSecret_def assms Let_def recording_createDeployment d)
qed

definition denied_agent :: agent where
  "denied_agent = sample_agent\<lparr>ag_spec := sample_agent_spec
     \<lparr>as_policyRefs := [LocalReference ''no-gpt''],
      as_runtime := Some \<lparr>rt_image = ''img'', rt_replicas = 1, rt_port = 0, rt_env = [],
        rt_serviceAccountName = [], rt_resources = [], rt_readinessProbe = None,
        rt_runtimeClassName = [], rt_volumes = []\<rparr>\<rparr>\<rparr>"

definition denied_reader :: reader where
  "denied_reader = sample_reader
     \<lparr>getAgent := (\<lambda>_. Found denied_agent),
      getPolicy := (\<lambda>_. Found (sample_policy ''no-gpt'' (Some \<lparr>rule_allow = [], rule_deny = [''gpt'']\<rparr>)))\<rparr>"

lemma denied_agent_simps:
  "ag_namespace denied_agent = ''default''" "as_workspace (ag_spec denied_agent) = None"
  "as_expose (ag_spec denied_agent) = None" "agent_eff denied_reader denied_agent = ag_spec denied_agent"
  "as_modelRef (ag_spec denied_agent) = Some (LocalReference ''gpt'')"
  "as_policyRefs (ag_spec denied_agent) = [LocalReference ''no-gpt'']"
  by (simp_all add: denied_agent_def sample_agent_def sample_agent_spec_def sample_meta_def agent_eff_def agentClassOf_def)

lemma denied_agent_valid: "AgentSpec_Validate Inr (ag_spec denied_agent) = None"
proof -
  have "refs_named (ag_spec denied_agent)"
    by (simp add: refs_named_def ref_lists_def denied_agent_def sample_agent_spec_def refNames_def)
  then show ?thesis
    by (simp add: AgentSpec_Validate_iff)
       (simp add: agent_spec_ok_def denied_agent_def sample_agent_spec_def ref_lists_def refNames_def runtime_ok_def envNames_def)
qed

lemma denied_agent_tgts:
  "agent_tgts denied_reader denied_agent =
     [mkTarget kindModel KModel (LocalReference ''gpt''), mkTarget kindTool KTool (LocalReference ''search''),
      mkTarget ''Policy'' KPolicy (LocalReference ''no-gpt'')]"
  unfolding agent_tgts_def denied_agent_simps
  by (simp add: agentTargets_def optTarget_def gitTarget_def denied_agent_def sample_agent_spec_def)

lemma denied_readable: "references_readable denied_reader denied_agent"
  by (simp add: references_readable_def denied_agent_tgts denied_agent_simps)
     (simp add: tgt_get_def denied_reader_def sample_reader_def)

lemma sample_agent_valid: "AgentSpec_Validate Inr sample_agent_spec = None"
proof -
  have n: "refs_named sample_agent_spec"
    by (simp add: refs_named_def ref_lists_def sample_agent_spec_def refNames_def)
  have "agent_spec_ok Inr sample_agent_spec"
    by (simp add: agent_spec_ok_def ref_lists_def sample_agent_spec_def refNames_def)
  with AgentSpec_Validate_iff [OF n] show ?thesis by blast
qed

lemma sample_no_peers:
  assumes "resolveRefs sample_reader sample_agent = Inr res"
  shows "res_peers res = []"
proof -
  have "getTool sample_reader (NamespacedName ''default'' n) = Found t \<Longrightarrow> tos_agentRef (to_spec t) = None" for n t
    by (auto simp: sample_reader_def sample_tool_def split: if_splits)
  then have "peersOf sample_reader ''default'' n = []" for n
    by (cases "getTool sample_reader (NamespacedName ''default'' n)") (simp_all add: peersOf_def)
  then show ?thesis unfolding resolveRefs_declared(4) [OF assms] sample_agent_ns by (simp add: concat_map_empty)
qed

lemma sample_admitted:
  assumes "resolveRefs sample_reader sample_agent = Inr res"
  shows "admitted rd a res"
  unfolding admitted_def resolveRefs_fields [OF assms] sample_no_peers [OF assms] sample_agent_eff
  by (simp add: sample_agent_spec_def declaration_permitted_def policies_permit_def tool_denied_def all_rules_def)

lemma sample_get:
  "getAgent (reads recording_kube (sample_reader, [])) (NamespacedName ''default'' ''bot'') = Found sample_agent"
  by (simp add: sample_reader_def)

lemma sample_valid: "AgentSpec_Validate (parseQuantity recording_kube) (ag_spec sample_agent) = None"
  using sample_agent_valid by (simp add: sample_agent_def)

lemma sample_pass:
  obtains a' where "agentPass recording_kube [] (NamespacedName ''default'' ''bot'') (sample_reader, []) =
    (Publish a', sample_reader, [])"
proof -
  obtain res where "resolveRefs sample_reader sample_agent = Inr res"
    using resolveRefs_total sample_readable by blast
  then show thesis
    using plain_agent_pass [OF sample_get sample_valid] that by (auto simp: sample_agent_def sample_agent_spec_def)
qed

lemma agent_ready_lemma:
  assumes "status_conditions (setStatusCondition k)"
    and "getAgent (reads k w) key = Found a" and "agentPass k url key w = (Publish a', w')"
  shows "(if AgentSpec_Validate (parseQuantity k) (ag_spec a) = None \<and> references_exist (reads k w) a \<and>
             (\<exists>res. resolveRefs (reads k w) a = Inr res \<and> admitted (reads k w') a res)
          then \<exists>res. resolveRefs (reads k w) a = Inr res \<and> status_ready a' (configHash (res_refs res))
          else status_degraded a') \<and> status_current a' a"
  using assms(2,3)
proof (cases rule: agentPass_Publish)
  case (invalid b err)
  with condition_writer.invalidAgent_status [OF condition_writer.intro [OF assms(1)] invalid(2,3), of err]
  show ?thesis by simp
next
  case (missing b res)
  with condition_writer.missingAgent_status [OF condition_writer.intro [OF assms(1)] missing(4,5), of "res_missing res"]
    resolveRefs_missing_Nil [OF missing(2)]
  show ?thesis by simp
next
  case (decided b res)
  with condition_writer.decidedAgent_status [OF condition_writer.intro [OF assms(1)] decided(4,5),
        of "reads k w'" res] resolveRefs_missing_Nil [OF decided(2)]
  show ?thesis by auto
qed

section \<open>Properties\<close>

text \<open>
  C3. An Agent is Ready exactly when it should be: whenever a pass publishes a status, the
  phase is Ready if and only if the spec is structurally valid, every reference (after class
  defaults) exists, its Policies and ToolPolicies permit its model, MCP servers and tools,
  every tool its Skills allow is one it reaches, and every peer Tool names another Agent that
  exposes an endpoint.
\<close>

theorem agent_ready_exact:
  assumes "status_conditions (setStatusCondition k)"
    and "getAgent (reads k w) key = Found a" and "agentPass k url key w = (Publish a', w')"
  shows "ast_phase (ag_status a') = AgentPhaseReady \<longleftrightarrow>
           AgentSpec_Validate (parseQuantity k) (ag_spec a) = None \<and> references_exist (reads k w) a \<and>
           (\<exists>res. resolveRefs (reads k w) a = Inr res \<and> admitted (reads k w') a res)"
  using agent_ready_lemma [OF assms] by (auto simp: status_ready_def status_degraded_def split: if_splits)

theorem agent_ready_exact_witness:
  "\<exists>a'. agentPass recording_kube [] (NamespacedName ''default'' ''bot'') (sample_reader, []) =
          (Publish a', sample_reader, []) \<and> ast_phase (ag_status a') = AgentPhaseReady"
proof -
  obtain res where r: "resolveRefs sample_reader sample_agent = Inr res"
    using resolveRefs_total sample_readable by blast
  obtain a' where p: "agentPass recording_kube [] (NamespacedName ''default'' ''bot'') (sample_reader, []) =
      (Publish a', sample_reader, [])" by (rule sample_pass)
  from agent_ready_exact [OF recording_kube_conditions sample_get p] p sample_valid r sample_exists sample_admitted [OF r]
  show ?thesis by auto
qed

text \<open>
  An Agent without a runtime or exposure costs one write: when it is valid and its references
  can be read, the pass always publishes, and reconciling is that one status update on the
  cluster as it was read. A missing Agent is not an error and an unreadable one is returned as
  the error; neither writes anything.
\<close>

lemma plain_agent_one_write:
  "(case getAgent (reads k w) key of
      NotFound \<Rightarrow> Agent_Reconcile k url key w = (None, w)
    | Failed e \<Rightarrow> Agent_Reconcile k url key w = (Some e, w)
    | Found a \<Rightarrow>
       as_runtime (ag_spec a) = None \<and> as_expose (ag_spec a) = None \<and> references_readable (reads k w) a \<longrightarrow>
       (\<exists>a'. agentPass k url key w = (Publish a', w) \<and>
             Agent_Reconcile k url key w = statusUpdate k (OAgent a') w))"
proof (cases "getAgent (reads k w) key")
  case (Found a)
  show ?thesis
  proof (cases "AgentSpec_Validate (parseQuantity k) (ag_spec a)")
    case None
    then show ?thesis
      using plain_agent_pass [OF Found] resolveRefs_total [of "reads k w" a]
      by (fastforce simp: Found Agent_Reconcile_def)
  qed (auto simp: Found Agent_Reconcile_def agentPass_def Let_def)
qed (simp_all add: Agent_Reconcile_def agentPass_def)


end
