(* ===== verification/Registry.thy ===== *)
theory Registry
  imports Agent_Controller
begin

text \<open>
  The config Registry, \<^verbatim>\<open>cmd/registry/main.go\<close>: the snapshot a runtime fetches. The typed views
  of the SDK (a separate module) are records of the fields the Registry fills;
  \<^verbatim>\<open>json.Marshal\<close> of the effective spec and the text of a NotFound error are the parameters
  \<open>marshal\<close> and \<open>notFoundText\<close>. The lemmas compare the snapshot with what the Operator
  resolves for the same Agent (\<open>Agent_Resolve\<close>, \<open>Agent_Controller\<close>): the two programs read
  the same objects, so on one state of the cluster they must agree on the effective spec,
  the tool surface and the merged policy.
\<close>

section \<open>The views\<close>

record sdk_prompt =
  sp_promptName :: string
  sp_system :: string

record sdk_model =
  sm_provider :: string
  sm_modelName :: string
  sm_endpoint :: string
  sm_secretName :: string
  sm_secretKey :: string

record sdk_tool =
  tv_name :: string
  tv_type :: string
  tv_description :: string
  tv_endpoint :: string
  tv_mcpToolName :: string
  tv_inputSchema :: string

record sdk_skill =
  sv_name :: string
  sv_description :: string
  sv_content :: string
  sv_allowedTools :: "string list"

record sdk_access_rule =
  sar_allow :: "string list"
  sar_deny :: "string list"

record sdk_tool_rule =
  str_tool :: string
  str_action :: string
  str_maxCallsPerSession :: "int option"

record sdk_policy =
  pv_sources :: "string list"
  pv_models :: "sdk_access_rule option"
  pv_mcp :: "sdk_access_rule option"
  pv_tools :: "sdk_access_rule option"
  pv_defaultToolAction :: string
  pv_toolRules :: "sdk_tool_rule list"

record agent_config =
  cfg_namespace :: string
  cfg_name :: string
  cfg_configHash :: string
  cfg_phase :: string
  cfg_spec :: string
  cfg_prompt :: "sdk_prompt option"
  cfg_model :: "sdk_model option"
  cfg_tools :: "sdk_tool list"
  cfg_skills :: "sdk_skill list"
  cfg_policy :: "sdk_policy option"

section \<open>The snapshot\<close>

definition accessRuleView :: "access_rule option \<Rightarrow> sdk_access_rule option" where
  "accessRuleView r =
    (case r of None \<Rightarrow> None | Some r \<Rightarrow> Some \<lparr>sar_allow = rule_allow r, sar_deny = rule_deny r\<rparr>)"

definition policyView :: "effective_policy \<Rightarrow> sdk_policy" where
  "policyView merged =
    \<lparr>pv_sources = eff_sources merged,
     pv_models = accessRuleView (eff_models merged),
     pv_mcp = accessRuleView (eff_mcp merged),
     pv_tools = accessRuleView (eff_tools merged),
     pv_defaultToolAction = eff_defaultToolAction merged,
     pv_toolRules = map (\<lambda>r. \<lparr>str_tool = tr_tool r, str_action = tr_action r,
                               str_maxCallsPerSession = tr_maxCallsPerSession r\<rparr>) (eff_toolRules merged)\<rparr>"

text \<open>The loop that loads a list of references and skips those it cannot read.\<close>

fun loadAll :: "(namespaced_name \<Rightarrow> 'a got) \<Rightarrow> string \<Rightarrow> local_reference list \<Rightarrow> 'a list \<Rightarrow> 'a list" where
  "loadAll get ns [] acc = acc"
| "loadAll get ns (r # rs) acc =
    (case get (NamespacedName ns (ref_name r)) of
       Found x \<Rightarrow> loadAll get ns rs (acc @ [x])
     | _ \<Rightarrow> loadAll get ns rs acc)"

definition resolvePolicy :: "reader \<Rightarrow> string \<Rightarrow> agent_spec \<Rightarrow> sdk_policy option" where
  "resolvePolicy rd ns eff =
    (let policies = loadAll (getPolicy rd) ns (as_policyRefs eff) [];
         toolPolicies = loadAll (getToolPolicy rd) ns (as_toolPolicyRefs eff) []
     in case MergePolicies policies toolPolicies of
          None \<Rightarrow> None
        | Some merged \<Rightarrow> Some (policyView merged))"

definition withMcpEndpoint :: "reader \<Rightarrow> string \<Rightarrow> tool \<Rightarrow> sdk_tool \<Rightarrow> sdk_tool" where
  "withMcpEndpoint rd ns t tv =
    (case tos_mcpServerRef (to_spec t) of
       None \<Rightarrow> tv
     | Some r \<Rightarrow>
        (if tos_type (to_spec t) = ToolTypeMCP then
           (case getMCPServer rd (NamespacedName ns (ref_name r)) of
              Found mcp \<Rightarrow> tv\<lparr>tv_endpoint := msst_endpoint (ms_status mcp)\<rparr>
            | _ \<Rightarrow> tv)
         else tv))"

definition withPeerEndpoint :: "reader \<Rightarrow> string \<Rightarrow> tool \<Rightarrow> sdk_tool \<Rightarrow> sdk_tool" where
  "withPeerEndpoint rd ns t tv =
    (case tos_agentRef (to_spec t) of
       None \<Rightarrow> tv
     | Some r \<Rightarrow>
        (if tos_type (to_spec t) = ToolTypeMCP then
           (case getAgent rd (NamespacedName ns (ref_name r)) of
              Found peer \<Rightarrow>
                (let tv1 = tv\<lparr>tv_endpoint := ast_peerEndpoint (ag_status peer)\<rparr>
                 in case as_expose (ag_spec peer) of
                      None \<Rightarrow> tv1
                    | Some e \<Rightarrow>
                       (if tv_description tv1 = [] then tv1\<lparr>tv_description := expose_description e\<rparr> else tv1))
            | _ \<Rightarrow> tv)
         else tv))"

definition toolView :: "tool \<Rightarrow> sdk_tool" where
  "toolView t =
    \<lparr>tv_name = meta_name (to_meta t), tv_type = tos_type (to_spec t),
     tv_description = tos_description (to_spec t), tv_endpoint = tos_endpoint (to_spec t),
     tv_mcpToolName = tos_mcpToolName (to_spec t),
     tv_inputSchema = (case tos_inputSchema (to_spec t) of None \<Rightarrow> [] | Some raw \<Rightarrow> raw)\<rparr>"

text \<open>\<^const>\<open>None\<close> is the error of the first \<^verbatim>\<open>Get\<close>, which the callers only log.\<close>

definition resolveTool :: "reader \<Rightarrow> string \<Rightarrow> string \<Rightarrow> sdk_tool option" where
  "resolveTool rd ns name =
    (case getTool rd (NamespacedName ns name) of
       Found t \<Rightarrow> Some (withPeerEndpoint rd ns t (withMcpEndpoint rd ns t (toolView t)))
     | _ \<Rightarrow> None)"

definition resolveSkill :: "reader \<Rightarrow> string \<Rightarrow> string \<Rightarrow> sdk_skill option" where
  "resolveSkill rd ns name =
    (case getSkill rd (NamespacedName ns name) of
       Found sk \<Rightarrow>
        (let spec = sk_spec sk;
             sv = \<lparr>sv_name = meta_name (sk_meta sk), sv_description = sks_description spec,
                   sv_content = sks_content spec, sv_allowedTools = sks_allowedTools spec\<rparr>
         in Some (case sks_contentConfigMapRef spec of
                    None \<Rightarrow> sv
                  | Some ref \<Rightarrow>
                     (if sv_content sv = [] then
                        (case getConfigMap rd (NamespacedName ns (cmr_name ref)) of
                           Found cm \<Rightarrow>
                             sv\<lparr>sv_content := (case cm_data cm (cmr_key ref) of None \<Rightarrow> [] | Some v \<Rightarrow> v)\<rparr>
                         | _ \<Rightarrow> sv)
                      else sv)))
     | _ \<Rightarrow> None)"

text \<open>\<^verbatim>\<open>addTool\<close>: the set of names already shipped and the views in order.\<close>

definition addTool :: "reader \<Rightarrow> string \<Rightarrow> string \<Rightarrow> string set \<times> sdk_tool list \<Rightarrow> string set \<times> sdk_tool list" where
  "addTool rd ns name st =
    (case st of (seen, tools) \<Rightarrow>
       if name \<in> seen then st
       else (case resolveTool rd ns name of
               None \<Rightarrow> st
             | Some tv \<Rightarrow> (insert name seen, tools @ [tv])))"

definition addToolSet ::
  "reader \<Rightarrow> string \<Rightarrow> local_reference \<Rightarrow> string set \<times> sdk_tool list \<Rightarrow> string set \<times> sdk_tool list" where
  "addToolSet rd ns ref st =
    (case getToolSet rd (NamespacedName ns (ref_name ref)) of
       Found ts \<Rightarrow> fold (\<lambda>t. addTool rd ns (ref_name t)) (tss_toolRefs (ts_spec ts)) st
     | _ \<Rightarrow> st)"

definition shippedTools :: "reader \<Rightarrow> string \<Rightarrow> agent_spec \<Rightarrow> sdk_tool list" where
  "shippedTools rd ns eff =
    snd (fold (addToolSet rd ns) (as_toolSetRefs eff)
          (fold (\<lambda>r. addTool rd ns (ref_name r)) (as_toolRefs eff) ({}, [])))"

definition shippedSkills :: "reader \<Rightarrow> string \<Rightarrow> agent_spec \<Rightarrow> sdk_skill list" where
  "shippedSkills rd ns eff =
    fold (\<lambda>r skills. case resolveSkill rd ns (ref_name r) of None \<Rightarrow> skills | Some sv \<Rightarrow> skills @ [sv])
      (as_skillRefs eff) []"

definition promptView :: "reader \<Rightarrow> string \<Rightarrow> agent_spec \<Rightarrow> sdk_prompt option" where
  "promptView rd ns eff =
    (case as_promptRef eff of
       None \<Rightarrow> None
     | Some r \<Rightarrow>
        (case getPromptTemplate rd (NamespacedName ns (ref_name r)) of
           Found pt \<Rightarrow> Some \<lparr>sp_promptName = meta_name (pt_meta pt), sp_system = pts_system (pt_spec pt)\<rparr>
         | _ \<Rightarrow> None))"

definition modelView :: "reader \<Rightarrow> string \<Rightarrow> agent_spec \<Rightarrow> sdk_model option" where
  "modelView rd ns eff =
    (case as_modelRef eff of
       None \<Rightarrow> None
     | Some r \<Rightarrow>
        (case getModel rd (NamespacedName ns (ref_name r)) of
           Found mo \<Rightarrow>
            (let mv = \<lparr>sm_provider = mos_provider (mo_spec mo), sm_modelName = mos_modelName (mo_spec mo),
                       sm_endpoint = mos_endpoint (mo_spec mo), sm_secretName = [], sm_secretKey = []\<rparr>
             in Some (case mos_credentialRef (mo_spec mo) of
                        None \<Rightarrow> mv
                      | Some c \<Rightarrow>
                         (case getCredential rd (NamespacedName ns (ref_name c)) of
                            Found cred \<Rightarrow> mv\<lparr>sm_secretName := skr_name (crs_secretRef (cr_spec cred)),
                                             sm_secretKey := skr_key (crs_secretRef (cr_spec cred))\<rparr>
                          | _ \<Rightarrow> mv)))
         | _ \<Rightarrow> None))"

definition registrySpec :: "reader \<Rightarrow> agent \<Rightarrow> agent_spec" where
  "registrySpec rd a =
    ApplyClassDefaults (ag_spec a)
      (case as_agentClassRef (ag_spec a) of
         None \<Rightarrow> None
       | Some r \<Rightarrow>
          (case getAgentClass rd (NamespacedName (ag_namespace a) (ref_name r)) of
             Found c \<Rightarrow> Some c
           | _ \<Rightarrow> None))"

definition buildConfigFrom :: "(agent_spec \<Rightarrow> string + string) \<Rightarrow> reader \<Rightarrow> agent \<Rightarrow> string + agent_config" where
  "buildConfigFrom marshal rd a =
    (let ns = ag_namespace a; eff = registrySpec rd a
     in case marshal eff of
          Inl e \<Rightarrow> Inl (''marshal effective spec: '' @ e)
        | Inr specJSON \<Rightarrow>
           Inr \<lparr>cfg_namespace = ns, cfg_name = ag_name a,
                cfg_configHash = ast_resolvedConfigHash (ag_status a),
                cfg_phase = ast_phase (ag_status a), cfg_spec = specJSON,
                cfg_prompt = promptView rd ns eff, cfg_model = modelView rd ns eff,
                cfg_tools = shippedTools rd ns eff, cfg_skills = shippedSkills rd ns eff,
                cfg_policy = resolvePolicy rd ns eff\<rparr>)"

definition buildConfig ::
  "(agent_spec \<Rightarrow> string + string) \<Rightarrow> (namespaced_name \<Rightarrow> string) \<Rightarrow> reader \<Rightarrow> string \<Rightarrow> string
    \<Rightarrow> string + agent_config \<times> string" where
  "buildConfig marshal notFoundText rd ns name =
    (case getAgent rd (NamespacedName ns name) of
       Found a \<Rightarrow>
        (case buildConfigFrom marshal rd a of
           Inl e \<Rightarrow> Inl e
         | Inr cfg \<Rightarrow> Inr (cfg, meta_resourceVersion (ag_meta a)))
     | NotFound \<Rightarrow> Inl (notFoundText (NamespacedName ns name))
     | Failed e \<Rightarrow> Inl e)"

section \<open>The HTTP surface\<close>

datatype http_reply =
    HttpError int string
  | HttpConfig agent_config
  | HttpWatch string string

text \<open>\<^verbatim>\<open>strings.Split(s, "/")\<close> and \<^verbatim>\<open>strings.TrimPrefix\<close>.\<close>

fun split_slash :: "string \<Rightarrow> string list" where
  "split_slash [] = [[]]"
| "split_slash (c # cs) =
    (if c = CHR ''/'' then [] # split_slash cs
     else (case split_slash cs of [] \<Rightarrow> [[c]] | p # ps \<Rightarrow> (c # p) # ps))"

definition trim_prefix :: "string \<Rightarrow> string \<Rightarrow> string" where
  "trim_prefix s p = (if has_prefix s p then drop (length p) s else s)"

definition handleConfig ::
  "(agent_spec \<Rightarrow> string + string) \<Rightarrow> (namespaced_name \<Rightarrow> string) \<Rightarrow> reader \<Rightarrow> string \<Rightarrow> string \<Rightarrow> http_reply" where
  "handleConfig marshal notFoundText rd ns name =
    (case buildConfig marshal notFoundText rd ns name of
       Inl e \<Rightarrow> HttpError 404 (''agent '' @ ns @ ''/'' @ name @ '': '' @ e)
     | Inr (cfg, rv) \<Rightarrow> HttpConfig cfg)"

text \<open>The stream a watch request opens is the step relation of \<open>Hub\<close>.\<close>

definition handleAgent ::
  "(agent_spec \<Rightarrow> string + string) \<Rightarrow> (namespaced_name \<Rightarrow> string) \<Rightarrow> reader \<Rightarrow> string \<Rightarrow> http_reply" where
  "handleAgent marshal notFoundText rd path =
    (case split_slash (trim_prefix path ''/v1/agents/'') of
       [ns, name, verb] \<Rightarrow>
         (if verb = ''config'' then handleConfig marshal notFoundText rd ns name
          else if verb = ''watch'' then HttpWatch ns name
          else HttpError 400 (''unknown verb: '' @ verb))
     | _ \<Rightarrow> HttpError 400 ''expected /v1/agents/{namespace}/{name}/{config|watch}'')"

section \<open>Agreement with the Operator\<close>

lemma registrySpec_eff: "registrySpec rd a = agent_eff rd a"
  by (auto simp: registrySpec_def agent_eff_def agentClassOf_def split: option.split got.split)

lemma loadAll_found: "loadAll get ns refs acc = acc @ found_all get ns refs"
  by (induction refs arbitrary: acc) (auto split: got.split)

lemma resolvePolicy_merged:
  "resolvePolicy rd ns eff =
     map_option policyView (MergePolicies (found_all (getPolicy rd) ns (as_policyRefs eff))
                                          (found_all (getToolPolicy rd) ns (as_toolPolicyRefs eff)))"
  by (auto simp: resolvePolicy_def loadAll_found Let_def split: option.split)

text \<open>The views a list of names yields, in order.\<close>

definition tool_views :: "reader \<Rightarrow> string \<Rightarrow> string list \<Rightarrow> sdk_tool list" where
  "tool_views rd ns names = concat (map (\<lambda>n. case resolveTool rd ns n of None \<Rightarrow> [] | Some tv \<Rightarrow> [tv]) names)"

lemma tool_views_simps [simp]:
  "tool_views rd ns [] = []"
  "tool_views rd ns (n # names) =
     (case resolveTool rd ns n of None \<Rightarrow> [] | Some tv \<Rightarrow> [tv]) @ tool_views rd ns names"
  by (simp_all add: tool_views_def)

lemma addToolSet_names:
  "addToolSet rd ns ref st =
     fold (addTool rd ns) (case getToolSet rd (NamespacedName ns (ref_name ref)) of
                             Found ts \<Rightarrow> map ref_name (tss_toolRefs (ts_spec ts)) | _ \<Rightarrow> []) st"
  by (auto simp: addToolSet_def fold_map comp_def split: got.split)

lemma shippedTools_fold: "shippedTools rd ns eff = snd (fold (addTool rd ns) (toolNames rd ns eff) ({}, []))"
proof -
  have "fold (addToolSet rd ns) refs st =
          fold (addTool rd ns) (concat (map (\<lambda>r. case getToolSet rd (NamespacedName ns (ref_name r)) of
                         Found ts \<Rightarrow> map ref_name (tss_toolRefs (ts_spec ts)) | _ \<Rightarrow> []) refs)) st" for refs st
    by (induction refs arbitrary: st) (simp_all add: addToolSet_names)
  then show ?thesis by (simp add: shippedTools_def toolNames_def fold_map comp_def)
qed

lemma addTool_cases:
  "n \<in> seen \<Longrightarrow> addTool rd ns n (seen, tools) = (seen, tools)"
  "resolveTool rd ns n = None \<Longrightarrow> addTool rd ns n (seen, tools) = (seen, tools)"
  "n \<notin> seen \<Longrightarrow> resolveTool rd ns n = Some tv \<Longrightarrow> addTool rd ns n (seen, tools) = (insert n seen, tools @ [tv])"
  by (simp_all add: addTool_def)

text \<open>A name that does not resolve is never marked as seen, and is never shipped either.\<close>

lemma addTool_fold:
  assumes "\<And>n. n \<in> extra \<Longrightarrow> resolveTool rd ns n = None" "seen \<inter> extra = {}"
  shows "snd (fold (addTool rd ns) names (seen, tools)) = tools @ tool_views rd ns (keep_first (seen \<union> extra) names)"
  using assms
proof (induction names arbitrary: seen extra tools)
  case (Cons n names)
  show ?case
  proof (cases "n \<in> seen")
    case True
    then show ?thesis using Cons by (simp add: addTool_cases)
  next
    case seen: False
    show ?thesis
    proof (cases "resolveTool rd ns n")
      case None
      then have "snd (fold (addTool rd ns) names (seen, tools)) =
                   tools @ tool_views rd ns (keep_first (seen \<union> insert n extra) names)"
        using Cons.IH [of "insert n extra" seen tools] Cons.prems seen by auto
      then show ?thesis
        using None seen by (auto simp: addTool_cases insert_absorb)
    next
      case (Some tv)
      then have "n \<notin> extra" using Cons.prems by auto
      then show ?thesis
        using Some seen Cons.IH [of extra "insert n seen" "tools @ [tv]"] Cons.prems by (simp add: addTool_cases)
    qed
  qed
qed simp

lemma shippedTools_declared: "shippedTools rd ns eff = tool_views rd ns (dedupe (toolNames rd ns eff))"
  using addTool_fold [of "{}" rd ns "{}" "toolNames rd ns eff" "[]"] by (simp add: shippedTools_fold dedupe_def)

lemma buildConfigFrom_Inr:
  assumes "buildConfigFrom marshal rd a = Inr cfg"
  shows "cfg_namespace cfg = ag_namespace a" "cfg_name cfg = ag_name a"
    "cfg_configHash cfg = ast_resolvedConfigHash (ag_status a)" "cfg_phase cfg = ast_phase (ag_status a)"
    "marshal (agent_eff rd a) = Inr (cfg_spec cfg)"
    "cfg_model cfg = modelView rd (ag_namespace a) (agent_eff rd a)"
    "cfg_prompt cfg = promptView rd (ag_namespace a) (agent_eff rd a)"
    "cfg_tools cfg = tool_views rd (ag_namespace a) (dedupe (toolNames rd (ag_namespace a) (agent_eff rd a)))"
    "cfg_policy cfg = resolvePolicy rd (ag_namespace a) (agent_eff rd a)"
  using assms by (auto simp: buildConfigFrom_def registrySpec_eff shippedTools_declared Let_def split: sum.splits)

lemma resolveTool_name:
  "resolveTool rd ns n = Some tv \<Longrightarrow> \<exists>t. getTool rd (NamespacedName ns n) = Found t \<and> tv_name tv = meta_name (to_meta t)"
  by (auto simp: resolveTool_def withPeerEndpoint_def withMcpEndpoint_def toolView_def Let_def
      split: got.splits option.splits if_splits)

lemma resolveTool_None: "resolveTool rd ns n = None \<longleftrightarrow> \<not> is_found (getTool rd (NamespacedName ns n))"
  by (simp add: resolveTool_def split: got.split)

lemma tool_views_names:
  assumes "\<And>key t. getTool rd key = Found t \<Longrightarrow> meta_name (to_meta t) = nn_name key"
  shows "map tv_name (tool_views rd ns names) = filter (\<lambda>n. is_found (getTool rd (NamespacedName ns n))) names"
proof (induction names)
  case (Cons n names)
  then show ?case
    using resolveTool_name [of rd ns n] assms resolveTool_None [of rd ns n]
    by (cases "resolveTool rd ns n") fastforce+
qed simp

section \<open>Request paths\<close>

lemma split_slash_free: "CHR ''/'' \<notin> set s \<Longrightarrow> split_slash s = [s]"
  by (induction s) auto

lemma split_slash_append: "CHR ''/'' \<notin> set s \<Longrightarrow> split_slash (s @ CHR ''/'' # t) = s # split_slash t"
  by (induction s) auto

lemma trim_prefix_append [simp]: "trim_prefix (p @ s) p = s"
  by (simp add: trim_prefix_def)

lemma split_slash_Nil [simp]: "split_slash s \<noteq> []"
  by (cases s) (auto split: list.split)

lemma join_split_slash: "join_sep ''/'' (split_slash s) = s"
proof (induction s)
  case (Cons c s)
  obtain p ps where s: "split_slash s = p # ps" using split_slash_Nil list.exhaust by blast
  then show ?case using Cons by (cases ps) auto
qed simp

lemma split_slash_parts: "p \<in> set (split_slash s) \<Longrightarrow> CHR ''/'' \<notin> set p"
  by (induction s arbitrary: p) (auto split: if_splits list.splits)

section \<open>Properties\<close>

text \<open>
  C11. The two halves of enforcement agree: for one state of the cluster, the snapshot the Registry
  ships carries the JSON of the same effective spec the Operator resolved, the policy the
  Operator merges (field by field), and, once each and in the same order, the views of the
  tools the Operator polices; a declared tool is absent only when no such Tool exists.
\<close>

theorem registry_agrees_with_operator:
  assumes "resolveRefs rd a = Inr res" and "buildConfigFrom marshal rd a = Inr cfg"
  shows "marshal (agent_eff rd a) = Inr (cfg_spec cfg) \<and>
         cfg_policy cfg = map_option policyView (MergePolicies (res_policies res) (res_toolPolicies res)) \<and>
         cfg_tools cfg = map the (filter (\<lambda>v. v \<noteq> None)
           (map (resolveTool rd (ag_namespace a)) (refs_tools (res_declared res)))) \<and>
         (\<forall>n. resolveTool rd (ag_namespace a) n = None \<longleftrightarrow> \<not> is_found (getTool rd (NamespacedName (ag_namespace a) n)))"
proof (intro conjI allI)
  note b = buildConfigFrom_Inr [OF assms(2)] and f = resolveRefs_fields [OF assms(1)]
  show "marshal (agent_eff rd a) = Inr (cfg_spec cfg)" by (rule b(5))
  show "cfg_policy cfg = map_option policyView (MergePolicies (res_policies res) (res_toolPolicies res))"
    by (simp add: b(9) f(1,2) resolvePolicy_merged)
  have "tool_views rd ns names = map the (filter (\<lambda>v. v \<noteq> None) (map (resolveTool rd ns) names))" for ns names
    by (induction names) (auto split: option.split)
  then show "cfg_tools cfg = map the (filter (\<lambda>v. v \<noteq> None)
           (map (resolveTool rd (ag_namespace a)) (refs_tools (res_declared res))))"
    by (simp add: b(8) resolveRefs_declared(2) [OF assms(1)])
qed (rule resolveTool_None)

theorem registry_agrees_with_operator_witness:
  "\<exists>res cfg. resolveRefs sample_reader sample_agent = Inr res \<and>
     buildConfigFrom (\<lambda>spec. Inr (as_description spec)) sample_reader sample_agent = Inr cfg \<and>
     cfg_policy cfg = map_option policyView (MergePolicies (res_policies res) (res_toolPolicies res))"
proof -
  obtain res where r: "resolveRefs sample_reader sample_agent = Inr res"
    using resolveRefs_total sample_readable by blast
  obtain cfg where c: "buildConfigFrom (\<lambda>spec. Inr (as_description spec)) sample_reader sample_agent = Inr cfg"
    by (simp add: buildConfigFrom_def Let_def)
  from registry_agrees_with_operator [OF r c] r c show ?thesis by blast
qed

text \<open>
  Requests are routed exactly: a path under \<^verbatim>\<open>/v1/agents/\<close> reaches the snapshot handler of
  namespace and name if and only if it is their slash-free names followed by \<^verbatim>\<open>config\<close>, the
  stream if and only if \<^verbatim>\<open>watch\<close> follows, and every other path is answered 400.
\<close>

lemma handleAgent_routes:
  "(CHR ''/'' \<notin> set (ns @ name @ verb) \<longrightarrow>
      handleAgent marshal nf rd (''/v1/agents/'' @ ns @ ''/'' @ name @ ''/'' @ verb) =
        (if verb = ''config'' then handleConfig marshal nf rd ns name
         else if verb = ''watch'' then HttpWatch ns name
         else HttpError 400 (''unknown verb: '' @ verb))) \<and>
   ((\<nexists>n m v. rest = n @ ''/'' @ m @ ''/'' @ v \<and> CHR ''/'' \<notin> set (n @ m @ v)) \<longrightarrow>
      handleAgent marshal nf rd (''/v1/agents/'' @ rest) =
        HttpError 400 ''expected /v1/agents/{namespace}/{name}/{config|watch}'')"
proof (intro conjI impI)
  assume "CHR ''/'' \<notin> set (ns @ name @ verb)"
  then have "split_slash (ns @ ''/'' @ name @ ''/'' @ verb) = [ns, name, verb]"
    by (simp add: split_slash_append split_slash_free)
  then show "handleAgent marshal nf rd (''/v1/agents/'' @ ns @ ''/'' @ name @ ''/'' @ verb) =
        (if verb = ''config'' then handleConfig marshal nf rd ns name
         else if verb = ''watch'' then HttpWatch ns name
         else HttpError 400 (''unknown verb: '' @ verb))"
    unfolding handleAgent_def trim_prefix_append by simp
next
  assume a: "\<nexists>n m v. rest = n @ ''/'' @ m @ ''/'' @ v \<and> CHR ''/'' \<notin> set (n @ m @ v)"
  have "split_slash rest \<noteq> [n, m, v]" for n m v
  proof
    assume s: "split_slash rest = [n, m, v]"
    then have "rest = n @ ''/'' @ m @ ''/'' @ v" using join_split_slash [of rest] by simp
    moreover have "CHR ''/'' \<notin> set (n @ m @ v)" using split_slash_parts [of _ rest] s by simp
    ultimately show False using a by blast
  qed
  then show "handleAgent marshal nf rd (''/v1/agents/'' @ rest) =
        HttpError 400 ''expected /v1/agents/{namespace}/{name}/{config|watch}''"
    unfolding handleAgent_def trim_prefix_append by (auto split: list.split)
qed

end
