(* ===== verification/Hub.thy ===== *)
theory Hub
  imports Registry "HOL-Library.Word"
begin

text \<open>
  The streaming half of \<^verbatim>\<open>cmd/registry/main.go\<close>: the hub that fans config updates out to the
  subscribers, and the \<^verbatim>\<open>/watch\<close> handlers that consume them. Channels live in a store addressed
  by subscriber, with the operations of Go's channels that the code uses: a buffer of eight,
  a non-blocking send that drops the frame when the buffer is full, a close, and a panic on
  sending to or closing a closed channel. The handlers, the informer callback and the
  subscribers interleave freely: one event of \<open>serve\<close> is one critical section or one branch
  of a handler's \<^verbatim>\<open>select\<close>. The laws of the hub the handlers rely on are the locale
  \<open>fan_out\<close>. The properties: no interleaving panics, a stream never goes backwards, a client
  that keeps up converges, and one that does not can be left behind.
\<close>

section \<open>Channels and the hub\<close>

record frame =
  fr_rv :: string
  fr_cfg :: agent_config

record chan =
  ch_buf :: "frame list"
  ch_closed :: bool

record hub =
  hub_subs :: "string \<rightharpoonup> nat set"
  hub_chans :: "nat \<Rightarrow> chan"
  hub_next :: nat

abbreviation channelCapacity :: nat where "channelCapacity \<equiv> 8"

definition newChan :: chan where
  "newChan = \<lparr>ch_buf = [], ch_closed = False\<rparr>"

definition newHub :: hub where
  "newHub = \<lparr>hub_subs = Map.empty, hub_chans = (\<lambda>_. newChan), hub_next = 0\<rparr>"

definition subscribers :: "hub \<Rightarrow> string \<Rightarrow> nat set" where
  "subscribers h key = (case hub_subs h key of None \<Rightarrow> {} | Some subs \<Rightarrow> subs)"

definition subscribe :: "string \<Rightarrow> hub \<Rightarrow> nat \<times> hub" where
  "subscribe key h =
    (let sub = hub_next h in
     (sub, h\<lparr>hub_subs := (hub_subs h)(key \<mapsto> insert sub (subscribers h key)),
             hub_chans := (hub_chans h)(sub := newChan),
             hub_next := sub + 1\<rparr>))"

definition dropSubscriber :: "string \<Rightarrow> nat \<Rightarrow> (string \<rightharpoonup> nat set) \<Rightarrow> (string \<rightharpoonup> nat set)" where
  "dropSubscriber key sub subs =
    (case subs key of
       None \<Rightarrow> subs
     | Some S \<Rightarrow> (if S - {sub} = {} then subs(key := None) else subs(key \<mapsto> S - {sub})))"

text \<open>\<^const>\<open>None\<close> is a panic: the channel was closed before.\<close>

definition unsubscribe :: "string \<Rightarrow> nat \<Rightarrow> hub \<Rightarrow> hub option" where
  "unsubscribe key sub h =
    (if ch_closed (hub_chans h sub) then None
     else Some (h\<lparr>hub_subs := dropSubscriber key sub (hub_subs h),
                  hub_chans := (hub_chans h)(sub := (hub_chans h sub)\<lparr>ch_closed := True\<rparr>)\<rparr>))"

definition subscriberCount :: "string \<Rightarrow> hub \<Rightarrow> nat" where
  "subscriberCount key h = card (subscribers h key)"

definition trySend :: "frame \<Rightarrow> chan \<Rightarrow> chan" where
  "trySend f c = (if length (ch_buf c) < channelCapacity then c\<lparr>ch_buf := ch_buf c @ [f]\<rparr> else c)"

text \<open>
  The loop sends to each subscriber of the key once, in no particular order; the sends touch
  different channels. \<^const>\<open>None\<close> is the panic of a send on a closed channel.
\<close>

definition broadcast :: "string \<Rightarrow> string \<Rightarrow> agent_config \<Rightarrow> hub \<Rightarrow> hub option" where
  "broadcast key rv cfg h =
    (if \<exists>sub\<in>subscribers h key. ch_closed (hub_chans h sub) then None
     else Some (h\<lparr>hub_chans := (\<lambda>sub. if sub \<in> subscribers h key
                                       then trySend \<lparr>fr_rv = rv, fr_cfg = cfg\<rparr> (hub_chans h sub)
                                       else hub_chans h sub)\<rparr>))"

section \<open>Resource versions\<close>

definition digit_value :: "char \<Rightarrow> nat" where
  "digit_value c = of_char c - 48"

text \<open>\<^verbatim>\<open>strconv.ParseUint(s, 10, 64)\<close>; \<^const>\<open>None\<close> is a syntax or range error.\<close>

definition parseUint :: "string \<Rightarrow> 64 word option" where
  "parseUint s =
    (if s = [] \<or> (\<exists>c\<in>set s. (of_char c :: nat) < 48 \<or> (of_char c :: nat) > 57) then None
     else (let n = foldl (\<lambda>acc c. acc * 10 + digit_value c) 0 s
           in if n < 2 ^ 64 then Some (of_nat n) else None))"

definition isNewerRV :: "string \<Rightarrow> string \<Rightarrow> bool" where
  "isNewerRV rv floor_rv =
    (if floor_rv = [] then True
     else (case (parseUint rv, parseUint floor_rv) of
             (Some n, Some f) \<Rightarrow> f < n
           | _ \<Rightarrow> True))"

section \<open>The watch handlers\<close>

datatype watch_phase = Starting | Streaming | Ended

text \<open>What a handler wrote: data events, with the resource version they were built from, and keepalives.\<close>

datatype sse = Data string agent_config | Keepalive

record watcher =
  w_ns :: string
  w_name :: string
  w_phase :: watch_phase
  w_lastRV :: string
  w_out :: "sse list"

definition agentKey :: "string \<Rightarrow> string \<Rightarrow> string" where
  "agentKey ns name = ns @ ''/'' @ name"

abbreviation watch_key :: "watcher \<Rightarrow> string" where
  "watch_key w \<equiv> agentKey (w_ns w) (w_name w)"

definition startStream :: "string + agent_config \<times> string \<Rightarrow> watcher \<Rightarrow> watcher" where
  "startStream snapshot w =
    (case snapshot of
       Inl e \<Rightarrow> w\<lparr>w_phase := Streaming, w_lastRV := []\<rparr>
     | Inr (cfg, rv) \<Rightarrow> w\<lparr>w_phase := Streaming, w_lastRV := rv, w_out := w_out w @ [Data rv cfg]\<rparr>)"

definition handleFrame :: "frame \<Rightarrow> watcher \<Rightarrow> watcher" where
  "handleFrame f w =
    (if \<not> isNewerRV (fr_rv f) (w_lastRV w) then w
     else w\<lparr>w_lastRV := fr_rv f, w_out := w_out w @ [Data (fr_rv f) (fr_cfg f)]\<rparr>)"

definition onAgentChange :: "(agent_spec \<Rightarrow> string + string) \<Rightarrow> reader \<Rightarrow> agent \<Rightarrow> hub \<Rightarrow> hub option" where
  "onAgentChange marshal rd a h =
    (case buildConfigFrom marshal rd a of
       Inl e \<Rightarrow> Some h
     | Inr cfg \<Rightarrow> broadcast (agentKey (ag_namespace a) (ag_name a)) (meta_resourceVersion (ag_meta a)) cfg h)"

record server =
  srv_hub :: hub
  srv_watchers :: "nat \<rightharpoonup> watcher"

datatype event =
    Connect bool string string
  | Snapshot nat reader
  | Receive nat
  | Tick nat
  | Disconnect nat
  | AgentChange reader agent

datatype outcome = Next server | Panic | Disabled

definition withWatcher :: "server \<Rightarrow> nat \<Rightarrow> watch_phase \<Rightarrow> (watcher \<Rightarrow> outcome) \<Rightarrow> outcome" where
  "withWatcher s i ph act =
    (case srv_watchers s i of
       None \<Rightarrow> Disabled
     | Some w \<Rightarrow> (if w_phase w = ph then act w else Disabled))"

text \<open>
  One step of the server. A watch handler subscribes (unless the connection cannot stream),
  then builds its snapshot, then runs its \<^verbatim>\<open>select\<close>: a buffered frame, a keepalive tick, or the
  end of the request, which unsubscribes.
\<close>

fun serve ::
  "(agent_spec \<Rightarrow> string + string) \<Rightarrow> (namespaced_name \<Rightarrow> string) \<Rightarrow> event \<Rightarrow> server \<Rightarrow> outcome" where
  "serve marshal nf (Connect flusher ns name) s =
    (if \<not> flusher then Next s
     else (case subscribe (agentKey ns name) (srv_hub s) of (sub, h) \<Rightarrow>
       Next (s\<lparr>srv_hub := h,
               srv_watchers := (srv_watchers s)(sub \<mapsto>
                 \<lparr>w_ns = ns, w_name = name, w_phase = Starting, w_lastRV = [], w_out = []\<rparr>)\<rparr>)))"
| "serve marshal nf (Snapshot i rd) s =
    withWatcher s i Starting (\<lambda>w.
      Next (s\<lparr>srv_watchers := (srv_watchers s)(i \<mapsto> startStream (buildConfig marshal nf rd (w_ns w) (w_name w)) w)\<rparr>))"
| "serve marshal nf (Receive i) s =
    withWatcher s i Streaming (\<lambda>w.
      case ch_buf (hub_chans (srv_hub s) i) of
        [] \<Rightarrow> Disabled
      | f # fs \<Rightarrow>
         Next (s\<lparr>srv_hub := (srv_hub s)\<lparr>hub_chans :=
                   (hub_chans (srv_hub s))(i := (hub_chans (srv_hub s) i)\<lparr>ch_buf := fs\<rparr>)\<rparr>,
                 srv_watchers := (srv_watchers s)(i \<mapsto> handleFrame f w)\<rparr>))"
| "serve marshal nf (Tick i) s =
    withWatcher s i Streaming (\<lambda>w.
      Next (s\<lparr>srv_watchers := (srv_watchers s)(i \<mapsto> w\<lparr>w_out := w_out w @ [Keepalive]\<rparr>)\<rparr>))"
| "serve marshal nf (Disconnect i) s =
    withWatcher s i Streaming (\<lambda>w.
      case unsubscribe (watch_key w) i (srv_hub s) of
        None \<Rightarrow> Panic
      | Some h \<Rightarrow> Next (s\<lparr>srv_hub := h, srv_watchers := (srv_watchers s)(i \<mapsto> w\<lparr>w_phase := Ended\<rparr>)\<rparr>))"
| "serve marshal nf (AgentChange rd a) s =
    (case onAgentChange marshal rd a (srv_hub s) of
       None \<Rightarrow> Panic
     | Some h \<Rightarrow> Next (s\<lparr>srv_hub := h\<rparr>))"

definition startServer :: server where
  "startServer = \<lparr>srv_hub = newHub, srv_watchers = Map.empty\<rparr>"

inductive reachable ::
  "(agent_spec \<Rightarrow> string + string) \<Rightarrow> (namespaced_name \<Rightarrow> string) \<Rightarrow> server \<Rightarrow> bool" for marshal nf where
  start: "reachable marshal nf startServer"
| step: "reachable marshal nf s \<Longrightarrow> serve marshal nf ev s = Next s' \<Longrightarrow> reachable marshal nf s'"

section \<open>The interface of the hub\<close>

text \<open>
  What a handler relies on: a send to a key never fails, keeps the membership, and appends to
  the queue of every member that has room, and to no other queue.
\<close>

locale fan_out =
  fixes ok :: "'h \<Rightarrow> bool"
    and members :: "'h \<Rightarrow> string \<Rightarrow> nat set"
    and queue :: "'h \<Rightarrow> nat \<Rightarrow> frame list"
    and send :: "string \<Rightarrow> frame \<Rightarrow> 'h \<Rightarrow> 'h option"
    and cap :: nat
  assumes send_total: "ok h \<Longrightarrow> \<exists>h'. send key f h = Some h'"
    and send_ok: "ok h \<Longrightarrow> send key f h = Some h' \<Longrightarrow> ok h'"
    and send_members: "send key f h = Some h' \<Longrightarrow> members h' = members h"
    and send_queue: "send key f h = Some h' \<Longrightarrow>
      queue h' i = (if i \<in> members h key \<and> length (queue h i) < cap then queue h i @ [f] else queue h i)"
begin

primrec send_all :: "string \<Rightarrow> frame list \<Rightarrow> 'h \<Rightarrow> 'h option" where
  "send_all key [] h = Some h"
| "send_all key (f # fs) h = (case send key f h of None \<Rightarrow> None | Some h' \<Rightarrow> send_all key fs h')"

text \<open>A burst fills the queue up to its capacity, oldest first; the rest of the burst is lost.\<close>

lemma send_all_queue:
  assumes "ok h" "i \<in> members h key" "length (queue h i) \<le> cap"
  shows "\<exists>h'. send_all key fs h = Some h' \<and> ok h' \<and> members h' = members h \<and>
              queue h' i = take cap (queue h i @ fs)"
  using assms
proof (induction fs arbitrary: h)
  case (Cons f fs)
  obtain h1 where s: "send key f h = Some h1" using send_total Cons.prems(1) by blast
  have m: "members h1 = members h" using send_members s by blast
  have q: "queue h1 i = (if length (queue h i) < cap then queue h i @ [f] else queue h i)"
    using send_queue [OF s, of i] Cons.prems(2) by simp
  have "length (queue h1 i) \<le> cap" using q Cons.prems(3) by simp
  then obtain h' where "send_all key fs h1 = Some h' \<and> ok h' \<and> members h' = members h1 \<and>
                        queue h' i = take cap (queue h1 i @ fs)"
    using Cons.IH [of h1] send_ok [OF Cons.prems(1) s] m Cons.prems(2) by auto
  then show ?case using s m q Cons.prems(3) by (auto simp: take_Cons' split: if_splits)
qed simp

lemma send_bounded:
  assumes "send key f h = Some h'" "length (queue h i) \<le> cap"
  shows "length (queue h' i) \<le> cap"
  using send_queue [OF assms(1), of i] assms(2) by simp

end

text \<open>A hub all of whose subscribers have open channels.\<close>

definition hub_open :: "hub \<Rightarrow> bool" where
  "hub_open h \<longleftrightarrow> (\<forall>key. \<forall>sub\<in>subscribers h key. \<not> ch_closed (hub_chans h sub))"

definition sendFrame :: "string \<Rightarrow> frame \<Rightarrow> hub \<Rightarrow> hub option" where
  "sendFrame key f = broadcast key (fr_rv f) (fr_cfg f)"

abbreviation queue_of :: "hub \<Rightarrow> nat \<Rightarrow> frame list" where
  "queue_of h i \<equiv> ch_buf (hub_chans h i)"

lemma subscribers_chans [simp]:
  "subscribers (h\<lparr>hub_chans := c\<rparr>) = subscribers h" "subscribers (h\<lparr>hub_next := n\<rparr>) = subscribers h"
  by (auto simp: subscribers_def)

lemma trySend_closed [simp]: "ch_closed (trySend f c) = ch_closed c"
  by (simp add: trySend_def)

lemma broadcast_Some:
  "broadcast key rv cfg h = Some h' \<longleftrightarrow>
     (\<forall>sub\<in>subscribers h key. \<not> ch_closed (hub_chans h sub)) \<and>
     h' = h\<lparr>hub_chans := (\<lambda>sub. if sub \<in> subscribers h key
              then trySend \<lparr>fr_rv = rv, fr_cfg = cfg\<rparr> (hub_chans h sub) else hub_chans h sub)\<rparr>"
  by (auto simp: broadcast_def)

lemma broadcast_frame:
  assumes "broadcast key rv cfg h = Some h'"
  shows "hub_subs h' = hub_subs h" "hub_next h' = hub_next h" "subscribers h' = subscribers h"
    "ch_closed (hub_chans h' i) = ch_closed (hub_chans h i)"
  using assms by (auto simp: broadcast_Some)

interpretation fan: fan_out hub_open subscribers queue_of sendFrame channelCapacity
proof unfold_locales
  fix h key f h' i
  show "hub_open h \<Longrightarrow> \<exists>h'. sendFrame key f h = Some h'"
    by (simp add: hub_open_def sendFrame_def broadcast_def)
  assume s: "sendFrame key f h = Some h'"
  then show "subscribers h' = subscribers h" by (auto simp: sendFrame_def broadcast_frame)
  then show "hub_open h \<Longrightarrow> hub_open h'" using s by (simp add: hub_open_def sendFrame_def broadcast_frame)
  show "queue_of h' i = (if i \<in> subscribers h key \<and> length (queue_of h i) < channelCapacity
          then queue_of h i @ [f] else queue_of h i)"
    using s by (auto simp: sendFrame_def broadcast_Some trySend_def)
qed

section \<open>The invariant of the server\<close>

text \<open>The data events of a stream, by resource version.\<close>

fun data_rvs :: "sse list \<Rightarrow> string list" where
  "data_rvs [] = []"
| "data_rvs (Data rv cfg # es) = rv # data_rvs es"
| "data_rvs (Keepalive # es) = data_rvs es"

lemma data_rvs_append [simp]: "data_rvs (es @ fs) = data_rvs es @ data_rvs fs"
  by (induction es rule: data_rvs.induct) simp_all

text \<open>A stream is its own history: the last version sent is the floor, and each one passed the check.\<close>

definition stream_ok :: "watcher \<Rightarrow> bool" where
  "stream_ok w \<longleftrightarrow>
     w_lastRV w = (if data_rvs (w_out w) = [] then [] else last (data_rvs (w_out w))) \<and>
     (w_phase w = Starting \<longrightarrow> w_out w = []) \<and>
     successively (\<lambda>x y. isNewerRV y x) (data_rvs (w_out w))"

definition server_ok :: "server \<Rightarrow> bool" where
  "server_ok s \<longleftrightarrow>
     (\<forall>key. hub_subs (srv_hub s) key \<noteq> Some {}) \<and>
     (\<forall>key i. i \<in> subscribers (srv_hub s) key \<longleftrightarrow>
        (\<exists>w. srv_watchers s i = Some w \<and> w_phase w \<noteq> Ended \<and> watch_key w = key)) \<and>
     (\<forall>i w. srv_watchers s i = Some w \<longrightarrow> i < hub_next (srv_hub s) \<and> stream_ok w \<and>
        (ch_closed (hub_chans (srv_hub s) i) \<longleftrightarrow> w_phase w = Ended)) \<and>
     (\<forall>i. length (queue_of (srv_hub s) i) \<le> channelCapacity)"

lemma server_okD:
  assumes "server_ok s"
  shows "hub_subs (srv_hub s) key \<noteq> Some {}"
    and "i \<in> subscribers (srv_hub s) key \<longleftrightarrow>
           (\<exists>w. srv_watchers s i = Some w \<and> w_phase w \<noteq> Ended \<and> watch_key w = key)"
    and "srv_watchers s i = Some w \<Longrightarrow> i < hub_next (srv_hub s)"
    and "srv_watchers s i = Some w \<Longrightarrow> stream_ok w"
    and "srv_watchers s i = Some w \<Longrightarrow> ch_closed (hub_chans (srv_hub s) i) \<longleftrightarrow> w_phase w = Ended"
    and "length (queue_of (srv_hub s) i) \<le> channelCapacity"
  using assms unfolding server_ok_def by blast+

lemma server_ok_hub_open: "server_ok s \<Longrightarrow> hub_open (srv_hub s)"
  unfolding hub_open_def using server_okD(2,5) by blast

lemma stream_ok_startStream: "stream_ok w \<Longrightarrow> w_phase w = Starting \<Longrightarrow> stream_ok (startStream r w)"
  by (auto simp: stream_ok_def startStream_def split: sum.split)

lemma stream_ok_handleFrame: "stream_ok w \<Longrightarrow> w_phase w = Streaming \<Longrightarrow> stream_ok (handleFrame f w)"
  by (auto simp: stream_ok_def handleFrame_def successively_append_iff)

lemma watcher_frame [simp]:
  "w_phase (startStream r w) = Streaming" "watch_key (startStream r w) = watch_key w"
  "w_phase (handleFrame f w) = w_phase w" "watch_key (handleFrame f w) = watch_key w"
  by (auto simp: startStream_def handleFrame_def split: sum.split)

text \<open>A handler that changes only itself.\<close>

lemma server_ok_watcher:
  assumes "server_ok s" "srv_watchers s i = Some w"
    and "stream_ok w'" "watch_key w' = watch_key w" "w_phase w' = Ended \<longleftrightarrow> w_phase w = Ended"
  shows "server_ok (s\<lparr>srv_watchers := (srv_watchers s)(i \<mapsto> w')\<rparr>)"
  using assms by (auto simp: server_ok_def)

lemma server_ok_Connect:
  assumes "server_ok s"
  shows "server_ok (s\<lparr>srv_hub := snd (subscribe (agentKey ns name) (srv_hub s)),
               srv_watchers := (srv_watchers s)(hub_next (srv_hub s) \<mapsto>
                 \<lparr>w_ns = ns, w_name = name, w_phase = Starting, w_lastRV = [], w_out = []\<rparr>)\<rparr>)"
proof -
  have fresh: "hub_next (srv_hub s) \<notin> subscribers (srv_hub s) k" for k
    using server_okD(2,3) [OF assms] by blast
  have subs: "subscribers (h\<lparr>hub_subs := (hub_subs h)(key \<mapsto> S)\<rparr>) k = (if k = key then S else subscribers h k)" for key h k S
    by (simp add: subscribers_def)
  show ?thesis
    using assms fresh unfolding server_ok_def
    by (auto simp: subscribe_def Let_def newChan_def stream_ok_def less_Suc_eq subs)
qed

lemma server_ok_Receive:
  assumes "server_ok s" "srv_watchers s i = Some w" "w_phase w = Streaming" "queue_of (srv_hub s) i = f # fs"
  shows "server_ok (s\<lparr>srv_hub := (srv_hub s)\<lparr>hub_chans :=
                   (hub_chans (srv_hub s))(i := (hub_chans (srv_hub s) i)\<lparr>ch_buf := fs\<rparr>)\<rparr>,
                 srv_watchers := (srv_watchers s)(i \<mapsto> handleFrame f w)\<rparr>)"
proof -
  have "server_ok (s\<lparr>srv_hub := (srv_hub s)\<lparr>hub_chans :=
                   (hub_chans (srv_hub s))(i := (hub_chans (srv_hub s) i)\<lparr>ch_buf := fs\<rparr>)\<rparr>\<rparr>)"
    using assms(1) server_okD(6) [OF assms(1), of i] assms(4) by (auto simp: server_ok_def)
  from server_ok_watcher [OF this, of i w "handleFrame f w"] assms(2,3)
    stream_ok_handleFrame [OF server_okD(4) [OF assms(1,2)]]
  show ?thesis by simp
qed

lemma dropSubscriber_subscribers:
  "subscribers (h\<lparr>hub_subs := dropSubscriber key i (hub_subs h)\<rparr>) k =
     (if k = key then subscribers h key - {i} else subscribers h k)"
  by (auto simp: subscribers_def dropSubscriber_def split: option.split)

lemma dropSubscriber_nonempty:
  "\<forall>k. subs k \<noteq> Some {} \<Longrightarrow> dropSubscriber key i subs k \<noteq> Some {}"
  by (auto simp: dropSubscriber_def split: option.split)

lemma server_ok_Disconnect:
  assumes "server_ok s" "srv_watchers s i = Some w" "unsubscribe (watch_key w) i (srv_hub s) = Some h"
  shows "server_ok (s\<lparr>srv_hub := h, srv_watchers := (srv_watchers s)(i \<mapsto> w\<lparr>w_phase := Ended\<rparr>)\<rparr>)"
proof -
  let ?c = "(hub_chans (srv_hub s))(i := (hub_chans (srv_hub s) i)\<lparr>ch_closed := True\<rparr>)"
  have h: "h = (srv_hub s)\<lparr>hub_subs := dropSubscriber (watch_key w) i (hub_subs (srv_hub s)), hub_chans := ?c\<rparr>"
    using assms(3) by (auto simp: unsubscribe_def split: if_splits)
  have ne: "\<forall>k. hub_subs (srv_hub s) k \<noteq> Some {}" using server_okD(1) [OF assms(1)] by blast
  have w: "stream_ok (w\<lparr>w_phase := Ended\<rparr>)" using server_okD(4) [OF assms(1,2)] by (simp add: stream_ok_def)
  show ?thesis
    using assms(1,2) w dropSubscriber_nonempty [OF ne] unfolding server_ok_def h
    by (auto simp: dropSubscriber_subscribers)
qed

lemma server_ok_AgentChange:
  assumes "server_ok s" "onAgentChange marshal rd a (srv_hub s) = Some h"
  shows "server_ok (s\<lparr>srv_hub := h\<rparr>)"
proof (cases "buildConfigFrom marshal rd a")
  case (Inr cfg)
  with assms(2) have b: "sendFrame (agentKey (ag_namespace a) (ag_name a))
      \<lparr>fr_rv = meta_resourceVersion (ag_meta a), fr_cfg = cfg\<rparr> (srv_hub s) = Some h"
    by (simp add: onAgentChange_def sendFrame_def)
  have "length (queue_of h i) \<le> channelCapacity" for i
    using fan.send_bounded [OF b] server_okD(6) [OF assms(1)] by blast
  with b assms(1) show ?thesis by (simp add: server_ok_def sendFrame_def broadcast_frame)
qed (use assms in \<open>cases s, simp add: onAgentChange_def\<close>)

lemma withWatcher_Next:
  "withWatcher s i ph act = Next s' \<longleftrightarrow> (\<exists>w. srv_watchers s i = Some w \<and> w_phase w = ph \<and> act w = Next s')"
  by (auto simp: withWatcher_def split: option.split)

lemma serve_ok:
  assumes "server_ok s" "serve marshal nf ev s = Next s'"
  shows "server_ok s'"
proof (cases ev)
  case (Connect fl ns name)
  then show ?thesis
    using assms server_ok_Connect [OF assms(1), of ns name]
    by (auto simp: subscribe_def Let_def split: if_splits)
next
  case (Snapshot i rd)
  with assms obtain w where "srv_watchers s i = Some w" "w_phase w = Starting"
    "s' = s\<lparr>srv_watchers := (srv_watchers s)(i \<mapsto> startStream (buildConfig marshal nf rd (w_ns w) (w_name w)) w)\<rparr>"
    by (auto simp: withWatcher_Next)
  then show ?thesis
    using server_ok_watcher [OF assms(1)] stream_ok_startStream server_okD(4) [OF assms(1)] by simp
next
  case (Receive i)
  with assms obtain w where w: "srv_watchers s i = Some w" "w_phase w = Streaming"
    by (auto simp: withWatcher_Next)
  show ?thesis
  proof (cases "queue_of (srv_hub s) i")
    case (Cons f fs)
    with assms Receive w show ?thesis by (auto simp: withWatcher_Next server_ok_Receive)
  qed (use assms Receive w in \<open>simp add: withWatcher_Next\<close>)
next
  case (Tick i)
  with assms obtain w where w: "srv_watchers s i = Some w" "w_phase w = Streaming"
    "s' = s\<lparr>srv_watchers := (srv_watchers s)(i \<mapsto> w\<lparr>w_out := w_out w @ [Keepalive]\<rparr>)\<rparr>"
    by (auto simp: withWatcher_Next)
  have "stream_ok (w\<lparr>w_out := w_out w @ [Keepalive]\<rparr>)"
    using server_okD(4) [OF assms(1) w(1)] w(2) by (simp add: stream_ok_def)
  then show ?thesis using server_ok_watcher [OF assms(1) w(1)] w(3) by simp
next
  case (Disconnect i)
  with assms show ?thesis
    by (auto simp: withWatcher_Next intro: server_ok_Disconnect split: option.splits)
next
  case (AgentChange rd a)
  with assms show ?thesis by (auto intro: server_ok_AgentChange split: option.splits)
qed

lemma serve_no_panic: "server_ok s \<Longrightarrow> serve marshal nf ev s \<noteq> Panic"
proof (cases ev)
  case (Disconnect i)
  assume s: "server_ok s"
  show ?thesis
    using server_okD(5) [OF s] by (auto simp: Disconnect withWatcher_def unsubscribe_def split: option.split)
next
  case (AgentChange rd a)
  assume "server_ok s"
  then show ?thesis
    using server_ok_hub_open by (auto simp: AgentChange onAgentChange_def broadcast_def hub_open_def split: sum.split)
qed (auto simp: withWatcher_def split: option.split list.split prod.split)

lemma start_ok: "server_ok startServer"
  by (simp add: server_ok_def startServer_def newHub_def subscribers_def newChan_def)

lemma reachable_ok: "reachable marshal nf s \<Longrightarrow> server_ok s"
  by (induction rule: reachable.induct) (auto intro: start_ok serve_ok)

section \<open>Runs\<close>

fun run :: "(agent_spec \<Rightarrow> string + string) \<Rightarrow> (namespaced_name \<Rightarrow> string) \<Rightarrow> event list \<Rightarrow> server \<Rightarrow> outcome" where
  "run marshal nf [] s = Next s"
| "run marshal nf (e # es) s = (case serve marshal nf e s of Next s' \<Rightarrow> run marshal nf es s' | r \<Rightarrow> r)"

lemma run_append:
  "run marshal nf (es @ fs) s = (case run marshal nf es s of Next s' \<Rightarrow> run marshal nf fs s' | r \<Rightarrow> r)"
  by (induction es arbitrary: s) (simp_all split: outcome.split)

lemma run_reachable: "reachable marshal nf s \<Longrightarrow> run marshal nf es s = Next s' \<Longrightarrow> reachable marshal nf s'"
  by (induction es arbitrary: s) (auto split: outcome.splits intro: reachable.step)

text \<open>A handler that takes everything its channel holds.\<close>

lemma run_drain:
  assumes "srv_watchers s i = Some w" "w_phase w = Streaming"
  shows "\<exists>s'. run marshal nf (replicate (length (queue_of (srv_hub s) i)) (Receive i)) s = Next s' \<and>
              srv_watchers s' i = Some (fold handleFrame (queue_of (srv_hub s) i) w) \<and> queue_of (srv_hub s') i = []"
  using assms
proof (induction "queue_of (srv_hub s) i" arbitrary: s w)
  case (Cons f fs)
  let ?s = "s\<lparr>srv_hub := (srv_hub s)\<lparr>hub_chans :=
                   (hub_chans (srv_hub s))(i := (hub_chans (srv_hub s) i)\<lparr>ch_buf := fs\<rparr>)\<rparr>,
              srv_watchers := (srv_watchers s)(i \<mapsto> handleFrame f w)\<rparr>"
  have "serve marshal nf (Receive i) s = Next ?s"
    using Cons.prems Cons.hyps(2) [symmetric] by (simp add: withWatcher_Next)
  moreover have "\<exists>s'. run marshal nf (replicate (length fs) (Receive i)) ?s = Next s' \<and>
      srv_watchers s' i = Some (fold handleFrame fs (handleFrame f w)) \<and> queue_of (srv_hub s') i = []"
    using Cons.hyps(1) [of ?s "handleFrame f w"] Cons.prems(2) by simp
  ultimately show ?case by (simp flip: Cons.hyps(2))
qed simp

text \<open>The floor of a stream: no version yet, or a number that only grows.\<close>

definition at_least :: "string \<Rightarrow> string \<Rightarrow> bool" where
  "at_least rv x \<longleftrightarrow> (\<exists>n m. parseUint x = Some n \<and> parseUint rv = Some m \<and> n \<le> m)"

lemma at_least_trans: "at_least rv y \<Longrightarrow> at_least y x \<Longrightarrow> at_least rv x"
  by (fastforce simp: at_least_def intro: order_trans)

lemma handleFrame_floor:
  assumes "parseUint (fr_rv f) \<noteq> None" "w_lastRV w = [] \<or> parseUint (w_lastRV w) \<noteq> None"
  shows "at_least (w_lastRV (handleFrame f w)) (fr_rv f)"
    and "w_lastRV w = [] \<or> at_least (w_lastRV (handleFrame f w)) (w_lastRV w)"
  using assms by (auto simp: handleFrame_def isNewerRV_def at_least_def split: if_splits option.splits)

lemma fold_handleFrame_floor:
  assumes "\<forall>f\<in>set fs. parseUint (fr_rv f) \<noteq> None" "w_lastRV w = [] \<or> parseUint (w_lastRV w) \<noteq> None"
  shows "(\<forall>f\<in>set fs. at_least (w_lastRV (fold handleFrame fs w)) (fr_rv f)) \<and>
         (parseUint (w_lastRV w) \<noteq> None \<longrightarrow> at_least (w_lastRV (fold handleFrame fs w)) (w_lastRV w))"
  using assms
proof (induction fs arbitrary: w)
  case Nil
  then show ?case by (auto simp: at_least_def)
next
  case (Cons f fs)
  let ?w = "handleFrame f w"
  have f: "at_least (w_lastRV ?w) (fr_rv f)" and old: "w_lastRV w = [] \<or> at_least (w_lastRV ?w) (w_lastRV w)"
    using handleFrame_floor Cons.prems by simp_all
  then have "parseUint (w_lastRV ?w) \<noteq> None" by (auto simp: at_least_def)
  then have "(\<forall>f\<in>set fs. at_least (w_lastRV (fold handleFrame fs ?w)) (fr_rv f)) \<and>
             at_least (w_lastRV (fold handleFrame fs ?w)) (w_lastRV ?w)"
    using Cons.IH [of ?w] Cons.prems(1) by simp
  moreover have "parseUint [] = None" by (simp add: parseUint_def)
  ultimately show ?case using f old by (auto intro: at_least_trans)
qed

section \<open>Sample stream\<close>

definition sample_change :: "string \<Rightarrow> agent" where
  "sample_change rv = sample_agent\<lparr>ag_meta := (ag_meta sample_agent)\<lparr>meta_resourceVersion := rv\<rparr>\<rparr>"

abbreviation no_spec :: "agent_spec \<Rightarrow> string + string" where "no_spec \<equiv> \<lambda>spec. Inr []"
abbreviation no_text :: "namespaced_name \<Rightarrow> string" where "no_text \<equiv> \<lambda>key. []"

abbreviation sample_update :: "string \<Rightarrow> event" where
  "sample_update rv \<equiv> AgentChange empty_reader (sample_change rv)"

definition sample_cfg :: "string \<Rightarrow> agent_config" where
  "sample_cfg rv = (case buildConfigFrom no_spec empty_reader (sample_change rv) of Inr cfg \<Rightarrow> cfg)"

lemma sample_build: "buildConfigFrom no_spec empty_reader (sample_change rv) = Inr (sample_cfg rv)"
  by (simp add: sample_cfg_def buildConfigFrom_def Let_def)

lemma sample_on_change:
  "onAgentChange no_spec empty_reader (sample_change rv) h = broadcast ''default/bot'' rv (sample_cfg rv) h"
  by (simp add: onAgentChange_def sample_build)
     (simp add: sample_change_def sample_agent_ns agentKey_def)

lemma sample_key: "agentKey (ag_namespace (sample_change rv)) (ag_name (sample_change rv)) = ''default/bot''"
  by (simp add: sample_change_def sample_agent_ns agentKey_def)

lemma sample_rv: "meta_resourceVersion (ag_meta (sample_change rv)) = rv"
  by (simp add: sample_change_def)

text \<open>One connected client whose Agent did not exist when it connected.\<close>

definition sample_watch :: "sse list \<Rightarrow> string \<Rightarrow> watcher" where
  "sample_watch out rv = \<lparr>w_ns = ''default'', w_name = ''bot'', w_phase = Streaming, w_lastRV = rv, w_out = out\<rparr>"

definition sample_stream :: "frame list \<Rightarrow> watcher \<Rightarrow> server" where
  "sample_stream q w =
    \<lparr>srv_hub = \<lparr>hub_subs = [''default/bot'' \<mapsto> {0}],
                hub_chans = (\<lambda>_. newChan)(0 := \<lparr>ch_buf = q, ch_closed = False\<rparr>), hub_next = 1\<rparr>,
     srv_watchers = [0 \<mapsto> w]\<rparr>"

lemma sample_connect:
  "run no_spec no_text [Connect True ''default'' ''bot'', Snapshot 0 empty_reader] startServer =
     Next (sample_stream [] (sample_watch [] []))"
  by (simp add: startServer_def newHub_def subscribe_def subscribers_def Let_def withWatcher_def startStream_def
      buildConfig_def empty_reader_def sample_stream_def sample_watch_def newChan_def agentKey_def fun_eq_iff)

lemma sample_stream_reachable: "reachable no_spec no_text (sample_stream [] (sample_watch [] []))"
  using run_reachable [OF reachable.start sample_connect] .

lemma sample_stream_update:
  "serve no_spec no_text (sample_update rv) (sample_stream q w) =
     Next (sample_stream (if length q < channelCapacity then q @ [\<lparr>fr_rv = rv, fr_cfg = sample_cfg rv\<rparr>] else q) w)"
  by (auto simp: sample_on_change broadcast_def subscribers_def trySend_def sample_stream_def fun_eq_iff)

lemma sample_stream_updates:
  assumes "length q \<le> channelCapacity"
  shows "run no_spec no_text (map sample_update rvs) (sample_stream q w) =
     Next (sample_stream (take channelCapacity (q @ map (\<lambda>rv. \<lparr>fr_rv = rv, fr_cfg = sample_cfg rv\<rparr>) rvs)) w)"
  using assms
proof (induction rvs arbitrary: q)
  case (Cons rv rvs)
  then show ?case by (auto simp: sample_stream_update take_Cons' simp del: serve.simps)
qed simp

lemma sample_stream_receive:
  "w_phase w = Streaming \<Longrightarrow> serve no_spec no_text (Receive 0) (sample_stream (f # q) w) = Next (sample_stream q (handleFrame f w))"
  by (simp add: withWatcher_def sample_stream_def)

text \<open>The same client after versions 7 and 9 were taken.\<close>

definition sample_two :: watcher where
  "sample_two = sample_watch [Data ''7'' (sample_cfg ''7''), Data ''9'' (sample_cfg ''9'')] ''9''"

lemma sample_two_frames:
  "handleFrame \<lparr>fr_rv = ''9'', fr_cfg = sample_cfg ''9''\<rparr>
     (handleFrame \<lparr>fr_rv = ''7'', fr_cfg = sample_cfg ''7''\<rparr> (sample_watch [] [])) = sample_two"
  by (simp add: sample_two_def handleFrame_def isNewerRV_def parseUint_def digit_value_def sample_watch_def)

lemma sample_two_reachable: "reachable no_spec no_text (sample_stream [] sample_two)"
proof (rule run_reachable [OF sample_stream_reachable])
  show "run no_spec no_text [sample_update ''7'', Receive 0, sample_update ''9'', Receive 0]
          (sample_stream [] (sample_watch [] [])) = Next (sample_stream [] sample_two)"
    by (simp add: sample_stream_update sample_stream_receive sample_two_frames sample_watch_def del: serve.simps)
       (simp add: sample_watch_def flip: sample_two_frames)
qed

section \<open>Properties\<close>

text \<open>
  C9. No interleaving of connecting clients, snapshots, updates and disconnects makes the Registry
  panic: in every reachable state every event is safe (no send on, and no second close of, a
  closed channel), a channel is closed exactly when its handler has returned, the hub's
  entry for a key counts exactly the handlers still watching it (an empty entry is removed),
  and no queue exceeds its capacity.
\<close>

theorem hub_never_panics:
  assumes "reachable marshal nf s"
  shows "serve marshal nf ev s \<noteq> Panic \<and>
         (\<forall>i w. srv_watchers s i = Some w \<longrightarrow> (ch_closed (hub_chans (srv_hub s) i) \<longleftrightarrow> w_phase w = Ended)) \<and>
         subscriberCount key (srv_hub s) =
           card {i. \<exists>w. srv_watchers s i = Some w \<and> w_phase w \<noteq> Ended \<and> watch_key w = key} \<and>
         hub_subs (srv_hub s) key \<noteq> Some {} \<and>
         length (queue_of (srv_hub s) i) \<le> 8"
proof -
  have s: "server_ok s" by (rule reachable_ok [OF assms])
  have "subscribers (srv_hub s) key =
      {i. \<exists>w. srv_watchers s i = Some w \<and> w_phase w \<noteq> Ended \<and> watch_key w = key}"
    using server_okD(2) [OF s] by blast
  then show ?thesis
    using serve_no_panic [OF s] server_okD [OF s] by (simp add: subscriberCount_def)
qed

theorem hub_never_panics_witness:
  "serve no_spec no_text (Disconnect 0) (sample_stream [] (sample_watch [] [])) \<noteq> Panic \<and>
   subscriberCount ''default/bot'' (srv_hub (sample_stream [] (sample_watch [] []))) = 1"
proof -
  have "{i. \<exists>w. srv_watchers (sample_stream [] (sample_watch [] [])) i = Some w \<and> w_phase w \<noteq> Ended \<and>
            watch_key w = ''default/bot''} = {0}"
    by (auto simp: sample_stream_def sample_watch_def agentKey_def split: if_splits)
  with hub_never_panics [OF sample_stream_reachable, where key = "''default/bot''"] show ?thesis
    by (simp del: serve.simps)
qed

text \<open>
  C14. A stream only moves forward: in every reachable state, if the resource versions a client was
  sent are decimal numbers of 64 bits, they are strictly increasing, the snapshot included;
  and the floor the handler compares against is the last version it sent.
\<close>

theorem stream_moves_forward:
  assumes "reachable marshal nf s" and "srv_watchers s i = Some w"
    and "\<forall>rv\<in>set (data_rvs (w_out w)). parseUint rv \<noteq> None"
  shows "sorted_wrt (<) (map (\<lambda>rv. the (parseUint rv)) (data_rvs (w_out w))) \<and>
         (data_rvs (w_out w) \<noteq> [] \<longrightarrow> w_lastRV w = last (data_rvs (w_out w)))"
proof -
  have w: "stream_ok w" using server_okD(4) [OF reachable_ok [OF assms(1)] assms(2)] .
  have "the (parseUint x) < the (parseUint y)"
    if newer: "isNewerRV y x" and mem: "x \<in> set (data_rvs (w_out w))" "y \<in> set (data_rvs (w_out w))" for x y
  proof -
    obtain m n where "parseUint x = Some m" "parseUint y = Some n" using assms(3) mem by blast
    moreover from this have "x \<noteq> []" by (auto simp: parseUint_def)
    ultimately show ?thesis using newer by (simp add: isNewerRV_def)
  qed
  moreover have "successively (\<lambda>x y. isNewerRV y x) (data_rvs (w_out w))" using w by (simp add: stream_ok_def)
  ultimately have "successively (\<lambda>x y. the (parseUint x) < the (parseUint y)) (data_rvs (w_out w))"
    by (rule successively_mono [rotated])
  then have "sorted_wrt (<) (map (\<lambda>rv. the (parseUint rv)) (data_rvs (w_out w)))"
    by (simp add: sorted_wrt_map successively_conv_sorted_wrt transp_def less_trans)
  with w show ?thesis by (simp add: stream_ok_def)
qed

theorem stream_moves_forward_witness:
  "\<exists>w. srv_watchers (sample_stream [] sample_two) 0 = Some w \<and> data_rvs (w_out w) = [''7'', ''9''] \<and>
       sorted_wrt (<) (map (\<lambda>rv. the (parseUint rv)) (data_rvs (w_out w)))"
proof -
  have w: "srv_watchers (sample_stream [] sample_two) 0 = Some sample_two" by (simp add: sample_stream_def)
  have d: "data_rvs (w_out sample_two) = [''7'', ''9'']" by (simp add: sample_two_def sample_watch_def)
  have "\<forall>rv\<in>set (data_rvs (w_out sample_two)). parseUint rv \<noteq> None"
    by (simp add: d parseUint_def digit_value_def)
  with stream_moves_forward [OF sample_two_reachable w] w d show ?thesis by blast
qed

text \<open>
  C18. A client that keeps up converges: when an Agent changes while a watching handler has room in
  its channel, and the handler then takes what the channel holds, the last version it sent is
  the one of that change or a newer one (resource versions being decimal numbers).
\<close>

theorem live_client_converges:
  assumes "reachable marshal nf s" and "srv_watchers s i = Some w" and "w_phase w = Streaming"
    and "watch_key w = agentKey (ag_namespace a) (ag_name a)"
    and "buildConfigFrom marshal rd a = Inr cfg" and "length (queue_of (srv_hub s) i) < 8"
    and "parseUint (meta_resourceVersion (ag_meta a)) = Some n"
    and "\<forall>f\<in>set (queue_of (srv_hub s) i). parseUint (fr_rv f) \<noteq> None"
    and "w_lastRV w = [] \<or> parseUint (w_lastRV w) \<noteq> None"
  shows "\<exists>s' w' m. run marshal nf (AgentChange rd a # replicate (Suc (length (queue_of (srv_hub s) i))) (Receive i)) s =
             Next s' \<and> srv_watchers s' i = Some w' \<and> queue_of (srv_hub s') i = [] \<and>
           parseUint (w_lastRV w') = Some m \<and> n \<le> m"
proof -
  let ?f = "\<lparr>fr_rv = meta_resourceVersion (ag_meta a), fr_cfg = cfg\<rparr>" and ?q = "queue_of (srv_hub s) i"
  let ?key = "agentKey (ag_namespace a) (ag_name a)"
  have ok: "server_ok s" by (rule reachable_ok [OF assms(1)])
  obtain h where h: "sendFrame ?key ?f (srv_hub s) = Some h"
    using fan.send_total server_ok_hub_open [OF ok] by blast
  have i: "i \<in> subscribers (srv_hub s) ?key" using server_okD(2) [OF ok] assms(2,3,4) by auto
  have q: "queue_of h i = ?q @ [?f]" using fan.send_queue [OF h, of i] i assms(6) by simp
  have step: "serve marshal nf (AgentChange rd a) s = Next (s\<lparr>srv_hub := h\<rparr>)"
    using h assms(5) by (simp add: onAgentChange_def sendFrame_def)
  obtain s' where s': "run marshal nf (replicate (Suc (length ?q)) (Receive i)) (s\<lparr>srv_hub := h\<rparr>) = Next s'"
    "srv_watchers s' i = Some (fold handleFrame (?q @ [?f]) w)" "queue_of (srv_hub s') i = []"
    using run_drain [of "s\<lparr>srv_hub := h\<rparr>" i w marshal nf] assms(2,3) q by auto
  have "at_least (w_lastRV (fold handleFrame (?q @ [?f]) w)) (meta_resourceVersion (ag_meta a))"
    using fold_handleFrame_floor [of "?q @ [?f]" w] assms(7,8,9) by simp
  with s' step assms(7) show ?thesis by (auto simp: at_least_def simp del: serve.simps)
qed

theorem live_client_converges_witness:
  "\<exists>s' w' m. run no_spec no_text [sample_update ''7'', Receive 0] (sample_stream [] (sample_watch [] [])) = Next s' \<and>
     srv_watchers s' 0 = Some w' \<and> parseUint (w_lastRV w') = Some m \<and> 7 \<le> m"
proof -
  let ?s = "sample_stream [] (sample_watch [] [])"
  have w: "srv_watchers ?s 0 = Some (sample_watch [] [])" "w_phase (sample_watch [] []) = Streaming"
    "watch_key (sample_watch [] []) = agentKey (ag_namespace (sample_change ''7'')) (ag_name (sample_change ''7''))"
    unfolding sample_key by (simp_all add: sample_stream_def sample_watch_def agentKey_def)
  have q: "queue_of (srv_hub ?s) 0 = []" by (simp add: sample_stream_def)
  have n: "parseUint (meta_resourceVersion (ag_meta (sample_change ''7''))) = Some 7"
    unfolding sample_rv by (simp add: parseUint_def digit_value_def)
  from live_client_converges [OF sample_stream_reachable w sample_build _ n] show ?thesis
    unfolding q by (auto simp: sample_watch_def simp del: serve.simps run.simps)
qed

text \<open>
  C19. A slow client can be left behind for good: the buffer drops the newest frame when it is full,
  so after nine changes arrive before the handler takes the first, and the handler then takes
  everything, the client's last config is the eighth; nothing is queued, and the ninth, which
  is newer, will not be sent until the Agent changes again.
\<close>

theorem slow_client_left_behind:
  "\<exists>s w. run no_spec no_text
           ([Connect True ''default'' ''bot'', Snapshot 0 empty_reader]
            @ map sample_update [''1'', ''2'', ''3'', ''4'', ''5'', ''6'', ''7'', ''8'', ''9'']
            @ replicate 8 (Receive 0)) startServer = Next s \<and>
         srv_watchers s 0 = Some w \<and> w_phase w = Streaming \<and> queue_of (srv_hub s) 0 = [] \<and>
         w_lastRV w = ''8'' \<and> isNewerRV ''9'' (w_lastRV w)"
proof -
  let ?rvs = "[''1'', ''2'', ''3'', ''4'', ''5'', ''6'', ''7'', ''8'', ''9''] :: string list"
  let ?q = "take channelCapacity (map (\<lambda>rv. \<lparr>fr_rv = rv, fr_cfg = sample_cfg rv\<rparr>) ?rvs)"
  let ?s = "sample_stream ?q (sample_watch [] [])"
  have q: "queue_of (srv_hub ?s) 0 = ?q" by (simp add: sample_stream_def)
  have w: "srv_watchers ?s 0 = Some (sample_watch [] [])" "w_phase (sample_watch [] []) = Streaming"
    by (simp_all add: sample_stream_def sample_watch_def)
  have l: "length ?q = 8" by simp
  obtain s where s: "run no_spec no_text (replicate 8 (Receive 0)) ?s = Next s"
    "srv_watchers s 0 = Some (fold handleFrame ?q (sample_watch [] []))" "queue_of (srv_hub s) 0 = []"
    using run_drain [OF w, of no_spec no_text] unfolding q l by blast
  have "w_phase (fold handleFrame ?q (sample_watch [] [])) = Streaming \<and>
        w_lastRV (fold handleFrame ?q (sample_watch [] [])) = ''8'' \<and> isNewerRV ''9'' ''8''"
    by (simp add: handleFrame_def isNewerRV_def parseUint_def digit_value_def sample_watch_def Let_def)
  moreover have "run no_spec no_text (map sample_update ?rvs @ replicate 8 (Receive 0))
      (sample_stream [] (sample_watch [] [])) = Next s"
    unfolding run_append sample_stream_updates [of "[]", simplified] using s(1) by simp
  ultimately show ?thesis
    using s(2,3) unfolding run_append sample_connect by auto
qed

end
