(* ===== verification/Webhooks.thy ===== *)
theory Webhooks
  imports Validation Kube
begin

text \<open>
  The validating admission webhooks, \<^verbatim>\<open>internal/webhook/v1alpha1/agent_webhook.go\<close> and
  \<^verbatim>\<open>tool_webhook.go\<close>. An object arrives as a \<^verbatim>\<open>runtime.Object\<close> and is checked for its type
  first; no handler returns warnings, so a result is the error alone. The quantity parser of
  the Agent validator is a parameter, as in \<open>Validation\<close>.
\<close>

text \<open>\<^verbatim>\<open>%T\<close> of the object.\<close>

fun type_name :: "client_object \<Rightarrow> string" where
  "type_name (OAgent _) = ''*v1alpha1.Agent''"
| "type_name (OAgentClass _) = ''*v1alpha1.AgentClass''"
| "type_name (OModel _) = ''*v1alpha1.Model''"
| "type_name (OPromptTemplate _) = ''*v1alpha1.PromptTemplate''"
| "type_name (OTool _) = ''*v1alpha1.Tool''"
| "type_name (OToolSet _) = ''*v1alpha1.ToolSet''"
| "type_name (OSkill _) = ''*v1alpha1.Skill''"
| "type_name (OPolicy _) = ''*v1alpha1.Policy''"
| "type_name (OToolPolicy _) = ''*v1alpha1.ToolPolicy''"
| "type_name (OCredential _) = ''*v1alpha1.Credential''"
| "type_name (OMCPServer _) = ''*v1alpha1.MCPServer''"
| "type_name (OTrigger _) = ''*v1alpha1.Trigger''"

definition Agent_ValidateCreate :: "quantity_parser \<Rightarrow> client_object \<Rightarrow> go_error" where
  "Agent_ValidateCreate pq obj =
    (case obj of
       OAgent a \<Rightarrow> AgentSpec_Validate pq (ag_spec a)
     | _ \<Rightarrow> Some (''expected a Agent object but got '' @ type_name obj))"

definition Agent_ValidateUpdate :: "quantity_parser \<Rightarrow> client_object \<Rightarrow> client_object \<Rightarrow> go_error" where
  "Agent_ValidateUpdate pq oldObj newObj =
    (case newObj of
       OAgent a \<Rightarrow> AgentSpec_Validate pq (ag_spec a)
     | _ \<Rightarrow> Some (''expected a Agent object for the newObj but got '' @ type_name newObj))"

definition Agent_ValidateDelete :: "client_object \<Rightarrow> go_error" where
  "Agent_ValidateDelete obj =
    (case obj of
       OAgent a \<Rightarrow> None
     | _ \<Rightarrow> Some (''expected a Agent object but got '' @ type_name obj))"

definition Tool_ValidateCreate :: "client_object \<Rightarrow> go_error" where
  "Tool_ValidateCreate obj =
    (case obj of
       OTool t \<Rightarrow> ToolSpec_Validate (to_spec t)
     | _ \<Rightarrow> Some (''expected a Tool object but got '' @ type_name obj))"

definition Tool_ValidateUpdate :: "client_object \<Rightarrow> client_object \<Rightarrow> go_error" where
  "Tool_ValidateUpdate oldObj newObj =
    (case newObj of
       OTool t \<Rightarrow> ToolSpec_Validate (to_spec t)
     | _ \<Rightarrow> Some (''expected a Tool object for the newObj but got '' @ type_name newObj))"

definition Tool_ValidateDelete :: "client_object \<Rightarrow> go_error" where
  "Tool_ValidateDelete obj =
    (case obj of
       OTool t \<Rightarrow> None
     | _ \<Rightarrow> Some (''expected a Tool object but got '' @ type_name obj))"

lemma Agent_admission:
  "Agent_ValidateCreate pq obj = None \<longleftrightarrow> (\<exists>a. obj = OAgent a \<and> AgentSpec_Validate pq (ag_spec a) = None)"
  "Agent_ValidateUpdate pq old obj = None \<longleftrightarrow> (\<exists>a. obj = OAgent a \<and> AgentSpec_Validate pq (ag_spec a) = None)"
  "Agent_ValidateDelete obj = None \<longleftrightarrow> (\<exists>a. obj = OAgent a)"
  by (cases obj; simp add: Agent_ValidateCreate_def Agent_ValidateUpdate_def Agent_ValidateDelete_def)+

lemma Tool_admission:
  "Tool_ValidateCreate obj = None \<longleftrightarrow> (\<exists>t. obj = OTool t \<and> ToolSpec_Validate (to_spec t) = None)"
  "Tool_ValidateUpdate old obj = None \<longleftrightarrow> (\<exists>t. obj = OTool t \<and> ToolSpec_Validate (to_spec t) = None)"
  "Tool_ValidateDelete obj = None \<longleftrightarrow> (\<exists>t. obj = OTool t)"
  by (cases obj; simp add: Tool_ValidateCreate_def Tool_ValidateUpdate_def Tool_ValidateDelete_def)+

end
