(* ===== verification/Field_Index.thy ===== *)
theory Field_Index
  imports Agent_Runtime
begin

text \<open>
  The reverse-reference indexes of \<^verbatim>\<open>internal/controller/fieldindex.go\<close> and the watches built
  on them (\<^verbatim>\<open>SetupWithManager\<close> of the controllers): which objects are queued again when a
  dependency changes. The indexed \<^verbatim>\<open>List\<close> of the controller-runtime cache is a parameter, with
  its documented behaviour (the objects of the namespace whose extractor yields the value) as
  the locale \<open>indexed_cluster\<close>. The properties: the watches lose no event an Agent's pass
  depends on directly, and which indirect dependency they do miss.
\<close>

section \<open>The extractors\<close>

definition refNameIdx :: "local_reference option \<Rightarrow> string list" where
  "refNameIdx r = (case r of None \<Rightarrow> [] | Some x \<Rightarrow> (if ref_name x = [] then [] else [ref_name x]))"

definition refNamesOf :: "local_reference list \<Rightarrow> string list" where
  "refNamesOf refs = filter (\<lambda>n. n \<noteq> []) (map ref_name refs)"

datatype agent_field =
    IdxAgentModel | IdxAgentPrompt | IdxAgentTools | IdxAgentToolSets | IdxAgentSkills
  | IdxAgentPolicies | IdxAgentToolPolicies | IdxAgentCredentials | IdxAgentClass

datatype class_field =
    IdxClassModel | IdxClassPrompt | IdxClassPolicies | IdxClassTools | IdxClassSkills
  | IdxClassToolPolicies

fun agentIndex :: "agent_field \<Rightarrow> agent \<Rightarrow> string list" where
  "agentIndex IdxAgentModel a = refNameIdx (as_modelRef (ag_spec a))"
| "agentIndex IdxAgentPrompt a = refNameIdx (as_promptRef (ag_spec a))"
| "agentIndex IdxAgentTools a = refNamesOf (as_toolRefs (ag_spec a))"
| "agentIndex IdxAgentToolSets a = refNamesOf (as_toolSetRefs (ag_spec a))"
| "agentIndex IdxAgentSkills a = refNamesOf (as_skillRefs (ag_spec a))"
| "agentIndex IdxAgentPolicies a = refNamesOf (as_policyRefs (ag_spec a))"
| "agentIndex IdxAgentToolPolicies a = refNamesOf (as_toolPolicyRefs (ag_spec a))"
| "agentIndex IdxAgentCredentials a =
    refNamesOf (as_credentialRefs (ag_spec a)) @
    (case as_workspace (ag_spec a) of None \<Rightarrow> [] | Some ws \<Rightarrow> refNameIdx (ws_credentialRef ws))"
| "agentIndex IdxAgentClass a = refNameIdx (as_agentClassRef (ag_spec a))"

fun classIndex :: "class_field \<Rightarrow> agent_class \<Rightarrow> string list" where
  "classIndex IdxClassModel c = refNameIdx (cs_defaultModelRef (ac_spec c))"
| "classIndex IdxClassPrompt c = refNameIdx (cs_defaultPromptRef (ac_spec c))"
| "classIndex IdxClassPolicies c = refNamesOf (cs_defaultPolicyRefs (ac_spec c))"
| "classIndex IdxClassTools c = refNamesOf (cs_defaultToolRefs (ac_spec c))"
| "classIndex IdxClassSkills c = refNamesOf (cs_defaultSkillRefs (ac_spec c))"
| "classIndex IdxClassToolPolicies c = refNamesOf (cs_defaultToolPolicyRefs (ac_spec c))"

definition toolSetIndex :: "tool_set \<Rightarrow> string list" where
  "toolSetIndex s = refNamesOf (tss_toolRefs (ts_spec s))"

section \<open>The event handlers\<close>

record lister =
  listAgents :: "string \<Rightarrow> agent_field \<Rightarrow> string \<Rightarrow> object_meta list option"
  listClasses :: "string \<Rightarrow> class_field \<Rightarrow> string \<Rightarrow> object_meta list option"
  listToolSets :: "string \<Rightarrow> string \<Rightarrow> object_meta list option"

text \<open>
  \<^verbatim>\<open>requestsMatchingIndex\<close>: list once per field, skip a field whose list fails, each object once.
\<close>

definition requestsMatchingIndex :: "('f \<Rightarrow> object_meta list option) \<Rightarrow> 'f list \<Rightarrow> namespaced_name list" where
  "requestsMatchingIndex lst flds =
    keep_first {} (concat (map (\<lambda>f. case lst f of None \<Rightarrow> [] | Some items \<Rightarrow> map meta_key items) flds))"

definition agentsReferencingIndexed ::
  "lister \<Rightarrow> agent_field list \<Rightarrow> class_field list \<Rightarrow> bool \<Rightarrow> string \<Rightarrow> string \<Rightarrow> namespaced_name list" where
  "agentsReferencingIndexed l directFields classFields viaToolSet ns name =
    keep_first {}
      ((if directFields \<noteq> [] then requestsMatchingIndex (\<lambda>f. listAgents l ns f name) directFields else [])
       @ concat (map (\<lambda>cf. case listClasses l ns cf name of
                            None \<Rightarrow> []
                          | Some items \<Rightarrow>
                              concat (map (\<lambda>c. requestsMatchingIndex (\<lambda>f. listAgents l ns f (meta_name c)) [IdxAgentClass])
                                          items)) classFields)
       @ (if viaToolSet
          then (case listToolSets l ns name of
                  None \<Rightarrow> []
                | Some items \<Rightarrow>
                    concat (map (\<lambda>s. requestsMatchingIndex (\<lambda>f. listAgents l ns f (meta_name s)) [IdxAgentToolSets])
                                items))
          else []))"

text \<open>The \<^verbatim>\<open>Watches\<close> calls of the Agent controller's \<^verbatim>\<open>SetupWithManager\<close>.\<close>

fun agentWatch :: "lister \<Rightarrow> object_kind \<Rightarrow> string \<Rightarrow> string \<Rightarrow> namespaced_name list" where
  "agentWatch l KModel = agentsReferencingIndexed l [IdxAgentModel] [IdxClassModel] False"
| "agentWatch l KPromptTemplate = agentsReferencingIndexed l [IdxAgentPrompt] [IdxClassPrompt] False"
| "agentWatch l KPolicy = agentsReferencingIndexed l [IdxAgentPolicies] [IdxClassPolicies] False"
| "agentWatch l KTool = agentsReferencingIndexed l [IdxAgentTools] [IdxClassTools] True"
| "agentWatch l KToolSet = agentsReferencingIndexed l [IdxAgentToolSets] [] False"
| "agentWatch l KSkill = agentsReferencingIndexed l [IdxAgentSkills] [IdxClassSkills] False"
| "agentWatch l KToolPolicy = agentsReferencingIndexed l [IdxAgentToolPolicies] [IdxClassToolPolicies] False"
| "agentWatch l KCredential = agentsReferencingIndexed l [IdxAgentCredentials] [] False"
| "agentWatch l KAgentClass = agentsReferencingIndexed l [IdxAgentClass] [] False"
| "agentWatch l _ = (\<lambda>ns name. [])"

section \<open>The contract of an indexed list\<close>

lemma in_concat_map: "y \<in> set ys \<Longrightarrow> x \<in> set (f y) \<Longrightarrow> x \<in> set (concat (map f ys))"
  by auto

lemma enqueued_direct:
  "x \<in> set (requestsMatchingIndex (\<lambda>f. listAgents l ns f name) dfs) \<Longrightarrow>
     x \<in> set (agentsReferencingIndexed l dfs cfs via ns name)"
proof (cases "dfs = []")
  case False
  assume "x \<in> set (requestsMatchingIndex (\<lambda>f. listAgents l ns f name) dfs)"
  then show ?thesis unfolding agentsReferencingIndexed_def set_keep_first set_append Diff_empty if_P [OF False] by (rule UnI1)
next
  case True
  assume "x \<in> set (requestsMatchingIndex (\<lambda>f. listAgents l ns f name) dfs)"
  then show ?thesis by (simp add: True requestsMatchingIndex_def)
qed

lemma enqueued_inherited:
  "cf \<in> set cfs \<Longrightarrow> listClasses l ns cf name = Some items \<Longrightarrow> c \<in> set items \<Longrightarrow>
   x \<in> set (requestsMatchingIndex (\<lambda>f. listAgents l ns f (meta_name c)) [IdxAgentClass]) \<Longrightarrow>
     x \<in> set (agentsReferencingIndexed l dfs cfs via ns name)"
  unfolding agentsReferencingIndexed_def set_keep_first set_append Diff_empty
  by (rule UnI2, rule UnI1, rule in_concat_map, assumption, simp only: option.case, rule in_concat_map)

lemma enqueued_expanded:
  "listToolSets l ns name = Some items \<Longrightarrow> c \<in> set items \<Longrightarrow>
   x \<in> set (requestsMatchingIndex (\<lambda>f. listAgents l ns f (meta_name c)) [IdxAgentToolSets]) \<Longrightarrow>
     x \<in> set (agentsReferencingIndexed l dfs cfs True ns name)"
  unfolding agentsReferencingIndexed_def set_keep_first set_append Diff_empty
  by (rule UnI2, rule UnI2, simp only: option.case if_True, rule in_concat_map)

locale indexed_cluster =
  fixes rd :: reader and l :: lister
  assumes agents_named: "getAgent rd key = Found a \<Longrightarrow> meta_key (ag_meta a) = key"
    and classes_named: "getAgentClass rd key = Found c \<Longrightarrow> meta_key (ac_meta c) = key"
    and toolSets_named: "getToolSet rd key = Found s \<Longrightarrow> meta_key (ts_meta s) = key"
    and agents_listed: "getAgent rd (NamespacedName ns n) = Found a \<Longrightarrow> v \<in> set (agentIndex f a) \<Longrightarrow>
      \<exists>items. listAgents l ns f v = Some items \<and> ag_meta a \<in> set items"
    and classes_listed: "getAgentClass rd (NamespacedName ns n) = Found c \<Longrightarrow> v \<in> set (classIndex g c) \<Longrightarrow>
      \<exists>items. listClasses l ns g v = Some items \<and> ac_meta c \<in> set items"
    and toolSets_listed: "getToolSet rd (NamespacedName ns n) = Found s \<Longrightarrow> v \<in> set (toolSetIndex s) \<Longrightarrow>
      \<exists>items. listToolSets l ns v = Some items \<and> ts_meta s \<in> set items"
begin

lemma listed_key:
  assumes "getAgent rd key = Found a" and "v \<in> set (agentIndex f a)"
  shows "key \<in> set (requestsMatchingIndex (\<lambda>f. listAgents l (nn_namespace key) f v) [f])"
proof -
  have "getAgent rd (NamespacedName (nn_namespace key) (nn_name key)) = Found a" using assms(1) by (cases key) simp
  from agents_listed [OF this assms(2)] agents_named [OF assms(1)] show ?thesis
    by (auto simp: requestsMatchingIndex_def image_iff)
qed

lemma direct_enqueued:
  assumes "getAgent rd key = Found a" and "v \<in> set (agentIndex f a)"
  shows "key \<in> set (agentsReferencingIndexed l [f] cfs via (nn_namespace key) v)"
  using listed_key [OF assms] by (rule enqueued_direct)

lemma inherited_enqueued:
  assumes a: "getAgent rd key = Found a" and ref: "as_agentClassRef (ag_spec a) = Some r" "ref_name r \<noteq> []"
    and c: "getAgentClass rd (NamespacedName (nn_namespace key) (ref_name r)) = Found c"
    and v: "v \<in> set (classIndex g c)" and g: "g \<in> set cfs"
  shows "key \<in> set (agentsReferencingIndexed l dfs cfs via (nn_namespace key) v)"
proof -
  from classes_listed [OF c v] obtain items where
    items: "listClasses l (nn_namespace key) g v = Some items" "ac_meta c \<in> set items" by blast
  have "meta_name (ac_meta c) = ref_name r" using classes_named [OF c] by (simp add: meta_key_def)
  moreover have "ref_name r \<in> set (agentIndex IdxAgentClass a)" using ref by (simp add: refNameIdx_def)
  ultimately have "key \<in> set (requestsMatchingIndex (\<lambda>f. listAgents l (nn_namespace key) f (meta_name (ac_meta c))) [IdxAgentClass])"
    using listed_key [OF a] by simp
  with items g show ?thesis by (blast intro: enqueued_inherited)
qed

lemma expanded_enqueued:
  assumes a: "getAgent rd key = Found a" and r: "r \<in> set (as_toolSetRefs (ag_spec a))" "ref_name r \<noteq> []"
    and s: "getToolSet rd (NamespacedName (nn_namespace key) (ref_name r)) = Found s"
    and v: "v \<in> set (toolSetIndex s)"
  shows "key \<in> set (agentsReferencingIndexed l dfs cfs True (nn_namespace key) v)"
proof -
  from toolSets_listed [OF s v] obtain items where
    items: "listToolSets l (nn_namespace key) v = Some items" "ts_meta s \<in> set items" by blast
  have "meta_name (ts_meta s) = ref_name r" using toolSets_named [OF s] by (simp add: meta_key_def)
  moreover have "ref_name r \<in> set (agentIndex IdxAgentToolSets a)" using r by (simp add: refNamesOf_def)
  ultimately have "key \<in> set (requestsMatchingIndex (\<lambda>f. listAgents l (nn_namespace key) f (meta_name (ts_meta s))) [IdxAgentToolSets])"
    using listed_key [OF a] by simp
  with items show ?thesis by (blast intro: enqueued_expanded)
qed

end

section \<open>A cluster given by its objects\<close>

record cluster =
  cl_agents :: "agent list"
  cl_classes :: "agent_class list"
  cl_toolSets :: "tool_set list"

definition find_object :: "('x \<Rightarrow> object_meta) \<Rightarrow> 'x list \<Rightarrow> namespaced_name \<Rightarrow> 'x got" where
  "find_object metaOf xs key =
    (case find (\<lambda>x. meta_key (metaOf x) = key) xs of None \<Rightarrow> NotFound | Some x \<Rightarrow> Found x)"

definition cluster_reader :: "reader \<Rightarrow> cluster \<Rightarrow> reader" where
  "cluster_reader base c = base
     \<lparr>getAgent := find_object ag_meta (cl_agents c), getAgentClass := find_object ac_meta (cl_classes c),
      getToolSet := find_object ts_meta (cl_toolSets c)\<rparr>"

definition cluster_lister :: "cluster \<Rightarrow> lister" where
  "cluster_lister c =
     \<lparr>listAgents = (\<lambda>ns f v. Some (filter (\<lambda>m. meta_namespace m = ns)
        (map ag_meta (filter (\<lambda>a. v \<in> set (agentIndex f a)) (cl_agents c))))),
      listClasses = (\<lambda>ns g v. Some (filter (\<lambda>m. meta_namespace m = ns)
        (map ac_meta (filter (\<lambda>x. v \<in> set (classIndex g x)) (cl_classes c))))),
      listToolSets = (\<lambda>ns v. Some (filter (\<lambda>m. meta_namespace m = ns)
        (map ts_meta (filter (\<lambda>s. v \<in> set (toolSetIndex s)) (cl_toolSets c)))))\<rparr>"

lemma find_object_Found: "find_object metaOf xs key = Found x \<Longrightarrow> x \<in> set xs \<and> meta_key (metaOf x) = key"
  by (auto simp: find_object_def find_Some_iff split: option.splits)

lemma find_object_ns:
  "find_object metaOf xs (NamespacedName ns n) = Found x \<Longrightarrow> x \<in> set xs \<and> meta_namespace (metaOf x) = ns"
  by (auto dest!: find_object_Found simp: meta_key_def)

interpretation ci: indexed_cluster "cluster_reader base c" "cluster_lister c" for base c
proof
  show "getAgent (cluster_reader base c) key = Found a \<Longrightarrow> meta_key (ag_meta a) = key" for key a
    by (simp add: cluster_reader_def) (drule find_object_Found, simp)
  show "getAgentClass (cluster_reader base c) key = Found x \<Longrightarrow> meta_key (ac_meta x) = key" for key x
    by (simp add: cluster_reader_def) (drule find_object_Found, simp)
  show "getToolSet (cluster_reader base c) key = Found x \<Longrightarrow> meta_key (ts_meta x) = key" for key x
    by (simp add: cluster_reader_def) (drule find_object_Found, simp)
  show "getAgent (cluster_reader base c) (NamespacedName ns n) = Found a \<Longrightarrow> v \<in> set (agentIndex f a) \<Longrightarrow>
      \<exists>items. listAgents (cluster_lister c) ns f v = Some items \<and> ag_meta a \<in> set items" for ns n a v f
    by (simp add: cluster_reader_def cluster_lister_def) (drule find_object_ns, simp)
  show "getAgentClass (cluster_reader base c) (NamespacedName ns n) = Found x \<Longrightarrow> v \<in> set (classIndex g x) \<Longrightarrow>
      \<exists>items. listClasses (cluster_lister c) ns g v = Some items \<and> ac_meta x \<in> set items" for ns n x v g
    by (simp add: cluster_reader_def cluster_lister_def) (drule find_object_ns, simp)
  show "getToolSet (cluster_reader base c) (NamespacedName ns n) = Found x \<Longrightarrow> v \<in> set (toolSetIndex x) \<Longrightarrow>
      \<exists>items. listToolSets (cluster_lister c) ns v = Some items \<and> ts_meta x \<in> set items" for ns n x v
    by (simp add: cluster_reader_def cluster_lister_def) (drule find_object_ns, simp)
qed

section \<open>The routes to a dependency\<close>

lemma refNameIdx_Some: "r = Some x \<Longrightarrow> ref_name x \<noteq> [] \<Longrightarrow> ref_name x \<in> set (refNameIdx r)"
  by (simp add: refNameIdx_def)

lemma refNamesOf_mem: "r \<in> set rs \<Longrightarrow> ref_name r \<noteq> [] \<Longrightarrow> ref_name r \<in> set (refNamesOf rs)"
  by (simp add: refNamesOf_def)

text \<open>The class ref, if any, has a name.\<close>

definition class_ref_named :: "agent \<Rightarrow> bool" where
  "class_ref_named a \<longleftrightarrow> (\<forall>r. as_agentClassRef (ag_spec a) = Some r \<longrightarrow> ref_name r \<noteq> [])"

lemma agent_eff_opt:
  assumes "sel (agent_eff rd a) = Some r"
    and "\<And>s c. sel (ApplyClassDefaults s (Some c)) = or_default (sel s) (csel (ac_spec c))"
  shows "sel (ag_spec a) = Some r \<or> (\<exists>c cr. as_agentClassRef (ag_spec a) = Some cr \<and>
           getAgentClass rd (NamespacedName (ag_namespace a) (ref_name cr)) = Found c \<and> csel (ac_spec c) = Some r)"
proof (cases "agentClassOf rd a")
  case None
  then show ?thesis using assms(1) by (simp add: agent_eff_def)
next
  case (Some c)
  then obtain cr where cr: "as_agentClassRef (ag_spec a) = Some cr"
    "getAgentClass rd (NamespacedName (ag_namespace a) (ref_name cr)) = Found c"
    by (auto simp: agentClassOf_def split: option.splits elim: got_option.elims)
  have "or_default (sel (ag_spec a)) (csel (ac_spec c)) = Some r"
    using assms Some by (simp add: agent_eff_def)
  then show ?thesis using cr by (cases "sel (ag_spec a)") auto
qed

lemma agent_eff_list:
  assumes "r \<in> set (sel (agent_eff rd a))"
    and "\<And>s c. sel (ApplyClassDefaults s (Some c)) = or_default_list (sel s) (csel (ac_spec c))"
  shows "r \<in> set (sel (ag_spec a)) \<or> (\<exists>c cr. as_agentClassRef (ag_spec a) = Some cr \<and>
           getAgentClass rd (NamespacedName (ag_namespace a) (ref_name cr)) = Found c \<and> r \<in> set (csel (ac_spec c)))"
proof (cases "agentClassOf rd a")
  case None
  then show ?thesis using assms(1) by (simp add: agent_eff_def)
next
  case (Some c)
  then obtain cr where cr: "as_agentClassRef (ag_spec a) = Some cr"
    "getAgentClass rd (NamespacedName (ag_namespace a) (ref_name cr)) = Found c"
    by (auto simp: agentClassOf_def split: option.splits elim: got_option.elims)
  have "r \<in> set (or_default_list (sel (ag_spec a)) (csel (ac_spec c)))"
    using assms Some by (simp add: agent_eff_def)
  then show ?thesis using cr by (cases "sel (ag_spec a)") auto
qed

context indexed_cluster
begin

lemma eff_opt_enqueued:
  assumes a: "getAgent rd key = Found a" and n: "class_ref_named a"
    and r: "sel (agent_eff rd a) = Some r" "ref_name r \<noteq> []"
    and app: "\<And>s c. sel (ApplyClassDefaults s (Some c)) = or_default (sel s) (csel (ac_spec c))"
    and f: "\<And>x. agentIndex f x = refNameIdx (sel (ag_spec x))" and g: "\<And>x. classIndex g x = refNameIdx (csel (ac_spec x))"
  shows "key \<in> set (agentsReferencingIndexed l [f] [g] via (nn_namespace key) (ref_name r))"
proof -
  have ns: "ag_namespace a = nn_namespace key" using agents_named [OF a] by (auto simp: meta_key_def)
  consider "sel (ag_spec a) = Some r"
    | c cr where "as_agentClassRef (ag_spec a) = Some cr"
        "getAgentClass rd (NamespacedName (nn_namespace key) (ref_name cr)) = Found c" "csel (ac_spec c) = Some r"
    using agent_eff_opt [where sel = sel and csel = csel, OF r(1) app] ns by auto
  then show ?thesis
  proof cases
    case 1
    then show ?thesis using direct_enqueued [OF a] f refNameIdx_Some [OF _ r(2)] by metis
  next
    case 2
    then show ?thesis
      using inherited_enqueued [OF a 2(1) _ 2(2), of "ref_name r" g "[g]"] n g refNameIdx_Some [OF 2(3) r(2)]
      by (simp add: class_ref_named_def)
  qed
qed

lemma eff_list_enqueued:
  assumes a: "getAgent rd key = Found a" and n: "class_ref_named a"
    and r: "r \<in> set (sel (agent_eff rd a))" "ref_name r \<noteq> []"
    and app: "\<And>s c. sel (ApplyClassDefaults s (Some c)) = or_default_list (sel s) (csel (ac_spec c))"
    and f: "\<And>x. agentIndex f x = refNamesOf (sel (ag_spec x))" and g: "\<And>x. classIndex g x = refNamesOf (csel (ac_spec x))"
  shows "key \<in> set (agentsReferencingIndexed l [f] [g] via (nn_namespace key) (ref_name r))"
proof -
  have ns: "ag_namespace a = nn_namespace key" using agents_named [OF a] by (auto simp: meta_key_def)
  consider "r \<in> set (sel (ag_spec a))"
    | c cr where "as_agentClassRef (ag_spec a) = Some cr"
        "getAgentClass rd (NamespacedName (nn_namespace key) (ref_name cr)) = Found c" "r \<in> set (csel (ac_spec c))"
    using agent_eff_list [where sel = sel and csel = csel, OF r(1) app] ns by auto
  then show ?thesis
  proof cases
    case 1
    then show ?thesis using direct_enqueued [OF a] f refNamesOf_mem [OF _ r(2)] by metis
  next
    case 2
    then show ?thesis
      using inherited_enqueued [OF a 2(1) _ 2(2), of "ref_name r" g "[g]"] n g refNamesOf_mem [OF 2(3) r(2)]
      by (simp add: class_ref_named_def)
  qed
qed

end

context indexed_cluster
begin

lemma git_target_enqueued:
  assumes "getAgent rd key = Found a" and "t \<in> set (gitTarget (ag_spec a))" and "tgt_name t \<noteq> []"
  shows "key \<in> set (agentsReferencingIndexed l [IdxAgentCredentials] [] False (nn_namespace key) (tgt_name t))"
proof (rule direct_enqueued [OF assms(1)])
  have "as_workspace (ag_spec a) \<noteq> None"
  proof
    assume "as_workspace (ag_spec a) = None"
    with assms(2) show False by (simp add: gitTarget_def)
  qed
  then obtain ws where ws: "as_workspace (ag_spec a) = Some ws" by blast
  with assms(2,3) show "tgt_name t \<in> set (agentIndex IdxAgentCredentials a)"
    by (cases "ws_credentialRef ws"; cases "ws_repository ws = []") (simp_all add: gitTarget_def refNameIdx_def)
qed

lemma target_enqueued:
  assumes a: "getAgent rd key = Found a" and n: "class_ref_named a"
    and t: "t \<in> set (agent_tgts rd a)" "tgt_name t \<noteq> []"
  shows "key \<in> set (agentWatch l (tgt_obj t) (nn_namespace key) (tgt_name t))"
proof -
  have ts: "as_toolSetRefs (agent_eff rd a) = as_toolSetRefs (ag_spec a)" by (simp add: agent_eff_def)
  note direct = direct_enqueued [OF a] and opt = eff_opt_enqueued [OF a n] and lst = eff_list_enqueued [OF a n]
  from t(1) consider
      (cls) r where "as_agentClassRef (ag_spec a) = Some r" "t = mkTarget ''AgentClass'' KAgentClass r"
    | (model) r where "as_modelRef (agent_eff rd a) = Some r" "t = mkTarget kindModel KModel r"
    | (prompt) r where "as_promptRef (agent_eff rd a) = Some r" "t = mkTarget ''PromptTemplate'' KPromptTemplate r"
    | (tool) r where "r \<in> set (as_toolRefs (agent_eff rd a))" "t = mkTarget kindTool KTool r"
    | (tset) r where "r \<in> set (as_toolSetRefs (ag_spec a))" "t = mkTarget ''ToolSet'' KToolSet r"
    | (skill) r where "r \<in> set (as_skillRefs (agent_eff rd a))" "t = mkTarget ''Skill'' KSkill r"
    | (pol) r where "r \<in> set (as_policyRefs (agent_eff rd a))" "t = mkTarget ''Policy'' KPolicy r"
    | (tpol) r where "r \<in> set (as_toolPolicyRefs (agent_eff rd a))" "t = mkTarget ''ToolPolicy'' KToolPolicy r"
    | (cred) r where "r \<in> set (as_credentialRefs (ag_spec a))" "t = mkTarget kindCredential KCredential r"
    | (git) "t \<in> set (gitTarget (ag_spec a))"
    unfolding agent_tgts_def agentTargets_def ts by (auto simp: set_optTarget)
  then show ?thesis
  proof cases
    case cls
    then show ?thesis using t(2) direct [of "ref_name r" IdxAgentClass] refNameIdx_Some [OF cls(1)] by simp
  next
    case model
    then show ?thesis using t(2) opt [of as_modelRef r cs_defaultModelRef IdxAgentModel IdxClassModel] by simp
  next
    case prompt
    then show ?thesis using t(2) opt [of as_promptRef r cs_defaultPromptRef IdxAgentPrompt IdxClassPrompt] by simp
  next
    case tool
    then show ?thesis using t(2) lst [of r as_toolRefs cs_defaultToolRefs IdxAgentTools IdxClassTools] by simp
  next
    case tset
    then show ?thesis using t(2) direct [of "ref_name r" IdxAgentToolSets] refNamesOf_mem [OF tset(1)] by simp
  next
    case skill
    then show ?thesis using t(2) lst [of r as_skillRefs cs_defaultSkillRefs IdxAgentSkills IdxClassSkills] by simp
  next
    case pol
    then show ?thesis using t(2) lst [of r as_policyRefs cs_defaultPolicyRefs IdxAgentPolicies IdxClassPolicies] by simp
  next
    case tpol
    then show ?thesis
      using t(2) lst [of r as_toolPolicyRefs cs_defaultToolPolicyRefs IdxAgentToolPolicies IdxClassToolPolicies] by simp
  next
    case cred
    then show ?thesis
      using t(2) direct [of "ref_name r" IdxAgentCredentials] refNamesOf_mem [OF cred(1)] by simp
  next
    case git
    then show ?thesis using git_target_enqueued [OF a git t(2)] set_gitTarget [OF git] by simp
  qed
qed

lemma reached_tool_enqueued:
  assumes a: "getAgent rd key = Found a" and n: "class_ref_named a"
    and sets: "\<forall>r\<in>set (as_toolSetRefs (ag_spec a)). ref_name r \<noteq> []"
    and t: "reaches_tool rd a v" "v \<noteq> []"
  shows "key \<in> set (agentWatch l KTool (nn_namespace key) v)"
proof -
  have ns: "ag_namespace a = nn_namespace key" using agents_named [OF a] by (auto simp: meta_key_def)
  from t(1) consider (direct) r where "r \<in> set (as_toolRefs (agent_eff rd a))" "v = ref_name r"
    | (via) r s q where "r \<in> set (as_toolSetRefs (ag_spec a))"
        "getToolSet rd (NamespacedName (nn_namespace key) (ref_name r)) = Found s"
        "q \<in> set (tss_toolRefs (ts_spec s))" "v = ref_name q"
    unfolding reaches_tool_def ns by blast
  then show ?thesis
  proof cases
    case direct
    then show ?thesis
      using t(2) eff_list_enqueued [OF a n, of r as_toolRefs cs_defaultToolRefs IdxAgentTools IdxClassTools] by simp
  next
    case via
    then have "v \<in> set (toolSetIndex s)" using t(2) refNamesOf_mem [OF via(3)] by (simp add: toolSetIndex_def)
    with expanded_enqueued [OF a via(1) _ via(2)] sets via(1) show ?thesis by simp
  qed
qed

end

section \<open>Properties\<close>

text \<open>
  C15. The Agent controller's watches lose no event: whenever an object an Agent's resolution pass
  looks up is created, changed or deleted (any of its targets, own or inherited from its
  class), or a Tool it reaches through a ToolSet changes, the Agent is among the requests the
  watch queues, provided its references carry names.
\<close>

theorem agent_watch_complete:
  assumes "indexed_cluster rd l" and "getAgent rd key = Found a" and "class_ref_named a"
    and "\<forall>r\<in>set (as_toolSetRefs (ag_spec a)). ref_name r \<noteq> []"
  shows "(\<forall>t\<in>set (agent_tgts rd a). tgt_name t \<noteq> [] \<longrightarrow>
            key \<in> set (agentWatch l (tgt_obj t) (nn_namespace key) (tgt_name t))) \<and>
         (\<forall>v. reaches_tool rd a v \<and> v \<noteq> [] \<longrightarrow> key \<in> set (agentWatch l KTool (nn_namespace key) v))"
  using indexed_cluster.target_enqueued [OF assms(1-3)] indexed_cluster.reached_tool_enqueued [OF assms] by blast

definition watched_cluster :: cluster where
  "watched_cluster = \<lparr>cl_agents = [sample_agent], cl_classes = [], cl_toolSets = []\<rparr>"

lemma watched_agent:
  "getAgent (cluster_reader sample_reader watched_cluster) (NamespacedName ''default'' ''bot'') = Found sample_agent"
  by (simp add: cluster_reader_def watched_cluster_def find_object_def meta_key_def sample_agent_def sample_meta_def)

theorem agent_watch_complete_witness:
  "NamespacedName ''default'' ''bot'' \<in> set (agentWatch (cluster_lister watched_cluster) KModel ''default'' ''gpt'')"
proof -
  have "mkTarget kindModel KModel (LocalReference ''gpt'') \<in>
      set (agent_tgts (cluster_reader sample_reader watched_cluster) sample_agent)"
    by (simp add: agent_tgts_def agent_eff_def agentClassOf_def sample_agent_def sample_agent_spec_def
        agentTargets_def optTarget_def)
  moreover have "class_ref_named sample_agent" "as_toolSetRefs (ag_spec sample_agent) = []"
    by (simp_all add: class_ref_named_def sample_agent_def sample_agent_spec_def)
  ultimately show ?thesis
    using agent_watch_complete [OF ci.indexed_cluster_axioms watched_agent] by force
qed


end
