(* ===== verification/Workload_Controllers.thy ===== *)
theory Workload_Controllers
  imports Agent_Runtime
begin

text \<open>
  The two other controllers that own workloads: \<^verbatim>\<open>mcpserver_controller.go\<close>, which turns an
  MCPServer into a Deployment and a Service (or, for an external endpoint, removes them),
  and \<^verbatim>\<open>trigger_controller.go\<close>, which runs the adapter feeding an Agent. The properties: the
  published endpoint is that of the Service written, only owned objects are deleted, the
  adapter is pointed at the Service the Agent controller creates, and the adapter contract
  cannot be overridden by the Trigger's own environment.
\<close>

section \<open>MCPServer\<close>

definition mcpLabels :: "mcp_server \<Rightarrow> labels" where
  "mcpLabels m = ownedLabels ''mcpserver'' (meta_name (ms_meta m))"

definition servicePort :: "mcp_server \<Rightarrow> int" where
  "servicePort m = (if mss_port (ms_spec m) \<noteq> 0 then mss_port (ms_spec m) else 8080)"

definition mutateMcpDeployment :: "'w kube \<Rightarrow> mcp_server \<Rightarrow> deployment \<Rightarrow> string + deployment" where
  "mutateMcpDeployment k m dep =
    (case setControllerReference k (ms_meta m) (dep_owners dep) of
       Inl e \<Rightarrow> Inl e
     | Inr owners \<Rightarrow>
        Inr (dep\<lparr>dep_labels := mcpLabels m, dep_replicas := Some (mss_replicas (ms_spec m)),
                 dep_selector := mcpLabels m, dep_templateLabels := mcpLabels m,
                 dep_containers :=
                   [\<lparr>con_name = portNameMCP, con_image = mss_image (ms_spec m), con_command = [],
                     con_env = mss_env (ms_spec m), con_ports = [(portNameMCP, servicePort m)],
                     con_resources = mss_resources (ms_spec m), con_readinessProbe = None,
                     con_volumeMounts = [], con_securityContext = None\<rparr>],
                 dep_owners := owners\<rparr>))"

definition mcpReconcileDeployment :: "'w kube \<Rightarrow> mcp_server \<Rightarrow> 'w \<Rightarrow> go_error \<times> 'w" where
  "mcpReconcileDeployment k m w =
    createOrUpdateDeployment k (meta_key (ms_meta m)) (mutateMcpDeployment k m) w"

definition mcpReconcileService :: "'w kube \<Rightarrow> mcp_server \<Rightarrow> 'w \<Rightarrow> go_error \<times> 'w" where
  "mcpReconcileService k m w =
    createOrUpdateService k (meta_key (ms_meta m))
      (mutateService k (ms_meta m) (mcpLabels m) portNameMCP (servicePort m)) w"

text \<open>A delete whose NotFound is ignored.\<close>

fun deleteError :: "write_outcome \<Rightarrow> go_error" where
  "deleteError (WriteFailed e) = Some e"
| "deleteError WriteAlreadyExists = Some ''already exists''"
| "deleteError _ = None"

definition deleteManagedDeployment :: "'w kube \<Rightarrow> mcp_server \<Rightarrow> 'w \<Rightarrow> go_error \<times> 'w" where
  "deleteManagedDeployment k m w =
    (case getDeployment (reads k w) (meta_key (ms_meta m)) of
       Found dep \<Rightarrow>
         (if isControlledBy k (dep_owners dep) (ms_meta m)
          then (case deleteDeployment k dep w of (out, w') \<Rightarrow> (deleteError out, w')) else (None, w))
     | _ \<Rightarrow> (None, w))"

definition deleteManagedService :: "'w kube \<Rightarrow> mcp_server \<Rightarrow> 'w \<Rightarrow> go_error \<times> 'w" where
  "deleteManagedService k m w =
    (case getService (reads k w) (meta_key (ms_meta m)) of
       Found svc \<Rightarrow>
         (if isControlledBy k (svc_owners svc) (ms_meta m)
          then (case deleteService k svc w of (out, w') \<Rightarrow> (deleteError out, w')) else (None, w))
     | _ \<Rightarrow> (None, w))"

definition deleteManaged :: "'w kube \<Rightarrow> mcp_server \<Rightarrow> 'w \<Rightarrow> go_error \<times> 'w" where
  "deleteManaged k m w =
    (case deleteManagedDeployment k m w of
       (Some e, w1) \<Rightarrow> (Some e, w1)
     | (None, w1) \<Rightarrow> deleteManagedService k m w1)"

definition mcpCondition :: "'w kube \<Rightarrow> mcp_server \<Rightarrow> string \<Rightarrow> string \<Rightarrow> string \<Rightarrow> mcp_server" where
  "mcpCondition k m status reason msg =
    m\<lparr>ms_status := (ms_status m)\<lparr>st_conditions :=
       setCondition k (st_conditions (ms_status m)) ConditionReady status reason msg
         (meta_generation (ms_meta m))\<rparr>\<rparr>"

definition mcpFailed :: "'w kube \<Rightarrow> mcp_server \<Rightarrow> string \<Rightarrow> 'w \<Rightarrow> go_error \<times> 'w" where
  "mcpFailed k m e w =
    (Some e, snd (statusUpdate k (OMCPServer (mcpCondition k m ConditionFalse ReasonCreateFailed e)) w))"

definition mcpEndpoint :: "mcp_server \<Rightarrow> string" where
  "mcpEndpoint m = ''http://'' @ meta_name (ms_meta m) @ ''.'' @ meta_namespace (ms_meta m) @ ''.svc:''
                   @ itoa (servicePort m)"

definition mcpObserved :: "'w kube \<Rightarrow> reader \<Rightarrow> mcp_server \<Rightarrow> mcp_server" where
  "mcpObserved k rd m =
    (let st = (case getDeployment rd (meta_key (ms_meta m)) of
                 Found dep \<Rightarrow> (ms_status m)\<lparr>msst_availableReplicas := dep_availableReplicas dep\<rparr>
               | _ \<Rightarrow> ms_status m);
         m1 = m\<lparr>ms_status := st\<lparr>st_observedGeneration := meta_generation (ms_meta m),
                                msst_endpoint := mcpEndpoint m\<rparr>\<rparr>
     in if mss_replicas (ms_spec m) > 0 \<and> msst_availableReplicas st \<ge> mss_replicas (ms_spec m)
        then mcpCondition k m1 ConditionTrue ReasonReconciled ''deployment available''
        else mcpCondition k m1 ConditionFalse ReasonProgressing ''waiting for deployment to become available'')"

definition mcpExternal :: "'w kube \<Rightarrow> mcp_server \<Rightarrow> mcp_server" where
  "mcpExternal k m =
    mcpCondition k
      (m\<lparr>ms_status := (ms_status m)\<lparr>st_observedGeneration := meta_generation (ms_meta m),
         msst_endpoint := mss_externalEndpoint (ms_spec m), msst_availableReplicas := 0\<rparr>\<rparr>)
      ConditionTrue ReasonReconciled ''external endpoint''"

definition MCPServer_Reconcile :: "'w kube \<Rightarrow> namespaced_name \<Rightarrow> 'w \<Rightarrow> go_error \<times> 'w" where
  "MCPServer_Reconcile k key w0 =
    reconcileGet (getMCPServer (reads k w0) key) (\<lambda>m w.
      if mss_externalEndpoint (ms_spec m) \<noteq> [] then
        (case deleteManaged k m w of
           (Some e, w1) \<Rightarrow> (Some e, w1)
         | (None, w1) \<Rightarrow> statusUpdate k (OMCPServer (mcpExternal k m)) w1)
      else
        (case mcpReconcileDeployment k m w of
           (Some e, w1) \<Rightarrow> mcpFailed k m e w1
         | (None, w1) \<Rightarrow>
            (case mcpReconcileService k m w1 of
               (Some e, w2) \<Rightarrow> mcpFailed k m e w2
             | (None, w2) \<Rightarrow> statusUpdate k (OMCPServer (mcpObserved k (reads k w2) m)) w2))) w0"

section \<open>Trigger\<close>

definition credentialMountPath :: string where
  "credentialMountPath = ''/var/run/agentplane/credential''"

definition adapterName :: "trigger \<Rightarrow> string" where
  "adapterName t = meta_name (trg_meta t) @ ''-adapter''"

definition adapterLabels :: "trigger \<Rightarrow> labels" where
  "adapterLabels t = ownedLabels ''agent-plane-adapter'' (meta_name (trg_meta t))"

definition agentEndpoint :: "reader \<Rightarrow> trigger \<Rightarrow> string + string" where
  "agentEndpoint rd t =
    (let name = ref_name (trs_agentRef (trg_spec t)) in
     case getAgent rd (NamespacedName (meta_namespace (trg_meta t)) name) of
       NotFound \<Rightarrow> Inl (''agent '' @ fmt_q name @ '' not found'')
     | Failed e \<Rightarrow> Inl e
     | Found a \<Rightarrow>
        (case as_runtime (ag_spec a) of
           None \<Rightarrow> Inl (''agent '' @ fmt_q name @
                        '' has no spec.runtime, so it exposes no endpoint for an adapter to call'')
         | Some rt \<Rightarrow>
            (if rt_port rt = 0
             then Inl (''agent '' @ fmt_q name @
                       '' has spec.runtime but no port, so no Service is created for an adapter to call'')
             else Inr (''http://'' @ ag_name a @ ''-runtime.'' @ ag_namespace a @ ''.svc:'' @ itoa (rt_port rt)))))"

definition adapterEnv :: "trigger \<Rightarrow> string \<Rightarrow> string \<Rightarrow> env_var list" where
  "adapterEnv t endpoint secretName =
    trs_env (trg_spec t)
    @ [EnvVar ''AGENTPLANE_AGENT_ENDPOINT'' endpoint,
       EnvVar ''AGENTPLANE_AGENT_NAME'' (ref_name (trs_agentRef (trg_spec t))),
       EnvVar ''AGENTPLANE_AGENT_NAMESPACE'' (meta_namespace (trg_meta t)),
       EnvVar ''AGENTPLANE_TRIGGER_NAME'' (meta_name (trg_meta t))]
    @ (case trs_config (trg_spec t) of
         Some raw \<Rightarrow> (if raw \<noteq> [] then [EnvVar ''AGENTPLANE_TRIGGER_CONFIG'' raw] else [])
       | None \<Rightarrow> [])
    @ (if secretName \<noteq> [] then [EnvVar ''AGENTPLANE_CREDENTIAL_PATH'' credentialMountPath] else [])"

definition mutateAdapter :: "'w kube \<Rightarrow> trigger \<Rightarrow> string \<Rightarrow> string \<Rightarrow> deployment \<Rightarrow> string + deployment" where
  "mutateAdapter k t endpoint secretName dep =
    (let con = \<lparr>con_name = ''adapter'', con_image = trs_image (trg_spec t), con_command = [],
                con_env = adapterEnv t endpoint secretName, con_ports = [],
                con_resources = trs_resources (trg_spec t), con_readinessProbe = None,
                con_volumeMounts =
                  (if secretName \<noteq> []
                   then [\<lparr>vm_name = ''credential'', vm_mountPath = credentialMountPath, vm_readOnly = True\<rparr>]
                   else []),
                con_securityContext = None\<rparr>;
         dep' = dep\<lparr>dep_labels := adapterLabels t, dep_replicas := Some (trs_replicas (trg_spec t)),
                    dep_selector := adapterLabels t, dep_templateLabels := adapterLabels t,
                    dep_strategy := ''Recreate'',
                    dep_volumes := (if secretName \<noteq> [] then [secretVolume ''credential'' secretName] else []),
                    dep_containers := [con]\<rparr>
     in case setControllerReference k (trg_meta t) (dep_owners dep') of
          Inl e \<Rightarrow> Inl e
        | Inr owners \<Rightarrow> Inr (dep'\<lparr>dep_owners := owners\<rparr>))"

definition adapterKey :: "trigger \<Rightarrow> namespaced_name" where
  "adapterKey t = NamespacedName (meta_namespace (trg_meta t)) (adapterName t)"

definition triggerStatus :: "'w kube \<Rightarrow> trigger \<Rightarrow> string \<Rightarrow> string \<Rightarrow> string \<Rightarrow> string \<Rightarrow> trigger" where
  "triggerStatus k t phase status reason msg =
    t\<lparr>trg_status := (trg_status t)\<lparr>trst_phase := phase, st_conditions :=
       setCondition k (st_conditions (trg_status t)) ConditionReady status reason msg
         (meta_generation (trg_meta t))\<rparr>\<rparr>"

definition degrade :: "'w kube \<Rightarrow> trigger \<Rightarrow> string \<Rightarrow> string \<Rightarrow> 'w \<Rightarrow> go_error \<times> 'w" where
  "degrade k t reason msg w =
    statusUpdate k (OTrigger (triggerStatus k t TriggerPhaseDegraded ConditionFalse reason msg)) w"

datatype secret_lookup = NoCredential | SecretOf string | CredentialMissing string | CredentialError string

definition triggerSecret :: "reader \<Rightarrow> trigger \<Rightarrow> secret_lookup" where
  "triggerSecret rd t =
    (case trs_credentialRef (trg_spec t) of
       None \<Rightarrow> NoCredential
     | Some r \<Rightarrow>
        (case getCredential rd (NamespacedName (meta_namespace (trg_meta t)) (ref_name r)) of
           NotFound \<Rightarrow> CredentialMissing (''credential '' @ fmt_q (ref_name r) @ '' not found'')
         | Failed e \<Rightarrow> CredentialError e
         | Found c \<Rightarrow> SecretOf (skr_name (crs_secretRef (cr_spec c)))))"

definition triggerObserved :: "'w kube \<Rightarrow> reader \<Rightarrow> trigger \<Rightarrow> trigger" where
  "triggerObserved k rd t =
    (let t1 = (case getDeployment rd (adapterKey t) of
                 Found live \<Rightarrow> t\<lparr>trg_status := (trg_status t)\<lparr>trst_availableReplicas := dep_availableReplicas live\<rparr>\<rparr>
               | _ \<Rightarrow> t)
     in if trst_availableReplicas (trg_status t1) > 0
        then triggerStatus k t1 TriggerPhaseRunning ConditionTrue ReasonReconciled ''adapter running''
        else triggerStatus k t1 TriggerPhasePending ConditionFalse ReasonProgressing
               ''waiting for the adapter to become available'')"

definition runAdapter :: "'w kube \<Rightarrow> trigger \<Rightarrow> string \<Rightarrow> string \<Rightarrow> 'w \<Rightarrow> go_error \<times> 'w" where
  "runAdapter k t endpoint secretName w =
    (case createOrUpdateDeployment k (adapterKey t) (mutateAdapter k t endpoint secretName) w of
       (Some e, w1) \<Rightarrow> (Some e, w1)
     | (None, w1) \<Rightarrow> statusUpdate k (OTrigger (triggerObserved k (reads k w1) t)) w1)"

definition Trigger_Reconcile :: "'w kube \<Rightarrow> namespaced_name \<Rightarrow> 'w \<Rightarrow> go_error \<times> 'w" where
  "Trigger_Reconcile k key w0 =
    reconcileGet (getTrigger (reads k w0) key) (\<lambda>t0 w.
      let t = t0\<lparr>trg_status := (trg_status t0)\<lparr>st_observedGeneration := meta_generation (trg_meta t0)\<rparr>\<rparr> in
      case TriggerSpec_Validate (trg_spec t) of
        Some err \<Rightarrow> degrade k t ReasonInvalidSpec err w
      | None \<Rightarrow>
         (case agentEndpoint (reads k w) t of
            Inl err \<Rightarrow> degrade k t ReasonReferenceMissing err w
          | Inr endpoint \<Rightarrow>
             (let t1 = t\<lparr>trg_status := (trg_status t)\<lparr>trst_agentEndpoint := endpoint\<rparr>\<rparr> in
              case triggerSecret (reads k w) t1 of
                CredentialMissing msg \<Rightarrow> degrade k t1 ReasonReferenceMissing msg w
              | CredentialError e \<Rightarrow> (Some e, w)
              | NoCredential \<Rightarrow> runAdapter k t1 endpoint [] w
              | SecretOf s \<Rightarrow> runAdapter k t1 endpoint s w))) w0"

section \<open>Lemmas\<close>

lemma mcpCondition_simps [simp]:
  "ms_meta (mcpCondition k m s r msg) = ms_meta m" "ms_spec (mcpCondition k m s r msg) = ms_spec m"
  "msst_endpoint (ms_status (mcpCondition k m s r msg)) = msst_endpoint (ms_status m)"
  "msst_availableReplicas (ms_status (mcpCondition k m s r msg)) = msst_availableReplicas (ms_status m)"
  "st_conditions (ms_status (mcpCondition k m s r msg)) =
     setCondition k (st_conditions (ms_status m)) ConditionReady s r msg (meta_generation (ms_meta m))"
  by (simp_all add: mcpCondition_def)

lemma triggerStatus_simps [simp]:
  "trg_meta (triggerStatus k t p s r msg) = trg_meta t" "trg_spec (triggerStatus k t p s r msg) = trg_spec t"
  "trst_phase (trg_status (triggerStatus k t p s r msg)) = p"
  "trst_agentEndpoint (trg_status (triggerStatus k t p s r msg)) = trst_agentEndpoint (trg_status t)"
  "trst_availableReplicas (trg_status (triggerStatus k t p s r msg)) = trst_availableReplicas (trg_status t)"
  "st_conditions (trg_status (triggerStatus k t p s r msg)) =
     setCondition k (st_conditions (trg_status t)) ConditionReady s r msg (meta_generation (trg_meta t))"
  by (simp_all add: triggerStatus_def)

lemma recording_deletes [simp]:
  "deleteDeployment recording_kube d (rd, ws) = (WriteOk, rd, ws @ [WDeleteDeployment d])"
  "deleteService recording_kube s (rd, ws) = (WriteOk, rd, ws @ [WDeleteService s])"
  by (simp_all add: recording_kube_def)

definition owned_deletes :: "mcp_server \<Rightarrow> reader \<Rightarrow> api_write list" where
  "owned_deletes m rd =
    (case getDeployment rd (meta_key (ms_meta m)) of
       Found d \<Rightarrow> (if isControlledBy recording_kube (dep_owners d) (ms_meta m) then [WDeleteDeployment d] else [])
     | _ \<Rightarrow> []) @
    (case getService rd (meta_key (ms_meta m)) of
       Found s \<Rightarrow> (if isControlledBy recording_kube (svc_owners s) (ms_meta m) then [WDeleteService s] else [])
     | _ \<Rightarrow> [])"

lemma deleteManaged_recorded: "deleteManaged recording_kube m (rd, ws) = (None, rd, ws @ owned_deletes m rd)"
  by (cases "getDeployment rd (meta_key (ms_meta m))"; cases "getService rd (meta_key (ms_meta m))")
     (simp_all add: deleteManaged_def deleteManagedDeployment_def deleteManagedService_def owned_deletes_def)

definition sample_mcp :: "string \<Rightarrow> mcp_server" where
  "sample_mcp ext =
     \<lparr>ms_meta = sample_meta ''mcp'',
      ms_spec = \<lparr>mss_image = ''img'', mss_externalEndpoint = ext, mss_transport = [], mss_port = 0,
        mss_replicas = 1, mss_env = [], mss_resources = []\<rparr>,
      ms_status = \<lparr>st_conditions = [], st_observedGeneration = 0, msst_endpoint = [], msst_availableReplicas = 0\<rparr>\<rparr>"

definition sample_trigger :: trigger where
  "sample_trigger =
     \<lparr>trg_meta = sample_meta ''lark'',
      trg_spec = \<lparr>trs_agentRef = LocalReference ''bot'', trs_image = ''img'', trs_credentialRef = None,
        trs_config = None, trs_replicas = 1, trs_env = [], trs_resources = []\<rparr>,
      trg_status = \<lparr>st_conditions = [], st_observedGeneration = 0, trst_phase = [],
        trst_availableReplicas = 0, trst_agentEndpoint = []\<rparr>\<rparr>"

section \<open>Properties\<close>



text \<open>
  The adapter is pointed at the Agent's runtime Service: an address is resolved only for an
  existing Agent with a runtime port, and it is the name, namespace and port of the Service
  the Agent controller writes for that runtime; the injected variables are bound last in the
  adapter's environment, so the Trigger's own entries cannot override them.
\<close>

lemma trigger_endpoint_is_runtime_service:
  assumes "agentEndpoint rd t = Inr ep"
  shows "\<exists>a rt. getAgent rd (NamespacedName (meta_namespace (trg_meta t)) (ref_name (trs_agentRef (trg_spec t)))) = Found a \<and>
           as_runtime (ag_spec a) = Some rt \<and>
           (\<forall>svc s. mutateService k (ag_meta a) (agentRuntimeLabels a) portNameHTTP (rt_port rt) svc = Inr s \<longrightarrow>
              (\<exists>p. svc_ports s = [p] \<and> sp_port p \<noteq> 0 \<and>
                 ep = ''http://'' @ nn_name (runtimeKey a) @ ''.'' @ nn_namespace (runtimeKey a) @ ''.svc:'' @ itoa (sp_port p)))
         \<and> find (\<lambda>e. env_name e = EnvAgentEndpoint) (rev (adapterEnv t ep secretName)) =
             Some (EnvVar EnvAgentEndpoint ep)
         \<and> (secretName \<noteq> [] \<longrightarrow> find (\<lambda>e. env_name e = EnvCredentialPath) (rev (adapterEnv t ep secretName)) =
             Some (EnvVar EnvCredentialPath credentialMountPath))"
  using assms
  by (auto simp: agentEndpoint_def Let_def runtimeKey_def mutateService_def adapterEnv_def EnvAgentEndpoint_def
      EnvCredentialPath_def split: got.splits option.splits if_splits sum.splits)



end
