(* ===== verification/Watches.thy ===== *)
theory Watches
  imports Field_Index Workload_Controllers Webhooks
begin

text \<open>
  The rest of \<^verbatim>\<open>internal/controller/fieldindex.go\<close>: the complete table of index registrations,
  their registration at start-up, \<^verbatim>\<open>enqueueByIndex\<close>, and the watches of the Model, Tool, ToolSet,
  AgentClass, Credential, Skill and Trigger controllers (each one's \<^verbatim>\<open>SetupWithManager\<close>). The
  manager's field indexer is a parameter (locale \<open>field_indexer\<close>), and so is the indexed
  \<^verbatim>\<open>List\<close> of one kind (locale \<open>indexed_kind\<close>). The properties: the registrations never collide,
  and each watch queues exactly the objects that name the changed one, so that no controller
  misses a change of an object its verdict depends on.
\<close>

section \<open>The table of indexes\<close>

definition toolServerIndex :: "tool \<Rightarrow> string list" where
  "toolServerIndex t = refNameIdx (tos_mcpServerRef (to_spec t))"

definition toolAgentIndex :: "tool \<Rightarrow> string list" where
  "toolAgentIndex t = refNameIdx (tos_agentRef (to_spec t))"

definition modelCredentialIndex :: "model \<Rightarrow> string list" where
  "modelCredentialIndex m = refNameIdx (mos_credentialRef (mo_spec m))"

definition skillConfigMapIndex :: "skill \<Rightarrow> string list" where
  "skillConfigMapIndex s =
    (case sks_contentConfigMapRef (sk_spec s) of
       None \<Rightarrow> []
     | Some ref \<Rightarrow> (if cmr_name ref \<noteq> [] then [cmr_name ref] else []))"

definition triggerAgentIndex :: "trigger \<Rightarrow> string list" where
  "triggerAgentIndex t =
    (let name = ref_name (trs_agentRef (trg_spec t)) in if name \<noteq> [] then [name] else [])"

definition triggerCredentialIndex :: "trigger \<Rightarrow> string list" where
  "triggerCredentialIndex t = refNameIdx (trs_credentialRef (trg_spec t))"

definition credentialSecretIndex :: "credential \<Rightarrow> string list" where
  "credentialSecretIndex c =
    (let name = skr_name (crs_secretRef (cr_spec c)) in if name \<noteq> [] then [name] else [])"

text \<open>
  One registration: the kind, the name of the field, and the extractor. The type assertion
  of an extractor panics on another kind, \<^const>\<open>None\<close> here.
\<close>

record index_spec =
  spec_obj :: string
  spec_field :: string
  spec_values :: "client_object \<Rightarrow> string list option"

fun asAgent :: "(agent \<Rightarrow> string list) \<Rightarrow> client_object \<Rightarrow> string list option" where
  "asAgent f (OAgent a) = Some (f a)" | "asAgent f _ = None"

fun asClass :: "(agent_class \<Rightarrow> string list) \<Rightarrow> client_object \<Rightarrow> string list option" where
  "asClass f (OAgentClass c) = Some (f c)" | "asClass f _ = None"

fun asToolSet :: "(tool_set \<Rightarrow> string list) \<Rightarrow> client_object \<Rightarrow> string list option" where
  "asToolSet f (OToolSet s) = Some (f s)" | "asToolSet f _ = None"

fun asTool :: "(tool \<Rightarrow> string list) \<Rightarrow> client_object \<Rightarrow> string list option" where
  "asTool f (OTool t) = Some (f t)" | "asTool f _ = None"

fun asModel :: "(model \<Rightarrow> string list) \<Rightarrow> client_object \<Rightarrow> string list option" where
  "asModel f (OModel m) = Some (f m)" | "asModel f _ = None"

fun asSkill :: "(skill \<Rightarrow> string list) \<Rightarrow> client_object \<Rightarrow> string list option" where
  "asSkill f (OSkill s) = Some (f s)" | "asSkill f _ = None"

fun asTrigger :: "(trigger \<Rightarrow> string list) \<Rightarrow> client_object \<Rightarrow> string list option" where
  "asTrigger f (OTrigger t) = Some (f t)" | "asTrigger f _ = None"

fun asCredential :: "(credential \<Rightarrow> string list) \<Rightarrow> client_object \<Rightarrow> string list option" where
  "asCredential f (OCredential c) = Some (f c)" | "asCredential f _ = None"

abbreviation IndexSpec :: "string \<Rightarrow> string \<Rightarrow> (client_object \<Rightarrow> string list option) \<Rightarrow> index_spec" where
  "IndexSpec ob f v \<equiv> \<lparr>spec_obj = ob, spec_field = f, spec_values = v\<rparr>"

definition indexSpecs :: "index_spec list" where
  "indexSpecs =
    [IndexSpec ''*v1alpha1.Agent'' ''spec.modelRef'' (asAgent (agentIndex IdxAgentModel)),
     IndexSpec ''*v1alpha1.Agent'' ''spec.promptRef'' (asAgent (agentIndex IdxAgentPrompt)),
     IndexSpec ''*v1alpha1.Agent'' ''spec.toolRefs'' (asAgent (agentIndex IdxAgentTools)),
     IndexSpec ''*v1alpha1.Agent'' ''spec.toolSetRefs'' (asAgent (agentIndex IdxAgentToolSets)),
     IndexSpec ''*v1alpha1.Agent'' ''spec.skillRefs'' (asAgent (agentIndex IdxAgentSkills)),
     IndexSpec ''*v1alpha1.Agent'' ''spec.policyRefs'' (asAgent (agentIndex IdxAgentPolicies)),
     IndexSpec ''*v1alpha1.Agent'' ''spec.toolPolicyRefs'' (asAgent (agentIndex IdxAgentToolPolicies)),
     IndexSpec ''*v1alpha1.Agent'' ''spec.credentialRefs'' (asAgent (agentIndex IdxAgentCredentials)),
     IndexSpec ''*v1alpha1.Agent'' ''spec.agentClassRef'' (asAgent (agentIndex IdxAgentClass)),
     IndexSpec ''*v1alpha1.AgentClass'' ''spec.defaultModelRef'' (asClass (classIndex IdxClassModel)),
     IndexSpec ''*v1alpha1.AgentClass'' ''spec.defaultPromptRef'' (asClass (classIndex IdxClassPrompt)),
     IndexSpec ''*v1alpha1.AgentClass'' ''spec.defaultPolicyRefs'' (asClass (classIndex IdxClassPolicies)),
     IndexSpec ''*v1alpha1.AgentClass'' ''spec.defaultToolRefs'' (asClass (classIndex IdxClassTools)),
     IndexSpec ''*v1alpha1.AgentClass'' ''spec.defaultSkillRefs'' (asClass (classIndex IdxClassSkills)),
     IndexSpec ''*v1alpha1.AgentClass'' ''spec.defaultToolPolicyRefs'' (asClass (classIndex IdxClassToolPolicies)),
     IndexSpec ''*v1alpha1.ToolSet'' ''spec.toolRefs'' (asToolSet toolSetIndex),
     IndexSpec ''*v1alpha1.Tool'' ''spec.mcpServerRef'' (asTool toolServerIndex),
     IndexSpec ''*v1alpha1.Tool'' ''spec.agentRef'' (asTool toolAgentIndex),
     IndexSpec ''*v1alpha1.Model'' ''spec.credentialRef'' (asModel modelCredentialIndex),
     IndexSpec ''*v1alpha1.Skill'' ''spec.contentConfigMapRef'' (asSkill skillConfigMapIndex),
     IndexSpec ''*v1alpha1.Trigger'' ''spec.agentRef'' (asTrigger triggerAgentIndex),
     IndexSpec ''*v1alpha1.Trigger'' ''spec.credentialRef'' (asTrigger triggerCredentialIndex),
     IndexSpec ''*v1alpha1.Credential'' ''spec.secretRef'' (asCredential credentialSecretIndex)]"

fun setupIndexes :: "(index_spec \<Rightarrow> 'w \<Rightarrow> go_error \<times> 'w) \<Rightarrow> index_spec list \<Rightarrow> 'w \<Rightarrow> go_error \<times> 'w" where
  "setupIndexes idx [] w = (None, w)"
| "setupIndexes idx (s # ss) w =
    (case idx s w of
       (Some e, w') \<Rightarrow> (Some (''index '' @ spec_obj s @ '' by '' @ spec_field s @ '': '' @ e), w')
     | (None, w') \<Rightarrow> setupIndexes idx ss w')"

definition SetupFieldIndexes :: "(index_spec \<Rightarrow> 'w \<Rightarrow> go_error \<times> 'w) \<Rightarrow> 'w \<Rightarrow> go_error \<times> 'w" where
  "SetupFieldIndexes idx w = setupIndexes idx indexSpecs w"

section \<open>The watches\<close>

definition enqueueByIndex ::
  "(string \<Rightarrow> 'f \<Rightarrow> string \<Rightarrow> object_meta list option) \<Rightarrow> 'f list \<Rightarrow> string \<Rightarrow> string \<Rightarrow> namespaced_name list" where
  "enqueueByIndex lst flds ns name = requestsMatchingIndex (\<lambda>f. lst ns f name) flds"

text \<open>A watched kind: one of this API's, or one of the two core kinds.\<close>

datatype watched = WKind object_kind | WSecret | WConfigMap

datatype tool_field = IdxToolMCPServer | IdxToolAgent
datatype trigger_field = IdxTriggerAgent | IdxTriggerCredential

fun toolIndex :: "tool_field \<Rightarrow> tool \<Rightarrow> string list" where
  "toolIndex IdxToolMCPServer = toolServerIndex"
| "toolIndex IdxToolAgent = toolAgentIndex"

fun triggerIndex :: "trigger_field \<Rightarrow> trigger \<Rightarrow> string list" where
  "triggerIndex IdxTriggerAgent = triggerAgentIndex"
| "triggerIndex IdxTriggerCredential = triggerCredentialIndex"

type_synonym 'f lists = "string \<Rightarrow> 'f \<Rightarrow> string \<Rightarrow> object_meta list option"

fun modelWatch :: "unit lists \<Rightarrow> watched \<Rightarrow> string \<Rightarrow> string \<Rightarrow> namespaced_name list" where
  "modelWatch lst (WKind KCredential) ns name = enqueueByIndex lst [()] ns name"
| "modelWatch lst _ ns name = []"

fun toolWatch :: "tool_field lists \<Rightarrow> watched \<Rightarrow> string \<Rightarrow> string \<Rightarrow> namespaced_name list" where
  "toolWatch lst (WKind KMCPServer) ns name = enqueueByIndex lst [IdxToolMCPServer] ns name"
| "toolWatch lst (WKind KAgent) ns name = enqueueByIndex lst [IdxToolAgent] ns name"
| "toolWatch lst _ ns name = []"

fun toolSetWatch :: "unit lists \<Rightarrow> watched \<Rightarrow> string \<Rightarrow> string \<Rightarrow> namespaced_name list" where
  "toolSetWatch lst (WKind KTool) ns name = enqueueByIndex lst [()] ns name"
| "toolSetWatch lst _ ns name = []"

fun agentClassWatch :: "class_field lists \<Rightarrow> watched \<Rightarrow> string \<Rightarrow> string \<Rightarrow> namespaced_name list" where
  "agentClassWatch lst (WKind KModel) ns name = enqueueByIndex lst [IdxClassModel] ns name"
| "agentClassWatch lst (WKind KPromptTemplate) ns name = enqueueByIndex lst [IdxClassPrompt] ns name"
| "agentClassWatch lst (WKind KPolicy) ns name = enqueueByIndex lst [IdxClassPolicies] ns name"
| "agentClassWatch lst _ ns name = []"

fun credentialWatch :: "unit lists \<Rightarrow> watched \<Rightarrow> string \<Rightarrow> string \<Rightarrow> namespaced_name list" where
  "credentialWatch lst WSecret ns name = enqueueByIndex lst [()] ns name"
| "credentialWatch lst _ ns name = []"

text \<open>\<^verbatim>\<open>enqueueSkillsForConfigMap\<close>.\<close>

fun skillWatch :: "unit lists \<Rightarrow> watched \<Rightarrow> string \<Rightarrow> string \<Rightarrow> namespaced_name list" where
  "skillWatch lst WConfigMap ns name = enqueueByIndex lst [()] ns name"
| "skillWatch lst _ ns name = []"

fun triggerWatch :: "trigger_field lists \<Rightarrow> watched \<Rightarrow> string \<Rightarrow> string \<Rightarrow> namespaced_name list" where
  "triggerWatch lst (WKind KAgent) ns name = enqueueByIndex lst [IdxTriggerAgent] ns name"
| "triggerWatch lst (WKind KCredential) ns name = enqueueByIndex lst [IdxTriggerCredential] ns name"
| "triggerWatch lst _ ns name = []"

section \<open>The contract of the indexer\<close>

text \<open>An indexer accepts a kind and field once, and remembers what it accepted.\<close>

locale field_indexer =
  fixes registered :: "'w \<Rightarrow> (string \<times> string) set"
    and idx :: "index_spec \<Rightarrow> 'w \<Rightarrow> go_error \<times> 'w"
  assumes accepts: "(spec_obj s, spec_field s) \<notin> registered w \<Longrightarrow> fst (idx s w) = None"
    and records: "fst (idx s w) = None \<Longrightarrow>
      registered (snd (idx s w)) = insert (spec_obj s, spec_field s) (registered w)"
begin

lemma setup_distinct:
  assumes "distinct (map (\<lambda>s. (spec_obj s, spec_field s)) ss)"
    and "registered w \<inter> set (map (\<lambda>s. (spec_obj s, spec_field s)) ss) = {}"
  shows "fst (setupIndexes idx ss w) = None \<and>
         registered (snd (setupIndexes idx ss w)) =
           registered w \<union> set (map (\<lambda>s. (spec_obj s, spec_field s)) ss)"
  using assms
proof (induction ss arbitrary: w)
  case (Cons s ss)
  obtain e w' where i: "idx s w = (e, w')" by fastforce
  have e: "e = None" using accepts [of s w] Cons.prems(2) i by simp
  have r: "registered w' = insert (spec_obj s, spec_field s) (registered w)"
    using records [of s w] i e by simp
  from Cons.IH [of w'] Cons.prems show ?case by (auto simp: i e r)
qed simp

end

text \<open>The indexer as the set of what is registered.\<close>

definition set_indexer :: "index_spec \<Rightarrow> (string \<times> string) set \<Rightarrow> go_error \<times> (string \<times> string) set" where
  "set_indexer s w =
    (if (spec_obj s, spec_field s) \<in> w then (Some ''indexer conflict'', w)
     else (None, insert (spec_obj s, spec_field s) w))"

interpretation si: field_indexer "\<lambda>w. w" set_indexer
  by unfold_locales (auto simp: set_indexer_def split: if_splits)

lemma indexSpecs_distinct: "distinct (map (\<lambda>s. (spec_obj s, spec_field s)) indexSpecs)"
  by (simp add: indexSpecs_def)

section \<open>The contract of the list of one kind\<close>

text \<open>
  \<open>objs\<close> are the objects of one kind. The cached list of a namespace by field and value
  succeeds and returns exactly the objects whose extractor yields the value.
\<close>

locale indexed_kind =
  fixes objs :: "'x set" and metaOf :: "'x \<Rightarrow> object_meta"
    and index :: "'f \<Rightarrow> 'x \<Rightarrow> string list" and lst :: "'f lists"
  assumes listed: "\<exists>items. lst ns f v = Some items \<and>
      set items = metaOf ` {x \<in> objs. meta_namespace (metaOf x) = ns \<and> v \<in> set (index f x)}"
begin

lemma enqueue_exact:
  "set (enqueueByIndex lst flds ns v) =
     {meta_key (metaOf x) | x f. x \<in> objs \<and> f \<in> set flds \<and> meta_namespace (metaOf x) = ns \<and> v \<in> set (index f x)}"
proof -
  have "set (case lst ns f v of None \<Rightarrow> [] | Some items \<Rightarrow> map meta_key items) =
      {meta_key (metaOf x) | x. x \<in> objs \<and> meta_namespace (metaOf x) = ns \<and> v \<in> set (index f x)}" for f
    using listed [of ns f v] by auto
  then show ?thesis by (auto simp: enqueueByIndex_def requestsMatchingIndex_def)
qed

lemma enqueued:
  "x \<in> objs \<Longrightarrow> f \<in> set flds \<Longrightarrow> v \<in> set (index f x) \<Longrightarrow>
   meta_key (metaOf x) \<in> set (enqueueByIndex lst flds (meta_namespace (metaOf x)) v)"
  unfolding enqueue_exact by blast

end

definition list_kind :: "'x list \<Rightarrow> ('x \<Rightarrow> object_meta) \<Rightarrow> ('f \<Rightarrow> 'x \<Rightarrow> string list) \<Rightarrow> 'f lists" where
  "list_kind xs metaOf index ns f v =
    Some (map metaOf (filter (\<lambda>x. meta_namespace (metaOf x) = ns \<and> v \<in> set (index f x)) xs))"

interpretation lk: indexed_kind "set xs" metaOf index "list_kind xs metaOf index" for xs metaOf index
  by unfold_locales (auto simp: list_kind_def)

section \<open>Targets and extractors\<close>

lemma set_refNameIdx: "v \<in> set (refNameIdx r) \<longleftrightarrow> v \<noteq> [] \<and> map_option ref_name r = Some v"
  by (cases r) (auto simp: refNameIdx_def)

lemma set_refNamesOf: "v \<in> set (refNamesOf rs) \<longleftrightarrow> v \<noteq> [] \<and> v \<in> ref_name ` set rs"
  by (auto simp: refNamesOf_def)

text \<open>An object has a reference of a kind and a name among the targets its controller resolves.\<close>

definition targets_at :: "ref_target list \<Rightarrow> object_kind \<Rightarrow> string \<Rightarrow> bool" where
  "targets_at ts kd v \<longleftrightarrow> (\<exists>t\<in>set ts. rtg_obj t = kd \<and> rtg_name t = v)"

lemma modelTargets_at:
  "targets_at (modelTargets m) kd v \<longleftrightarrow> kd = KCredential \<and> map_option ref_name (mos_credentialRef (mo_spec m)) = Some v"
  by (cases "mos_credentialRef (mo_spec m)") (auto simp: targets_at_def modelTargets_def)

lemma toolTargets_at:
  "targets_at (toolTargets t) kd v \<longleftrightarrow>
     kd = KMCPServer \<and> map_option ref_name (tos_mcpServerRef (to_spec t)) = Some v \<or>
     kd = KAgent \<and> map_option ref_name (tos_agentRef (to_spec t)) = Some v"
  by (cases "tos_mcpServerRef (to_spec t)"; cases "tos_agentRef (to_spec t)")
     (auto simp: targets_at_def toolTargets_def)

lemma toolSetTargets_at:
  "targets_at (toolSetTargets s) kd v \<longleftrightarrow> kd = KTool \<and> v \<in> ref_name ` set (tss_toolRefs (ts_spec s))"
  by (auto simp: targets_at_def toolSetTargets_def)

lemma agentClassTargets_at:
  "targets_at (agentClassTargets c) kd v \<longleftrightarrow>
     kd = KModel \<and> map_option ref_name (cs_defaultModelRef (ac_spec c)) = Some v \<or>
     kd = KPromptTemplate \<and> map_option ref_name (cs_defaultPromptRef (ac_spec c)) = Some v \<or>
     kd = KPolicy \<and> v \<in> ref_name ` set (cs_defaultPolicyRefs (ac_spec c))"
  by (cases "cs_defaultModelRef (ac_spec c)"; cases "cs_defaultPromptRef (ac_spec c)")
     (auto simp: targets_at_def agentClassTargets_def)

lemmas watch_index = toolServerIndex_def toolAgentIndex_def modelCredentialIndex_def skillConfigMapIndex_def
  triggerAgentIndex_def triggerCredentialIndex_def credentialSecretIndex_def toolSetIndex_def
  set_refNameIdx set_refNamesOf

section \<open>Properties\<close>

text \<open>
  C32. Index registration succeeds: on a manager with nothing registered, whose indexer accepts
  every kind and field once, start-up registers all the indexes without an error, exactly
  those of the table; and an extractor accepts exactly the objects of its own kind, so none
  panics on the objects it is called with.
\<close>

theorem SetupFieldIndexes_succeeds:
  assumes "field_indexer registered idx" and "registered w = {}"
  shows "fst (SetupFieldIndexes idx w) = None \<and>
         registered (snd (SetupFieldIndexes idx w)) = (\<lambda>s. (spec_obj s, spec_field s)) ` set indexSpecs \<and>
         length indexSpecs = card (registered (snd (SetupFieldIndexes idx w))) \<and>
         (\<forall>s\<in>set indexSpecs. \<forall>obj. spec_values s obj \<noteq> None \<longleftrightarrow> type_name obj = spec_obj s)"
proof -
  have r: "fst (SetupFieldIndexes idx w) = None \<and>
      registered (snd (SetupFieldIndexes idx w)) = set (map (\<lambda>s. (spec_obj s, spec_field s)) indexSpecs)"
    using field_indexer.setup_distinct [OF assms(1) indexSpecs_distinct, of w] assms(2)
    by (simp add: SetupFieldIndexes_def)
  have c: "card (set (map (\<lambda>s. (spec_obj s, spec_field s)) indexSpecs)) = length indexSpecs"
    using distinct_card [OF indexSpecs_distinct] by simp
  have "\<forall>s\<in>set indexSpecs. spec_values s obj \<noteq> None \<longleftrightarrow> type_name obj = spec_obj s" for obj
    by (cases obj) (simp_all add: indexSpecs_def)
  with r c show ?thesis by simp
qed

theorem SetupFieldIndexes_succeeds_witness:
  "fst (SetupFieldIndexes set_indexer {}) = None \<and> (''*v1alpha1.Trigger'', ''spec.agentRef'') \<in> snd (SetupFieldIndexes set_indexer {})"
proof -
  have "(''*v1alpha1.Trigger'', ''spec.agentRef'') \<in> (\<lambda>s. (spec_obj s, spec_field s)) ` set indexSpecs"
    by (simp add: indexSpecs_def)
  with SetupFieldIndexes_succeeds [OF si.field_indexer_axioms, of "{}"] show ?thesis by simp
qed

text \<open>
  C29. The watches of the other controllers are exact: when an object with a name changes, the
  requests queued are those of exactly the objects of its namespace that refer to it the way
  the controller resolves them, that is, one of the targets of a Model, Tool, ToolSet or AgentClass,
  the Secret of a Credential, the ConfigMap of a Skill, the Agent or Credential of a Trigger.
\<close>

theorem controller_watches_exact:
  assumes "indexed_kind ms mo_meta (\<lambda>_. modelCredentialIndex) lm" and "indexed_kind tls to_meta toolIndex lt"
    and "indexed_kind tss ts_meta (\<lambda>_. toolSetIndex) ls" and "indexed_kind acs ac_meta classIndex lc"
    and "indexed_kind crs cr_meta (\<lambda>_. credentialSecretIndex) lr" and "indexed_kind sks sk_meta (\<lambda>_. skillConfigMapIndex) lk"
    and "indexed_kind trs trg_meta triggerIndex lg" and "v \<noteq> []"
  shows "set (modelWatch lm (WKind kd) ns v) =
           {meta_key (mo_meta m) | m. m \<in> ms \<and> meta_namespace (mo_meta m) = ns \<and> targets_at (modelTargets m) kd v} \<and>
         set (toolWatch lt (WKind kd) ns v) =
           {meta_key (to_meta t) | t. t \<in> tls \<and> meta_namespace (to_meta t) = ns \<and> targets_at (toolTargets t) kd v} \<and>
         set (toolSetWatch ls (WKind kd) ns v) =
           {meta_key (ts_meta s) | s. s \<in> tss \<and> meta_namespace (ts_meta s) = ns \<and> targets_at (toolSetTargets s) kd v} \<and>
         set (agentClassWatch lc (WKind kd) ns v) =
           {meta_key (ac_meta c) | c. c \<in> acs \<and> meta_namespace (ac_meta c) = ns \<and> targets_at (agentClassTargets c) kd v} \<and>
         set (credentialWatch lr WSecret ns v) =
           {meta_key (cr_meta c) | c. c \<in> crs \<and> meta_namespace (cr_meta c) = ns \<and> skr_name (crs_secretRef (cr_spec c)) = v} \<and>
         set (skillWatch lk WConfigMap ns v) =
           {meta_key (sk_meta s) | s. s \<in> sks \<and> meta_namespace (sk_meta s) = ns \<and>
              map_option cmr_name (sks_contentConfigMapRef (sk_spec s)) = Some v} \<and>
         set (triggerWatch lg (WKind KAgent) ns v) =
           {meta_key (trg_meta t) | t. t \<in> trs \<and> meta_namespace (trg_meta t) = ns \<and> ref_name (trs_agentRef (trg_spec t)) = v} \<and>
         set (triggerWatch lg (WKind KCredential) ns v) =
           {meta_key (trg_meta t) | t. t \<in> trs \<and> meta_namespace (trg_meta t) = ns \<and>
              map_option ref_name (trs_credentialRef (trg_spec t)) = Some v}"
proof (intro conjI)
  show "set (modelWatch lm (WKind kd) ns v) =
           {meta_key (mo_meta m) | m. m \<in> ms \<and> meta_namespace (mo_meta m) = ns \<and> targets_at (modelTargets m) kd v}"
    using assms(8) by (cases kd) (auto simp: indexed_kind.enqueue_exact [OF assms(1)] modelTargets_at watch_index)
  show "set (toolWatch lt (WKind kd) ns v) =
           {meta_key (to_meta t) | t. t \<in> tls \<and> meta_namespace (to_meta t) = ns \<and> targets_at (toolTargets t) kd v}"
    using assms(8) by (cases kd) (auto simp: indexed_kind.enqueue_exact [OF assms(2)] toolTargets_at watch_index)
  show "set (toolSetWatch ls (WKind kd) ns v) =
           {meta_key (ts_meta s) | s. s \<in> tss \<and> meta_namespace (ts_meta s) = ns \<and> targets_at (toolSetTargets s) kd v}"
    using assms(8) by (cases kd) (auto simp: indexed_kind.enqueue_exact [OF assms(3)] toolSetTargets_at watch_index)
  show "set (agentClassWatch lc (WKind kd) ns v) =
           {meta_key (ac_meta c) | c. c \<in> acs \<and> meta_namespace (ac_meta c) = ns \<and> targets_at (agentClassTargets c) kd v}"
    using assms(8) by (cases kd) (auto simp: indexed_kind.enqueue_exact [OF assms(4)] agentClassTargets_at watch_index)
  show "set (credentialWatch lr WSecret ns v) =
           {meta_key (cr_meta c) | c. c \<in> crs \<and> meta_namespace (cr_meta c) = ns \<and> skr_name (crs_secretRef (cr_spec c)) = v}"
    using assms(8) by (auto simp: indexed_kind.enqueue_exact [OF assms(5)] watch_index Let_def)
  have "v \<in> set (skillConfigMapIndex s) \<longleftrightarrow> map_option cmr_name (sks_contentConfigMapRef (sk_spec s)) = Some v" for s
    using assms(8) by (cases "sks_contentConfigMapRef (sk_spec s)") (auto simp: watch_index)
  then show "set (skillWatch lk WConfigMap ns v) =
           {meta_key (sk_meta s) | s. s \<in> sks \<and> meta_namespace (sk_meta s) = ns \<and>
              map_option cmr_name (sks_contentConfigMapRef (sk_spec s)) = Some v}"
    by (auto simp: indexed_kind.enqueue_exact [OF assms(6)])
  show "set (triggerWatch lg (WKind KAgent) ns v) =
           {meta_key (trg_meta t) | t. t \<in> trs \<and> meta_namespace (trg_meta t) = ns \<and> ref_name (trs_agentRef (trg_spec t)) = v}"
    using assms(8) by (auto simp: indexed_kind.enqueue_exact [OF assms(7)] watch_index Let_def)
  show "set (triggerWatch lg (WKind KCredential) ns v) =
           {meta_key (trg_meta t) | t. t \<in> trs \<and> meta_namespace (trg_meta t) = ns \<and>
              map_option ref_name (trs_credentialRef (trg_spec t)) = Some v}"
    using assms(8) by (auto simp: indexed_kind.enqueue_exact [OF assms(7)] watch_index)
qed

theorem controller_watches_exact_witness:
  "set (toolSetWatch (list_kind [sample_tool_set [''search'', ''ghost'']] ts_meta (\<lambda>_. toolSetIndex)) (WKind KTool)
     ''default'' ''ghost'') = {NamespacedName ''default'' ''set''}"
proof -
  have "{meta_key (ts_meta s) | s. s \<in> set [sample_tool_set [''search'', ''ghost'']] \<and>
      meta_namespace (ts_meta s) = ''default'' \<and> targets_at (toolSetTargets s) KTool ''ghost''} =
      {NamespacedName ''default'' ''set''}"
    by (auto simp: toolSetTargets_at sample_objects sample_defs meta_key_def)
  then show ?thesis
    using controller_watches_exact [OF lk.indexed_kind_axioms [of "[]"] lk.indexed_kind_axioms [of "[]"]
        lk.indexed_kind_axioms [of "[sample_tool_set [''search'', ''ghost'']]"] lk.indexed_kind_axioms [of "[]"]
        lk.indexed_kind_axioms [of "[]"] lk.indexed_kind_axioms [of "[]"] lk.indexed_kind_axioms [of "[]"],
        where v = "''ghost''" and ns = "''default''" and kd = KTool, OF list.distinct(2),
        THEN conjunct2, THEN conjunct2, THEN conjunct1] by (rule trans [rotated])
qed

end
