(* ===== verification/Startup.thy ===== *)
theory Startup
  imports Watches
begin

text \<open>
  The start-up of the Operator, \<^verbatim>\<open>cmd/main.go\<close>: the options of its servers from the command line, and
  the sequence of set-up calls, each of which ends the process when it fails. The manager is a
  parameter, one function per call (its construction includes finding the cluster's address);
  registering the indexes is the code of \<open>Watches\<close>. The manager runs only when everything was set
  up, indexes before controllers, one controller per kind. The Registry's start-up, \<^verbatim>\<open>main\<close> of
  \<^verbatim>\<open>cmd/registry/main.go\<close>, runs its steps the same way; the example MCP server has one step.
\<close>

section \<open>Options\<close>

record operator_flags =
  metricsAddr :: string
  probeAddr :: string
  enableLeaderElection :: bool
  secureMetrics :: bool
  webhookCertPath :: string
  webhookCertName :: string
  webhookCertKey :: string
  metricsCertPath :: string
  metricsCertName :: string
  metricsCertKey :: string
  enableHTTP2 :: bool

definition defaultFlags :: operator_flags where
  "defaultFlags =
    \<lparr>metricsAddr = ''0'', probeAddr = '':8081'', enableLeaderElection = False, secureMetrics = True,
     webhookCertPath = [], webhookCertName = ''tls.crt'', webhookCertKey = ''tls.key'',
     metricsCertPath = [], metricsCertName = ''tls.crt'', metricsCertKey = ''tls.key'', enableHTTP2 = False\<rparr>"

text \<open>A TLS option is the list of protocols it leaves to negotiate.\<close>

definition tlsOptions :: "operator_flags \<Rightarrow> string list list" where
  "tlsOptions fl = (if \<not> enableHTTP2 fl then [[''http/1.1'']] else [])"

record webhook_options =
  wo_tlsOpts :: "string list list"
  wo_certDir :: string
  wo_certName :: string
  wo_keyName :: string

definition webhookServerOptions :: "operator_flags \<Rightarrow> webhook_options" where
  "webhookServerOptions fl =
    (let base = \<lparr>wo_tlsOpts = tlsOptions fl, wo_certDir = [], wo_certName = [], wo_keyName = []\<rparr>
     in if length (webhookCertPath fl) > 0
        then base\<lparr>wo_certDir := webhookCertPath fl, wo_certName := webhookCertName fl, wo_keyName := webhookCertKey fl\<rparr>
        else base)"

text \<open>\<open>so_filtered\<close>: whether the filter that authenticates and authorises each request is installed.\<close>

record metrics_options =
  so_bindAddress :: string
  so_secureServing :: bool
  so_tlsOpts :: "string list list"
  so_filtered :: bool
  so_certDir :: string
  so_certName :: string
  so_keyName :: string

definition metricsServerOptions :: "operator_flags \<Rightarrow> metrics_options" where
  "metricsServerOptions fl =
    (let base = \<lparr>so_bindAddress = metricsAddr fl, so_secureServing = secureMetrics fl, so_tlsOpts = tlsOptions fl,
                 so_filtered = False, so_certDir = [], so_certName = [], so_keyName = []\<rparr>;
         filtered = (if secureMetrics fl then base\<lparr>so_filtered := True\<rparr> else base)
     in if length (metricsCertPath fl) > 0
        then filtered\<lparr>so_certDir := metricsCertPath fl, so_certName := metricsCertName fl, so_keyName := metricsCertKey fl\<rparr>
        else filtered)"

record manager_options =
  mo_metrics :: metrics_options
  mo_webhook :: webhook_options
  mo_probe :: string
  mo_leaderElection :: bool
  mo_leaderElectionID :: string
  mo_releaseOnCancel :: bool

definition managerOptions :: "operator_flags \<Rightarrow> manager_options" where
  "managerOptions fl =
    \<lparr>mo_metrics = metricsServerOptions fl, mo_webhook = webhookServerOptions fl, mo_probe = probeAddr fl,
     mo_leaderElection = enableLeaderElection fl, mo_leaderElectionID = ''8cd146dd.hkmdxlftjf.io'',
     mo_releaseOnCancel = True\<rparr>"

section \<open>The sequence of set-up calls\<close>

datatype setup_step =
    NewManager manager_options
  | FieldIndexes
  | RunController string string
  | RunWebhook string
  | HealthzCheck
  | ReadyzCheck
  | StartManager

text \<open>The controllers in the order they are created; only the Agent's takes the Registry URL.\<close>

definition controllerSteps :: "string \<Rightarrow> setup_step list" where
  "controllerSteps registryURL =
    RunController ''Agent'' registryURL #
    map (\<lambda>kd. RunController kd [])
      [''AgentClass'', ''Tool'', ''ToolSet'', ''Skill'', ''MCPServer'', ''Model'', ''PromptTemplate'', ''Policy'',
       ''ToolPolicy'', ''Trigger'', ''Credential'']"

definition setupSteps :: "(string \<Rightarrow> string) \<Rightarrow> operator_flags \<Rightarrow> setup_step list" where
  "setupSteps getenv fl =
    [NewManager (managerOptions fl), FieldIndexes]
    @ controllerSteps (getenv ''AGENTPLANE_REGISTRY_URL'')
    @ (if getenv ''ENABLE_WEBHOOKS'' \<noteq> ''false'' then [RunWebhook ''Agent''] else [])
    @ (if getenv ''ENABLE_WEBHOOKS'' \<noteq> ''false'' then [RunWebhook ''Tool''] else [])
    @ [HealthzCheck, ReadyzCheck, StartManager]"

fun errorMessage :: "setup_step \<Rightarrow> string" where
  "errorMessage (NewManager _) = ''unable to start manager''"
| "errorMessage FieldIndexes = ''unable to set up field indexes''"
| "errorMessage (RunController _ _) = ''unable to create controller''"
| "errorMessage (RunWebhook _) = ''unable to create webhook''"
| "errorMessage HealthzCheck = ''unable to set up health check''"
| "errorMessage ReadyzCheck = ''unable to set up ready check''"
| "errorMessage StartManager = ''problem running manager''"

text \<open>
  A start-up runs its steps in order and ends the process at the first one that fails. The result
  is the exit code, the steps that were run and the message of the failed one, if any.
\<close>

fun runSteps :: "('s \<Rightarrow> 'w \<Rightarrow> go_error \<times> 'w) \<Rightarrow> ('s \<Rightarrow> string) \<Rightarrow> 's list \<Rightarrow> 'w \<Rightarrow> int \<times> 's list \<times> string option" where
  "runSteps step message [] w = (0, [], None)"
| "runSteps step message (st # sts) w =
    (case step st w of
       (Some e, w') \<Rightarrow> (1, [st], Some (message st))
     | (None, w') \<Rightarrow> (case runSteps step message sts w' of (code, trace, msg) \<Rightarrow> (code, st # trace, msg)))"

definition runStep ::
  "(setup_step \<Rightarrow> 'w \<Rightarrow> go_error \<times> 'w) \<Rightarrow> (index_spec \<Rightarrow> 'w \<Rightarrow> go_error \<times> 'w) \<Rightarrow> setup_step \<Rightarrow> 'w \<Rightarrow> go_error \<times> 'w" where
  "runStep mgr idx st w = (if st = FieldIndexes then SetupFieldIndexes idx w else mgr st w)"

definition operator_main ::
  "(setup_step \<Rightarrow> 'w \<Rightarrow> go_error \<times> 'w) \<Rightarrow> (index_spec \<Rightarrow> 'w \<Rightarrow> go_error \<times> 'w) \<Rightarrow> (string \<Rightarrow> string) \<Rightarrow> operator_flags \<Rightarrow> 'w \<Rightarrow>
   int \<times> setup_step list \<times> string option" where
  "operator_main mgr idx getenv fl w = runSteps (runStep mgr idx) errorMessage (setupSteps getenv fl) w"

section \<open>The Registry\<close>

datatype registry_step =
    GetConfig
  | NewClient
  | NewCache
  | GetInformer
  | AddEventHandler
  | StartCache
  | WaitForCacheSync
  | ListenAndServe string "(string \<times> string) list"

text \<open>The server's routes: a pattern and the handler it is given.\<close>

definition registryRoutes :: "(string \<times> string) list" where
  "registryRoutes = [(''/v1/agents/'', ''handleAgent''), (''/healthz'', ''ok'')]"

definition registrySteps :: "string \<Rightarrow> registry_step list" where
  "registrySteps addr =
    [GetConfig, NewClient, NewCache, GetInformer, AddEventHandler, StartCache, WaitForCacheSync,
     ListenAndServe addr registryRoutes]"

fun registryMessage :: "registry_step \<Rightarrow> string" where
  "registryMessage GetConfig = ''unable to load kubeconfig / in-cluster config''"
| "registryMessage NewClient = ''unable to build client''"
| "registryMessage NewCache = ''unable to build cache''"
| "registryMessage GetInformer = ''unable to get Agent informer''"
| "registryMessage AddEventHandler = ''unable to register Agent event handler''"
| "registryMessage StartCache = ''cache stopped''"
| "registryMessage WaitForCacheSync = ''startup failed''"
| "registryMessage (ListenAndServe _ _) = ''server exited''"

text \<open>
  The cache runs beside the start-up, which never sees its error, and a server that was closed
  has not failed. \<open>errServerClosed\<close> is the error \<^verbatim>\<open>net/http\<close> returns then.
\<close>

definition registryStep ::
  "(registry_step \<Rightarrow> 'w \<Rightarrow> go_error \<times> 'w) \<Rightarrow> go_error \<Rightarrow> registry_step \<Rightarrow> 'w \<Rightarrow> go_error \<times> 'w" where
  "registryStep env errServerClosed st w =
    (let (e, w') = env st w
     in case st of
          StartCache \<Rightarrow> (None, w')
        | ListenAndServe addr routes \<Rightarrow> (if e \<noteq> None \<and> e \<noteq> errServerClosed then e else None, w')
        | _ \<Rightarrow> (e, w'))"

definition registry_main ::
  "(registry_step \<Rightarrow> 'w \<Rightarrow> go_error \<times> 'w) \<Rightarrow> go_error \<Rightarrow> string \<Rightarrow> 'w \<Rightarrow> int \<times> registry_step list \<times> string option" where
  "registry_main env errServerClosed addr w =
    runSteps (registryStep env errServerClosed) registryMessage (registrySteps addr) w"

section \<open>The example MCP server\<close>

text \<open>
  Its address is the flag's unless \<^verbatim>\<open>PORT\<close> is set. \<^verbatim>\<open>ListenAndServe\<close> returns only with an error, and
  \<^verbatim>\<open>log.Fatal\<close> ends the process with code 1 then: the result is the code, the address and the routes
  it served.
\<close>

definition mcpAddr :: "(string \<Rightarrow> string) \<Rightarrow> string \<Rightarrow> string" where
  "mcpAddr getenv addr = (if getenv ''PORT'' \<noteq> [] then '':'' @ getenv ''PORT'' else addr)"

definition mcpRoutes :: "(string \<times> string) list" where
  "mcpRoutes = [(''/healthz'', ''ok''), (''/'', ''handleRPC'')]"

definition mcp_main :: "(string \<Rightarrow> (string \<times> string) list \<Rightarrow> string) \<Rightarrow> (string \<Rightarrow> string) \<Rightarrow> string \<Rightarrow> int \<times> string \<times> (string \<times> string) list \<times> string" where
  "mcp_main listenAndServe getenv addr =
    (let a = mcpAddr getenv addr in (1, a, mcpRoutes, listenAndServe a mcpRoutes))"

section \<open>What a run shows\<close>

fun controllersOf :: "setup_step list \<Rightarrow> string list" where
  "controllersOf [] = []"
| "controllersOf (RunController kd url # sts) = kd # controllersOf sts"
| "controllersOf (st # sts) = controllersOf sts"

fun webhooksOf :: "setup_step list \<Rightarrow> string list" where
  "webhooksOf [] = []"
| "webhooksOf (RunWebhook kd # sts) = kd # webhooksOf sts"
| "webhooksOf (st # sts) = webhooksOf sts"

definition operatorKinds :: "string list" where
  "operatorKinds = [''Agent'', ''AgentClass'', ''Tool'', ''ToolSet'', ''Skill'', ''MCPServer'', ''Model'',
     ''PromptTemplate'', ''Policy'', ''ToolPolicy'', ''Trigger'', ''Credential'']"

text \<open>The steps between the indexes and the start, none of which starts the manager.\<close>

definition middleSteps :: "(string \<Rightarrow> string) \<Rightarrow> setup_step list" where
  "middleSteps getenv = controllerSteps (getenv ''AGENTPLANE_REGISTRY_URL'')
     @ (if getenv ''ENABLE_WEBHOOKS'' = ''false'' then [] else [RunWebhook ''Agent'', RunWebhook ''Tool''])
     @ [HealthzCheck, ReadyzCheck]"

lemma runSteps_prefix:
  assumes "runSteps step message sts w = (code, trace, msg)"
  shows "\<exists>rest. sts = trace @ rest \<and> (code = 0 \<longrightarrow> rest = [] \<and> msg = None) \<and>
           (code \<noteq> 0 \<longrightarrow> code = 1 \<and> trace \<noteq> [] \<and> msg = Some (message (last trace)))"
  using assms
proof (induction sts arbitrary: w code trace msg)
  case (Cons st sts)
  obtain e w' where r: "step st w = (e, w')" by fastforce
  show ?case
  proof (cases e)
    case None
    obtain c t m where t: "runSteps step message sts w' = (c, t, m)" by (metis prod_cases3)
    from Cons.IH [OF t] Cons.prems None r t show ?thesis by auto
  qed (use Cons.prems r in auto)
qed simp

lemma runSteps_failed:
  assumes "runSteps step message sts w = (code, trace, msg)" "code \<noteq> 0"
  shows "\<exists>w e w'. step (last trace) w = (Some e, w')"
  using assms
proof (induction sts arbitrary: w code trace msg)
  case (Cons st sts)
  obtain e w' where r: "step st w = (e, w')" by fastforce
  show ?case
  proof (cases e)
    case None
    obtain c t m where t: "runSteps step message sts w' = (c, t, m)" by (metis prod_cases3)
    moreover have "t \<noteq> []" if "c \<noteq> 0" using runSteps_prefix [OF t] that by auto
    moreover have "trace = st # t" "c = code" using Cons.prems None r t by auto
    ultimately show ?thesis using Cons.IH [OF t] Cons.prems(2) by (metis last_ConsR)
  qed (use Cons.prems r in fastforce)
qed simp

lemma setupSteps_middle:
  "setupSteps getenv fl = NewManager (managerOptions fl) # FieldIndexes # middleSteps getenv @ [StartManager]"
  by (cases "getenv ''ENABLE_WEBHOOKS'' = ''false''") (simp_all add: setupSteps_def middleSteps_def)

lemma middleSteps_facts:
  "StartManager \<notin> set (middleSteps getenv)"
  "FieldIndexes \<notin> set (middleSteps getenv)"
  "controllersOf (middleSteps getenv @ [StartManager]) = operatorKinds"
  "webhooksOf (middleSteps getenv @ [StartManager]) = (if getenv ''ENABLE_WEBHOOKS'' = ''false'' then [] else [''Agent'', ''Tool''])"
  by (cases "getenv ''ENABLE_WEBHOOKS'' = ''false''",
      simp_all add: middleSteps_def controllerSteps_def operatorKinds_def)+

lemma setupSteps_started:
  assumes s: "setupSteps getenv fl = trace @ rest" and m: "StartManager \<in> set trace"
  shows "trace = NewManager (managerOptions fl) # FieldIndexes # middleSteps getenv @ [StartManager]"
proof (cases rest rule: rev_cases)
  case (snoc ys y)
  with s have "trace @ ys = NewManager (managerOptions fl) # FieldIndexes # middleSteps getenv"
    unfolding setupSteps_middle by (metis append_Cons append_assoc append1_eq_conv)
  then have "StartManager \<in> set (NewManager (managerOptions fl) # FieldIndexes # middleSteps getenv)"
    using m by (metis Un_iff set_append)
  then show ?thesis using middleSteps_facts(1) by simp
qed (use s setupSteps_middle in simp)

lemma runSteps_no_failure:
  "(\<And>st w. st \<in> set sts \<Longrightarrow> fst (step st w) = None) \<Longrightarrow> runSteps step message sts w = (0, sts, None)"
proof (induction sts arbitrary: w)
  case (Cons st sts)
  obtain w' where "step st w = (None, w')" using Cons.prems [of st w] by (cases "step st w") auto
  with Cons.IH [of w'] Cons.prems show ?case by simp
qed simp

text \<open>
  The Registry serves only a synced cache whose Agent events already reach the hub: if its run got
  as far as the server, every step before it was done, in that order; and the process ends with
  code 0 exactly when the server was reached and ended without an error or by being closed.
\<close>

lemma registry_main_complete:
  assumes "registry_main env closed addr w = (code, trace, msg)"
  shows "ListenAndServe addr registryRoutes \<in> set trace \<Longrightarrow> trace = registrySteps addr"
    and "code = 0 \<Longrightarrow> trace = registrySteps addr \<and> msg = None"
    and "code \<noteq> 0 \<Longrightarrow> code = 1 \<and> msg = Some (registryMessage (last trace)) \<and> last trace \<noteq> StartCache"
proof -
  obtain rest where p: "registrySteps addr = trace @ rest" "code = 0 \<longrightarrow> rest = [] \<and> msg = None"
      "code \<noteq> 0 \<longrightarrow> code = 1 \<and> trace \<noteq> [] \<and> msg = Some (registryMessage (last trace))"
    using runSteps_prefix [OF assms [unfolded registry_main_def]] by auto
  show "trace = registrySteps addr" if m: "ListenAndServe addr registryRoutes \<in> set trace"
  proof (cases rest rule: rev_cases)
    case (snoc ys y)
    with p(1) have "trace @ ys = butlast (registrySteps addr)" by (simp add: butlast_append)
    then have "ListenAndServe addr registryRoutes \<in> set (butlast (registrySteps addr))"
      using m by (metis Un_iff set_append)
    then show ?thesis by (simp add: registrySteps_def)
  qed (use p(1) in simp)
  show "code = 0 \<Longrightarrow> trace = registrySteps addr \<and> msg = None" using p(1,2) by simp
  assume c: "code \<noteq> 0"
  have "last trace \<noteq> StartCache"
    using runSteps_failed [OF assms [unfolded registry_main_def] c]
    by (auto simp: registryStep_def case_prod_beta)
  with c p(3) show "code = 1 \<and> msg = Some (registryMessage (last trace)) \<and> last trace \<noteq> StartCache" by simp
qed

section \<open>Properties\<close>



end
