(* ===== verification/Builders.thy ===== *)
theory Builders
  imports Startup
begin

text \<open>
  What each controller tells the manager in its \<^verbatim>\<open>SetupWithManager\<close>: the kind it is for, the kinds of
  workload it owns, the kinds it watches and its name. The handler of owned workloads belongs to
  controller-runtime and is a parameter (locale \<open>owner_handler\<close>). Shown: the set-ups agree with
  the controllers the Operator starts and with the watches of \<open>Field_Index\<close> and \<open>Watches\<close>, and a
  change of a workload wakes the object whose pass wrote it.
\<close>

section \<open>The code\<close>

record controller_builder =
  cb_for :: string
  cb_owns :: "string list"
  cb_watches :: "watched list"
  cb_named :: string

definition agentBuilder :: controller_builder where
  "agentBuilder = \<lparr>cb_for = ''Agent'', cb_owns = [''Deployment'', ''Service''],
     cb_watches = map WKind [KModel, KPromptTemplate, KPolicy, KTool, KToolSet, KSkill, KToolPolicy, KCredential, KAgentClass],
     cb_named = ''agent''\<rparr>"

definition agentClassBuilder :: controller_builder where
  "agentClassBuilder = \<lparr>cb_for = ''AgentClass'', cb_owns = [],
     cb_watches = map WKind [KModel, KPromptTemplate, KPolicy], cb_named = ''agentclass''\<rparr>"

definition toolBuilder :: controller_builder where
  "toolBuilder = \<lparr>cb_for = ''Tool'', cb_owns = [], cb_watches = map WKind [KMCPServer, KAgent], cb_named = ''tool''\<rparr>"

definition toolSetBuilder :: controller_builder where
  "toolSetBuilder = \<lparr>cb_for = ''ToolSet'', cb_owns = [], cb_watches = [WKind KTool], cb_named = ''toolset''\<rparr>"

definition skillBuilder :: controller_builder where
  "skillBuilder = \<lparr>cb_for = ''Skill'', cb_owns = [], cb_watches = [WConfigMap], cb_named = ''skill''\<rparr>"

definition mcpServerBuilder :: controller_builder where
  "mcpServerBuilder = \<lparr>cb_for = ''MCPServer'', cb_owns = [''Deployment'', ''Service''], cb_watches = [], cb_named = ''mcpserver''\<rparr>"

definition modelBuilder :: controller_builder where
  "modelBuilder = \<lparr>cb_for = ''Model'', cb_owns = [], cb_watches = [WKind KCredential], cb_named = ''model''\<rparr>"

definition promptTemplateBuilder :: controller_builder where
  "promptTemplateBuilder = \<lparr>cb_for = ''PromptTemplate'', cb_owns = [], cb_watches = [], cb_named = ''prompttemplate''\<rparr>"

definition policyBuilder :: controller_builder where
  "policyBuilder = \<lparr>cb_for = ''Policy'', cb_owns = [], cb_watches = [], cb_named = ''policy''\<rparr>"

definition toolPolicyBuilder :: controller_builder where
  "toolPolicyBuilder = \<lparr>cb_for = ''ToolPolicy'', cb_owns = [], cb_watches = [], cb_named = ''toolpolicy''\<rparr>"

definition triggerBuilder :: controller_builder where
  "triggerBuilder = \<lparr>cb_for = ''Trigger'', cb_owns = [''Deployment''], cb_watches = map WKind [KAgent, KCredential], cb_named = ''trigger''\<rparr>"

definition credentialBuilder :: controller_builder where
  "credentialBuilder = \<lparr>cb_for = ''Credential'', cb_owns = [], cb_watches = [WSecret], cb_named = ''credential''\<rparr>"

definition controllerBuilders :: "controller_builder list" where
  "controllerBuilders =
    [agentBuilder, agentClassBuilder, toolBuilder, toolSetBuilder, skillBuilder, mcpServerBuilder, modelBuilder,
     promptTemplateBuilder, policyBuilder, toolPolicyBuilder, triggerBuilder, credentialBuilder]"

lemmas builder_defs = agentBuilder_def agentClassBuilder_def toolBuilder_def toolSetBuilder_def skillBuilder_def
  mcpServerBuilder_def modelBuilder_def promptTemplateBuilder_def policyBuilder_def toolPolicyBuilder_def
  triggerBuilder_def credentialBuilder_def

section \<open>The set-ups agree with each other\<close>

text \<open>The manager refuses a second controller of a name.\<close>

lemma controllerBuilders_complete:
  "map cb_for controllerBuilders = operatorKinds" "distinct (map cb_named controllerBuilders)"
  by (simp_all add: controllerBuilders_def builder_defs operatorKinds_def)

text \<open>A kind that is not registered has no handler, in each of the controllers that watch anything.\<close>

lemma watches_registered:
  "WKind kd \<notin> set (cb_watches agentBuilder) \<Longrightarrow> agentWatch l kd ns name = []"
  "w \<notin> set (cb_watches agentClassBuilder) \<Longrightarrow> agentClassWatch l1 w ns name = []"
  "w \<notin> set (cb_watches toolBuilder) \<Longrightarrow> toolWatch l2 w ns name = []"
  "w \<notin> set (cb_watches toolSetBuilder) \<Longrightarrow> toolSetWatch l3 w ns name = []"
  "w \<notin> set (cb_watches skillBuilder) \<Longrightarrow> skillWatch l3 w ns name = []"
  "w \<notin> set (cb_watches modelBuilder) \<Longrightarrow> modelWatch l3 w ns name = []"
  "w \<notin> set (cb_watches triggerBuilder) \<Longrightarrow> triggerWatch l4 w ns name = []"
  "w \<notin> set (cb_watches credentialBuilder) \<Longrightarrow> credentialWatch l3 w ns name = []"
  by (cases kd, simp_all add: agentBuilder_def)
     (cases w, rename_tac kd', case_tac kd', simp_all add: builder_defs)+

section \<open>Owned workloads\<close>

text \<open>
  The two library calls behind \<^verbatim>\<open>Owns\<close>: \<^verbatim>\<open>SetControllerReference\<close> leaves one controller reference, to
  the owner of the kind the scheme knows it by, and the handler turns the controller reference of a
  workload into a request in the workload's namespace.
\<close>

locale owner_handler =
  fixes k :: "'w kube" and kind :: string and ownerRequests :: "string \<Rightarrow> string \<Rightarrow> owner_ref list \<Rightarrow> namespaced_name list"
  assumes owned: "setControllerReference k m os = Inr os' \<Longrightarrow>
      filter owner_controller os' = [\<lparr>owner_kind = kind, owner_name = meta_name m, owner_controller = True\<rparr>]"
    and handled: "ownerRequests kd ns os =
      map (\<lambda>o'. NamespacedName ns (owner_name o')) (filter (\<lambda>o'. owner_kind o' = kd) (filter owner_controller os))"
begin

lemma owner_woken: "setControllerReference k m os = Inr os' \<Longrightarrow> ownerRequests kind ns os' = [NamespacedName ns (meta_name m)]"
  by (simp add: handled owned)

end

definition owner_requests :: "string \<Rightarrow> string \<Rightarrow> owner_ref list \<Rightarrow> namespaced_name list" where
  "owner_requests kd ns os =
    map (\<lambda>o'. NamespacedName ns (owner_name o')) (filter (\<lambda>o'. owner_kind o' = kd) (filter owner_controller os))"

interpretation rec_owner: owner_handler recording_kube "''CR''" owner_requests
  by unfold_locales (auto simp: recording_kube_def owner_requests_def)

text \<open>
  A workload wakes its writer: every Deployment and Service the Agent, MCPServer and Trigger
  controllers write is of a kind the controller owns, and any later change of it queues
  exactly the object whose pass wrote it.
\<close>

lemma owned_workloads_wake_owner:
  assumes "owner_handler k kind ownerRequests"
  shows "(mutateRuntimeDeployment k url a rt creds gs ms dep = Inr d \<longrightarrow> dep_key dep = runtimeKey a \<longrightarrow>
            ''Deployment'' \<in> set (cb_owns agentBuilder) \<and>
            ownerRequests kind (nn_namespace (dep_key d)) (dep_owners d) = [meta_key (ag_meta a)]) \<and>
         (mutateService k (ag_meta a) lbls pn port svc = Inr s \<longrightarrow>
            svc_key svc \<in> {runtimeKey a, NamespacedName (ag_namespace a) (peerServiceName a)} \<longrightarrow>
            ''Service'' \<in> set (cb_owns agentBuilder) \<and>
            ownerRequests kind (nn_namespace (svc_key s)) (svc_owners s) = [meta_key (ag_meta a)]) \<and>
         (mutateMcpDeployment k m dep = Inr d \<longrightarrow> dep_key dep = meta_key (ms_meta m) \<longrightarrow>
            ''Deployment'' \<in> set (cb_owns mcpServerBuilder) \<and>
            ownerRequests kind (nn_namespace (dep_key d)) (dep_owners d) = [meta_key (ms_meta m)]) \<and>
         (mutateService k (ms_meta m) lbls pn port svc = Inr s \<longrightarrow> svc_key svc = meta_key (ms_meta m) \<longrightarrow>
            ''Service'' \<in> set (cb_owns mcpServerBuilder) \<and>
            ownerRequests kind (nn_namespace (svc_key s)) (svc_owners s) = [meta_key (ms_meta m)]) \<and>
         (mutateAdapter k t endpoint secret dep = Inr d \<longrightarrow> dep_key dep = adapterKey t \<longrightarrow>
            ''Deployment'' \<in> set (cb_owns triggerBuilder) \<and>
            ownerRequests kind (nn_namespace (dep_key d)) (dep_owners d) = [meta_key (trg_meta t)])"
proof (intro conjI impI)
  note woken = owner_handler.owner_woken [OF assms]
  show "ownerRequests kind (nn_namespace (dep_key d)) (dep_owners d) = [meta_key (ag_meta a)]"
    if "mutateRuntimeDeployment k url a rt creds gs ms dep = Inr d" "dep_key dep = runtimeKey a"
    using woken [OF mutateRuntimeDeployment_keeps(3) [OF that(1)]] mutateRuntimeDeployment_keeps(1) [OF that(1)] that(2)
    by (simp add: runtimeKey_def meta_key_def)
  show "ownerRequests kind (nn_namespace (svc_key s)) (svc_owners s) = [meta_key (ag_meta a)]"
    if "mutateService k (ag_meta a) lbls pn port svc = Inr s"
      "svc_key svc \<in> {runtimeKey a, NamespacedName (ag_namespace a) (peerServiceName a)}"
    using that by (auto simp: mutateService_def runtimeKey_def meta_key_def dest: woken split: sum.splits)
  show "ownerRequests kind (nn_namespace (dep_key d)) (dep_owners d) = [meta_key (ms_meta m)]"
    if "mutateMcpDeployment k m dep = Inr d" "dep_key dep = meta_key (ms_meta m)"
    using that by (auto simp: mutateMcpDeployment_def meta_key_def dest: woken split: sum.splits)
  show "ownerRequests kind (nn_namespace (svc_key s)) (svc_owners s) = [meta_key (ms_meta m)]"
    if "mutateService k (ms_meta m) lbls pn port svc = Inr s" "svc_key svc = meta_key (ms_meta m)"
    using that by (auto simp: mutateService_def meta_key_def dest: woken split: sum.splits)
  show "ownerRequests kind (nn_namespace (dep_key d)) (dep_owners d) = [meta_key (trg_meta t)]"
    if "mutateAdapter k t endpoint secret dep = Inr d" "dep_key dep = adapterKey t"
    using that by (auto simp: mutateAdapter_def adapterKey_def meta_key_def Let_def dest: woken split: sum.splits)
qed (simp_all add: builder_defs)

end
