(* ===== verification/Go_Json.thy ===== *)
theory Go_Json
  imports Go_Hash
begin

text \<open>
  JSON values and their text, as \<^verbatim>\<open>encoding/json\<close> writes them: objects built from a Go map with
  their keys in order, no white space, strings escaped as in \<open>Go_Hash\<close>, raw messages compacted.
  A number is its literal. The reader of the compact form recovers the value, so a text
  written by the program means one value only.
\<close>

section \<open>Values and text\<close>

datatype json =
    JNull
  | JBool bool
  | JNum string
  | JStr string
  | JArr "json list"
  | JObj "(string \<times> json) list"
  | JRaw string

text \<open>\<^verbatim>\<open>json.Compact\<close> with HTML escaping, in and outside of a string.\<close>

fun compact_json :: "bool \<Rightarrow> string \<Rightarrow> string" where
  "compact_json instr [] = []"
| "compact_json False (c # cs) =
    (if c \<in> {CHR '' '', CHR 0x09, CHR 0x0A, CHR 0x0D} then compact_json False cs
     else c # compact_json (c = dquote) cs)"
| "compact_json True (c # cs) =
    (if c = backslash then (case cs of [] \<Rightarrow> [c] | d # ds \<Rightarrow> c # d # compact_json True ds)
     else if c = CHR ''<'' \<or> c = CHR ''>'' \<or> c = CHR ''&'' then json_escape (of_char c) @ compact_json True cs
     else c # compact_json (c \<noteq> dquote) cs)"

fun json_text :: "json \<Rightarrow> string" where
  "json_text JNull = ''null''"
| "json_text (JBool b) = (if b then ''true'' else ''false'')"
| "json_text (JNum l) = l"
| "json_text (JStr s) = json_string s"
| "json_text (JArr vs) = ''['' @ join_sep '','' (map json_text vs) @ '']''"
| "json_text (JObj kvs) = ''{'' @ join_sep '','' (map (\<lambda>(k, v). json_string k @ '':'' @ json_text v) kvs) @ ''}''"
| "json_text (JRaw r) = compact_json False r"

text \<open>A Go map: its keys are written in increasing order.\<close>

definition go_map :: "(string \<times> json) list \<Rightarrow> json" where
  "go_map kvs = JObj (sort_key fst kvs)"

section \<open>Reading the compact form\<close>

function scan_string :: "string \<Rightarrow> (string \<times> string) option" where
  "scan_string s =
    (case s of
       [] \<Rightarrow> None
     | c # cs \<Rightarrow>
        (if c = dquote then Some ([], cs)
         else (case json_scan s of
                 None \<Rightarrow> None
               | Some (d, rest) \<Rightarrow>
                  (if length rest < length s
                   then (case scan_string rest of None \<Rightarrow> None | Some (t, r) \<Rightarrow> Some (d # t, r))
                   else None))))"
  by pat_completeness auto
termination by (relation "measure length") auto

declare scan_string.simps [simp del]

definition num_char :: "char \<Rightarrow> bool" where
  "num_char c \<longleftrightarrow> c \<in> set ''0123456789+-.eE''"

fun read_value :: "nat \<Rightarrow> string \<Rightarrow> (json \<times> string) option"
  and read_items :: "nat \<Rightarrow> string \<Rightarrow> (json list \<times> string) option"
  and read_fields :: "nat \<Rightarrow> string \<Rightarrow> ((string \<times> json) list \<times> string) option" where
  "read_value 0 s = None"
| "read_value (Suc n) s =
    (if s = [] then None
     else if hd s = dquote then map_option (\<lambda>(t, r). (JStr t, r)) (scan_string (tl s))
     else if hd s = CHR ''['' then
       (if has_prefix (tl s) '']'' then Some (JArr [], drop 2 s)
        else map_option (\<lambda>(vs, r). (JArr vs, r)) (read_items n (tl s)))
     else if hd s = CHR ''{'' then
       (if has_prefix (tl s) ''}'' then Some (JObj [], drop 2 s)
        else map_option (\<lambda>(kvs, r). (JObj kvs, r)) (read_fields n (tl s)))
     else if has_prefix s ''null'' then Some (JNull, drop 4 s)
     else if has_prefix s ''true'' then Some (JBool True, drop 4 s)
     else if has_prefix s ''false'' then Some (JBool False, drop 5 s)
     else if num_char (hd s) then Some (JNum (takeWhile num_char s), dropWhile num_char s)
     else None)"
| "read_items 0 s = None"
| "read_items (Suc n) s =
    (case read_value n s of
       Some (v, c # r) \<Rightarrow>
        (if c = CHR '','' then map_option (\<lambda>(vs, r'). (v # vs, r')) (read_items n r)
         else if c = CHR '']'' then Some ([v], r) else None)
     | _ \<Rightarrow> None)"
| "read_fields 0 s = None"
| "read_fields (Suc n) s =
    (if has_prefix s [dquote] then
       (case scan_string (tl s) of
          Some (k, c # r) \<Rightarrow>
           (if c = CHR '':'' then
              (case read_value n r of
                 Some (v, d # r') \<Rightarrow>
                  (if d = CHR '','' then map_option (\<lambda>(kvs, q). ((k, v) # kvs, q)) (read_fields n r')
                   else if d = CHR ''}'' then Some ([(k, v)], r') else None)
               | _ \<Rightarrow> None)
            else None)
        | _ \<Rightarrow> None)
     else None)"

definition json_decode :: "string \<Rightarrow> json option" where
  "json_decode s = (case read_value (Suc (length s)) s of Some (v, []) \<Rightarrow> Some v | _ \<Rightarrow> None)"

section \<open>The round trip\<close>

text \<open>Values the reader knows: no raw message, and every number a literal of number characters.\<close>

fun plain_json :: "json \<Rightarrow> bool" where
  "plain_json (JNum l) = (l \<noteq> [] \<and> (\<forall>c\<in>set l. num_char c))"
| "plain_json (JArr vs) = (\<forall>v\<in>set vs. plain_json v)"
| "plain_json (JObj kvs) = (\<forall>kv\<in>set kvs. plain_json (snd kv))"
| "plain_json (JRaw r) = False"
| "plain_json _ = True"

fun json_fuel :: "json \<Rightarrow> nat" where
  "json_fuel (JArr vs) = Suc (sum_list (map (\<lambda>v. Suc (json_fuel v)) vs))"
| "json_fuel (JObj kvs) = Suc (sum_list (map (\<lambda>kv. Suc (json_fuel (snd kv))) kvs))"
| "json_fuel _ = 1"

lemma scan_string_chars: "scan_string (concat (map json_char s) @ dquote # x) = Some (s, x)"
proof (induction s)
  case Nil
  then show ?case by (simp add: scan_string.simps)
next
  case (Cons c s)
  obtain d ds where d: "json_char c = d # ds" by (meson json_char_nonempty list.exhaust)
  have "json_scan ((d # ds) @ concat (map json_char s) @ dquote # x) = Some (c, concat (map json_char s) @ dquote # x)"
    unfolding d [symmetric] by (rule json_scan_char)
  with Cons json_char_head [OF d] show ?case
    by (subst scan_string.simps) (simp add: d del: json_scan.simps)
qed

lemma json_string_split: "json_string s @ x = dquote # concat (map json_char s) @ dquote # x"
  by (simp add: json_string_def)

text \<open>What may follow a value: nothing that could extend a number.\<close>

definition ends_value :: "string \<Rightarrow> bool" where
  "ends_value x \<longleftrightarrow> x = [] \<or> \<not> num_char (hd x)"

lemma ends_value_sep [simp]:
  "ends_value (CHR '','' # x)" "ends_value (CHR '']'' # x)" "ends_value (CHR ''}'' # x)" "ends_value []"
  by (simp_all add: ends_value_def num_char_def)

lemma takeWhile_number:
  "\<forall>c\<in>set l. num_char c \<Longrightarrow> ends_value x \<Longrightarrow> takeWhile num_char (l @ x) = l \<and> dropWhile num_char (l @ x) = x"
  by (cases x) (simp_all add: takeWhile_append dropWhile_append ends_value_def)

lemma num_char_not: "num_char c \<Longrightarrow> c \<notin> {dquote, CHR ''['', CHR '']'', CHR ''{'', CHR ''n'', CHR ''t'', CHR ''f''}"
  by (auto simp: num_char_def dquote_def)

lemma json_text_head:
  assumes "plain_json v"
  shows "\<exists>c cs. json_text v = c # cs \<and> c \<noteq> CHR '']''"
proof (cases v)
  case (JNum l)
  with assms show ?thesis using num_char_not by (cases l) auto
qed (use assms in \<open>auto simp: json_string_def dquote_def\<close>)

lemma read_number:
  assumes "l \<noteq> []" "\<forall>c\<in>set l. num_char c" "ends_value x"
  shows "read_value (Suc n) (l @ x) = Some (JNum l, x)"
proof -
  obtain c cs where l: "l = c # cs" using assms(1) by (cases l) auto
  have c: "num_char c" "c \<notin> {dquote, CHR ''['', CHR '']'', CHR ''{'', CHR ''n'', CHR ''t'', CHR ''f''}"
    using assms(2) num_char_not [of c] by (simp_all add: l)
  then show ?thesis
    using takeWhile_number [OF assms(2,3)] by (simp add: l has_prefix_def)
qed

lemma read_items_text:
  assumes "vs \<noteq> []" "\<forall>v\<in>set vs. \<forall>n x. json_fuel v \<le> n \<longrightarrow> ends_value x \<longrightarrow> read_value n (json_text v @ x) = Some (v, x)"
    and "sum_list (map (\<lambda>v. Suc (json_fuel v)) vs) \<le> n"
  shows "read_items n (join_sep '','' (map json_text vs) @ CHR '']'' # x) = Some (vs, x)"
  using assms
proof (induction vs arbitrary: n rule: induct_list012)
  case (2 v)
  then show ?case by (cases n) simp_all
next
  case (3 v w vs)
  then show ?case by (cases n) simp_all
qed simp

lemma read_fields_text:
  assumes "kvs \<noteq> []"
    and "\<forall>kv\<in>set kvs. \<forall>n x. json_fuel (snd kv) \<le> n \<longrightarrow> ends_value x \<longrightarrow>
      read_value n (json_text (snd kv) @ x) = Some (snd kv, x)"
    and "sum_list (map (\<lambda>kv. Suc (json_fuel (snd kv))) kvs) \<le> n"
  shows "read_fields n (join_sep '','' (map (\<lambda>(k, v). json_string k @ '':'' @ json_text v) kvs) @ CHR ''}'' # x) = Some (kvs, x)"
  using assms
proof (induction kvs arbitrary: n rule: induct_list012)
  case (2 kv)
  obtain k v where kv: "kv = (k, v)" by fastforce
  obtain m where n: "n = Suc m" using "2.prems"(3) by (cases n) auto
  have "scan_string (concat (map json_char k) @ dquote # CHR '':'' # json_text v @ CHR ''}'' # x) =
      Some (k, CHR '':'' # json_text v @ CHR ''}'' # x)" by (rule scan_string_chars)
  with 2 show ?case by (simp add: kv n json_string_def has_prefix_def)
next
  case (3 kv kw kvs)
  obtain k v where kv: "kv = (k, v)" by fastforce
  obtain m where n: "n = Suc m" using "3.prems"(3) by (cases n) auto
  let ?rest = "join_sep '','' (map (\<lambda>(k, v). json_string k @ '':'' @ json_text v) (kw # kvs)) @ CHR ''}'' # x"
  have "scan_string (concat (map json_char k) @ dquote # CHR '':'' # json_text v @ CHR '','' # ?rest) =
      Some (k, CHR '':'' # json_text v @ CHR '','' # ?rest)" by (rule scan_string_chars)
  moreover have "read_fields m ?rest = Some (kw # kvs, x)"
    using "3.IH"(2) [of m] "3.prems" by (simp add: n)
  moreover have "read_value m (json_text v @ CHR '','' # ?rest) = Some (v, CHR '','' # ?rest)"
    using "3.prems"(2,3) by (simp add: kv n)
  ultimately show ?case by (simp add: kv n json_string_def has_prefix_def)
qed simp

lemma read_value_text:
  assumes "plain_json v" "json_fuel v \<le> n" "ends_value x"
  shows "read_value n (json_text v @ x) = Some (v, x)"
  using assms
proof (induction v arbitrary: n x)
  case (JNum l)
  then show ?case using read_number [of l x "n - 1"] by (cases n) simp_all
next
  case (JStr s)
  then show ?case by (cases n) (simp_all add: json_string_def scan_string_chars)
next
  case (JArr vs)
  obtain m where n: "n = Suc m" using JArr.prems(2) by (cases n) auto
  show ?case
  proof (cases vs)
    case Nil
    then show ?thesis by (simp add: n has_prefix_def dquote_def)
  next
    case (Cons v ws)
    obtain c cs where c: "json_text v = c # cs" "c \<noteq> CHR '']''"
      using json_text_head [of v] JArr.prems(1) Cons by auto
    have "\<exists>t. join_sep '','' (map json_text vs) = c # t" using c Cons by (cases ws) auto
    then obtain t where t: "join_sep '','' (map json_text vs) = c # t" by blast
    have "read_items m (join_sep '','' (map json_text vs) @ CHR '']'' # x) = Some (vs, x)"
      using JArr Cons by (intro read_items_text) (auto simp: n)
    with t c(2) show ?thesis by (simp add: n has_prefix_def dquote_def)
  qed
next
  case (JObj kvs)
  obtain m where n: "n = Suc m" using JObj.prems(2) by (cases n) auto
  show ?case
  proof (cases kvs)
    case Nil
    then show ?thesis by (simp add: n has_prefix_def dquote_def)
  next
    case (Cons kv ws)
    let ?s = "join_sep '','' (map (\<lambda>(k, v). json_string k @ '':'' @ json_text v) kvs)"
    have "\<exists>t. ?s = dquote # t" using Cons by (cases ws; cases kv) (auto simp: json_string_def)
    then obtain t where t: "?s = dquote # t" by blast
    have "read_value i (json_text (snd kv) @ y) = Some (snd kv, y)"
      if "kv \<in> set kvs" "json_fuel (snd kv) \<le> i" "ends_value y" for kv i y
      using JObj.IH [of kv "snd kv" i y] JObj.prems(1) that by (cases kv) auto
    then have "read_fields m (?s @ CHR ''}'' # x) = Some (kvs, x)"
      using JObj.prems(2) Cons by (intro read_fields_text) (auto simp: n)
    with t show ?thesis by (simp add: n has_prefix_def dquote_def)
  qed
qed (simp_all add: has_prefix_def dquote_def Suc_le_eq split: nat.split, (case_tac n; simp add: has_prefix_def dquote_def)+)

lemma sum_fuel_le:
  "(\<And>v. v \<in> set vs \<Longrightarrow> f v \<le> length (g v)) \<Longrightarrow>
     sum_list (map (\<lambda>v. Suc (f v)) vs) \<le> Suc (length (join_sep [c] (map g vs)))"
proof (induction vs rule: induct_list012)
  case (3 v w vs)
  then have "sum_list (map (\<lambda>v. Suc (f v)) (w # vs)) \<le> Suc (length (join_sep [c] (map g (w # vs))))"
    by simp
  moreover have "f v \<le> length (g v)" using "3.prems" by simp
  ultimately show ?case by simp
qed simp_all

lemma json_fuel_length: "plain_json v \<Longrightarrow> json_fuel v \<le> length (json_text v)"
proof (induction v)
  case (JNum l)
  then show ?case by (cases l) simp_all
next
  case (JArr vs)
  then have "sum_list (map (\<lambda>v. Suc (json_fuel v)) vs) \<le> Suc (length (join_sep '','' (map json_text vs)))"
    by (intro sum_fuel_le) auto
  then show ?case by simp
next
  case (JObj kvs)
  have "json_fuel (snd kv) \<le> length (case kv of (k, v) \<Rightarrow> json_string k @ '':'' @ json_text v)" if "kv \<in> set kvs" for kv
    using JObj.IH [of kv "snd kv"] JObj.prems that by (cases kv) fastforce
  then have "sum_list (map (\<lambda>kv. Suc (json_fuel (snd kv))) kvs) \<le>
      Suc (length (join_sep '','' (map (\<lambda>(k, v). json_string k @ '':'' @ json_text v) kvs)))"
    by (rule sum_fuel_le)
  then show ?case by simp
qed (simp_all add: json_string_def)

lemma json_decode_text: "plain_json v \<Longrightarrow> json_decode (json_text v) = Some v"
  using read_value_text [of v "Suc (length (json_text v))" "[]"] json_fuel_length [of v]
  by (simp add: json_decode_def del: read_value.simps)

lemma json_text_inject: "plain_json v \<Longrightarrow> plain_json w \<Longrightarrow> json_text v = json_text w \<longleftrightarrow> v = w"
  by (metis json_decode_text option.inject)

end
