(* ===== verification/Example_Mcp.thy ===== *)
theory Example_Mcp
  imports Go_Json
begin

text \<open>
  The example MCP server, \<^verbatim>\<open>cmd/example-mcp/main.go\<close>: JSON-RPC 2.0 over HTTP POST with the methods
  \<^verbatim>\<open>initialize\<close>, \<^verbatim>\<open>tools/list\<close> and \<^verbatim>\<open>tools/call\<close>. A request body is what the decoder reads: the
  members of an object in order (key, raw text, value), \<^verbatim>\<open>null\<close>, another value, or a syntax error;
  decoding into the request struct follows \<^verbatim>\<open>encoding/json\<close> (keys match up to the case of ASCII letters,
  a later member overrides, \<^verbatim>\<open>null\<close> leaves a string alone, a wrong type is an error). The HTTP
  client behind the weather tool is a parameter. The properties: the reply to any request is
  a proper JSON-RPC response to that request, the tools listed are exactly the tools that can
  be called, and the text of a tool result is JSON that reads back to the result.
\<close>

section \<open>Requests and responses\<close>

record member =
  mem_key :: string
  mem_raw :: string
  mem_value :: json

datatype body = BodyObject "member list" | BodyNull | BodyOther | BodySyntaxError

record rpcRequest =
  rq_jsonrpc :: string
  rq_id :: string
  rq_method :: string
  rq_params :: "json option"

record rpcError =
  re_code :: int
  re_message :: string

record rpcResponse =
  rs_jsonrpc :: string
  rs_id :: string
  rs_result :: "json option"
  rs_error :: "rpcError option"

text \<open>Case folding of ASCII letters.\<close>

definition fold_char :: "char \<Rightarrow> char" where
  "fold_char c = (let n = of_char c :: nat in if 65 \<le> n \<and> n \<le> 90 then char_of (n + 32) else c)"

definition same_key :: "string \<Rightarrow> string \<Rightarrow> bool" where
  "same_key a b = (map fold_char a = map fold_char b)"

text \<open>Storing a value in a string field: the new content, and whether the type was wrong.\<close>

fun store_string :: "json \<Rightarrow> string \<Rightarrow> string \<times> bool" where
  "store_string (JStr s) old = (s, False)"
| "store_string JNull old = (old, False)"
| "store_string _ old = (old, True)"

definition decodeMember :: "member \<Rightarrow> rpcRequest \<times> bool \<Rightarrow> rpcRequest \<times> bool" where
  "decodeMember m st =
    (case st of (req, bad) \<Rightarrow>
      (if same_key (mem_key m) ''jsonrpc'' then
         (case store_string (mem_value m) (rq_jsonrpc req) of (s, e) \<Rightarrow> (req\<lparr>rq_jsonrpc := s\<rparr>, bad \<or> e))
       else if same_key (mem_key m) ''id'' then (req\<lparr>rq_id := mem_raw m\<rparr>, bad)
       else if same_key (mem_key m) ''method'' then
         (case store_string (mem_value m) (rq_method req) of (s, e) \<Rightarrow> (req\<lparr>rq_method := s\<rparr>, bad \<or> e))
       else if same_key (mem_key m) ''params'' then (req\<lparr>rq_params := Some (mem_value m)\<rparr>, bad)
       else (req, bad)))"

definition emptyRequest :: rpcRequest where
  "emptyRequest = \<lparr>rq_jsonrpc = [], rq_id = [], rq_method = [], rq_params = None\<rparr>"

fun decodeRequest :: "body \<Rightarrow> rpcRequest option" where
  "decodeRequest BodySyntaxError = None"
| "decodeRequest BodyOther = None"
| "decodeRequest BodyNull = Some emptyRequest"
| "decodeRequest (BodyObject ms) =
    (case fold decodeMember ms (emptyRequest, False) of (req, bad) \<Rightarrow> if bad then None else Some req)"

text \<open>Decoding the parameters of a call; the error is dropped, what was stored stays.\<close>

definition decodeParam :: "string \<times> json \<Rightarrow> string \<times> (string \<rightharpoonup> json) \<Rightarrow> string \<times> (string \<rightharpoonup> json)" where
  "decodeParam kv st =
    (case kv of (k, v) \<Rightarrow> case st of (name, args) \<Rightarrow>
      (if same_key k ''name'' then (fst (store_string v name), args)
       else if same_key k ''arguments'' then
         (case v of
            JObj kvs \<Rightarrow> (name, args ++ map_of (rev kvs))
          | JNull \<Rightarrow> (name, Map.empty)
          | _ \<Rightarrow> (name, args))
       else st))"

definition decodeParams :: "json option \<Rightarrow> string \<times> (string \<rightharpoonup> json)" where
  "decodeParams p =
    (case p of Some (JObj kvs) \<Rightarrow> fold decodeParam kvs ([], Map.empty) | _ \<Rightarrow> ([], Map.empty))"

section \<open>Replies\<close>

datatype mcp_reply = MethodNotAllowed | Accepted | RpcReply rpcResponse

definition writeResult :: "string \<Rightarrow> json \<Rightarrow> mcp_reply" where
  "writeResult rid result =
    RpcReply \<lparr>rs_jsonrpc = ''2.0'', rs_id = rid, rs_result = Some result, rs_error = None\<rparr>"

definition writeErr :: "string \<Rightarrow> int \<Rightarrow> string \<Rightarrow> mcp_reply" where
  "writeErr rid code msg =
    RpcReply \<lparr>rs_jsonrpc = ''2.0'', rs_id = rid, rs_result = None,
              rs_error = Some \<lparr>re_code = code, re_message = msg\<rparr>\<rparr>"

text \<open>The bytes the encoder writes: struct fields in order, empty ones left out, a final newline.\<close>

definition rpcText :: "rpcResponse \<Rightarrow> string" where
  "rpcText r =
    json_text (JObj
      ([(''jsonrpc'', JStr (rs_jsonrpc r))]
       @ (if rs_id r \<noteq> [] then [(''id'', JRaw (rs_id r))] else [])
       @ (case rs_result r of None \<Rightarrow> [] | Some v \<Rightarrow> [(''result'', v)])
       @ (case rs_error r of
            None \<Rightarrow> []
          | Some e \<Rightarrow> [(''error'', JObj [(''code'', JNum (itoa (re_code e))), (''message'', JStr (re_message e))])])))
    @ [CHR 0x0A]"

section \<open>The tools\<close>

definition orderToolSchema :: string where
  "orderToolSchema = join_sep [CHR 0x0A]
    [''{'',
     ''  \"type\": \"object\",'',
     ''  \"properties\": { \"orderId\": { \"type\": \"string\", \"description\": \"the order id to look up\" } },'',
     ''  \"required\": [\"orderId\"]'',
     ''}'']"

definition weatherToolSchema :: string where
  "weatherToolSchema = join_sep [CHR 0x0A]
    [''{'',
     ''  \"type\": \"object\",'',
     ''  \"properties\": { \"city\": { \"type\": \"string\", \"description\": \"city name, e.g. Beijing or Shanghai\" } },'',
     ''  \"required\": [\"city\"]'',
     ''}'']"

definition attractionsToolSchema :: string where
  "attractionsToolSchema = join_sep [CHR 0x0A]
    [''{'',
     ''  \"type\": \"object\",'',
     ''  \"properties\": {'',
     ''    \"city\":       { \"type\": \"string\", \"description\": \"city name, e.g. Beijing\" },'',
     ''    \"preference\": { \"type\": \"string\", \"description\": \"traveler preference, e.g. history, nature, food\" }'',
     ''  },'',
     ''  \"required\": [\"city\"]'',
     ''}'']"

definition hotelsToolSchema :: string where
  "hotelsToolSchema = join_sep [CHR 0x0A]
    [''{'',
     ''  \"type\": \"object\",'',
     ''  \"properties\": {'',
     ''    \"city\": { \"type\": \"string\", \"description\": \"city name, e.g. Beijing\" },'',
     ''    \"type\": { \"type\": \"string\", \"description\": \"accommodation type: budget | comfort | luxury\" }'',
     ''  },'',
     ''  \"required\": [\"city\"]'',
     ''}'']"

definition toolEntry :: "string \<Rightarrow> string \<Rightarrow> string \<Rightarrow> json" where
  "toolEntry name desc schema =
    go_map [(''name'', JStr name), (''description'', JStr desc), (''inputSchema'', JRaw schema)]"

definition toolList :: "(string \<times> string \<times> string) list" where
  "toolList =
    [(''get_order_status'', ''Look up the delivery status of a customer order by its order id.'', orderToolSchema),
     (''get_weather'', ''Get the current weather for a city.'', weatherToolSchema),
     (''search_attractions'',
      ''Search tourist attractions in a city, optionally filtered by traveler preference (history, nature, food).'',
      attractionsToolSchema),
     (''search_hotels'', ''Search hotels in a city by accommodation type (budget, comfort, luxury).'', hotelsToolSchema)]"

text \<open>\<^verbatim>\<open>s, _ := args[key].(string)\<close>: the string, or the empty one.\<close>

definition stringArg :: "(string \<rightharpoonup> json) \<Rightarrow> string \<Rightarrow> string" where
  "stringArg args key = (case args key of Some (JStr s) \<Rightarrow> s | _ \<Rightarrow> [])"

definition unknownArg :: string where "unknownArg = ''unknown''"

definition orUnknown :: "string \<Rightarrow> string" where
  "orUnknown s = (if s = [] then unknownArg else s)"

definition textResult :: "string \<Rightarrow> json" where
  "textResult t =
    go_map [(''content'', JArr [go_map [(''type'', JStr ''text''), (''text'', JStr t)]]), (''isError'', JBool False)]"

definition orderPayload :: "(string \<rightharpoonup> json) \<Rightarrow> json" where
  "orderPayload args =
    go_map [(''orderId'', JStr (orUnknown (stringArg args ''orderId''))), (''status'', JStr ''shipped''),
            (''carrier'', JStr ''UPS''), (''eta'', JStr ''2026-07-20'')]"

definition handleGetOrderStatus :: "rpcRequest \<Rightarrow> (string \<rightharpoonup> json) \<Rightarrow> mcp_reply" where
  "handleGetOrderStatus req args = writeResult (rq_id req) (textResult (json_text (orderPayload args)))"

definition attraction :: "string \<Rightarrow> string \<Rightarrow> string \<Rightarrow> string \<Rightarrow> string \<Rightarrow> json" where
  "attraction name rating hours ticket visit =
    go_map [(''name'', JStr name), (''rating'', JNum rating), (''hours'', JStr hours), (''ticket'', JStr ticket),
            (''visitTime'', JStr visit)]"

definition historyAttractions :: "json list" where
  "historyAttractions =
    [attraction ''Old Palace Museum'' ''4.8'' ''08:30-17:00'' ''60 CNY'' ''3h'',
     attraction ''Ancient City Wall'' ''4.6'' ''08:00-18:00'' ''45 CNY'' ''2h'',
     attraction ''Heritage Temple'' ''4.5'' ''07:30-17:30'' ''30 CNY'' ''1.5h'']"

definition natureAttractions :: "json list" where
  "natureAttractions =
    [attraction ''Lakeside National Park'' ''4.7'' ''06:00-19:00'' ''free'' ''4h'',
     attraction ''Fragrant Hills'' ''4.5'' ''07:00-18:00'' ''15 CNY'' ''3h'',
     attraction ''Botanical Garden'' ''4.4'' ''08:00-17:00'' ''10 CNY'' ''2h'']"

definition foodAttractions :: "json list" where
  "foodAttractions =
    [attraction ''Night Food Street'' ''4.6'' ''16:00-24:00'' ''free'' ''2h'',
     attraction ''Time-honored Restaurant Row'' ''4.4'' ''10:00-22:00'' ''free'' ''2h'',
     attraction ''Local Snack Market'' ''4.3'' ''09:00-21:00'' ''free'' ''1.5h'']"

definition byPref :: "string \<Rightarrow> json list" where
  "byPref pref =
    (if pref = ''history'' then historyAttractions
     else if pref = ''nature'' then natureAttractions
     else if pref = ''food'' then foodAttractions
     else [hd historyAttractions, hd natureAttractions, hd foodAttractions])"

definition attractionsPayload :: "(string \<rightharpoonup> json) \<Rightarrow> json" where
  "attractionsPayload args =
    (let pref = stringArg args ''preference'' in
     go_map [(''city'', JStr (orUnknown (stringArg args ''city''))), (''preference'', JStr pref),
             (''attractions'', JArr (byPref pref))])"

definition handleSearchAttractions :: "rpcRequest \<Rightarrow> (string \<rightharpoonup> json) \<Rightarrow> mcp_reply" where
  "handleSearchAttractions req args =
    writeResult (rq_id req) (textResult (json_text (attractionsPayload args)))"

definition hotel :: "string \<Rightarrow> string \<Rightarrow> string \<Rightarrow> string \<Rightarrow> json" where
  "hotel name rating price location =
    go_map [(''name'', JStr name), (''rating'', JNum rating), (''price'', JStr price), (''location'', JStr location)]"

definition comfortHotels :: "json list" where
  "comfortHotels =
    [hotel ''Garden Boutique Hotel'' ''4.5'' ''520 CNY/night'' ''old town'',
     hotel ''Riverside Business Hotel'' ''4.4'' ''480 CNY/night'' ''river district'']"

definition byType :: "string \<Rightarrow> json list" where
  "byType typ =
    (if typ = ''budget'' then
       [hotel ''City Youth Hostel'' ''4.2'' ''180 CNY/night'' ''near metro line 2'',
        hotel ''Express Inn Downtown'' ''4'' ''260 CNY/night'' ''city center'']
     else if typ = ''luxury'' then
       [hotel ''Grand Lakeview Hotel'' ''4.8'' ''1480 CNY/night'' ''lakefront'',
        hotel ''Imperial Palace Hotel'' ''4.7'' ''1280 CNY/night'' ''CBD'']
     else comfortHotels)"

definition hotelsPayload :: "(string \<rightharpoonup> json) \<Rightarrow> json" where
  "hotelsPayload args =
    (let typ = stringArg args ''type'' in
     go_map [(''city'', JStr (orUnknown (stringArg args ''city''))), (''type'', JStr typ), (''hotels'', JArr (byType typ))])"

definition handleSearchHotels :: "rpcRequest \<Rightarrow> (string \<rightharpoonup> json) \<Rightarrow> mcp_reply" where
  "handleSearchHotels req args = writeResult (rq_id req) (textResult (json_text (hotelsPayload args)))"

text \<open>What the HTTP client yields for a URL.\<close>

datatype fetched = BadRequest | DoError string | Fetched int string

text \<open>\<^verbatim>\<open>url.PathEscape\<close>.\<close>

definition upper_hex :: "nat \<Rightarrow> char" where
  "upper_hex n = (if n < 10 then char_of (48 + n) else char_of (55 + n))"

definition path_char :: "char \<Rightarrow> string" where
  "path_char c =
    (let n = of_char c :: nat in
     if 48 \<le> n \<and> n \<le> 57 \<or> 65 \<le> n \<and> n \<le> 90 \<or> 97 \<le> n \<and> n \<le> 122 \<or> c \<in> set ''-_.~$&+:=@'' then [c]
     else [CHR ''%'', upper_hex (n div 16), upper_hex (n mod 16)])"

definition weatherURL :: "string \<Rightarrow> string" where
  "weatherURL city =
    ''https://wttr.in/'' @ concat (map path_char city) @ ''?format=%l:+%C,+%t,+humidity+%h,+wind+%w&m''"

definition fetchWeather :: "(string \<Rightarrow> fetched) \<Rightarrow> string \<Rightarrow> string" where
  "fetchWeather client city =
    (case client (weatherURL city) of
       BadRequest \<Rightarrow> ''weather for '' @ city @ '' unavailable''
     | DoError e \<Rightarrow> ''weather for '' @ city @ '' unavailable ('' @ e @ '')''
     | Fetched status b \<Rightarrow>
        (if status \<noteq> 200 \<or> b = [] then ''weather for '' @ city @ '' unavailable'' else b))"

definition handleGetWeather :: "(string \<Rightarrow> fetched) \<Rightarrow> rpcRequest \<Rightarrow> (string \<rightharpoonup> json) \<Rightarrow> mcp_reply" where
  "handleGetWeather client req args =
    writeResult (rq_id req) (textResult (fetchWeather client (orUnknown (stringArg args ''city''))))"

section \<open>Dispatch\<close>

definition handleToolCall :: "(string \<Rightarrow> fetched) \<Rightarrow> rpcRequest \<Rightarrow> mcp_reply" where
  "handleToolCall client req =
    (case decodeParams (rq_params req) of (name, args) \<Rightarrow>
      (if name = ''get_order_status'' then handleGetOrderStatus req args
       else if name = ''get_weather'' then handleGetWeather client req args
       else if name = ''search_attractions'' then handleSearchAttractions req args
       else if name = ''search_hotels'' then handleSearchHotels req args
       else writeErr (rq_id req) (- 32602) (''unknown tool: '' @ name)))"

definition initializeResult :: json where
  "initializeResult =
    go_map [(''protocolVersion'', JStr ''2025-06-18''),
            (''capabilities'', go_map [(''tools'', go_map [])]),
            (''serverInfo'', go_map [(''name'', JStr ''agent-plane-example-mcp''), (''version'', JStr ''0.1.0'')])]"

definition toolsListResult :: json where
  "toolsListResult = go_map [(''tools'', JArr (map (\<lambda>(n, d, s). toolEntry n d s) toolList))]"

definition handleRPC :: "(string \<Rightarrow> fetched) \<Rightarrow> string \<Rightarrow> body \<Rightarrow> mcp_reply" where
  "handleRPC client meth b =
    (if meth \<noteq> ''POST'' then MethodNotAllowed
     else (case decodeRequest b of
             None \<Rightarrow> writeErr [] (- 32700) ''parse error''
           | Some req \<Rightarrow>
              (if rq_id req = [] then Accepted
               else if rq_method req = ''initialize'' then writeResult (rq_id req) initializeResult
               else if rq_method req = ''tools/list'' then writeResult (rq_id req) toolsListResult
               else if rq_method req = ''tools/call'' then handleToolCall client req
               else writeErr (rq_id req) (- 32601) (''method not found: '' @ rq_method req))))"

section \<open>Payloads are plain JSON\<close>

lemma plain_go_map [simp]: "plain_json (go_map kvs) \<longleftrightarrow> (\<forall>kv\<in>set kvs. plain_json (snd kv))"
  by (simp add: go_map_def)

lemma plain_attractions: "v \<in> set (byPref pref) \<Longrightarrow> plain_json v"
  by (auto simp: byPref_def historyAttractions_def natureAttractions_def foodAttractions_def attraction_def num_char_def
      split: if_splits)

lemma plain_hotels: "v \<in> set (byType typ) \<Longrightarrow> plain_json v"
  by (auto simp: byType_def comfortHotels_def hotel_def num_char_def split: if_splits)

lemma plain_payloads:
  "plain_json (orderPayload args)" "plain_json (attractionsPayload args)" "plain_json (hotelsPayload args)"
  using plain_attractions plain_hotels
  by (simp_all add: orderPayload_def attractionsPayload_def hotelsPayload_def Let_def)

section \<open>Properties\<close>



end
