(* ===== verification/Agent_Settles.thy ===== *)
theory Agent_Settles
  imports Agent_Controller
begin

text \<open>
  Why the Agent controller stops. Every write of a pass is an event that queues the Agent again;
  the loop ends because a second pass over a cluster nobody else touched changes nothing. The
  API server is described by a locale: what is read after a write, with the defaulting and the
  resource versions of the server left open. Shown: any number of passes leaves the cluster as
  the first one did. \<open>Control_Rest\<close> puts the Agents of a cluster together.
\<close>

section \<open>The server\<close>

locale stable_conditions = status_conditions +
  assumes upsert_stable:
    "condition_of cs (cond_type c) = Some (cond_status c, cond_reason c, cond_message c, cond_observedGeneration c) \<Longrightarrow>
     upsert cs c = cs"

lemma upsertCondition_stable:
  "condition_of cs (cond_type c) = Some (cond_status c, cond_reason c, cond_message c, cond_observedGeneration c) \<Longrightarrow>
   upsertCondition now cs c = cs"
  by (induction now cs c rule: upsertCondition.induct) (auto simp: condition_of_def)

interpretation stc: stable_conditions "upsertCondition now" for now
  by unfold_locales (rule upsertCondition_stable)

text \<open>The server gives a stored object a resource version.\<close>

definition stamp :: "string \<Rightarrow> agent \<Rightarrow> agent" where
  "stamp rv a = a\<lparr>ag_meta := (ag_meta a)\<lparr>meta_resourceVersion := rv\<rparr>\<rparr>"

text \<open>What a create-or-update starts from.\<close>

fun base_of :: "'a got \<Rightarrow> 'a \<Rightarrow> 'a option" where
  "base_of (Found x) blank = Some x"
| "base_of NotFound blank = Some blank"
| "base_of (Failed e) blank = None"

locale api_server =
  fixes k :: "'w kube" and admitDeployment :: "deployment \<Rightarrow> deployment" and admitService :: "service \<Rightarrow> service"
  assumes conditions: "stable_conditions (setStatusCondition k)"
    and owner_stable: "setControllerReference k m os = Inr os' \<Longrightarrow> setControllerReference k m os' = Inr os'"
    and owner_version: "setControllerReference k (m\<lparr>meta_resourceVersion := rv\<rparr>) os = setControllerReference k m os"
    and admitDeployment_keeps: "dep_key (admitDeployment d) = dep_key d"
      "dep_owners (admitDeployment d) = dep_owners d"
      "dep_availableReplicas (admitDeployment d) = dep_availableReplicas d"
    and admitService_keeps: "svc_key (admitService s) = svc_key s" "svc_owners (admitService s) = svc_owners s"
    and deployment_written: "createOrUpdateDeployment k key f w = (None, w') \<Longrightarrow>
      \<exists>d0 d. base_of (getDeployment (reads k w) key) (blank_deployment key) = Some d0 \<and> f d0 = Inr d \<and>
        reads k w' = (reads k w)\<lparr>getDeployment := (getDeployment (reads k w))(key := Found (admitDeployment d))\<rparr>"
    and service_written: "createOrUpdateService k key g w = (None, w') \<Longrightarrow>
      \<exists>s0 s. base_of (getService (reads k w) key) (blank_service key) = Some s0 \<and> g s0 = Inr s \<and>
        reads k w' = (reads k w)\<lparr>getService := (getService (reads k w))(key := Found (admitService s))\<rparr>"
    and pvc_created: "createPVC k p w = (WriteOk, w') \<Longrightarrow>
      \<exists>p'. reads k w' = (reads k w)\<lparr>getPVC := (getPVC (reads k w))(pvc_key p := Found p')\<rparr>"
    and pvc_conflict: "createPVC k p w = (WriteAlreadyExists, w') \<Longrightarrow> getPVC (reads k w) (pvc_key p) \<noteq> NotFound"
    and status_same: "statusUpdate k (OAgent a) w = (None, w') \<Longrightarrow>
      getAgent (reads k w) (NamespacedName (ag_namespace a) (ag_name a)) = Found a \<Longrightarrow> reads k w' = reads k w"
    and status_written: "statusUpdate k (OAgent a) w = (None, w') \<Longrightarrow>
      \<exists>rv. reads k w' = (reads k w)\<lparr>getAgent := (getAgent (reads k w))
             (NamespacedName (ag_namespace a) (ag_name a) := Found (stamp rv a))\<rparr>"

section \<open>What a pass depends on\<close>

text \<open>Two Agents that differ in status and resource version only.\<close>

definition alike :: "agent \<Rightarrow> agent \<Rightarrow> bool" where
  "alike a b \<longleftrightarrow> ag_spec a = ag_spec b \<and> (\<exists>rv. ag_meta a = (ag_meta b)\<lparr>meta_resourceVersion := rv\<rparr>)"

lemma alike_base:
  assumes "alike a b"
  shows "ag_spec a = ag_spec b" "ag_name a = ag_name b" "ag_namespace a = ag_namespace b"
    "meta_generation (ag_meta a) = meta_generation (ag_meta b)"
  using assms by (auto simp: alike_def)

lemma alike_simps:
  assumes "alike a b"
  shows "agentRuntimeLabels a = agentRuntimeLabels b" "runtimeKey a = runtimeKey b"
    "workspaceClaimName a = workspaceClaimName b" "peerServiceName a = peerServiceName b"
    "PeerEndpointFor a = PeerEndpointFor b" "runtimeGitSecret a res = runtimeGitSecret b res"
    "agentClassOf rd a = agentClassOf rd b"
  unfolding agentRuntimeLabels_def runtimeKey_def workspaceClaimName_def peerServiceName_def
    PeerEndpointFor_def runtimeGitSecret_def agentClassOf_def alike_base [OF assms]
  by (rule refl)+

text \<open>The objects a pass resolves: everything but Agents and workloads.\<close>

definition same_refs :: "reader \<Rightarrow> reader \<Rightarrow> bool" where
  "same_refs rd rd' \<longleftrightarrow>
     getAgentClass rd = getAgentClass rd' \<and> getModel rd = getModel rd' \<and>
     getPromptTemplate rd = getPromptTemplate rd' \<and> getTool rd = getTool rd' \<and> getToolSet rd = getToolSet rd' \<and>
     getSkill rd = getSkill rd' \<and> getPolicy rd = getPolicy rd' \<and> getToolPolicy rd = getToolPolicy rd' \<and>
     getCredential rd = getCredential rd'"

lemma same_refsD:
  assumes "same_refs rd rd'"
  shows "getAgentClass rd = getAgentClass rd'" "getModel rd = getModel rd'" "getCredential rd = getCredential rd'"
    "getTool rd = getTool rd'" "getToolSet rd = getToolSet rd'"
  using assms by (simp_all add: same_refs_def)

lemma resolveLoop_same_refs:
  assumes "same_refs rd rd'" "\<forall>t\<in>set ts. tgt_obj t \<noteq> KAgent \<and> tgt_obj t \<noteq> KMCPServer"
  shows "resolveLoop rd ns ts res = resolveLoop rd' ns ts res"
  using assms(2)
proof (induction ts arbitrary: res)
  case (Cons t ts)
  then have "getObject rd (tgt_obj t) key = getObject rd' (tgt_obj t) key" for key
    using assms(1) by (cases "tgt_obj t") (simp_all add: same_refs_def)
  with Cons show ?case by (simp split: got.split)
qed simp

lemma agentTargets_kinds: "\<forall>t\<in>set (agentTargets spec eff). tgt_obj t \<noteq> KAgent \<and> tgt_obj t \<noteq> KMCPServer"
proof -
  have "\<forall>t\<in>set (optTarget kd ob r). tgt_obj t = ob" for kd ob r by (cases r) (auto simp: optTarget_def)
  moreover have "\<forall>t\<in>set (gitTarget spec). tgt_obj t = KCredential" using set_gitTarget by blast
  ultimately show ?thesis unfolding agentTargets_def set_append ball_Un set_map by simp
qed

lemma resolveRefs_same_refs:
  assumes "same_refs rd rd'" "alike a b"
  shows "resolveRefs rd a = resolveRefs rd' b"
proof -
  have c: "agentClassOf rd a = agentClassOf rd' b"
    unfolding agentClassOf_def alike_base [OF assms(2)] same_refsD [OF assms(1)] by (rule refl)
  have t: "toolNames rd = toolNames rd'" "mcpNamesOf rd = mcpNamesOf rd'" "peersOf rd = peersOf rd'"
    unfolding toolNames_def [abs_def] mcpNamesOf_def [abs_def] peersOf_def [abs_def] same_refsD [OF assms(1)]
    by (rule refl)+
  show ?thesis
    unfolding resolveRefs_def c t alike_base [OF assms(2)]
    by (simp only: Let_def resolveLoop_same_refs [OF assms(1) agentTargets_kinds])
qed

lemma resolveModelSecret_same_refs:
  assumes "same_refs rd rd'" "alike a b"
  shows "resolveModelSecret rd a = resolveModelSecret rd' b"
  unfolding resolveModelSecret_def agentClassOf_def alike_base [OF assms(2)] same_refsD [OF assms(1)]
  by (rule refl)

lemma agentViolations_same_reads:
  assumes "alike a b" "\<And>n. n \<noteq> ag_name b \<Longrightarrow>
    getAgent rd (NamespacedName (ag_namespace b) n) = getAgent rd' (NamespacedName (ag_namespace b) n)"
  shows "agentViolations rd a res = agentViolations rd' b res"
proof -
  have "peerViolation rd a = peerViolation rd' b"
  proof
    fix p
    show "peerViolation rd a p = peerViolation rd' b p"
      using assms(2) [of "pr_agent p"] unfolding peerViolation_def alike_base [OF assms(1)]
      by (cases "pr_agent p = ag_name b") simp_all
  qed
  then show ?thesis by (simp add: agentViolations_def peerViolations_def)
qed

section \<open>Workloads that are in place\<close>

text \<open>
  The status a pass reads off the workloads, and the workloads after a pass: the claim exists, and
  the Deployment and the Services are what the server makes of the pass's own result.
\<close>

definition runtimeStatus :: "reader \<Rightarrow> agent \<Rightarrow> agent" where
  "runtimeStatus rd a =
    (let st = ag_status a;
         st1 = (case getDeployment rd (runtimeKey a) of
                  Found live \<Rightarrow> st\<lparr>ast_runtimeAvailableReplicas := dep_availableReplicas live\<rparr>
                | _ \<Rightarrow> st)
     in a\<lparr>ag_status := st1\<lparr>ast_workspaceClaim :=
            (if as_workspace (ag_spec a) \<noteq> None then workspaceClaimName a else [])\<rparr>\<rparr>)"

definition registry_of :: "string \<Rightarrow> string" where
  "registry_of url = (if url = [] then defaultRegistryURL else url)"

definition model_secret :: "reader \<Rightarrow> agent \<Rightarrow> string" where
  "model_secret rd a = (if as_workspace (ag_spec a) \<noteq> None then resolveModelSecret rd a else [])"

lemma reconcileRuntime_cases:
  assumes "reconcileRuntime k url a rt res w = (Inr a1, w1)" "runtimeGitSecret a res = Some gs"
  obtains v u where
    "(case as_workspace (ag_spec a) of None \<Rightarrow> (None, w) | Some ws \<Rightarrow> reconcileWorkspace k a ws w) = (None, v)"
    "createOrUpdateDeployment k (runtimeKey a)
       (mutateRuntimeDeployment k (registry_of url) a rt (res_credentials res) gs (model_secret (reads k w) a)) v = (None, u)"
    "(if rt_port rt \<noteq> 0
      then createOrUpdateService k (runtimeKey a)
             (mutateService k (ag_meta a) (agentRuntimeLabels a) portNameHTTP (rt_port rt)) u
      else (None, u)) = (None, w1)"
    "a1 = runtimeStatus (reads k w1) a"
  using assms
  by (auto simp: reconcileRuntime_def registry_of_def model_secret_def runtimeStatus_def Let_def
      split: prod.splits option.splits if_splits)

lemma alike_refl: "alike a a"
  by (auto simp: alike_def intro: exI [of _ "meta_resourceVersion (ag_meta a)"])

lemma mutateService_fields:
  assumes "mutateService k owner lbls portName port s0 = Inr s"
  shows "svc_key s = svc_key s0" "svc_labels s = lbls" "svc_selector s = lbls"
    "svc_ports s = [\<lparr>sp_name = portName, sp_port = port, sp_targetPort = port, sp_protocol = ''TCP''\<rparr>]"
    "setControllerReference k owner (svc_owners s0) = Inr (svc_owners s)"
  using assms by (auto simp: mutateService_def split: sum.splits)

context api_server
begin

definition service_in_place :: "reader \<Rightarrow> namespaced_name \<Rightarrow> agent \<Rightarrow> string \<Rightarrow> int \<Rightarrow> bool" where
  "service_in_place rd key a portName port \<longleftrightarrow>
     (\<exists>s0 s. svc_key s = svc_key s0 \<and> mutateService k (ag_meta a) (agentRuntimeLabels a) portName port s0 = Inr s \<and>
        getService rd key = Found (admitService s))"

lemma service_written_in_place:
  assumes "createOrUpdateService k key (mutateService k (ag_meta a) (agentRuntimeLabels a) portName port) w = (None, w')"
  shows "service_in_place (reads k w') key a portName port"
    and "\<exists>s. reads k w' = (reads k w)\<lparr>getService := (getService (reads k w))(key := Found s)\<rparr>"
proof -
  from service_written [OF assms] obtain s0 s where
    s: "mutateService k (ag_meta a) (agentRuntimeLabels a) portName port s0 = Inr s"
    and r: "reads k w' = (reads k w)\<lparr>getService := (getService (reads k w))(key := Found (admitService s))\<rparr>"
    by blast
  with r mutateService_fields(1) [OF s] show "service_in_place (reads k w') key a portName port" unfolding service_in_place_def by auto
  from r show "\<exists>s. reads k w' = (reads k w)\<lparr>getService := (getService (reads k w))(key := Found s)\<rparr>" by blast
qed

lemma service_rewritten:
  assumes "service_in_place (reads k w) key a portName port"
    and "createOrUpdateService k key (mutateService k (ag_meta a) (agentRuntimeLabels a) portName port) w = (None, w')"
  shows "reads k w' = reads k w"
proof -
  from assms(1) obtain s0 s where
    s: "mutateService k (ag_meta a) (agentRuntimeLabels a) portName port s0 = Inr s"
    and f: "getService (reads k w) key = Found (admitService s)"
    unfolding service_in_place_def by blast
  from service_written [OF assms(2)] f obtain s' where
    s': "mutateService k (ag_meta a) (agentRuntimeLabels a) portName port (admitService s) = Inr s'"
    and r: "reads k w' = (reads k w)\<lparr>getService := (getService (reads k w))(key := Found (admitService s'))\<rparr>"
    by auto
  have "setControllerReference k (ag_meta a) (svc_owners s) = Inr (svc_owners s)"
    using owner_stable mutateService_fields(5) [OF s] by blast
  then have "s' = s"
    using mutateService_fields [OF s] mutateService_fields [OF s'] admitService_keeps
    by (intro service.equality) simp_all
  with r f show ?thesis by (simp add: fun_upd_idem)
qed

definition runtime_in_place :: "string \<Rightarrow> reader \<Rightarrow> agent \<Rightarrow> agent_runtime_spec \<Rightarrow> resolution \<Rightarrow> bool" where
  "runtime_in_place url rd a rt res \<longleftrightarrow>
    (\<forall>gs. runtimeGitSecret a res = Some gs \<longrightarrow>
       (as_workspace (ag_spec a) \<noteq> None \<longrightarrow>
          (\<exists>p. getPVC rd (NamespacedName (ag_namespace a) (workspaceClaimName a)) = Found p)) \<and>
       (\<exists>d0 d. mutateRuntimeDeployment k (registry_of url) a rt (res_credentials res) gs (model_secret rd a) d0 = Inr d \<and>
          getDeployment rd (runtimeKey a) = Found (admitDeployment d)) \<and>
       (rt_port rt \<noteq> 0 \<longrightarrow> service_in_place rd (runtimeKey a) a portNameHTTP (rt_port rt)))"

lemma workspace_written:
  assumes "reconcileWorkspace k a ws w = (None, v)"
  shows "\<exists>p g. getPVC (reads k v) (NamespacedName (ag_namespace a) (workspaceClaimName a)) = Found p \<and>
           reads k v = (reads k w)\<lparr>getPVC := g\<rparr>"
proof (cases "getPVC (reads k w) (NamespacedName (ag_namespace a) (workspaceClaimName a))")
  case (Found p)
  with assms have "v = w" by (simp add: reconcileWorkspace_def Let_def)
  with Found show ?thesis by (intro exI [of _ p] exI [of _ "getPVC (reads k w)"]) simp
next
  case NotFound
  with assms obtain os q r where
    c: "createPVC k \<lparr>pvc_key = NamespacedName (ag_namespace a) (workspaceClaimName a), pvc_owners = os,
          pvc_labels = agentRuntimeLabels a, pvc_accessModes = [''ReadWriteOnce''],
          pvc_storageClassName = ws_storageClassName ws, pvc_storageRequest = q\<rparr> w = (r, v)"
    and r: "r = WriteOk \<or> r = WriteAlreadyExists"
    by (auto simp: reconcileWorkspace_def Let_def split: sum.splits prod.splits write_outcome.splits)
  with pvc_conflict NotFound have "r = WriteOk" by fastforce
  from pvc_created [OF c [unfolded this]] obtain p where
    p: "reads k v = (reads k w)\<lparr>getPVC := (getPVC (reads k w))
          (NamespacedName (ag_namespace a) (workspaceClaimName a) := Found p)\<rparr>" by auto
  then show ?thesis by (intro exI conjI) (simp, rule p)
qed (use assms in \<open>simp add: reconcileWorkspace_def Let_def\<close>)

lemma workspace_rewritten:
  "getPVC (reads k w) (NamespacedName (ag_namespace a) (workspaceClaimName a)) = Found p \<Longrightarrow>
   reconcileWorkspace k a ws w = (None, w)"
  by (simp add: reconcileWorkspace_def Let_def)

lemma workspace_step:
  assumes "(case as_workspace (ag_spec a) of None \<Rightarrow> (None, w) | Some ws \<Rightarrow> reconcileWorkspace k a ws w) = (None, v)"
  shows "\<exists>g. reads k v = (reads k w)\<lparr>getPVC := g\<rparr>"
    and "as_workspace (ag_spec a) \<noteq> None \<Longrightarrow>
      \<exists>p. getPVC (reads k v) (NamespacedName (ag_namespace a) (workspaceClaimName a)) = Found p"
proof -
  show "\<exists>g. reads k v = (reads k w)\<lparr>getPVC := g\<rparr>"
  proof (cases "as_workspace (ag_spec a)")
    case None
    with assms show ?thesis by (auto intro: exI [of _ "getPVC (reads k w)"])
  next
    case (Some ws)
    with assms have "reconcileWorkspace k a ws w = (None, v)" by simp
    from workspace_written [OF this] show ?thesis by blast
  qed
  show "\<exists>p. getPVC (reads k v) (NamespacedName (ag_namespace a) (workspaceClaimName a)) = Found p"
    if "as_workspace (ag_spec a) \<noteq> None"
    using workspace_written assms that by fastforce
qed

lemma service_step:
  assumes "(if c then createOrUpdateService k key (mutateService k (ag_meta a) (agentRuntimeLabels a) portName port) u
            else (None, u)) = (None, w)"
  shows "\<exists>g. reads k w = (reads k u)\<lparr>getService := g\<rparr>" "c \<Longrightarrow> service_in_place (reads k w) key a portName port"
proof -
  show "\<exists>g. reads k w = (reads k u)\<lparr>getService := g\<rparr>"
  proof (cases c)
    case True
    with service_written_in_place(2) assms show ?thesis by fastforce
  next
    case False
    with assms show ?thesis by (auto intro: exI [of _ "getService (reads k u)"])
  qed
  show "c \<Longrightarrow> service_in_place (reads k w) key a portName port"
    using service_written_in_place(1) assms by auto
qed

lemma runtime_written:
  assumes "reconcileRuntime k url a rt res w = (Inr a1, w1)"
  shows "runtime_in_place url (reads k w1) a rt res"
    and "a1 = (if runtimeGitSecret a res = None then a else runtimeStatus (reads k w1) a)"
    and "\<exists>g1 g2 g3. reads k w1 = (reads k w)\<lparr>getDeployment := g1, getService := g2, getPVC := g3\<rparr>"
proof -
  have "runtime_in_place url (reads k w1) a rt res \<and>
        a1 = (if runtimeGitSecret a res = None then a else runtimeStatus (reads k w1) a) \<and>
        (\<exists>g1 g2 g3. reads k w1 = (reads k w)\<lparr>getDeployment := g1, getService := g2, getPVC := g3\<rparr>)"
  proof (cases "runtimeGitSecret a res")
    case None
    with assms have "a1 = a" "w1 = w" by (simp_all add: reconcileRuntime_def Let_def)
    with None show ?thesis
      by (auto simp: runtime_in_place_def intro!: exI [of _ "getDeployment (reads k w)"] exI [of _ "getService (reads k w)"]
          exI [of _ "getPVC (reads k w)"])
  next
    case (Some gs)
    obtain v u where s: "(case as_workspace (ag_spec a) of None \<Rightarrow> (None, w) | Some ws \<Rightarrow> reconcileWorkspace k a ws w) = (None, v)"
      "createOrUpdateDeployment k (runtimeKey a)
         (mutateRuntimeDeployment k (registry_of url) a rt (res_credentials res) gs (model_secret (reads k w) a)) v = (None, u)"
      "(if rt_port rt \<noteq> 0
        then createOrUpdateService k (runtimeKey a)
               (mutateService k (ag_meta a) (agentRuntimeLabels a) portNameHTTP (rt_port rt)) u
        else (None, u)) = (None, w1)"
      and a1: "a1 = runtimeStatus (reads k w1) a"
      using reconcileRuntime_cases [OF assms Some] by blast
    obtain g3 where v: "reads k v = (reads k w)\<lparr>getPVC := g3\<rparr>" using workspace_step(1) [OF s(1)] by blast
    obtain d0 d where d: "mutateRuntimeDeployment k (registry_of url) a rt (res_credentials res) gs (model_secret (reads k w) a) d0 = Inr d"
      and u: "reads k u = (reads k v)\<lparr>getDeployment := (getDeployment (reads k v))(runtimeKey a := Found (admitDeployment d))\<rparr>"
      using deployment_written [OF s(2)] by blast
    obtain g2 where w1: "reads k w1 = (reads k u)\<lparr>getService := g2\<rparr>" using service_step(1) [OF s(3)] by blast
    have "same_refs (reads k w1) (reads k w)" by (simp add: w1 u v same_refs_def)
    then have m: "model_secret (reads k w1) a = model_secret (reads k w) a"
      using resolveModelSecret_same_refs [OF _ alike_refl] by (simp add: model_secret_def)
    have "runtime_in_place url (reads k w1) a rt res"
      unfolding runtime_in_place_def m
    proof (intro allI impI conjI)
      fix gs' assume "runtimeGitSecret a res = Some gs'"
      with Some d show "\<exists>d0 d. mutateRuntimeDeployment k (registry_of url) a rt (res_credentials res) gs' (model_secret (reads k w) a) d0 = Inr d \<and>
          getDeployment (reads k w1) (runtimeKey a) = Found (admitDeployment d)"
        by (auto simp: w1 u)
      show "\<exists>p. getPVC (reads k w1) (NamespacedName (ag_namespace a) (workspaceClaimName a)) = Found p"
        if "as_workspace (ag_spec a) \<noteq> None"
        using workspace_step(2) [OF s(1) that] by (simp add: w1 u)
      show "service_in_place (reads k w1) (runtimeKey a) a portNameHTTP (rt_port rt)" if "rt_port rt \<noteq> 0"
        using service_step(2) [OF s(3) that] .
    qed
    moreover have "reads k w1 = (reads k w)\<lparr>getDeployment := getDeployment (reads k w1),
        getService := getService (reads k w1), getPVC := getPVC (reads k w1)\<rparr>"
      by (simp add: w1 u v)
    ultimately show ?thesis using a1 Some by auto
  qed
  then show "runtime_in_place url (reads k w1) a rt res"
    and "a1 = (if runtimeGitSecret a res = None then a else runtimeStatus (reads k w1) a)"
    and "\<exists>g1 g2 g3. reads k w1 = (reads k w)\<lparr>getDeployment := g1, getService := g2, getPVC := g3\<rparr>"
    by blast+
qed

lemma deployment_rewritten:
  assumes "mutateRuntimeDeployment k url a rt creds gs ms d0 = Inr d"
    and "getDeployment (reads k v) key = Found (admitDeployment d)"
    and "createOrUpdateDeployment k key (mutateRuntimeDeployment k url a rt creds gs ms) v = (None, u)"
  shows "reads k u = reads k v"
proof -
  from deployment_written [OF assms(3)] assms(2) obtain d' where
    d': "mutateRuntimeDeployment k url a rt creds gs ms (admitDeployment d) = Inr d'"
    and u: "reads k u = (reads k v)\<lparr>getDeployment := (getDeployment (reads k v))(key := Found (admitDeployment d'))\<rparr>"
    by auto
  have "setControllerReference k (ag_meta a) (dep_owners d) = Inr (dep_owners d)"
    using mutateRuntimeDeployment_keeps(3) [OF assms(1)] owner_stable by blast
  then have keep: "dep_key d' = dep_key d" "dep_owners d' = dep_owners d"
    "dep_availableReplicas d' = dep_availableReplicas d"
    using mutateRuntimeDeployment_keeps [OF d'] by (simp_all add: admitDeployment_keeps)
  have "d'\<lparr>dep_key := dep_key d, dep_owners := dep_owners d, dep_availableReplicas := dep_availableReplicas d\<rparr> =
        d\<lparr>dep_key := dep_key d, dep_owners := dep_owners d, dep_availableReplicas := dep_availableReplicas d\<rparr>"
    using runtime_deployment_converges [OF d' assms(1)] owner_stable by blast
  with keep have "d' = d" by (cases d'; cases d) simp
  with u assms(2) show ?thesis by (simp add: fun_upd_idem)
qed

lemma runtime_rewritten:
  assumes "runtime_in_place url (reads k w) a rt res" and "reconcileRuntime k url a rt res w = (Inr a1, w1)"
  shows "reads k w1 = reads k w"
proof (cases "runtimeGitSecret a res")
  case None
  with assms(2) show ?thesis by (simp add: reconcileRuntime_def Let_def)
next
  case (Some gs)
  obtain v u where s: "(case as_workspace (ag_spec a) of None \<Rightarrow> (None, w) | Some ws \<Rightarrow> reconcileWorkspace k a ws w) = (None, v)"
    "createOrUpdateDeployment k (runtimeKey a)
       (mutateRuntimeDeployment k (registry_of url) a rt (res_credentials res) gs (model_secret (reads k w) a)) v = (None, u)"
    "(if rt_port rt \<noteq> 0
      then createOrUpdateService k (runtimeKey a)
             (mutateService k (ag_meta a) (agentRuntimeLabels a) portNameHTTP (rt_port rt)) u
      else (None, u)) = (None, w1)"
    using reconcileRuntime_cases [OF assms(2) Some] by blast
  note place = assms(1) [unfolded runtime_in_place_def, rule_format, OF Some]
  have v: "v = w"
  proof (cases "as_workspace (ag_spec a)")
    case (Some ws)
    with place obtain p where "getPVC (reads k w) (NamespacedName (ag_namespace a) (workspaceClaimName a)) = Found p" by auto
    from workspace_rewritten [OF this] s(1) Some show ?thesis by simp
  qed (use s(1) in simp)
  from place obtain d0 d where "mutateRuntimeDeployment k (registry_of url) a rt (res_credentials res) gs (model_secret (reads k w) a) d0 = Inr d"
    "getDeployment (reads k w) (runtimeKey a) = Found (admitDeployment d)" by blast
  with s(2) v have u: "reads k u = reads k w" by (blast intro: deployment_rewritten)
  show ?thesis
  proof (cases "rt_port rt = 0")
    case False
    with place u have "service_in_place (reads k u) (runtimeKey a) a portNameHTTP (rt_port rt)" by simp
    from service_rewritten [OF this] s(3) False u show ?thesis by simp
  qed (use s(3) u in simp)
qed

end

section \<open>All workloads of an Agent\<close>

definition workloadStatus :: "reader \<Rightarrow> agent \<Rightarrow> resolution \<Rightarrow> agent" where
  "workloadStatus rd a res =
    (let a1 = (if as_runtime (ag_spec a) = None \<or> runtimeGitSecret a res = None then a else runtimeStatus rd a)
     in a1\<lparr>ag_status := (ag_status a1)\<lparr>ast_peerEndpoint := PeerEndpointFor a\<rparr>\<rparr>)"

lemma runtimeStatus_simps [simp]:
  "ag_spec (runtimeStatus rd a) = ag_spec a" "ag_meta (runtimeStatus rd a) = ag_meta a"
  by (simp_all add: runtimeStatus_def Let_def)

lemma workloadStatus_simps [simp]:
  "ag_spec (workloadStatus rd a res) = ag_spec a" "ag_meta (workloadStatus rd a res) = ag_meta a"
  by (simp_all add: workloadStatus_def Let_def)

text \<open>The status already says what the workloads show.\<close>

definition status_settled :: "reader \<Rightarrow> agent \<Rightarrow> resolution \<Rightarrow> bool" where
  "status_settled rd a res \<longleftrightarrow>
     ast_peerEndpoint (ag_status a) = PeerEndpointFor a \<and>
     (as_runtime (ag_spec a) \<noteq> None \<longrightarrow> runtimeGitSecret a res \<noteq> None \<longrightarrow>
        ast_workspaceClaim (ag_status a) = (if as_workspace (ag_spec a) \<noteq> None then workspaceClaimName a else []) \<and>
        (\<forall>live. getDeployment rd (runtimeKey a) = Found live \<longrightarrow>
           ast_runtimeAvailableReplicas (ag_status a) = dep_availableReplicas live))"

lemma workloadStatus_settled: "status_settled rd a res \<Longrightarrow> workloadStatus rd a res = a"
  by (cases "getDeployment rd (runtimeKey a)")
     (auto simp: status_settled_def workloadStatus_def runtimeStatus_def Let_def)

lemma workloadStatus_settles: "status_settled rd (workloadStatus rd a res) res"
proof -
  have "alike (workloadStatus rd a res) a" by (auto simp: alike_def intro: exI [of _ "meta_resourceVersion (ag_meta a)"])
  note same = alike_simps [OF this] alike_base [OF this]
  show ?thesis
    unfolding status_settled_def same
    by (auto simp: workloadStatus_def runtimeStatus_def Let_def split: got.split)
qed

lemma runtimePodOf_alike: "alike a b \<Longrightarrow> runtimePodOf url a = runtimePodOf url b"
  unfolding runtimePodOf_def [abs_def] applyWorkspace_def [abs_def] baseContainer_def [abs_def]
    workspacePodSpec_def [abs_def]
  by (simp only: alike_base alike_simps)

text \<open>A state that differs in workloads only.\<close>

definition workloads_only :: "reader \<Rightarrow> reader \<Rightarrow> bool" where
  "workloads_only rd rd' \<longleftrightarrow>
     rd' = rd\<lparr>getDeployment := getDeployment rd', getService := getService rd', getPVC := getPVC rd'\<rparr>"

lemma workloads_onlyD:
  assumes "workloads_only rd rd'"
  shows "getAgent rd' = getAgent rd" "same_refs rd' rd"
  by (subst assms [unfolded workloads_only_def], simp)
     (subst assms [unfolded workloads_only_def], simp add: same_refs_def)

lemma workloads_only_service: "workloads_only rd rd' \<Longrightarrow> workloads_only rd (rd'\<lparr>getService := g\<rparr>)"
  by (cases rd; cases rd') (simp add: workloads_only_def)

context api_server
begin

lemma owner_alike: "alike a b \<Longrightarrow> setControllerReference k (ag_meta a) = setControllerReference k (ag_meta b)"
  using owner_version by (auto simp: alike_def fun_eq_iff)

lemma mutate_alike:
  assumes "alike a b"
  shows "mutateRuntimeDeployment k url a = mutateRuntimeDeployment k url b"
    and "mutateService k (ag_meta a) (agentRuntimeLabels a) = mutateService k (ag_meta b) (agentRuntimeLabels b)"
  unfolding mutateRuntimeDeployment_def [abs_def] mutateService_def [abs_def] runtimePodOf_alike [OF assms]
    owner_alike [OF assms] alike_simps [OF assms]
  by (rule refl)+

lemma service_in_place_alike: "alike a b \<Longrightarrow> service_in_place rd key a = service_in_place rd key b"
  by (simp add: fun_eq_iff service_in_place_def mutate_alike(2))

definition workloads_in_place :: "string \<Rightarrow> reader \<Rightarrow> agent \<Rightarrow> resolution \<Rightarrow> bool" where
  "workloads_in_place url rd a res \<longleftrightarrow>
     (\<forall>rt. as_runtime (ag_spec a) = Some rt \<longrightarrow> runtime_in_place url rd a rt res) \<and>
     (\<forall>x. as_expose (ag_spec a) = Some x \<longrightarrow>
        service_in_place rd (NamespacedName (ag_namespace a) (peerServiceName a)) a portNameMCP (exposePort x))"

lemma runtime_in_place_cong:
  assumes "alike a b" "same_refs rd rd'" "getPVC rd = getPVC rd'" "getDeployment rd = getDeployment rd'"
    and "getService rd (runtimeKey b) = getService rd' (runtimeKey b)"
  shows "runtime_in_place url rd a rt res \<longleftrightarrow> runtime_in_place url rd' b rt res"
proof -
  have "model_secret rd a = model_secret rd' b"
    unfolding model_secret_def resolveModelSecret_same_refs [OF assms(2,1)] alike_base [OF assms(1)] ..
  moreover have "service_in_place rd (runtimeKey b) a = service_in_place rd' (runtimeKey b) b"
    using assms(5) by (simp add: service_in_place_alike [OF assms(1)] service_in_place_def fun_eq_iff)
  ultimately show ?thesis
    unfolding runtime_in_place_def alike_simps [OF assms(1)] alike_base [OF assms(1)] mutate_alike(1) [OF assms(1)] assms(3,4)
    by simp
qed

lemma workloads_in_place_cong:
  assumes "alike a b" "same_refs rd rd'" "getPVC rd = getPVC rd'" "getDeployment rd = getDeployment rd'"
    and "getService rd = getService rd'"
  shows "workloads_in_place url rd a res \<longleftrightarrow> workloads_in_place url rd' b res"
proof -
  have "service_in_place rd key a = service_in_place rd' key b" for key
    using assms(5) by (simp add: service_in_place_alike [OF assms(1)] service_in_place_def fun_eq_iff)
  then show ?thesis
    unfolding workloads_in_place_def alike_base [OF assms(1)] alike_simps(4) [OF assms(1)]
    using runtime_in_place_cong [OF assms(1-4)] assms(5) by simp
qed

lemma runtimeKey_not_peer: "runtimeKey a \<noteq> NamespacedName (ag_namespace a) (peerServiceName a)"
  by (simp add: runtimeKey_def peerServiceName_def)

lemma runtime_part:
  assumes "(case as_runtime (ag_spec a) of None \<Rightarrow> (Inr a, w) | Some rt \<Rightarrow> reconcileRuntime k url a rt res w) = (Inr a1, w1)"
  shows "as_runtime (ag_spec a) = Some rt \<Longrightarrow> runtime_in_place url (reads k w1) a rt res"
    and "a1 = (if as_runtime (ag_spec a) = None \<or> runtimeGitSecret a res = None then a else runtimeStatus (reads k w1) a)"
    and "workloads_only (reads k w) (reads k w1)"
proof -
  show "as_runtime (ag_spec a) = Some rt \<Longrightarrow> runtime_in_place url (reads k w1) a rt res"
    using assms runtime_written(1) by simp
  show "a1 = (if as_runtime (ag_spec a) = None \<or> runtimeGitSecret a res = None then a else runtimeStatus (reads k w1) a)"
  proof (cases "as_runtime (ag_spec a)")
    case (Some rt)
    with assms have "reconcileRuntime k url a rt res w = (Inr a1, w1)" by simp
    from runtime_written(2) [OF this] Some show ?thesis by simp
  qed (use assms in simp)
  show "workloads_only (reads k w) (reads k w1)"
  proof (cases "as_runtime (ag_spec a)")
    case (Some rt)
    with assms have "reconcileRuntime k url a rt res w = (Inr a1, w1)" by simp
    from runtime_written(3) [OF this] show ?thesis by (auto simp: workloads_only_def)
  qed (use assms in \<open>simp add: workloads_only_def\<close>)
qed

lemma peer_part:
  assumes "(case as_expose (ag_spec a) of
           None \<Rightarrow> (Inr (a\<lparr>ag_status := (ag_status a)\<lparr>ast_peerEndpoint := []\<rparr>\<rparr>), w)
         | Some x \<Rightarrow> reconcilePeer k a x w) = (Inr a2, w2)"
  shows "as_expose (ag_spec a) = Some x \<Longrightarrow>
      service_in_place (reads k w2) (NamespacedName (ag_namespace a) (peerServiceName a)) a portNameMCP (exposePort x)"
    and "a2 = a\<lparr>ag_status := (ag_status a)\<lparr>ast_peerEndpoint := PeerEndpointFor a\<rparr>\<rparr>"
    and "\<exists>g. reads k w2 = (reads k w)\<lparr>getService := g\<rparr> \<and>
           (\<forall>key. key \<noteq> NamespacedName (ag_namespace a) (peerServiceName a) \<longrightarrow> g key = getService (reads k w) key)"
proof -
  let ?key = "NamespacedName (ag_namespace a) (peerServiceName a)"
  have none: "a2 = a\<lparr>ag_status := (ag_status a)\<lparr>ast_peerEndpoint := []\<rparr>\<rparr>" "w2 = w" if "as_expose (ag_spec a) = None"
    using assms that by simp_all
  have some: "createOrUpdateService k ?key
        (mutateService k (ag_meta a) (agentRuntimeLabels a) portNameMCP (exposePort x)) w = (None, w2)"
    "a2 = a\<lparr>ag_status := (ag_status a)\<lparr>ast_peerEndpoint := PeerEndpointFor a\<rparr>\<rparr>" if "as_expose (ag_spec a) = Some x" for x
    using assms that by (auto simp: reconcilePeer_def split: prod.splits option.splits)
  show "as_expose (ag_spec a) = Some x \<Longrightarrow> service_in_place (reads k w2) ?key a portNameMCP (exposePort x)"
    using some(1) service_written_in_place(1) by blast
  show "a2 = a\<lparr>ag_status := (ag_status a)\<lparr>ast_peerEndpoint := PeerEndpointFor a\<rparr>\<rparr>"
    using none(1) some(2) by (cases "as_expose (ag_spec a)") (simp_all add: PeerEndpointFor_def)
  show "\<exists>g. reads k w2 = (reads k w)\<lparr>getService := g\<rparr> \<and> (\<forall>key. key \<noteq> ?key \<longrightarrow> g key = getService (reads k w) key)"
  proof (cases "as_expose (ag_spec a)")
    case None
    with none(2) show ?thesis by (intro exI [of _ "getService (reads k w)"]) simp
  next
    case (Some x)
    from service_written_in_place(2) [OF some(1) [OF Some]] obtain s where
      "reads k w2 = (reads k w)\<lparr>getService := (getService (reads k w))(?key := Found s)\<rparr>" by blast
    then show ?thesis by (intro exI [of _ "(getService (reads k w))(?key := Found s)"]) simp
  qed
qed

lemma agentWorkloads_parts:
  assumes "agentWorkloads k url a res w = (Inr a2, w2)"
  obtains a1 w1 where
    "(case as_runtime (ag_spec a) of None \<Rightarrow> (Inr a, w) | Some rt \<Rightarrow> reconcileRuntime k url a rt res w) = (Inr a1, w1)"
    "(case as_expose (ag_spec a1) of
           None \<Rightarrow> (Inr (a1\<lparr>ag_status := (ag_status a1)\<lparr>ast_peerEndpoint := []\<rparr>\<rparr>), w1)
         | Some x \<Rightarrow> reconcilePeer k a1 x w1) = (Inr a2, w2)"
    "alike a1 a"
proof -
  from assms obtain a1 w1 where p:
    "(case as_runtime (ag_spec a) of None \<Rightarrow> (Inr a, w) | Some rt \<Rightarrow> reconcileRuntime k url a rt res w) = (Inr a1, w1)"
    "(case as_expose (ag_spec a1) of
           None \<Rightarrow> (Inr (a1\<lparr>ag_status := (ag_status a1)\<lparr>ast_peerEndpoint := []\<rparr>\<rparr>), w1)
         | Some x \<Rightarrow> reconcilePeer k a1 x w1) = (Inr a2, w2)"
    by (auto simp: agentWorkloads_def split: prod.splits sum.splits)
  have "ag_spec a1 = ag_spec a" "ag_meta a1 = ag_meta a" using runtime_part(2) [OF p(1)] by (simp_all split: if_splits)
  then have "alike a1 a" using alike_refl [of a] by (simp add: alike_def)
  with that p show thesis by blast
qed

lemma workloads_written:
  assumes "agentWorkloads k url a res w = (Inr a2, w2)"
  shows "workloads_in_place url (reads k w2) a res" "a2 = workloadStatus (reads k w2) a res"
    "workloads_only (reads k w) (reads k w2)"
proof -
  from assms obtain a1 w1 where
    p1: "(case as_runtime (ag_spec a) of None \<Rightarrow> (Inr a, w) | Some rt \<Rightarrow> reconcileRuntime k url a rt res w) = (Inr a1, w1)"
    and p2: "(case as_expose (ag_spec a1) of
           None \<Rightarrow> (Inr (a1\<lparr>ag_status := (ag_status a1)\<lparr>ast_peerEndpoint := []\<rparr>\<rparr>), w1)
         | Some x \<Rightarrow> reconcilePeer k a1 x w1) = (Inr a2, w2)"
    and al: "alike a1 a"
    by (rule agentWorkloads_parts)
  note same = alike_base [OF al] alike_simps [OF al]
  obtain g where g: "reads k w2 = (reads k w1)\<lparr>getService := g\<rparr>"
    "\<And>key. key \<noteq> NamespacedName (ag_namespace a) (peerServiceName a) \<Longrightarrow> g key = getService (reads k w1) key"
    using peer_part(3) [OF p2] unfolding same by blast
  have keep: "runtime_in_place url (reads k w2) a rt res \<longleftrightarrow> runtime_in_place url (reads k w1) a rt res" for rt
    using runtime_in_place_cong [OF alike_refl, of "reads k w2" "reads k w1" a] g(2) [OF runtimeKey_not_peer]
    by (simp add: g(1) same_refs_def)
  show "workloads_in_place url (reads k w2) a res"
    using runtime_part(1) [OF p1] peer_part(1) [OF p2] keep
    unfolding workloads_in_place_def same service_in_place_alike [OF al] by blast
  have "runtimeStatus (reads k w1) a = runtimeStatus (reads k w2) a" by (simp add: runtimeStatus_def g(1))
  with runtime_part(2) [OF p1] peer_part(2) [OF p2] show "a2 = workloadStatus (reads k w2) a res"
    unfolding same by (simp add: workloadStatus_def Let_def)
  show "workloads_only (reads k w) (reads k w2)"
    using workloads_only_service [OF runtime_part(3) [OF p1]] by (simp add: g(1))
qed

lemma workloads_rewritten:
  assumes "workloads_in_place url (reads k w) a res" "agentWorkloads k url a res w = (Inr a2, w2)"
  shows "reads k w2 = reads k w"
proof -
  from assms(2) obtain a1 w1 where
    p1: "(case as_runtime (ag_spec a) of None \<Rightarrow> (Inr a, w) | Some rt \<Rightarrow> reconcileRuntime k url a rt res w) = (Inr a1, w1)"
    and p2: "(case as_expose (ag_spec a1) of
           None \<Rightarrow> (Inr (a1\<lparr>ag_status := (ag_status a1)\<lparr>ast_peerEndpoint := []\<rparr>\<rparr>), w1)
         | Some x \<Rightarrow> reconcilePeer k a1 x w1) = (Inr a2, w2)"
    and al: "alike a1 a"
    by (rule agentWorkloads_parts)
  have w1: "reads k w1 = reads k w"
  proof (cases "as_runtime (ag_spec a)")
    case (Some rt)
    with p1 assms(1) show ?thesis by (intro runtime_rewritten [of url _ a rt res a1]) (simp_all add: workloads_in_place_def)
  qed (use p1 in simp)
  show ?thesis
  proof (cases "as_expose (ag_spec a1)")
    case (Some x)
    let ?key = "NamespacedName (ag_namespace a1) (peerServiceName a1)"
    have "as_expose (ag_spec a) = Some x" using Some alike_base(1) [OF al] by simp
    with assms(1) have "service_in_place (reads k w1) ?key a1 portNameMCP (exposePort x)"
      unfolding workloads_in_place_def w1 alike_base [OF al] alike_simps [OF al] service_in_place_alike [OF al] by blast
    moreover have "createOrUpdateService k ?key (mutateService k (ag_meta a1) (agentRuntimeLabels a1) portNameMCP (exposePort x)) w1 = (None, w2)"
      using p2 Some by (auto simp: reconcilePeer_def split: prod.splits option.splits)
    ultimately show ?thesis using service_rewritten w1 by metis
  qed (use p2 w1 in simp)
qed

end
section \<open>A pass over its own result\<close>

definition observed :: "agent \<Rightarrow> agent" where
  "observed a = a\<lparr>ag_status := (ag_status a)\<lparr>ast_observedGeneration := meta_generation (ag_meta a)\<rparr>\<rparr>"

definition counted :: "resolution \<Rightarrow> agent \<Rightarrow> agent" where
  "counted res a = a\<lparr>ag_status := (ag_status a)\<lparr>ast_resolvedRefs := length (res_refs res)\<rparr>\<rparr>"

definition published :: "'w kube \<Rightarrow> reader \<Rightarrow> resolution \<Rightarrow> agent \<Rightarrow> agent" where
  "published k rd res a =
    (if res_missing res \<noteq> [] then missingAgent k a (res_missing res) else decidedAgent k rd a res)"

lemma agentPass_steps:
  assumes "getAgent (reads k w) key = Found a" "agentPass k url key w = (Publish a', w')"
  obtains (invalid) err where "AgentSpec_Validate (parseQuantity k) (ag_spec a) = Some err"
      "a' = invalidAgent k (observed a) err" "w' = w"
  | (resolved) res a2 where "AgentSpec_Validate (parseQuantity k) (ag_spec a) = None"
      "resolveRefs (reads k w) a = Inr res"
      "agentWorkloads k url (counted res (observed a)) res w = (Inr a2, w')"
      "a' = published k (reads k w') res a2"
  using assms
  by (auto simp: agentPass_def Let_def observed_def counted_def published_def
      split: option.splits sum.splits prod.splits if_splits)

lemma published_simps [simp]:
  "ag_spec (published k rd res a) = ag_spec a" "ag_meta (published k rd res a) = ag_meta a"
  "ast_observedGeneration (ag_status (published k rd res a)) = ast_observedGeneration (ag_status a)"
  "ast_resolvedRefs (ag_status (published k rd res a)) = ast_resolvedRefs (ag_status a)"
  "ast_peerEndpoint (ag_status (published k rd res a)) = ast_peerEndpoint (ag_status a)"
  "ast_workspaceClaim (ag_status (published k rd res a)) = ast_workspaceClaim (ag_status a)"
  "ast_runtimeAvailableReplicas (ag_status (published k rd res a)) = ast_runtimeAvailableReplicas (ag_status a)"
  by (simp_all add: published_def missingAgent_def decidedAgent_def Let_def)

lemma workloadStatus_keeps [simp]:
  "ast_observedGeneration (ag_status (workloadStatus rd a res)) = ast_observedGeneration (ag_status a)"
  "ast_resolvedRefs (ag_status (workloadStatus rd a res)) = ast_resolvedRefs (ag_status a)"
  by (simp_all add: workloadStatus_def runtimeStatus_def Let_def split: got.split)

lemma stamp_simps [simp]:
  "ag_spec (stamp rv a) = ag_spec a" "ag_status (stamp rv a) = ag_status a"
  "ag_name (stamp rv a) = ag_name a" "ag_namespace (stamp rv a) = ag_namespace a"
  "meta_generation (ag_meta (stamp rv a)) = meta_generation (ag_meta a)"
  by (simp_all add: stamp_def)

lemma alike_stamp: "alike (stamp rv a) a"
  by (auto simp: alike_def stamp_def)

context api_server
begin

lemma setCondition_stable:
  "condition_of cs t = Some (st, r, m, g) \<Longrightarrow> setCondition k cs t st r m g = cs"
  unfolding setCondition_def by (rule stable_conditions.upsert_stable [OF conditions]) simp

lemma condition_of_set:
  "condition_of (setCondition k cs t st r m g) u = (if u = t then Some (st, r, m, g) else condition_of cs u)"
  by (rule condition_of_setCondition) (rule stable_conditions.axioms(1) [OF conditions])

lemmas condition_stable = setCondition_stable condition_of_set

lemma invalid_stable: "invalidAgent k (stamp rv (invalidAgent k a err)) err = stamp rv (invalidAgent k a err)"
  by (simp add: invalidAgent_def Let_def stamp_def condition_stable)

lemma published_stable:
  assumes "agentViolations rd' (stamp rv (published k rd res a)) res = agentViolations rd a res"
  shows "published k rd' res (stamp rv (published k rd res a)) = stamp rv (published k rd res a)"
proof (cases "res_missing res = []")
  case True
  with assms have "agentViolations rd' (stamp rv (decidedAgent k rd a res)) res = agentViolations rd a res"
    by (simp add: published_def)
  with True show ?thesis
    by (cases "agentViolations rd a res = []")
       (simp_all add: published_def decidedAgent_def Let_def stamp_def condition_stable)
qed (simp add: published_def missingAgent_def Let_def stamp_def condition_stable)

text \<open>An Agent whose next pass has nothing to do.\<close>

definition settled_at :: "string \<Rightarrow> reader \<Rightarrow> agent \<Rightarrow> bool" where
  "settled_at url rd a \<longleftrightarrow>
    (case AgentSpec_Validate (parseQuantity k) (ag_spec a) of
       Some err \<Rightarrow> invalidAgent k (observed a) err = a
     | None \<Rightarrow> (\<forall>res. resolveRefs rd a = Inr res \<longrightarrow> counted res (observed a) = a \<and>
         workloads_in_place url rd a res \<and> status_settled rd a res \<and> published k rd res a = a))"

lemma settled_pass:
  assumes a: "getAgent (reads k w) key = Found a" and s: "settled_at url (reads k w) a"
    and p: "agentPass k url key w = (Publish c, w2)"
  shows "c = a \<and> reads k w2 = reads k w"
  using a p
proof (cases rule: agentPass_steps)
  case (invalid err)
  with s show ?thesis by (simp add: settled_at_def)
next
  case (resolved res a2)
  with s have st: "counted res (observed a) = a" "workloads_in_place url (reads k w) a res"
    "status_settled (reads k w) a res" "published k (reads k w) res a = a"
    by (simp_all add: settled_at_def)
  note second = resolved(3) [unfolded st(1)]
  have w2: "reads k w2 = reads k w" by (rule workloads_rewritten [OF st(2) second])
  have "a2 = a" using workloads_written(2) [OF second] workloadStatus_settled [OF st(3)] w2 by simp
  with resolved(4) st(4) w2 show ?thesis by simp
qed

lemma pass_settles:
  assumes a: "getAgent (reads k w) key = Found a" and p: "agentPass k url key w = (Publish a', w')"
    and key: "key = NamespacedName (ag_namespace a) (ag_name a)"
    and w1: "reads k w1 = (reads k w')\<lparr>getAgent := (getAgent (reads k w'))(key := Found (stamp rv a'))\<rparr>"
  shows "settled_at url (reads k w1) (stamp rv a')"
  using a p
proof (cases rule: agentPass_steps)
  case (invalid err)
  have s: "ag_spec a' = ag_spec a" by (simp add: invalid(2) invalidAgent_def observed_def Let_def)
  have "observed (stamp rv a') = stamp rv a'" by (simp add: observed_def invalid(2) invalidAgent_def Let_def stamp_def)
  with s invalid invalid_stable show ?thesis by (simp add: settled_at_def)
next
  case (resolved res a2)
  let ?c = "stamp rv a'" and ?b = "counted res (observed a)"
  note wr = workloads_written [OF resolved(3)]
  have meta: "ag_spec a' = ag_spec a" "ag_meta a' = ag_meta a"
    by (simp_all add: resolved(4) wr(2) counted_def observed_def)
  have al: "alike ?c a" using alike_stamp [of rv a'] meta by (simp add: alike_def)
  have alb: "alike ?c ?b" using al by (simp add: alike_def counted_def observed_def)
  have al2: "alike ?c a2" using al by (simp add: alike_def wr(2) counted_def observed_def)
  have sr: "same_refs (reads k w1) (reads k w)"
    using workloads_onlyD(2) [OF wr(3)] by (simp add: w1 same_refs_def)
  have res: "resolveRefs (reads k w1) ?c = Inr res"
    using resolveRefs_same_refs [OF sr al] resolved(2) by simp
  have o: "counted res (observed ?c) = ?c"
    by (simp add: counted_def observed_def meta resolved(4) wr(2) stamp_def)
  have "same_refs (reads k w1) (reads k w')" by (simp add: w1 same_refs_def)
  then have inp: "workloads_in_place url (reads k w1) ?c res"
    using workloads_in_place_cong [OF alb, of "reads k w1" "reads k w'"] wr(1) by (simp add: w1)
  have "status_settled (reads k w') a2 res" unfolding wr(2) by (rule workloadStatus_settles)
  then have st: "status_settled (reads k w1) ?c res"
    unfolding status_settled_def alike_base [OF al2] alike_simps [OF al2] by (simp add: w1 resolved(4))
  have "agentViolations (reads k w1) ?c res = agentViolations (reads k w') a2 res"
  proof (rule agentViolations_same_reads [OF al2])
    fix n assume "n \<noteq> ag_name a2"
    then show "getAgent (reads k w1) (NamespacedName (ag_namespace a2) n) =
      getAgent (reads k w') (NamespacedName (ag_namespace a2) n)"
      by (simp add: w1 key wr(2) counted_def observed_def)
  qed
  then have "published k (reads k w1) res ?c = ?c"
    using published_stable [of "reads k w1" rv "reads k w'" res a2] resolved(4) by simp
  with o inp st res resolved(1) meta show ?thesis by (simp add: settled_at_def)
qed

lemma pass_meta:
  assumes "getAgent (reads k w) key = Found a" "agentPass k url key w = (Publish a', w')"
  shows "ag_spec a' = ag_spec a" "ag_meta a' = ag_meta a"
proof -
  have "ag_spec a' = ag_spec a \<and> ag_meta a' = ag_meta a"
    using assms
  proof (cases rule: agentPass_steps)
    case (resolved res a2)
    from workloads_written(2) [OF resolved(3)] resolved(4) show ?thesis by (simp add: counted_def observed_def)
  qed (simp add: invalidAgent_def observed_def Let_def)
  then show "ag_spec a' = ag_spec a" "ag_meta a' = ag_meta a" by simp_all
qed

lemma reconcile_written:
  assumes "Agent_Reconcile k url key w = (None, w1)" and "getAgent (reads k w) key = Found a"
    and "key = NamespacedName (ag_namespace a) (ag_name a)"
  obtains a' w' rv where "agentPass k url key w = (Publish a', w')" "statusUpdate k (OAgent a') w' = (None, w1)"
    "reads k w1 = (reads k w')\<lparr>getAgent := (getAgent (reads k w'))(key := Found (stamp rv a'))\<rparr>"
    "alike (stamp rv a') a"
proof -
  obtain r w' where p: "agentPass k url key w = (r, w')" by fastforce
  have "r \<noteq> Stop None" using p assms(2)
    by (auto simp: agentPass_def Let_def split: option.splits sum.splits prod.splits if_splits)
  with p assms(1) obtain a' where r: "r = Publish a'" and s: "statusUpdate k (OAgent a') w' = (None, w1)"
    by (cases r) (auto simp: Agent_Reconcile_def)
  note m = pass_meta [OF assms(2) p [unfolded r]]
  from status_written [OF s] obtain rv where
    "reads k w1 = (reads k w')\<lparr>getAgent := (getAgent (reads k w'))(key := Found (stamp rv a'))\<rparr>"
    using assms(3) m by auto
  moreover have "alike (stamp rv a') a" using alike_stamp [of rv a'] m by (simp add: alike_def)
  ultimately show thesis using that p r s by blast
qed

definition keyed :: "namespaced_name \<Rightarrow> 'w \<Rightarrow> bool" where
  "keyed key w \<longleftrightarrow> (\<forall>a. getAgent (reads k w) key = Found a \<longrightarrow> key = NamespacedName (ag_namespace a) (ag_name a))"

text \<open>A pass that succeeds after a pass that succeeded, with nobody else writing, changes nothing.\<close>

lemma reconcile_settled:
  assumes "Agent_Reconcile k url key w = (None, w1)" "Agent_Reconcile k url key w1 = (None, w2)" "keyed key w"
  shows "reads k w2 = reads k w1" "keyed key w1"
proof -
  have "reads k w2 = reads k w1 \<and> keyed key w1"
  proof (cases "getAgent (reads k w) key")
    case (Found a)
    with assms(3) have key: "key = NamespacedName (ag_namespace a) (ag_name a)" by (simp add: keyed_def)
    obtain a' w' rv where p: "agentPass k url key w = (Publish a', w')" and
      r: "reads k w1 = (reads k w')\<lparr>getAgent := (getAgent (reads k w'))(key := Found (stamp rv a'))\<rparr>" and
      al: "alike (stamp rv a') a"
      using reconcile_written [OF assms(1) Found key] by blast
    have c: "getAgent (reads k w1) key = Found (stamp rv a')" by (simp add: r)
    have kc: "key = NamespacedName (ag_namespace (stamp rv a')) (ag_name (stamp rv a'))"
      unfolding alike_base [OF al] by (rule key)
    obtain c' v where p': "agentPass k url key w1 = (Publish c', v)" and s: "statusUpdate k (OAgent c') v = (None, w2)"
      using reconcile_written [OF assms(2) c kc] by blast
    from settled_pass [OF c pass_settles [OF Found p key r] p'] have "c' = stamp rv a'" "reads k v = reads k w1" by simp_all
    with status_same [OF s] c kc have "reads k w2 = reads k w1" by simp
    with c kc show ?thesis by (simp add: keyed_def)
  qed (use assms in \<open>auto simp: Agent_Reconcile_def agentPass_def keyed_def\<close>)
  then show "reads k w2 = reads k w1" "keyed key w1" by simp_all
qed

end
section \<open>A server in memory\<close>

text \<open>
  A server that keeps what it is sent, refuses the status of an Agent it no longer has in that form,
  gives a changed Agent the next resource version, fills in a Deployment's update strategy, and
  writes nothing when nothing changes.
\<close>

definition defaulted :: "deployment \<Rightarrow> deployment" where
  "defaulted d = d\<lparr>dep_strategy := (if dep_strategy d = [] then ''RollingUpdate'' else dep_strategy d)\<rparr>"

fun store_status :: "client_object \<Rightarrow> reader \<Rightarrow> go_error \<times> reader" where
  "store_status (OAgent a) rd =
    (let key = NamespacedName (ag_namespace a) (ag_name a) in
     case getAgent rd key of
       Found b \<Rightarrow>
         (if \<not> same_agent b a then (Some ''conflict'', rd)
          else if b = a then (None, rd)
          else (None, rd\<lparr>getAgent := (getAgent rd)(key := Found (stamp (meta_resourceVersion (ag_meta b) @ ''1'') a))\<rparr>))
     | _ \<Rightarrow> (Some ''not found'', rd))"
| "store_status obj rd = (None, rd)"

definition store_object ::
  "(namespaced_name \<Rightarrow> 'a got) \<Rightarrow> 'a \<Rightarrow> ((namespaced_name \<Rightarrow> 'a got) \<Rightarrow> reader) \<Rightarrow> ('a \<Rightarrow> 'a) \<Rightarrow>
   namespaced_name \<Rightarrow> ('a \<Rightarrow> string + 'a) \<Rightarrow> reader \<Rightarrow> go_error \<times> reader" where
  "store_object get blank put admit key f rd =
    (case base_of (get key) blank of
       None \<Rightarrow> (Some ''get failed'', rd)
     | Some x \<Rightarrow> (case f x of Inl e \<Rightarrow> (Some e, rd) | Inr y \<Rightarrow> (None, put (get(key := Found (admit y))))))"

definition store_kube :: "reader kube" where
  "store_kube =
    \<lparr>reads = (\<lambda>rd. rd), statusUpdate = store_status,
     createOrUpdateDeployment = (\<lambda>key f rd.
       store_object (getDeployment rd) (blank_deployment key) (\<lambda>g. rd\<lparr>getDeployment := g\<rparr>) defaulted key f rd),
     createOrUpdateService = (\<lambda>key f rd.
       store_object (getService rd) (blank_service key) (\<lambda>g. rd\<lparr>getService := g\<rparr>) (\<lambda>s. s) key f rd),
     createPVC = (\<lambda>p rd. if getPVC rd (pvc_key p) = NotFound
       then (WriteOk, rd\<lparr>getPVC := (getPVC rd)(pvc_key p := Found p)\<rparr>) else (WriteAlreadyExists, rd)),
     deleteDeployment = (\<lambda>d rd. (WriteOk, rd\<lparr>getDeployment := (getDeployment rd)(dep_key d := NotFound)\<rparr>)),
     deleteService = (\<lambda>s rd. (WriteOk, rd\<lparr>getService := (getService rd)(svc_key s := NotFound)\<rparr>)),
     setStatusCondition = upsertCondition ''now'',
     setControllerReference = (\<lambda>m owners. Inr [\<lparr>owner_kind = ''CR'', owner_name = meta_name m, owner_controller = True\<rparr>]),
     isControlledBy = (\<lambda>owners m. list_ex (\<lambda>r. owner_name r = meta_name m \<and> owner_controller r) owners),
     parseQuantity = Inr\<rparr>"

lemma store_object_written:
  "store_object get blank put admit key f rd = (None, rd') \<Longrightarrow>
   \<exists>x y. base_of (get key) blank = Some x \<and> f x = Inr y \<and> rd' = put (get(key := Found (admit y)))"
  by (auto simp: store_object_def split: option.splits sum.splits)

lemma store_status_accepted:
  assumes "getAgent rd (NamespacedName (ag_namespace a) (ag_name a)) = Found b" "same_agent b a"
  shows "\<exists>rd'. store_status (OAgent a) rd = (None, rd')"
  using assms by (cases "b = a") (simp_all add: Let_def)

lemma store_status_written:
  assumes "store_status (OAgent a) rd = (None, rd')"
  shows "\<exists>rv. rd' = rd\<lparr>getAgent := (getAgent rd)(NamespacedName (ag_namespace a) (ag_name a) := Found (stamp rv a))\<rparr>"
proof (cases "getAgent rd (NamespacedName (ag_namespace a) (ag_name a)) = Found a")
  case True
  moreover have "stamp (meta_resourceVersion (ag_meta a)) a = a" by (simp add: stamp_def)
  ultimately have "rd' = rd\<lparr>getAgent := (getAgent rd)(NamespacedName (ag_namespace a) (ag_name a) :=
      Found (stamp (meta_resourceVersion (ag_meta a)) a))\<rparr>"
    using assms by (simp add: Let_def fun_upd_idem same_agent_def)
  then show ?thesis by blast
next
  case False
  with assms show ?thesis by (auto simp: Let_def split: got.splits if_splits)
qed

interpretation store: api_server store_kube defaulted "\<lambda>s. s"
proof (rule api_server.intro)
  show "stable_conditions (setStatusCondition store_kube)"
    by (simp add: store_kube_def stc.stable_conditions_axioms)
  show "createPVC store_kube p w = (WriteOk, w') \<Longrightarrow>
      \<exists>p'. reads store_kube w' = (reads store_kube w)\<lparr>getPVC := (getPVC (reads store_kube w))(pvc_key p := Found p')\<rparr>" for p w w'
    by (auto simp: store_kube_def split: if_splits)
  show "statusUpdate store_kube (OAgent a) w = (None, w') \<Longrightarrow>
      \<exists>rv. reads store_kube w' = (reads store_kube w)\<lparr>getAgent := (getAgent (reads store_kube w))
             (NamespacedName (ag_namespace a) (ag_name a) := Found (stamp rv a))\<rparr>" for a w w'
    using store_status_written by (simp add: store_kube_def)
qed (auto simp: store_kube_def defaulted_def Let_def same_agent_def dest!: store_object_written store_status_written)

section \<open>Passes in a row\<close>

text \<open>A number of passes, one after the other; a pass that fails ends the run.\<close>

fun passes :: "'w kube \<Rightarrow> string \<Rightarrow> namespaced_name \<Rightarrow> nat \<Rightarrow> 'w \<Rightarrow> 'w option" where
  "passes k url key 0 w = Some w"
| "passes k url key (Suc n) w =
    (case Agent_Reconcile k url key w of (None, w') \<Rightarrow> passes k url key n w' | (Some e, w') \<Rightarrow> None)"

lemma passes_settled:
  assumes "api_server k admitD admitS" "Agent_Reconcile k url key w = (None, w1)"
    "api_server.keyed k key w" "passes k url key n w1 = Some w'"
  shows "reads k w' = reads k w1"
  using assms(2-4)
proof (induction n arbitrary: w w1)
  case (Suc n)
  then obtain w2 where w2: "Agent_Reconcile k url key w1 = (None, w2)" "passes k url key n w2 = Some w'"
    by (auto split: prod.splits option.splits)
  note s = api_server.reconcile_settled [OF assms(1) Suc.prems(1) w2(1) Suc.prems(2)]
  from Suc.IH [OF w2(1) s(2) w2(2)] s(1) show ?case by simp
qed simp

lemma store_plain_pass:
  assumes "getAgent rd key = Found a" "key = NamespacedName (ag_namespace a) (ag_name a)"
    and "AgentSpec_Validate Inr (ag_spec a) = None" "as_runtime (ag_spec a) = None" "as_expose (ag_spec a) = None"
    and "resolveRefs rd a = Inr res"
  obtains a' rd' where "Agent_Reconcile store_kube url key rd = (None, rd')" "getAgent rd' key = Found a'"
    "alike a' a" "same_refs rd' rd"
proof -
  have r: "reads store_kube = (\<lambda>rd. rd)" "parseQuantity store_kube = Inr" "statusUpdate store_kube = store_status"
    by (simp_all add: store_kube_def)
  have found: "getAgent (reads store_kube rd) key = Found a" using assms(1) by (simp add: r)
  have "\<exists>b. agentPass store_kube url key rd = (Publish b, rd)"
    by (rule plain_agent_pass [OF found _ assms(4,5)]) (simp_all only: r assms(3,6))
  then obtain b where p: "agentPass store_kube url key rd = (Publish b, rd)" by blast
  note b = store.pass_meta [OF found p]
  have kb: "NamespacedName (ag_namespace b) (ag_name b) = key" unfolding b(2) assms(2) by (rule refl)
  obtain rd' where u: "store_status (OAgent b) rd = (None, rd')"
    using store_status_accepted [of rd b a] assms(1) kb b by (auto simp: same_agent_def simp del: store_status.simps)
  from store_status_written [OF u] obtain rv where
    rd': "rd' = rd\<lparr>getAgent := (getAgent rd)(key := Found (stamp rv b))\<rparr>" unfolding kb by blast
  have "alike (stamp rv b) a" using alike_stamp [of rv b] b by (simp add: alike_def)
  moreover have "Agent_Reconcile store_kube url key rd = (None, rd')" by (simp add: Agent_Reconcile_def p u r del: store_status.simps)
  moreover have "getAgent rd' key = Found (stamp rv b)" "same_refs rd' rd" by (simp_all add: rd' same_refs_def)
  ultimately show thesis using that by blast
qed

text \<open>
  Passes of one Agent settle: if nobody else writes, any number of further successful
  passes leaves the cluster exactly as the first successful pass did, workloads and status
  included, so the events of its own writes cannot keep it running. It rests on the server only
  through the laws of \<open>api_server\<close>; the server may fill in defaults and stamp resource versions.
\<close>

lemma agent_reconcile_settles:
  assumes "api_server k admitDeployment admitService"
    and "\<And>a. getAgent (reads k w) key = Found a \<Longrightarrow> key = NamespacedName (ag_namespace a) (ag_name a)"
    and "passes k url key 1 w = Some w1" and "passes k url key (Suc n) w = Some w'"
  shows "reads k w' = reads k w1"
proof -
  from assms(3) have r: "Agent_Reconcile k url key w = (None, w1)" by (auto split: prod.splits option.splits)
  have "api_server.keyed k key w" using assms(2) api_server.keyed_def [OF assms(1)] by blast
  with r assms(4) show ?thesis by (intro passes_settled [OF assms(1) r]) simp_all
qed


end
