(* ===== verification/Agent_Decision.thy ===== *)
theory Agent_Decision
  imports Agent_Controller
begin

text \<open>
  The abstract specification of an Agent's reconciliation and the refinement to the code of
  \<open>Agent_Controller\<close>. The specification knows four facts about an Agent (its spec is valid, its
  references exist, it is admitted, the hash of what it resolves to) and decides one of four
  states; the abstraction function reads the state off the published conditions. The pass
  implements the decision: it computes the state the specification decides, whatever status
  the Agent carried before, and the phase and the published hash are functions of that state.
\<close>

section \<open>The specification\<close>

datatype agent_state = SUnknown | SInvalid | SMissing | SRefused | SReady string

record agent_facts =
  fa_valid :: bool
  fa_exist :: bool
  fa_admitted :: bool
  fa_hash :: string

definition decide :: "agent_facts \<Rightarrow> agent_state" where
  "decide f =
    (if \<not> fa_valid f then SInvalid
     else if \<not> fa_exist f then SMissing
     else if \<not> fa_admitted f then SRefused
     else SReady (fa_hash f))"

fun state_phase :: "agent_state \<Rightarrow> string" where
  "state_phase (SReady _) = AgentPhaseReady"
| "state_phase SUnknown = AgentPhasePending"
| "state_phase _ = AgentPhaseDegraded"

fun state_hash :: "agent_state \<Rightarrow> string" where
  "state_hash (SReady h) = h"
| "state_hash _ = []"

section \<open>The abstraction\<close>

text \<open>The facts as the cluster holds them: references before the writes of the pass, peers after.\<close>

definition agent_facts_of :: "quantity_parser \<Rightarrow> reader \<Rightarrow> reader \<Rightarrow> agent \<Rightarrow> agent_facts" where
  "agent_facts_of pq rd rd' a =
    \<lparr>fa_valid = (AgentSpec_Validate pq (ag_spec a) = None),
     fa_exist = references_exist rd a,
     fa_admitted = (case resolveRefs rd a of Inl _ \<Rightarrow> False | Inr res \<Rightarrow> admitted rd' a res),
     fa_hash = (case resolveRefs rd a of Inl _ \<Rightarrow> [] | Inr res \<Rightarrow> configHash (res_refs res))\<rparr>"

definition abs_state :: "agent_status \<Rightarrow> agent_state" where
  "abs_state st =
    (case condition_of (ast_conditions st) ConditionReady of
       None \<Rightarrow> SUnknown
     | Some (status, reason, _) \<Rightarrow>
        (if status = ConditionTrue then SReady (ast_resolvedConfigHash st)
         else if reason = ReasonInvalidSpec then SInvalid
         else if reason = ReasonReferenceMissing then SMissing
         else if reason = ReasonPolicyViolation then SRefused
         else SUnknown))"

definition implements :: "agent_status \<Rightarrow> agent_state \<Rightarrow> bool" where
  "implements st s \<longleftrightarrow> abs_state st = s \<and> ast_phase st = state_phase s \<and> ast_resolvedConfigHash st = state_hash s"

context condition_writer
begin

lemma invalidAgent_implements: "implements (ag_status (invalidAgent k b err)) SInvalid"
  by (simp add: implements_def abs_state_def invalidAgent_def Let_def condition_of_setCondition [OF sc])

lemma missingAgent_implements: "implements (ag_status (missingAgent k b ms)) SMissing"
  by (simp add: implements_def abs_state_def missingAgent_def Let_def condition_of_setCondition [OF sc])

lemma decidedAgent_implements:
  assumes "same_agent b a"
  shows "implements (ag_status (decidedAgent k rd b res))
           (if admitted rd a res then SReady (configHash (res_refs res)) else SRefused)"
  using agentViolations_same [OF assms, of rd res]
  by (simp add: implements_def abs_state_def decidedAgent_def Let_def condition_of_setCondition [OF sc])

end

lemma agent_facts_same: "same_agent b a \<Longrightarrow> agent_facts_of pq rd rd' b = agent_facts_of pq rd rd' a"
proof -
  assume s: "same_agent b a"
  have "b = a\<lparr>ag_status := ag_status b\<rparr>" using s by (cases a; cases b) (simp add: same_agent_def)
  then have r: "resolveRefs rd b = resolveRefs rd a" by (metis resolveRefs_status)
  have "agent_eff rd b = agent_eff rd a"
    using s by (auto simp: same_agent_def agent_eff_def agentClassOf_def split: option.split)
  then have "references_exist rd b \<longleftrightarrow> references_exist rd a"
    using s by (simp add: references_exist_def Let_def same_agent_def)
  with s r show ?thesis
    by (auto simp: agent_facts_of_def admitted_same [OF s] same_agent_def split: sum.split)
qed

lemma agentPass_implements:
  assumes sc: "status_conditions (setStatusCondition k)"
    and "getAgent (reads k w) key = Found a" and "agentPass k url key w = (Publish a', w')"
  shows "implements (ag_status a') (decide (agent_facts_of (parseQuantity k) (reads k w) (reads k w') a))"
  using assms(2,3)
proof (cases rule: agentPass_Publish)
  case (invalid b err)
  with condition_writer.invalidAgent_implements [OF condition_writer.intro [OF sc], of b err] show ?thesis
    by (simp add: decide_def agent_facts_of_def)
next
  case (missing b res)
  with condition_writer.missingAgent_implements [OF condition_writer.intro [OF sc], of b "res_missing res"]
    resolveRefs_missing_Nil [OF missing(2)] show ?thesis
    by (simp add: decide_def agent_facts_of_def)
next
  case (decided b res)
  with condition_writer.decidedAgent_implements [OF condition_writer.intro [OF sc] decided(4), of "reads k w'" res]
    resolveRefs_missing_Nil [OF decided(2)] show ?thesis
    by (auto simp: decide_def agent_facts_of_def)
qed

section \<open>Properties\<close>

text \<open>
  C4. Reconciliation refines the decision: the state a reader takes from a published status is the one
  the specification decides from the facts in the cluster; the phase is Ready and the hash is
  set exactly in the Ready state, and Degraded and cleared in the three others; the status is
  for the same Agent and its current generation. Reconciling an Agent that differs only in
  the status it carries decides the same, so a verdict never depends on an earlier one.
\<close>

theorem agentPass_refines_decision:
  assumes "status_conditions (setStatusCondition k)"
    and "getAgent (reads k w) key = Found a" and "agentPass k url key w = (Publish a', w')"
  shows "let s = decide (agent_facts_of (parseQuantity k) (reads k w) (reads k w') a) in
         abs_state (ag_status a') = s \<and> ast_phase (ag_status a') = state_phase s \<and>
         ast_resolvedConfigHash (ag_status a') = state_hash s \<and> status_current a' a \<and>
         decide (agent_facts_of (parseQuantity k) (reads k w) (reads k w') (a\<lparr>ag_status := st\<rparr>)) = s"
  using agentPass_implements [OF assms] agent_ready_lemma [OF assms]
    agent_facts_same [of "a\<lparr>ag_status := st\<rparr>" a]
  by (simp add: implements_def Let_def same_agent_def)

theorem agentPass_refines_decision_witness:
  "\<exists>a' s. agentPass recording_kube [] (NamespacedName ''default'' ''bot'') (sample_reader, []) =
            (Publish a', sample_reader, []) \<and>
          abs_state (ag_status a') = s \<and> ast_phase (ag_status a') = state_phase s"
proof -
  obtain a' where p: "agentPass recording_kube [] (NamespacedName ''default'' ''bot'') (sample_reader, []) =
      (Publish a', sample_reader, [])" by (rule sample_pass)
  from agentPass_refines_decision [OF recording_kube_conditions sample_get p] p show ?thesis
    by (auto simp: Let_def)
qed

end
