(* ===== verification/Control_Loop.thy ===== *)
theory Control_Loop
  imports Agent_Settles Agent_Decision Field_Index
begin

text \<open>
  The Agent controller at work: the cluster, the work queue its watches fill
  (\<^verbatim>\<open>SetupWithManager\<close> of \<^verbatim>\<open>agent_controller.go\<close>) and the one worker that takes a key, runs the pass
  and writes the status. Users change objects at any moment, also while a pass is under way.
  The work list argument: an Agent whose verdict may be out of date is queued or in the
  worker's hands, so when the queue is empty and the worker idle every published verdict is the one
  the cluster calls for.
\<close>

section \<open>What a verdict depends on\<close>

text \<open>The objects a pass for an Agent looks at.\<close>

definition depends_on :: "reader \<Rightarrow> agent \<Rightarrow> object_kind \<Rightarrow> string \<Rightarrow> bool" where
  "depends_on rd a kd n \<longleftrightarrow>
     (\<exists>t\<in>set (agent_tgts rd a). tgt_obj t = kd \<and> tgt_name t = n) \<or> (kd = KTool \<and> reaches_tool rd a n)"

text \<open>The Agent with this key answers its peers, or cannot be read right now.\<close>

definition answers :: "reader \<Rightarrow> namespaced_name \<Rightarrow> bool" where
  "answers rd key \<longleftrightarrow>
     (case getAgent rd key of
        Found t \<Rightarrow> as_expose (ag_spec t) \<noteq> None | NotFound \<Rightarrow> False | Failed _ \<Rightarrow> True)"

text \<open>A Tool of the namespace declares the Agent with this key as its peer.\<close>

definition peer_of_tool :: "reader \<Rightarrow> namespaced_name \<Rightarrow> bool" where
  "peer_of_tool rd key \<longleftrightarrow>
     (\<exists>n t. getTool rd (NamespacedName (nn_namespace key) n) = Found t \<and>
        map_option ref_name (tos_agentRef (to_spec t)) = Some (nn_name key))"

lemma map_got_inj: "inj f \<Longrightarrow> map_got f x = map_got f y \<Longrightarrow> x = y"
  by (cases x; cases y) (auto dest: injD)

lemma getObject_eqD:
  "getObject rd' KAgentClass key = getObject rd KAgentClass key \<Longrightarrow> getAgentClass rd' key = getAgentClass rd key"
  "getObject rd' KToolSet key = getObject rd KToolSet key \<Longrightarrow> getToolSet rd' key = getToolSet rd key"
  "getObject rd' KTool key = getObject rd KTool key \<Longrightarrow> getTool rd' key = getTool rd key"
  "getObject rd' KAgent key = getObject rd KAgent key \<Longrightarrow> getAgent rd' key = getAgent rd key"
  using map_got_inj [of OAgentClass] map_got_inj [of OToolSet] map_got_inj [of OTool] map_got_inj [of OAgent]
  by (simp_all add: inj_def)

lemma resolveLoop_cong:
  "\<forall>t\<in>set ts. tgt_get rd' ns t = tgt_get rd ns t \<Longrightarrow> resolveLoop rd' ns ts res = resolveLoop rd ns ts res"
  by (induction ts arbitrary: res) (simp_all add: tgt_get_def split: got.split)

locale same_dependencies =
  fixes rd rd' :: reader and a :: agent
  assumes same: "depends_on rd a kd n \<Longrightarrow>
    getObject rd' kd (NamespacedName (ag_namespace a) n) = getObject rd kd (NamespacedName (ag_namespace a) n)"
begin

lemma same_targets: "t \<in> set (agent_tgts rd a) \<Longrightarrow> tgt_get rd' (ag_namespace a) t = tgt_get rd (ag_namespace a) t"
  unfolding tgt_get_def by (rule same) (auto simp: depends_on_def)

lemma same_class: "agentClassOf rd' a = agentClassOf rd a"
proof (cases "as_agentClassRef (ag_spec a)")
  case (Some r)
  then have "mkTarget ''AgentClass'' KAgentClass r \<in> set (agent_tgts rd a)"
    by (simp add: agent_tgts_def agentTargets_def optTarget_def)
  then have "depends_on rd a KAgentClass (ref_name r)" by (force simp: depends_on_def)
  from getObject_eqD(1) [OF same [OF this]] Some show ?thesis by (simp add: agentClassOf_def)
qed (simp add: agentClassOf_def)

lemma same_eff: "agent_eff rd' a = agent_eff rd a"
  by (simp add: agent_eff_def same_class)

lemma same_tgts: "agent_tgts rd' a = agent_tgts rd a"
  by (simp add: agent_tgts_def same_eff)

lemma same_toolSet:
  assumes "r \<in> set (as_toolSetRefs (agent_eff rd a))"
  shows "getToolSet rd' (NamespacedName (ag_namespace a) (ref_name r)) = getToolSet rd (NamespacedName (ag_namespace a) (ref_name r))"
proof -
  have "mkTarget ''ToolSet'' KToolSet r \<in> set (agent_tgts rd a)"
    using assms by (simp add: agent_tgts_def agentTargets_def)
  then have "depends_on rd a KToolSet (ref_name r)" by (force simp: depends_on_def)
  from getObject_eqD(2) [OF same [OF this]] show ?thesis .
qed

lemma same_toolNames:
  "toolNames rd' (ag_namespace a) (agent_eff rd a) = toolNames rd (ag_namespace a) (agent_eff rd a)"
  unfolding toolNames_def using same_toolSet by (simp cong: map_cong)

lemma same_tool:
  assumes "n \<in> set (toolNames rd (ag_namespace a) (agent_eff rd a))"
  shows "mcpNamesOf rd' (ag_namespace a) n = mcpNamesOf rd (ag_namespace a) n"
    and "peersOf rd' (ag_namespace a) n = peersOf rd (ag_namespace a) n"
proof -
  have "depends_on rd a KTool n" using assms by (simp add: set_toolNames depends_on_def)
  from getObject_eqD(3) [OF same [OF this]]
  show "mcpNamesOf rd' (ag_namespace a) n = mcpNamesOf rd (ag_namespace a) n"
    and "peersOf rd' (ag_namespace a) n = peersOf rd (ag_namespace a) n"
    by (simp_all add: mcpNamesOf_def peersOf_def)
qed

lemma same_exist: "references_exist rd' a \<longleftrightarrow> references_exist rd a"
  unfolding references_exist_iff same_tgts same_eff using same_targets by auto

lemma same_resolveRefs: "resolveRefs rd' a = resolveRefs rd a"
proof -
  let ?ns = "ag_namespace a" and ?eff = "agent_eff rd a"
  have loop: "resolveLoop rd' ?ns (agentTargets (ag_spec a) ?eff) res = resolveLoop rd ?ns (agentTargets (ag_spec a) ?eff) res" for res
    by (rule resolveLoop_cong) (use same_targets in \<open>simp add: agent_tgts_def\<close>)
  have maps: "map (mcpNamesOf rd' ?ns) (dedupe (toolNames rd ?ns ?eff)) = map (mcpNamesOf rd ?ns) (dedupe (toolNames rd ?ns ?eff))"
    "map (peersOf rd' ?ns) (dedupe (toolNames rd ?ns ?eff)) = map (peersOf rd ?ns) (dedupe (toolNames rd ?ns ?eff))"
    using same_tool by (intro map_cong refl, simp)+
  show ?thesis
    unfolding resolveRefs_def Let_def same_class agent_eff_def [symmetric] loop same_toolNames maps by (rule refl)
qed

lemma same_admitted:
  assumes "resolveRefs rd a = Inr res"
    and "\<And>p. p \<in> set (res_peers res) \<Longrightarrow>
      answers rd' (NamespacedName (ag_namespace a) (pr_agent p)) = answers rd (NamespacedName (ag_namespace a) (pr_agent p))"
  shows "admitted rd' a res \<longleftrightarrow> admitted rd a res"
  using assms(2) unfolding admitted_def peer_answers_def answers_def by simp

text \<open>The facts of an Agent are unchanged when what it depends on is, and its peers answer as before.\<close>

lemma same_facts:
  assumes "\<And>n. peer_of_tool rd (NamespacedName (ag_namespace a) n) \<Longrightarrow>
      answers rd' (NamespacedName (ag_namespace a) n) = answers rd (NamespacedName (ag_namespace a) n)"
  shows "agent_facts_of pq rd' rd' a = agent_facts_of pq rd rd a"
proof -
  have "admitted rd' a res \<longleftrightarrow> admitted rd a res" if res: "resolveRefs rd a = Inr res" for res
  proof (rule same_admitted [OF res])
    fix p assume "p \<in> set (res_peers res)"
    then obtain n where "p \<in> set (peersOf rd (ag_namespace a) n)"
      unfolding resolveRefs_declared(4) [OF res] by auto
    then have "peer_of_tool rd (NamespacedName (ag_namespace a) (pr_agent p))"
      unfolding set_peersOf peer_of_tool_def by auto
    then show "answers rd' (NamespacedName (ag_namespace a) (pr_agent p)) = answers rd (NamespacedName (ag_namespace a) (pr_agent p))"
      by (rule assms)
  qed
  then show ?thesis
    unfolding agent_facts_of_def same_resolveRefs same_exist by (simp split: sum.split)
qed

end

lemma objects_same:
  assumes "getObject rd' = getObject rd"
  shows "getAgent rd' = getAgent rd" "agent_facts_of pq rd' rd' a = agent_facts_of pq rd rd a"
    "agent_facts_of pq rd rd' a = agent_facts_of pq rd' rd' a"
proof -
  show g: "getAgent rd' = getAgent rd" by (rule ext, rule getObject_eqD(4)) (simp add: assms)
  have sd: "same_dependencies rd rd' a" by unfold_locales (simp add: assms)
  show "agent_facts_of pq rd' rd' a = agent_facts_of pq rd rd a"
    by (rule same_dependencies.same_facts [OF sd]) (simp add: answers_def g)
  show "agent_facts_of pq rd rd' a = agent_facts_of pq rd' rd' a"
    unfolding agent_facts_of_def same_dependencies.same_resolveRefs [OF sd] same_dependencies.same_exist [OF sd] ..
qed

text \<open>Writing workloads changes nothing an Agent depends on.\<close>

interpretation wl: same_dependencies rd "rd\<lparr>getDeployment := d, getService := s, getPVC := p\<rparr>" a for rd d s p a
proof
  fix kd n
  show "getObject (rd\<lparr>getDeployment := d, getService := s, getPVC := p\<rparr>) kd (NamespacedName (ag_namespace a) n) =
    getObject rd kd (NamespacedName (ag_namespace a) n)"
    by (cases kd) simp_all
qed

lemma agent_facts_alike:
  assumes "alike a b"
  shows "agent_facts_of pq rd rd' a = agent_facts_of pq rd rd' b"
proof -
  have r: "resolveRefs rd a = resolveRefs rd b"
    by (rule resolveRefs_same_refs [OF _ assms]) (simp add: same_refs_def)
  have "agent_eff rd a = agent_eff rd b" unfolding agent_eff_def alike_simps [OF assms] alike_base [OF assms] ..
  then have e: "references_exist rd a \<longleftrightarrow> references_exist rd b"
    unfolding references_exist_def alike_base [OF assms] by simp
  have "admitted rd' a res \<longleftrightarrow> admitted rd' b res" for res
    unfolding admitted_def peer_answers_def alike_base [OF assms] ..
  with r e show ?thesis unfolding agent_facts_of_def alike_base [OF assms] by (simp split: sum.split)
qed

section \<open>Changes and the watches that see them\<close>

text \<open>One object differs, created, changed or deleted; workloads may differ as well.\<close>

definition edited :: "object_kind \<Rightarrow> namespaced_name \<Rightarrow> reader \<Rightarrow> reader \<Rightarrow> bool" where
  "edited kd key rd rd' \<longleftrightarrow>
     (\<forall>kd' key'. (kd', key') \<noteq> (kd, key) \<longrightarrow> getObject rd' kd' key' = getObject rd kd' key')"

lemma editedD: "edited kd key rd rd' \<Longrightarrow> (kd', key') \<noteq> (kd, key) \<Longrightarrow> getObject rd' kd' key' = getObject rd kd' key'"
  unfolding edited_def by blast

text \<open>The references that have to carry names; the API schema demands it of all.\<close>

definition refs_carry_names :: "agent \<Rightarrow> bool" where
  "refs_carry_names a \<longleftrightarrow> class_ref_named a \<and> (\<forall>r\<in>set (as_toolSetRefs (ag_spec a)). ref_name r \<noteq> [])"

lemma class_target:
  "t \<in> set (agent_tgts rd a) \<Longrightarrow> tgt_obj t = KAgentClass \<Longrightarrow> t \<in> set (agent_tgts rd' a)"
proof -
  assume t: "t \<in> set (agent_tgts rd a)" "tgt_obj t = KAgentClass"
  have "t \<notin> set (gitTarget (ag_spec a))" using t(2) set_gitTarget [of t "ag_spec a"] by auto
  with t have "t \<in> set (optTarget ''AgentClass'' KAgentClass (as_agentClassRef (ag_spec a)))"
    unfolding agent_tgts_def agentTargets_def set_append set_map
    by (elim UnE) (auto simp: set_optTarget)
  then show ?thesis unfolding agent_tgts_def agentTargets_def by simp
qed

text \<open>A change does not break the route that leads to the changed object.\<close>

lemma depends_on_edited:
  assumes e: "edited kd (NamespacedName (ag_namespace a) n) rd rd'" and d: "depends_on rd a kd n"
  shows "depends_on rd' a kd n"
proof (cases "kd = KAgentClass")
  case True
  with d class_target show ?thesis by (fastforce simp: depends_on_def)
next
  case False
  have "getAgentClass rd' key = getAgentClass rd key" for key
    by (rule getObject_eqD(1), rule editedD [OF e]) (use False in simp)
  then have "agentClassOf rd' a = agentClassOf rd a" by (simp add: agentClassOf_def cong: option.case_cong)
  then have eff: "agent_eff rd' a = agent_eff rd a" by (simp add: agent_eff_def)
  have ts: "kd = KTool \<Longrightarrow> getToolSet rd' key = getToolSet rd key" for key
    by (rule getObject_eqD(2), rule editedD [OF e]) simp
  then have "kd = KTool \<Longrightarrow> reaches_tool rd' a n = reaches_tool rd a n" unfolding reaches_tool_def eff by simp
  with d show ?thesis unfolding depends_on_def agent_tgts_def eff by blast
qed

context indexed_cluster
begin

lemma dependency_enqueued:
  assumes "getAgent rd key = Found a" "refs_carry_names a" "depends_on rd a kd n" "n \<noteq> []"
  shows "key \<in> set (agentWatch l kd (nn_namespace key) n)"
  using assms target_enqueued [OF assms(1)] reached_tool_enqueued [OF assms(1)]
  unfolding depends_on_def refs_carry_names_def by blast

end

section \<open>The loop\<close>

definition agents_keyed :: "reader \<Rightarrow> bool" where
  "agents_keyed rd \<longleftrightarrow> (\<forall>key a. getAgent rd key = Found a \<longrightarrow> meta_key (ag_meta a) = key)"

text \<open>
  The state: the cluster, the keys that wait (the work queue holds a key at most once), and what
  the worker holds between the end of the pass and the status update.
\<close>

record 'w control_loop =
  lp_world :: 'w
  lp_queue :: "namespaced_name set"
  lp_flight :: "(namespaced_name \<times> agent) option"

text \<open>
  The steps. An object changes and its watch queues Agents; an Agent changes and queues itself
  (\<^verbatim>\<open>For\<close>), which no Agent that calls it as a peer notices, so a change of whether it answers is
  left out when a Tool names it; workloads change; a key is queued for any other reason
  (\<^verbatim>\<open>Owns\<close>, a resync, a retry). The worker takes a key and runs the pass; then it writes the status,
  which the server refuses if the Agent has changed since. A pass or a write that fails puts the key back.
\<close>

inductive loop_step :: "'w kube \<Rightarrow> string \<Rightarrow> ('w \<Rightarrow> lister) \<Rightarrow> 'w control_loop \<Rightarrow> 'w control_loop \<Rightarrow> bool"
  for k :: "'w kube" and url :: string and l :: "'w \<Rightarrow> lister" where
  object_changed: "edited kd key (reads k (lp_world s)) (reads k w) \<Longrightarrow> kd \<noteq> KAgent \<Longrightarrow> nn_name key \<noteq> [] \<Longrightarrow>
    indexed_cluster (reads k w) (l w) \<Longrightarrow>
    loop_step k url l s (s\<lparr>lp_world := w,
      lp_queue := lp_queue s \<union> set (agentWatch (l w) kd (nn_namespace key) (nn_name key))\<rparr>)"
| agent_changed: "edited KAgent key (reads k (lp_world s)) (reads k w) \<Longrightarrow> agents_keyed (reads k w) \<Longrightarrow>
    (peer_of_tool (reads k (lp_world s)) key \<longrightarrow> answers (reads k w) key = answers (reads k (lp_world s)) key) \<Longrightarrow>
    loop_step k url l s (s\<lparr>lp_world := w, lp_queue := insert key (lp_queue s)\<rparr>)"
| workload_changed: "getObject (reads k w) = getObject (reads k (lp_world s)) \<Longrightarrow>
    loop_step k url l s (s\<lparr>lp_world := w\<rparr>)"
| queued: "loop_step k url l s (s\<lparr>lp_queue := insert key (lp_queue s)\<rparr>)"
| decided: "lp_flight s = None \<Longrightarrow> key \<in> lp_queue s \<Longrightarrow> agentPass k url key (lp_world s) = (Publish a, w) \<Longrightarrow>
    loop_step k url l s (s\<lparr>lp_world := w, lp_queue := lp_queue s - {key}, lp_flight := Some (key, a)\<rparr>)"
| gone: "lp_flight s = None \<Longrightarrow> key \<in> lp_queue s \<Longrightarrow> agentPass k url key (lp_world s) = (Stop None, w) \<Longrightarrow>
    loop_step k url l s (s\<lparr>lp_world := w, lp_queue := lp_queue s - {key}\<rparr>)"
| failed: "lp_flight s = None \<Longrightarrow> key \<in> lp_queue s \<Longrightarrow> agentPass k url key (lp_world s) = (Stop (Some e), w) \<Longrightarrow>
    loop_step k url l s (s\<lparr>lp_world := w\<rparr>)"
| written: "lp_flight s = Some (key, a) \<Longrightarrow> statusUpdate k (OAgent a) (lp_world s) = (None, w) \<Longrightarrow>
    loop_step k url l s (s\<lparr>lp_world := w, lp_flight := None,
      lp_queue := (if getAgent (reads k w) key = getAgent (reads k (lp_world s)) key then lp_queue s
                   else insert key (lp_queue s))\<rparr>)"
| refused: "lp_flight s = Some (key, a) \<Longrightarrow> statusUpdate k (OAgent a) (lp_world s) = (Some e, w) \<Longrightarrow>
    loop_step k url l s (s\<lparr>lp_world := w, lp_flight := None, lp_queue := insert key (lp_queue s)\<rparr>)"

text \<open>A controller starts idle, with every Agent queued by the first list of its informer.\<close>

definition loop_start :: "'w kube \<Rightarrow> 'w control_loop \<Rightarrow> bool" where
  "loop_start k s \<longleftrightarrow> agents_keyed (reads k (lp_world s)) \<and> lp_flight s = None \<and>
     (\<forall>key a. getAgent (reads k (lp_world s)) key = Found a \<longrightarrow> key \<in> lp_queue s)"

inductive loop_run :: "'w kube \<Rightarrow> string \<Rightarrow> ('w \<Rightarrow> lister) \<Rightarrow> 'w control_loop \<Rightarrow> bool"
  for k :: "'w kube" and url :: string and l :: "'w \<Rightarrow> lister" where
  start: "loop_start k s \<Longrightarrow> loop_run k url l s"
| step: "loop_run k url l s \<Longrightarrow> loop_step k url l s s' \<Longrightarrow> loop_run k url l s'"

section \<open>The server, once more\<close>

text \<open>
  What the loop needs beyond \<open>api_server\<close>: a status update is refused when the Agent is not the
  one that was read, a refused one changes nothing, and writing workloads changes no other object.
\<close>

locale locking_server = api_server +
  assumes status_locked: "statusUpdate k (OAgent a) w = (None, w') \<Longrightarrow>
      \<exists>b. getAgent (reads k w) (NamespacedName (ag_namespace a) (ag_name a)) = Found b \<and> same_agent b a"
    and status_refused: "statusUpdate k (OAgent a) w = (Some e, w') \<Longrightarrow> getObject (reads k w') = getObject (reads k w)"
    and deployment_keeps: "createOrUpdateDeployment k key f w = (r, w') \<Longrightarrow> getObject (reads k w') = getObject (reads k w)"
    and service_keeps: "createOrUpdateService k key g w = (r, w') \<Longrightarrow> getObject (reads k w') = getObject (reads k w)"
    and pvc_keeps: "createPVC k p w = (o', w') \<Longrightarrow> getObject (reads k w') = getObject (reads k w)"
begin

lemma reconcileWorkspace_objects:
  "reconcileWorkspace k a ws w = (r, w') \<Longrightarrow> getObject (reads k w') = getObject (reads k w)"
  by (auto simp: reconcileWorkspace_def Let_def dest: pvc_keeps
      split: got.splits sum.splits prod.splits write_outcome.splits)

lemma reconcilePeer_objects:
  "reconcilePeer k a x w = (r, w') \<Longrightarrow> getObject (reads k w') = getObject (reads k w)"
  by (auto simp: reconcilePeer_def dest: service_keeps split: prod.splits option.splits)

lemma reconcileRuntime_objects:
  "reconcileRuntime k url a rt res w = (r, w') \<Longrightarrow> getObject (reads k w') = getObject (reads k w)"
  by (auto simp: reconcileRuntime_def Let_def
      dest!: reconcileWorkspace_objects service_keeps deployment_keeps
      split: prod.splits option.splits if_splits)

lemma agentWorkloads_objects:
  "agentWorkloads k url a res w = (r, w') \<Longrightarrow> getObject (reads k w') = getObject (reads k w)"
  by (auto simp: agentWorkloads_def dest!: reconcileRuntime_objects reconcilePeer_objects
      split: prod.splits option.splits sum.splits)

lemma agentPass_objects:
  "agentPass k url key w = (r, w') \<Longrightarrow> getObject (reads k w') = getObject (reads k w)"
  by (auto simp: agentPass_def Let_def dest!: agentWorkloads_objects
      split: got.splits prod.splits option.splits sum.splits if_splits)

end

section \<open>Every Agent is queued, in hand, or decided rightly\<close>

text \<open>The status says what the specification decides from the cluster as it is.\<close>

definition verdict_right :: "quantity_parser \<Rightarrow> reader \<Rightarrow> agent \<Rightarrow> bool" where
  "verdict_right pq rd a \<longleftrightarrow> implements (ag_status a) (decide (agent_facts_of pq rd rd a)) \<and>
     ast_observedGeneration (ag_status a) = meta_generation (ag_meta a)"

text \<open>The status an Agent is about to have: the one in the worker's hands, or the one it carries.\<close>

definition pending :: "'w control_loop \<Rightarrow> namespaced_name \<Rightarrow> agent \<Rightarrow> agent" where
  "pending s key a = (case lp_flight s of Some (key', a') \<Rightarrow> if key' = key then a' else a | None \<Rightarrow> a)"

definition covered :: "'w kube \<Rightarrow> 'w control_loop \<Rightarrow> namespaced_name \<Rightarrow> agent \<Rightarrow> bool" where
  "covered k s key a \<longleftrightarrow> key \<in> lp_queue s \<or>
     (same_agent (pending s key a) a \<and> verdict_right (parseQuantity k) (reads k (lp_world s)) (pending s key a))"

definition loop_inv :: "'w kube \<Rightarrow> 'w control_loop \<Rightarrow> bool" where
  "loop_inv k s \<longleftrightarrow> agents_keyed (reads k (lp_world s)) \<and>
     (\<forall>key a. lp_flight s = Some (key, a) \<longrightarrow> meta_key (ag_meta a) = key) \<and>
     (\<forall>key a. getAgent (reads k (lp_world s)) key = Found a \<longrightarrow> refs_carry_names a \<longrightarrow> covered k s key a)"

lemma loop_invI:
  assumes "agents_keyed (reads k (lp_world s))"
    and "\<And>key a. lp_flight s = Some (key, a) \<Longrightarrow> meta_key (ag_meta a) = key"
    and "\<And>key a. getAgent (reads k (lp_world s)) key = Found a \<Longrightarrow> refs_carry_names a \<Longrightarrow> covered k s key a"
  shows "loop_inv k s"
  using assms unfolding loop_inv_def by blast

lemma loop_invD:
  assumes "loop_inv k s"
  shows "agents_keyed (reads k (lp_world s))"
    and "lp_flight s = Some (key, a) \<Longrightarrow> meta_key (ag_meta a) = key"
    and "getAgent (reads k (lp_world s)) key = Found a \<Longrightarrow> refs_carry_names a \<Longrightarrow> covered k s key a"
  using assms unfolding loop_inv_def by blast+

lemma verdict_right_facts:
  "agent_facts_of pq rd' rd' a = agent_facts_of pq rd rd a \<Longrightarrow> verdict_right pq rd' a = verdict_right pq rd a"
  by (simp add: verdict_right_def)

lemma meta_keyD: "meta_key (ag_meta a) = key \<Longrightarrow> key = NamespacedName (ag_namespace a) (ag_name a)"
  by (simp add: meta_key_def)

text \<open>A change that no watch reports to an Agent leaves its facts alone.\<close>

lemma unreported_facts:
  assumes e: "edited kd key rd rd'" and kd: "kd \<noteq> KAgent" and n: "nn_name key \<noteq> []"
    and ix: "indexed_cluster rd' l" and a: "getAgent rd' ka = Found a" "refs_carry_names a"
    and out: "ka \<notin> set (agentWatch l kd (nn_namespace key) (nn_name key))"
  shows "agent_facts_of pq rd' rd' a = agent_facts_of pq rd rd a"
proof -
  have ns: "ag_namespace a = nn_namespace ka"
    using indexed_cluster.agents_named [OF ix a(1)] by (auto simp: meta_key_def)
  have "same_dependencies rd rd' a"
  proof
    fix kd' n' assume d: "depends_on rd a kd' n'"
    show "getObject rd' kd' (NamespacedName (ag_namespace a) n') = getObject rd kd' (NamespacedName (ag_namespace a) n')"
    proof (rule editedD [OF e], rule notI)
      assume "(kd', NamespacedName (ag_namespace a) n') = (kd, key)"
      then have k: "kd' = kd" "key = NamespacedName (ag_namespace a) n'" by auto
      with depends_on_edited [of kd a n' rd rd'] e d have "depends_on rd' a kd (nn_name key)" by simp
      from indexed_cluster.dependency_enqueued [OF ix a this n] out k ns show False by simp
    qed
  qed
  moreover have "getAgent rd' key' = getAgent rd key'" for key'
    by (rule getObject_eqD(4), rule editedD [OF e]) (use kd in simp)
  ultimately show ?thesis by (intro same_dependencies.same_facts) (simp_all add: answers_def)
qed

text \<open>A change of another Agent that goes on answering leaves the facts alone as well.\<close>

lemma other_agent_facts:
  assumes e: "edited KAgent key rd rd'"
    and p: "peer_of_tool rd key \<longrightarrow> answers rd' key = answers rd key"
  shows "agent_facts_of pq rd' rd' a = agent_facts_of pq rd rd a"
proof -
  have "same_dependencies rd rd' a"
  proof
    fix kd n assume "depends_on rd a kd n"
    then have "kd \<noteq> KAgent" using agentTargets_kinds unfolding depends_on_def agent_tgts_def by blast
    then show "getObject rd' kd (NamespacedName (ag_namespace a) n) = getObject rd kd (NamespacedName (ag_namespace a) n)"
      by (intro editedD [OF e]) simp
  qed
  moreover have "answers rd' key' = answers rd key'" if "peer_of_tool rd key'" for key'
  proof (cases "key' = key")
    case False
    then have "getAgent rd' key' = getAgent rd key'" by (intro getObject_eqD(4) editedD [OF e]) simp
    then show ?thesis by (simp add: answers_def)
  qed (use p that in simp)
  ultimately show ?thesis by (rule same_dependencies.same_facts)
qed

lemma covered_facts:
  assumes "\<And>b. same_agent b a \<Longrightarrow>
      agent_facts_of (parseQuantity k) (reads k (lp_world s')) (reads k (lp_world s')) b =
      agent_facts_of (parseQuantity k) (reads k (lp_world s)) (reads k (lp_world s)) b"
    and "key \<in> lp_queue s \<Longrightarrow> key \<in> lp_queue s'" and "lp_flight s' = lp_flight s" and "covered k s key a"
  shows "covered k s' key a"
proof -
  have "pending s' key a = pending s key a" by (simp add: pending_def assms(3))
  with assms show ?thesis unfolding covered_def by (auto simp: verdict_right_facts [OF assms(1)])
qed

context locking_server
begin

lemma decided_covered:
  assumes a: "getAgent (reads k w) key = Found a" and p: "agentPass k url key w = (Publish a', w')"
  shows "same_agent a' a" "verdict_right (parseQuantity k) (reads k w') a'"
proof -
  show s: "same_agent a' a" using pass_meta [OF a p] by (simp add: same_agent_def)
  have sc: "status_conditions (setStatusCondition k)" by (rule stable_conditions.axioms(1) [OF conditions])
  have "implements (ag_status a') (decide (agent_facts_of (parseQuantity k) (reads k w') (reads k w') a))"
    using agentPass_implements [OF sc a p] objects_same(3) [OF agentPass_objects [OF p]] by simp
  moreover have "status_current a' a" using agent_ready_lemma [OF sc a p] by simp
  ultimately show "verdict_right (parseQuantity k) (reads k w') a'"
    using s by (simp add: verdict_right_def agent_facts_same [OF s] status_current_def same_agent_def)
qed

lemma written_reads:
  assumes "statusUpdate k (OAgent a) w = (None, w')" and "key = NamespacedName (ag_namespace a) (ag_name a)"
  obtains rv b where "getAgent (reads k w) key = Found b" "same_agent b a" "getAgent (reads k w') key = Found (stamp rv a)"
    "edited KAgent key (reads k w) (reads k w')" "answers (reads k w') key = answers (reads k w) key"
proof -
  obtain rv where r: "reads k w' = (reads k w)\<lparr>getAgent := (getAgent (reads k w))(key := Found (stamp rv a))\<rparr>"
    using status_written [OF assms(1)] assms(2) by blast
  obtain b where b: "getAgent (reads k w) key = Found b" "same_agent b a"
    using status_locked [OF assms(1)] assms(2) by blast
  have "getObject (reads k w') kd key' = getObject (reads k w) kd key'" if "(kd, key') \<noteq> (KAgent, key)" for kd key'
    using that by (cases kd) (auto simp: r)
  then have "edited KAgent key (reads k w) (reads k w')" by (simp add: edited_def)
  moreover have "getAgent (reads k w') key = Found (stamp rv a)" by (simp add: r)
  moreover from b this have "answers (reads k w') key = answers (reads k w) key"
    by (simp add: answers_def same_agent_def)
  ultimately show thesis using that b by blast
qed

end

lemma agentPass_found:
  "agentPass k url key w = (Publish a', w') \<Longrightarrow> \<exists>a. getAgent (reads k w) key = Found a"
  by (auto simp: agentPass_def split: got.splits)

lemma agentPass_gone: "agentPass k url key w = (Stop None, w') \<Longrightarrow> getAgent (reads k w) key = NotFound \<and> w' = w"
  by (auto simp: agentPass_def Let_def split: got.splits option.splits sum.splits prod.splits if_splits)

text \<open>A step that keeps every object and takes nothing from the queue keeps the invariant.\<close>

lemma loop_inv_objects:
  assumes "loop_inv k s" "getObject (reads k (lp_world s')) = getObject (reads k (lp_world s))"
    and "lp_queue s \<subseteq> lp_queue s'" "lp_flight s' = lp_flight s"
  shows "loop_inv k s'"
  using assms(1,4) covered_facts [of _ k s' s] assms(3) objects_same(2) [OF assms(2)]
  unfolding loop_inv_def agents_keyed_def objects_same(1) [OF assms(2)] by (metis subsetD)

lemma loop_inv_put_back:
  assumes "loop_inv k s" "getObject (reads k (lp_world s')) = getObject (reads k (lp_world s))"
    and "lp_flight s = Some (key, a)" "lp_flight s' = None" "lp_queue s' = insert key (lp_queue s)"
  shows "loop_inv k s'"
proof -
  have "covered k s' ka b" if "covered k s ka b" "ka \<noteq> key" for ka b
    using that assms(3-5) objects_same(2) [OF assms(2)]
    by (auto simp: covered_def pending_def verdict_right_def)
  moreover have "covered k s' key b" for b by (simp add: covered_def assms(5))
  ultimately show ?thesis
    using assms(1,4) unfolding loop_inv_def agents_keyed_def objects_same(1) [OF assms(2)] by (metis option.distinct(1))
qed

text \<open>A key without an Agent may leave the queue.\<close>

lemma loop_inv_dropped:
  assumes "loop_inv k s" "getAgent (reads k (lp_world s)) key = NotFound"
  shows "loop_inv k (s\<lparr>lp_queue := lp_queue s - {key}\<rparr>)" (is "loop_inv k ?s")
proof (rule loop_invI)
  fix ka a assume a: "getAgent (reads k (lp_world ?s)) ka = Found a" "refs_carry_names a"
  then have "ka \<noteq> key" using assms(2) by auto
  moreover have "covered k s ka a" using a by (intro loop_invD(3) [OF assms(1)]) simp_all
  ultimately show "covered k ?s ka a" by (simp add: covered_def pending_def)
qed (use loop_invD(1,2) [OF assms(1)] in simp_all)

context locking_server
begin

lemma decided_inv:
  assumes inv: "loop_inv k s" and "lp_flight s = None" and p: "agentPass k url key (lp_world s) = (Publish a', w)"
  shows "loop_inv k (s\<lparr>lp_world := w, lp_queue := lp_queue s - {key}, lp_flight := Some (key, a')\<rparr>)" (is "loop_inv k ?s")
proof -
  obtain a where a: "getAgent (reads k (lp_world s)) key = Found a" using agentPass_found [OF p] by blast
  note d = decided_covered [OF a p]
  note o = objects_same [OF agentPass_objects [OF p]]
  have "covered k ?s key a" using d by (simp add: covered_def pending_def)
  moreover have "covered k ?s ka b" if "covered k s ka b" "ka \<noteq> key" for ka b
    using that assms(2) o(2) by (auto simp: covered_def pending_def verdict_right_def)
  moreover have "meta_key (ag_meta a') = key"
    using loop_invD(1) [OF inv] a d(1) unfolding agents_keyed_def same_agent_def by simp
  moreover have "agents_keyed (reads k w)" using loop_invD(1) [OF inv] by (simp add: agents_keyed_def o(1))
  ultimately show ?thesis
    using a loop_invD(3) [OF inv] by (intro loop_invI) (simp_all add: o(1), metis got.inject)
qed

lemma written_inv:
  assumes inv: "loop_inv k s" and f: "lp_flight s = Some (key, a)"
    and u: "statusUpdate k (OAgent a) (lp_world s) = (None, w)" and q: "lp_queue s \<subseteq> q"
  shows "loop_inv k (s\<lparr>lp_world := w, lp_flight := None, lp_queue := q\<rparr>)" (is "loop_inv k ?s")
proof -
  have key: "key = NamespacedName (ag_namespace a) (ag_name a)"
    using loop_invD(2) [OF inv f] by (rule meta_keyD)
  obtain rv b where b: "getAgent (reads k (lp_world s)) key = Found b" "same_agent b a"
    and g: "getAgent (reads k w) key = Found (stamp rv a)"
    and e: "edited KAgent key (reads k (lp_world s)) (reads k w)"
    and n: "answers (reads k w) key = answers (reads k (lp_world s)) key"
    using written_reads [OF u key] by blast
  note facts = other_agent_facts [OF e] n
  have other: "getAgent (reads k w) ka = getAgent (reads k (lp_world s)) ka" if "ka \<noteq> key" for ka
    by (rule getObject_eqD(4), rule editedD [OF e]) (use that in simp)
  have "agents_keyed (reads k w)"
    unfolding agents_keyed_def
  proof (intro allI impI)
    fix ka c
    assume c: "getAgent (reads k w) ka = Found c"
    show "meta_key (ag_meta c) = ka"
    proof (cases "ka = key")
      case True
      with c g key show ?thesis by (auto simp: meta_key_def stamp_def)
    next
      case False
      with c loop_invD(1) [OF inv] other show ?thesis by (simp add: agents_keyed_def)
    qed
  qed
  moreover have "covered k ?s key (stamp rv a)" if "refs_carry_names (stamp rv a)"
  proof -
    have "refs_carry_names b"
      using that b(2) by (simp add: refs_carry_names_def class_ref_named_def same_agent_def)
    with b(1) have "covered k s key b" by (rule loop_invD(3) [OF inv])
    then show ?thesis
      using f q facts agent_facts_alike [OF alike_stamp [of rv a]]
      by (auto simp: covered_def pending_def verdict_right_def same_agent_def)
  qed
  moreover have "covered k ?s ka c" if "covered k s ka c" "ka \<noteq> key" for ka c
    using that f q facts by (auto simp: covered_def pending_def verdict_right_def)
  ultimately show ?thesis
    using g loop_invD(3) [OF inv] by (intro loop_invI) (simp_all, metis got.inject other)
qed

lemma agent_changed_inv:
  assumes inv: "loop_inv k s" and e: "edited KAgent key (reads k (lp_world s)) (reads k w)" and ak: "agents_keyed (reads k w)"
    and p: "peer_of_tool (reads k (lp_world s)) key \<longrightarrow> answers (reads k w) key = answers (reads k (lp_world s)) key"
  shows "loop_inv k (s\<lparr>lp_world := w, lp_queue := insert key (lp_queue s)\<rparr>)" (is "loop_inv k ?s")
proof -
  have "covered k ?s ka c" if c: "getAgent (reads k w) ka = Found c" "refs_carry_names c" for ka c
  proof (cases "ka = key")
    case False
    then have "getAgent (reads k (lp_world s)) ka = Found c"
      using c(1) getObject_eqD(4) [OF editedD [OF e]] by (metis prod.inject)
    then have "covered k s ka c" using c(2) by (rule loop_invD(3) [OF inv])
    then show ?thesis by (rule covered_facts [rotated 3]) (simp_all add: other_agent_facts [OF e p])
  qed (simp add: covered_def)
  with ak loop_invD(2) [OF inv] show ?thesis by (intro loop_invI) simp_all
qed

lemma object_changed_inv:
  assumes inv: "loop_inv k s" and e: "edited kd key (reads k (lp_world s)) (reads k w)" and kd: "kd \<noteq> KAgent"
    and n: "nn_name key \<noteq> []" and ix: "indexed_cluster (reads k w) l"
  shows "loop_inv k (s\<lparr>lp_world := w, lp_queue := lp_queue s \<union> set (agentWatch l kd (nn_namespace key) (nn_name key))\<rparr>)"
    (is "loop_inv k ?s")
proof -
  have same: "getAgent (reads k w) ka = getAgent (reads k (lp_world s)) ka" for ka
    by (rule getObject_eqD(4), rule editedD [OF e]) (use kd in simp)
  have "covered k ?s ka c" if c: "getAgent (reads k w) ka = Found c" "refs_carry_names c" for ka c
  proof (cases "ka \<in> set (agentWatch l kd (nn_namespace key) (nn_name key))")
    case False
    have "covered k s ka c" using loop_invD(3) [OF inv] c by (simp add: same)
    then show ?thesis
      by (rule covered_facts [rotated 3])
         (simp_all add: agent_facts_same unreported_facts [OF e kd n ix c False])
  qed (simp add: covered_def)
  with loop_invD(1,2) [OF inv] show ?thesis by (intro loop_invI) (simp_all add: agents_keyed_def same)
qed

end

context locking_server
begin

lemma loop_step_inv:
  assumes "loop_step k url l s s'" "loop_inv k s"
  shows "loop_inv k s'"
  using assms
proof (cases rule: loop_step.cases)
  case (object_changed kd key w)
  with assms(2) object_changed_inv show ?thesis by simp
next
  case (agent_changed key w)
  with assms(2) agent_changed_inv show ?thesis by simp
next
  case (workload_changed w)
  with assms(2) show ?thesis by (auto intro!: loop_inv_objects [OF assms(2)])
next
  case (queued key)
  then show ?thesis by (auto intro!: loop_inv_objects [OF assms(2)])
next
  case (decided key a w)
  with assms(2) decided_inv show ?thesis by simp
next
  case (gone key w)
  note g = agentPass_gone [OF gone(4)]
  have "s' = s\<lparr>lp_queue := lp_queue s - {key}\<rparr>"
    unfolding gone(1) using g by (cases s) (simp only: control_loop.simps)
  with loop_inv_dropped [OF assms(2)] g show ?thesis by simp
next
  case (failed key e w)
  then show ?thesis using agentPass_objects by (auto intro!: loop_inv_objects [OF assms(2)])
next
  case (written key a w)
  show ?thesis unfolding written(1) by (rule written_inv [OF assms(2) written(2,3)]) auto
next
  case (refused key a e w)
  then show ?thesis using status_refused by (auto intro!: loop_inv_put_back [OF assms(2) _ refused(2)])
qed

lemma loop_run_inv: "loop_run k url l s \<Longrightarrow> loop_inv k s"
proof (induction rule: loop_run.induct)
  case (start s)
  then show ?case by (intro loop_invI) (auto simp: loop_start_def covered_def)
qed (rule loop_step_inv)

end

interpretation store_lock: locking_server store_kube defaulted "\<lambda>s. s"
proof
  have obj: "getObject (rd\<lparr>getDeployment := d\<rparr>) = getObject rd" "getObject (rd\<lparr>getService := s\<rparr>) = getObject rd"
    "getObject (rd\<lparr>getPVC := v\<rparr>) = getObject rd" for rd d s v
    by (intro ext, rename_tac kd key, case_tac kd, simp_all)+
  show "statusUpdate store_kube (OAgent a) w = (None, w') \<Longrightarrow>
      \<exists>b. getAgent (reads store_kube w) (NamespacedName (ag_namespace a) (ag_name a)) = Found b \<and> same_agent b a" for a w w'
    by (auto simp: store_kube_def Let_def split: got.splits if_splits)
  show "statusUpdate store_kube (OAgent a) w = (Some e, w') \<Longrightarrow>
      getObject (reads store_kube w') = getObject (reads store_kube w)" for a w e w'
    by (auto simp: store_kube_def Let_def split: got.splits if_splits)
  show "createOrUpdateDeployment store_kube key f w = (r, w') \<Longrightarrow>
      getObject (reads store_kube w') = getObject (reads store_kube w)" for key f w r w'
    by (auto simp: store_kube_def store_object_def obj split: option.splits sum.splits)
  show "createOrUpdateService store_kube key g w = (r, w') \<Longrightarrow>
      getObject (reads store_kube w') = getObject (reads store_kube w)" for key g w r w'
    by (auto simp: store_kube_def store_object_def obj split: option.splits sum.splits)
  show "createPVC store_kube p w = (o', w') \<Longrightarrow> getObject (reads store_kube w') = getObject (reads store_kube w)" for p w o' w'
    by (auto simp: store_kube_def obj split: if_splits)
qed

section \<open>A change nobody reports\<close>

definition peer_tool :: tool where
  "peer_tool = (sample_tool ''search'')\<lparr>to_spec := (to_spec (sample_tool ''search''))
     \<lparr>tos_agentRef := Some (LocalReference ''helper'')\<rparr>\<rparr>"

definition helper_agent :: "agent_expose_spec option \<Rightarrow> agent" where
  "helper_agent x = sample_agent\<lparr>ag_meta := sample_meta ''helper'', ag_spec := sample_agent_spec\<lparr>as_expose := x\<rparr>\<rparr>"

definition peer_reader :: "agent_expose_spec option \<Rightarrow> reader" where
  "peer_reader x = sample_reader
     \<lparr>getTool := (\<lambda>key. if key = NamespacedName ''default'' ''search'' then Found peer_tool else NotFound),
      getAgent := (\<lambda>key. if key = NamespacedName ''default'' ''bot'' then Found sample_agent
                        else if key = NamespacedName ''default'' ''helper'' then Found (helper_agent x) else NotFound)\<rparr>"

lemma peer_eff: "agent_eff (peer_reader x) sample_agent = sample_agent_spec"
  by (simp add: agent_eff_def agentClassOf_def sample_agent_def sample_agent_spec_def)

lemma peer_tgts:
  "agent_tgts (peer_reader x) sample_agent =
     [mkTarget kindModel KModel (LocalReference ''gpt''), mkTarget kindTool KTool (LocalReference ''search'')]"
  using sample_agent_tgts by (simp add: agent_tgts_def peer_eff sample_agent_eff)

lemma peer_tgt_get:
  "tgt_get (peer_reader x) ''default'' \<lparr>tgt_kind = kindModel, tgt_name = ''gpt'', tgt_obj = KModel, tgt_git = False\<rparr> =
     Found (OModel (sample_model ''gpt''))"
  "tgt_get (peer_reader x) ''default'' \<lparr>tgt_kind = kindTool, tgt_name = ''search'', tgt_obj = KTool, tgt_git = False\<rparr> =
     Found (OTool peer_tool)"
  by (simp_all add: tgt_get_def peer_reader_def sample_reader_def)

lemma peer_resolves:
  obtains res where "resolveRefs (peer_reader x) sample_agent = Inr res" "references_exist (peer_reader x) sample_agent"
    "admitted (peer_reader x) sample_agent res \<longleftrightarrow> x \<noteq> None"
proof -
  have "references_readable (peer_reader x) sample_agent"
    by (simp add: references_readable_def peer_tgts sample_agent_ns peer_tgt_get)
  then obtain res where res: "resolveRefs (peer_reader x) sample_agent = Inr res" using resolveRefs_total by blast
  have e: "references_exist (peer_reader x) sample_agent"
    unfolding references_exist_iff by (simp add: peer_tgts peer_eff sample_agent_ns peer_tgt_get sample_agent_spec_def)
  have tools: "refs_tools (res_declared res) = [''search'']"
    unfolding resolveRefs_declared(2) [OF res] peer_eff by (simp add: toolNames_def sample_agent_spec_def dedupe_def)
  have peers: "res_peers res = [\<lparr>pr_tool = ''search'', pr_agent = ''helper''\<rparr>]"
    unfolding resolveRefs_declared(4) [OF res] tools sample_agent_ns
    by (simp add: peersOf_def peer_reader_def peer_tool_def)
  have "admitted (peer_reader x) sample_agent res \<longleftrightarrow> x \<noteq> None"
    unfolding admitted_def resolveRefs_fields [OF res] peer_eff peers
    by (simp add: sample_agent_spec_def declaration_permitted_def policies_permit_def tool_denied_def all_rules_def
        peer_answers_def sample_agent_ns peer_reader_def helper_agent_def)
  with res e that show thesis by blast
qed

lemma peer_decided:
  "decide (agent_facts_of Inr (peer_reader None) (peer_reader None) sample_agent) = SRefused"
  "\<exists>h. decide (agent_facts_of Inr (peer_reader (Some x)) (peer_reader (Some x)) sample_agent) = SReady h"
proof -
  have v: "AgentSpec_Validate Inr (ag_spec sample_agent) = None" using sample_agent_valid by (simp add: sample_agent_def)
  show "decide (agent_facts_of Inr (peer_reader None) (peer_reader None) sample_agent) = SRefused"
    by (rule peer_resolves [of None]) (simp add: decide_def agent_facts_of_def v)
  show "\<exists>h. decide (agent_facts_of Inr (peer_reader (Some x)) (peer_reader (Some x)) sample_agent) = SReady h"
    by (rule peer_resolves [of "Some x"]) (simp add: decide_def agent_facts_of_def v)
qed

section \<open>Properties\<close>


end
