(* ===== verification/Control_Rest.thy ===== *)
theory Control_Rest
  imports Control_Loop
begin

text \<open>
  The work queue empties. A pass writes the Agent's own status and the workloads named after it,
  and nothing another Agent's pass looks at, so an Agent that has settled stays settled while the
  others are worked off, in whatever order: every queued key is taken at most twice. With
  \<open>Control_Loop\<close>: undisturbed, the controller comes to rest with every verdict right.
\<close>

section \<open>The workloads of one Agent\<close>

definition own_workloads :: "agent \<Rightarrow> reader \<Rightarrow> reader \<Rightarrow> bool" where
  "own_workloads a rd rd' \<longleftrightarrow> workloads_only rd rd' \<and>
     (\<forall>key. key \<noteq> runtimeKey a \<longrightarrow> getDeployment rd' key = getDeployment rd key) \<and>
     (\<forall>key. key \<noteq> runtimeKey a \<longrightarrow> key \<noteq> NamespacedName (ag_namespace a) (peerServiceName a) \<longrightarrow>
        getService rd' key = getService rd key) \<and>
     (\<forall>key. key \<noteq> NamespacedName (ag_namespace a) (workspaceClaimName a) \<longrightarrow> getPVC rd' key = getPVC rd key)"

lemma own_workloads_refl: "own_workloads a rd rd"
  by (simp add: own_workloads_def workloads_only_def)

lemma own_workloads_trans: "own_workloads a rd rd' \<Longrightarrow> own_workloads a rd' rd'' \<Longrightarrow> own_workloads a rd rd''"
  by (cases rd; cases rd'; cases rd'') (auto simp: own_workloads_def workloads_only_def)

lemma own_workloads_alike: "alike a b \<Longrightarrow> own_workloads a = own_workloads b"
  unfolding own_workloads_def [abs_def] by (simp only: alike_simps alike_base)

context api_server
begin

lemma workspace_own:
  assumes "reconcileWorkspace k a ws w = (None, v)"
  shows "own_workloads a (reads k w) (reads k v)"
proof (cases "getPVC (reads k w) (NamespacedName (ag_namespace a) (workspaceClaimName a))")
  case (Found p)
  with workspace_rewritten [OF Found] assms show ?thesis by (simp add: own_workloads_refl)
next
  case NotFound
  with assms obtain os q r where
    c: "createPVC k \<lparr>pvc_key = NamespacedName (ag_namespace a) (workspaceClaimName a), pvc_owners = os,
          pvc_labels = agentRuntimeLabels a, pvc_accessModes = [''ReadWriteOnce''],
          pvc_storageClassName = ws_storageClassName ws, pvc_storageRequest = q\<rparr> w = (r, v)"
    and r: "r = WriteOk \<or> r = WriteAlreadyExists"
    by (auto simp: reconcileWorkspace_def Let_def split: sum.splits prod.splits write_outcome.splits)
  with pvc_conflict NotFound have "r = WriteOk" by fastforce
  from pvc_created [OF c [unfolded this]] show ?thesis
    by (auto simp: own_workloads_def workloads_only_def)
qed (use assms in \<open>simp add: reconcileWorkspace_def Let_def\<close>)

lemma deployment_own:
  "createOrUpdateDeployment k (runtimeKey a) f w = (None, v) \<Longrightarrow> own_workloads a (reads k w) (reads k v)"
  by (drule deployment_written) (auto simp: own_workloads_def workloads_only_def)

lemma service_own:
  "createOrUpdateService k key f w = (None, v) \<Longrightarrow>
   key = runtimeKey a \<or> key = NamespacedName (ag_namespace a) (peerServiceName a) \<Longrightarrow> own_workloads a (reads k w) (reads k v)"
  by (drule service_written) (auto simp: own_workloads_def workloads_only_def)

lemma reconcileRuntime_own:
  assumes "reconcileRuntime k url a rt res w = (Inr a1, w1)"
  shows "own_workloads a (reads k w) (reads k w1)"
proof (cases "runtimeGitSecret a res")
  case None
  with assms show ?thesis by (simp add: reconcileRuntime_def Let_def own_workloads_refl)
next
  case (Some gs)
  obtain v u where s: "(case as_workspace (ag_spec a) of None \<Rightarrow> (None, w) | Some ws \<Rightarrow> reconcileWorkspace k a ws w) = (None, v)"
    "createOrUpdateDeployment k (runtimeKey a)
       (mutateRuntimeDeployment k (registry_of url) a rt (res_credentials res) gs (model_secret (reads k w) a)) v = (None, u)"
    "(if rt_port rt \<noteq> 0
      then createOrUpdateService k (runtimeKey a)
             (mutateService k (ag_meta a) (agentRuntimeLabels a) portNameHTTP (rt_port rt)) u
      else (None, u)) = (None, w1)"
    using reconcileRuntime_cases [OF assms Some] by blast
  have "own_workloads a (reads k w) (reads k v)"
    using s(1) workspace_own by (auto simp: own_workloads_refl split: option.splits)
  moreover have "own_workloads a (reads k u) (reads k w1)"
    using s(3) service_own by (auto simp: own_workloads_refl split: if_splits)
  ultimately show ?thesis using deployment_own [OF s(2)] own_workloads_trans by blast
qed

lemma agentWorkloads_own:
  assumes "agentWorkloads k url a res w = (Inr a2, w2)"
  shows "own_workloads a (reads k w) (reads k w2)"
proof -
  from assms obtain a1 w1 where
    p1: "(case as_runtime (ag_spec a) of None \<Rightarrow> (Inr a, w) | Some rt \<Rightarrow> reconcileRuntime k url a rt res w) = (Inr a1, w1)"
    and p2: "(case as_expose (ag_spec a1) of
           None \<Rightarrow> (Inr (a1\<lparr>ag_status := (ag_status a1)\<lparr>ast_peerEndpoint := []\<rparr>\<rparr>), w1)
         | Some x \<Rightarrow> reconcilePeer k a1 x w1) = (Inr a2, w2)"
    and al: "alike a1 a"
    by (rule agentWorkloads_parts)
  have "own_workloads a (reads k w) (reads k w1)"
    using p1 reconcileRuntime_own by (auto simp: own_workloads_refl split: option.splits)
  moreover have "own_workloads a1 (reads k w1) (reads k w2)"
    using p2 by (auto simp: reconcilePeer_def own_workloads_refl dest: service_own split: option.splits prod.splits)
  ultimately show ?thesis using own_workloads_trans own_workloads_alike [OF al] by simp
qed

end

section \<open>Agents do not disturb each other\<close>

lemma workload_keys_distinct:
  assumes "NamespacedName (ag_namespace a) (ag_name a) \<noteq> NamespacedName (ag_namespace b) (ag_name b)"
  shows "runtimeKey a \<noteq> runtimeKey b"
    "runtimeKey a \<noteq> NamespacedName (ag_namespace b) (peerServiceName b)"
    "NamespacedName (ag_namespace a) (peerServiceName a) \<noteq> runtimeKey b"
    "NamespacedName (ag_namespace a) (peerServiceName a) \<noteq> NamespacedName (ag_namespace b) (peerServiceName b)"
    "NamespacedName (ag_namespace a) (workspaceClaimName a) \<noteq> NamespacedName (ag_namespace b) (workspaceClaimName b)"
proof -
  have last: "xs @ ''-runtime'' \<noteq> ys @ ''-peer''" for xs ys
    by (rule notI, drule arg_cong [where f = last]) simp
  show "runtimeKey a \<noteq> NamespacedName (ag_namespace b) (peerServiceName b)"
    "NamespacedName (ag_namespace a) (peerServiceName a) \<noteq> runtimeKey b"
    using last last [symmetric] by (simp_all add: runtimeKey_def peerServiceName_def)
qed (use assms in \<open>auto simp: runtimeKey_def peerServiceName_def workspaceClaimName_def\<close>)

text \<open>What a settled Agent's pass looks at: its references, its own workloads, and which peers answer.\<close>

definition undisturbed :: "agent \<Rightarrow> reader \<Rightarrow> reader \<Rightarrow> bool" where
  "undisturbed a rd rd' \<longleftrightarrow> same_refs rd' rd \<and>
     getDeployment rd' (runtimeKey a) = getDeployment rd (runtimeKey a) \<and>
     getService rd' (runtimeKey a) = getService rd (runtimeKey a) \<and>
     getService rd' (NamespacedName (ag_namespace a) (peerServiceName a)) =
       getService rd (NamespacedName (ag_namespace a) (peerServiceName a)) \<and>
     getPVC rd' (NamespacedName (ag_namespace a) (workspaceClaimName a)) =
       getPVC rd (NamespacedName (ag_namespace a) (workspaceClaimName a)) \<and>
     (\<forall>key. map_got ag_spec (getAgent rd' key) = map_got ag_spec (getAgent rd key))"

lemma peerViolation_specs:
  assumes "map_got ag_spec (getAgent rd' (NamespacedName (ag_namespace a) (pr_agent p))) =
    map_got ag_spec (getAgent rd (NamespacedName (ag_namespace a) (pr_agent p)))"
  shows "peerViolation rd' a p = peerViolation rd a p"
  using assms unfolding peerViolation_def
  by (cases "getAgent rd' (NamespacedName (ag_namespace a) (pr_agent p))";
      cases "getAgent rd (NamespacedName (ag_namespace a) (pr_agent p))") simp_all

lemma agentViolations_undisturbed:
  assumes "undisturbed a rd rd'"
  shows "agentViolations rd' a res = agentViolations rd a res"
proof -
  have "peerViolation rd' a = peerViolation rd a"
    by (rule ext, rule peerViolation_specs) (use assms in \<open>simp add: undisturbed_def\<close>)
  then show ?thesis by (simp add: agentViolations_def peerViolations_def)
qed

context api_server
begin

lemma service_in_place_undisturbed:
  "getService rd' key = getService rd key \<Longrightarrow> service_in_place rd' key a pn p = service_in_place rd key a pn p"
  by (simp add: service_in_place_def)

lemma workloads_undisturbed:
  assumes "undisturbed a rd rd'"
  shows "workloads_in_place url rd' a res = workloads_in_place url rd a res"
proof -
  note u = assms [unfolded undisturbed_def]
  have m: "model_secret rd' a = model_secret rd a"
    unfolding model_secret_def using resolveModelSecret_same_refs [OF _ alike_refl] u by simp
  show ?thesis
    unfolding workloads_in_place_def runtime_in_place_def m
    using u service_in_place_undisturbed [of rd' "runtimeKey a" rd a]
      service_in_place_undisturbed [of rd' "NamespacedName (ag_namespace a) (peerServiceName a)" rd a] by simp
qed

lemma settled_undisturbed:
  assumes "undisturbed a rd rd'" "settled_at url rd a"
  shows "settled_at url rd' a"
proof -
  have r: "resolveRefs rd' a = resolveRefs rd a"
    using assms(1) by (intro resolveRefs_same_refs alike_refl) (simp add: undisturbed_def)
  have p: "published k rd' res a = published k rd res a" for res
    unfolding published_def decidedAgent_def agentViolations_undisturbed [OF assms(1)] ..
  have s: "status_settled rd' a res = status_settled rd a res" for res
    using assms(1) unfolding status_settled_def undisturbed_def by simp
  show ?thesis using assms(2) unfolding settled_at_def r p s workloads_undisturbed [OF assms(1)] .
qed

text \<open>A whole pass for one Agent leaves every other one undisturbed.\<close>

lemma pass_own:
  assumes "getAgent (reads k w) key = Found a" "agentPass k url key w = (Publish a', w')"
  shows "own_workloads a (reads k w) (reads k w')"
  using assms
proof (cases rule: agentPass_steps)
  case (invalid err)
  then show ?thesis by (simp add: own_workloads_refl)
next
  case (resolved res a2)
  have "alike (counted res (observed a)) a" using alike_refl [of a] by (simp add: alike_def counted_def observed_def)
  with agentWorkloads_own [OF resolved(3)] own_workloads_alike show ?thesis by simp
qed

lemma own_undisturbed:
  assumes "own_workloads b rd rd'"
    and "NamespacedName (ag_namespace a) (ag_name a) \<noteq> NamespacedName (ag_namespace b) (ag_name b)"
  shows "undisturbed a rd rd'"
proof -
  have "workloads_only rd rd'" using assms(1) by (simp add: own_workloads_def)
  with assms(1) workload_keys_distinct [OF assms(2)] workloads_onlyD [of rd rd'] show ?thesis
    unfolding own_workloads_def undisturbed_def by simp
qed

lemma reconcile_shape:
  assumes r: "Agent_Reconcile k url key w = (None, w')" and ak: "agents_keyed (reads k w)"
  obtains (same) "getAgent (reads k w) key = NotFound" "w' = w"
  | (pass) a a' v rv where "getAgent (reads k w) key = Found a" "key = NamespacedName (ag_namespace a) (ag_name a)"
      "agentPass k url key w = (Publish a', v)" "statusUpdate k (OAgent a') v = (None, w')"
      "own_workloads a (reads k w) (reads k v)" "alike (stamp rv a') a"
      "reads k w' = (reads k v)\<lparr>getAgent := (getAgent (reads k w))(key := Found (stamp rv a'))\<rparr>"
proof (cases "getAgent (reads k w) key")
  case (Found a)
  with ak have key: "key = NamespacedName (ag_namespace a) (ag_name a)" by (simp add: agents_keyed_def meta_keyD)
  obtain a' v rv where p: "agentPass k url key w = (Publish a', v)" "statusUpdate k (OAgent a') v = (None, w')" and
    w': "reads k w' = (reads k v)\<lparr>getAgent := (getAgent (reads k v))(key := Found (stamp rv a'))\<rparr>" and
    al: "alike (stamp rv a') a"
    by (rule reconcile_written [OF r Found key])
  have own: "own_workloads a (reads k w) (reads k v)" by (rule pass_own [OF Found p(1)])
  then have "getAgent (reads k v) = getAgent (reads k w)" by (simp add: own_workloads_def workloads_onlyD(1))
  with pass [OF Found key p own al] w' show thesis by simp
next
  case NotFound
  with r have "w' = w" by (simp add: Agent_Reconcile_def agentPass_def)
  with NotFound same show thesis by blast
next
  case (Failed e)
  with r show thesis by (simp add: Agent_Reconcile_def agentPass_def)
qed

lemma reconcile_others:
  assumes "Agent_Reconcile k url key w = (None, w')" "agents_keyed (reads k w)" "kb \<noteq> key"
  shows "getAgent (reads k w') kb = getAgent (reads k w) kb"
    and "getAgent (reads k w) kb = Found b \<Longrightarrow> undisturbed b (reads k w) (reads k w')"
proof -
  have "getAgent (reads k w') kb = getAgent (reads k w) kb \<and>
    (getAgent (reads k w) kb = Found b \<longrightarrow> undisturbed b (reads k w) (reads k w'))"
    using assms(1,2)
  proof (cases rule: reconcile_shape)
    case same
    then show ?thesis by (simp add: undisturbed_def same_refs_def)
  next
    case (pass a a' v rv)
    have g: "getAgent (reads k v) = getAgent (reads k w)"
      using pass(5) by (simp add: own_workloads_def workloads_onlyD(1))
    have "undisturbed b (reads k w) (reads k w')" if "getAgent (reads k w) kb = Found b"
    proof -
      have "kb = NamespacedName (ag_namespace b) (ag_name b)"
        using that assms(2) by (simp add: agents_keyed_def meta_keyD)
      with pass(2) assms(3) have "undisturbed b (reads k w) (reads k v)" by (intro own_undisturbed [OF pass(5)]) auto
      with alike_base(1) [OF pass(6)] pass(1) show ?thesis
        unfolding undisturbed_def by (simp add: pass(7) g same_refs_def)
    qed
    with assms(3) show ?thesis by (simp add: pass(7))
  qed
  then show "getAgent (reads k w') kb = getAgent (reads k w) kb"
    and "getAgent (reads k w) kb = Found b \<Longrightarrow> undisturbed b (reads k w) (reads k w')" by blast+
qed

definition key_settled :: "string \<Rightarrow> reader \<Rightarrow> namespaced_name \<Rightarrow> bool" where
  "key_settled url rd key \<longleftrightarrow> (\<forall>a. getAgent rd key = Found a \<longrightarrow> settled_at url rd a)"

lemma reconcile_settles_key:
  assumes "Agent_Reconcile k url key w = (None, w')" "agents_keyed (reads k w)"
  shows "key_settled url (reads k w') key"
  using assms
proof (cases rule: reconcile_shape)
  case (pass a a' v rv)
  have "getAgent (reads k v) = getAgent (reads k w)"
    using pass(5) by (simp add: own_workloads_def workloads_onlyD(1))
  with pass(7) have "reads k w' = (reads k v)\<lparr>getAgent := (getAgent (reads k v))(key := Found (stamp rv a'))\<rparr>" by simp
  from pass_settles [OF pass(1,3,2) this] show ?thesis by (simp add: key_settled_def pass(7))
qed (simp add: key_settled_def)

lemma reconcile_settled_idle:
  assumes "Agent_Reconcile k url key w = (None, w')" "agents_keyed (reads k w)" "key_settled url (reads k w) key"
  shows "reads k w' = reads k w"
  using assms(1,2)
proof (cases rule: reconcile_shape)
  case (pass a a' v rv)
  from settled_pass [OF pass(1) _ pass(3)] assms(3) pass(1) have "a' = a" "reads k v = reads k w"
    by (simp_all add: key_settled_def)
  with status_same [OF pass(4)] pass(1,2) show ?thesis by simp
qed simp

lemma reconcile_keeps_settled:
  assumes "Agent_Reconcile k url key w = (None, w')" "agents_keyed (reads k w)" "kb \<noteq> key" "key_settled url (reads k w) kb"
  shows "key_settled url (reads k w') kb"
  unfolding key_settled_def
proof (intro allI impI)
  fix b assume "getAgent (reads k w') kb = Found b"
  with reconcile_others(1) [OF assms(1-3)] have b: "getAgent (reads k w) kb = Found b" by simp
  with assms(4) have "settled_at url (reads k w) b" by (simp add: key_settled_def)
  with reconcile_others(2) [OF assms(1-3) b] show "settled_at url (reads k w') b" by (rule settled_undisturbed)
qed

lemma reconcile_keyed:
  assumes "Agent_Reconcile k url key w = (None, w')" "agents_keyed (reads k w)"
  shows "agents_keyed (reads k w')"
  using assms
proof (cases rule: reconcile_shape)
  case (pass a a' v rv)
  have "meta_key (ag_meta (stamp rv a')) = key" using alike_base(2,3) [OF pass(6)] pass(2) by (simp add: meta_key_def)
  with assms(2) show ?thesis by (simp add: agents_keyed_def pass(7))
qed (use assms(2) in simp)

end

section \<open>Working the queue off\<close>

text \<open>
  One successful reconciliation of a queued key. If it wrote anything, the events of its own writes
  (\<^verbatim>\<open>For\<close> and \<^verbatim>\<open>Owns\<close>) queue the key again; nothing else is queued.
\<close>

inductive drain :: "'w kube \<Rightarrow> string \<Rightarrow> 'w \<times> namespaced_name set \<Rightarrow> 'w \<times> namespaced_name set \<Rightarrow> bool"
  for k :: "'w kube" and url :: string where
  reconciled: "key \<in> q \<Longrightarrow> Agent_Reconcile k url key w = (None, w') \<Longrightarrow>
    drain k url (w, q) (w', if reads k w' = reads k w then q - {key} else q)"

inductive_cases drainE: "drain k url (w, q) (w', q')"

lemma drain_finite: "(drain k url)\<^sup>*\<^sup>* s s' \<Longrightarrow> finite (snd s) \<Longrightarrow> finite (snd s')"
  by (induction rule: rtranclp_induct) (auto elim!: drain.cases split: if_splits)

context api_server
begin

definition work_left :: "string \<Rightarrow> 'w \<times> namespaced_name set \<Rightarrow> nat" where
  "work_left url s = card (snd s) + card {key \<in> snd s. \<not> key_settled url (reads k (fst s)) key}"

lemma drain_keeps:
  assumes "drain k url s s'" "finite (snd s)" "agents_keyed (reads k (fst s))"
  shows "finite (snd s')" "agents_keyed (reads k (fst s'))"
  using assms reconcile_keyed by (auto elim!: drain.cases)

lemma drain_decreases:
  assumes "drain k url s s'" "finite (snd s)" "agents_keyed (reads k (fst s))"
  shows "work_left url s' < work_left url s"
  using assms(1)
proof (cases rule: drain.cases)
  case (reconciled key q w w')
  have fin: "finite q" and ak: "agents_keyed (reads k w)" using assms reconciled(1) by simp_all
  let ?un = "\<lambda>w q. {ka \<in> q. \<not> key_settled url (reads k w) ka}"
  show ?thesis
  proof (cases "key_settled url (reads k w) key")
    case True
    have same: "reads k w' = reads k w" by (rule reconcile_settled_idle [OF reconciled(4) ak True])
    have "card (q - {key}) < card q" using fin reconciled(3) by (rule card_Diff1_less)
    moreover have "card (?un w (q - {key})) \<le> card (?un w q)" using fin by (intro card_mono) auto
    ultimately show ?thesis using reconciled(1,2) same by (simp add: work_left_def)
  next
    case False
    let ?q = "if reads k w' = reads k w then q - {key} else q"
    have "?un w' ?q \<subseteq> ?un w q - {key}"
    proof
      fix ka assume ka: "ka \<in> ?un w' ?q"
      then have "ka \<noteq> key" using reconcile_settles_key [OF reconciled(4) ak] by auto
      with ka show "ka \<in> ?un w q - {key}"
        using reconcile_keeps_settled [OF reconciled(4) ak] by (auto split: if_splits)
    qed
    moreover have "?un w q - {key} \<subset> ?un w q" using False reconciled(3) by blast
    ultimately have "card (?un w' ?q) < card (?un w q)" using fin by (intro psubset_card_mono) auto
    moreover have "card ?q \<le> card q" using fin by (intro card_mono) auto
    ultimately show ?thesis using reconciled(1,2) by (simp add: work_left_def)
  qed
qed

lemma drain_bounded:
  assumes "(drain k url ^^ n) s s'" "finite (snd s)" "agents_keyed (reads k (fst s))"
  shows "n + work_left url s' \<le> work_left url s"
  using assms
proof (induction n arbitrary: s)
  case (Suc n)
  from Suc.prems(1) obtain t where t: "drain k url s t" "(drain k url ^^ n) t s'" by (rule relpowp_Suc_E2)
  from Suc.IH [OF t(2) drain_keeps [OF t(1) Suc.prems(2,3)]] drain_decreases [OF t(1) Suc.prems(2,3)]
  show ?case by simp
qed simp

lemma work_left_bounds: "finite (snd s) \<Longrightarrow> card (snd s) \<le> work_left url s \<and> work_left url s \<le> 2 * card (snd s)"
  unfolding work_left_def using card_mono [of "snd s" "{key \<in> snd s. \<not> key_settled url (reads k (fst s)) key}"] by auto

end

text \<open>A reconciliation is a decision and a write of the loop, and the event of the write.\<close>

context locking_server
begin

lemma drain_step_run:
  assumes "drain k url (w, q) (w', q')" "loop_run k url l \<lparr>lp_world = w, lp_queue = q, lp_flight = None\<rparr>"
  shows "loop_run k url l \<lparr>lp_world = w', lp_queue = q', lp_flight = None\<rparr>"
proof -
  from assms(1) obtain key where key: "key \<in> q" and r: "Agent_Reconcile k url key w = (None, w')"
    and q': "q' = (if reads k w' = reads k w then q - {key} else q)" by (auto elim: drainE)
  obtain p v where p: "agentPass k url key w = (p, v)" by fastforce
  show ?thesis
  proof (cases p)
    case (Stop e)
    with p r have pass: "agentPass k url key w = (Stop None, w')" by (simp add: Agent_Reconcile_def)
    with q' have "q' = q - {key}" using agentPass_gone by fastforce
    with loop_step.gone [OF _ _ , of "\<lparr>lp_world = w, lp_queue = q, lp_flight = None\<rparr>" key k url w' l] key pass
    show ?thesis by (auto intro: loop_run.step [OF assms(2)])
  next
    case (Publish a)
    with p r have u: "statusUpdate k (OAgent a) v = (None, w')" by (simp add: Agent_Reconcile_def)
    let ?v = "\<lparr>lp_world = v, lp_queue = q - {key}, lp_flight = Some (key, a)\<rparr>"
    have v: "loop_run k url l ?v"
      using loop_run.step [OF assms(2) loop_step.decided [of _ key k url a v]] key p Publish by simp
    have run: "loop_run k url l \<lparr>lp_world = w', lp_queue = (if getAgent (reads k w') key = getAgent (reads k v) key
        then q - {key} else insert key (q - {key})), lp_flight = None\<rparr>"
      using loop_run.step [OF v loop_step.written [of ?v key a k w' url l]] u
      by (simp only: control_loop.simps simp_thms)
    have g: "getAgent (reads k v) = getAgent (reads k w)" by (rule objects_same(1) [OF agentPass_objects [OF p]])
    show ?thesis
    proof (cases "reads k w' = reads k w")
      case True
      with run g q' show ?thesis by simp
    next
      case False
      have "loop_run k url l \<lparr>lp_world = w', lp_queue = insert key (q - {key}), lp_flight = None\<rparr>"
        using run loop_run.step [OF run loop_step.queued [of _ _ _ _ key]] by (auto split: if_splits)
      with False q' key show ?thesis by (simp add: insert_absorb)
    qed
  qed
qed

end

context locking_server
begin

lemma drain_run:
  assumes "(drain k url)\<^sup>*\<^sup>* s s'" "loop_run k url l \<lparr>lp_world = fst s, lp_queue = snd s, lp_flight = None\<rparr>"
  shows "loop_run k url l \<lparr>lp_world = fst s', lp_queue = snd s', lp_flight = None\<rparr>"
  using assms
proof (induction rule: rtranclp_induct)
  case (step t u)
  then show ?case using drain_step_run [of url "fst t" "snd t" "fst u" "snd u" l] by simp
qed

lemma drain_to_empty:
  assumes "finite (snd s)" "agents_keyed (reads k (fst s))"
    and "\<And>w q key. (drain k url)\<^sup>*\<^sup>* s (w, q) \<Longrightarrow> key \<in> q \<Longrightarrow> \<exists>w'. Agent_Reconcile k url key w = (None, w')"
  shows "\<exists>w. (drain k url)\<^sup>*\<^sup>* s (w, {})"
  using assms
proof (induction "work_left url s" arbitrary: s rule: less_induct)
  case less
  obtain w q where s: "s = (w, q)" by fastforce
  show ?case
  proof (cases "q = {}")
    case False
    then obtain key where key: "key \<in> q" by blast
    then obtain w' where "Agent_Reconcile k url key w = (None, w')" using less.prems(3) [of w q] s by blast
    from drain.reconciled [OF key this] obtain t where t: "drain k url s t" unfolding s by blast
    note keep = drain_keeps [OF t less.prems(1,2)]
    have "\<exists>w. (drain k url)\<^sup>*\<^sup>* t (w, {})"
      by (rule less.hyps [OF drain_decreases [OF t less.prems(1,2)] keep])
         (use less.prems(3) converse_rtranclp_into_rtranclp [of "drain k url", OF t] in blast)
    with t show ?thesis by (blast intro: converse_rtranclp_into_rtranclp)
  qed (use s in blast)
qed

end

section \<open>A cluster with one Agent\<close>

definition bot_key :: namespaced_name where
  "bot_key = NamespacedName ''default'' ''bot''"

definition bot_start :: "reader control_loop" where
  "bot_start = \<lparr>lp_world = sample_reader, lp_queue = {bot_key}, lp_flight = None\<rparr>"

abbreviation bot_lister :: "reader \<Rightarrow> lister" where
  "bot_lister rd \<equiv> cluster_lister watched_cluster"

lemma store_reads [simp]: "reads store_kube rd = rd"
  by (simp add: store_kube_def)

lemma sample_keyed: "agents_keyed sample_reader"
  by (auto simp: agents_keyed_def sample_reader_def sample_agent_def sample_meta_def meta_key_def split: if_splits)

lemma bot_run: "loop_run store_kube [] bot_lister bot_start"
  by (rule loop_run.start)
     (use sample_keyed in \<open>auto simp: loop_start_def bot_start_def bot_key_def sample_reader_def split: if_splits\<close>)

text \<open>The Agent is there and its references are untouched.\<close>

definition bot_kept :: "reader \<Rightarrow> bool" where
  "bot_kept rd \<longleftrightarrow> (\<exists>a. getAgent rd bot_key = Found a \<and> alike a sample_agent) \<and> same_refs rd sample_reader"

lemma bot_pass:
  assumes "bot_kept rd"
  obtains rd' where "Agent_Reconcile store_kube [] bot_key rd = (None, rd')" "bot_kept rd'"
proof -
  from assms obtain a where a: "getAgent rd bot_key = Found a" "alike a sample_agent" and r: "same_refs rd sample_reader"
    by (auto simp: bot_kept_def)
  obtain res where "resolveRefs sample_reader sample_agent = Inr res"
    using resolveRefs_total sample_readable by blast
  with resolveRefs_same_refs [OF r a(2)] have res: "resolveRefs rd a = Inr res" by simp
  note same = alike_base [OF a(2)]
  have v: "AgentSpec_Validate Inr (ag_spec a) = None"
    unfolding same(1) using sample_valid by (simp add: recording_kube_def)
  have plain: "as_runtime (ag_spec a) = None" "as_expose (ag_spec a) = None"
    unfolding same(1) by (simp_all add: sample_agent_def sample_agent_spec_def)
  have key: "bot_key = NamespacedName (ag_namespace a) (ag_name a)" unfolding same by (simp add: bot_key_def sample_agent_ns)
  obtain a' rd' where p: "Agent_Reconcile store_kube [] bot_key rd = (None, rd')" "getAgent rd' bot_key = Found a'" "alike a' a" "same_refs rd' rd"
    by (rule store_plain_pass [OF a(1) key v plain res])
  from p(3) a(2) have "alike a' sample_agent" by (auto simp: alike_def)
  with p r that show thesis by (auto simp: bot_kept_def same_refs_def)
qed

lemma bot_drains:
  assumes "(drain store_kube [])\<^sup>*\<^sup>* (sample_reader, {bot_key}) (rd, q)"
  shows "bot_kept rd \<and> q \<subseteq> {bot_key}"
  using assms
proof (induction "(rd, q)" arbitrary: rd q rule: rtranclp_induct)
  case base
  then show ?case using alike_refl by (auto simp: bot_kept_def bot_key_def sample_get same_refs_def) (simp add: sample_reader_def)
next
  case (step s)
  obtain rd0 q0 where s: "s = (rd0, q0)" by fastforce
  from step(3) [OF s] have kept: "bot_kept rd0" "q0 \<subseteq> {bot_key}" by simp_all
  from step(2) s obtain key where k: "key \<in> q0" "Agent_Reconcile store_kube [] key rd0 = (None, rd)" "q \<subseteq> q0"
    by (auto elim!: drain.cases split: if_splits)
  with kept have "key = bot_key" by blast
  with bot_pass [OF kept(1)] k kept show ?case by auto
qed

lemma bot_names: "alike a sample_agent \<Longrightarrow> refs_carry_names a"
  unfolding refs_carry_names_def class_ref_named_def by (simp add: alike_base(1) sample_agent_def sample_agent_spec_def)

lemma bot_ready:
  assumes "bot_kept rd" "getAgent rd bot_key = Found a"
  shows "state_phase (decide (agent_facts_of (parseQuantity store_kube) rd rd a)) = AgentPhaseReady"
proof -
  from assms have al: "alike a sample_agent" and r: "same_refs rd sample_reader" by (auto simp: bot_kept_def)
  obtain res where res: "resolveRefs sample_reader sample_agent = Inr res"
    using resolveRefs_total sample_readable by blast
  with resolveRefs_same_refs [OF r al] have rd: "resolveRefs rd a = Inr res" by simp
  have "references_exist rd a"
    using resolveRefs_missing_Nil [OF rd] resolveRefs_missing_Nil [OF res] sample_exists by simp
  moreover have "AgentSpec_Validate (parseQuantity store_kube) (ag_spec a) = None"
    unfolding alike_base(1) [OF al] using sample_valid by (simp add: store_kube_def)
  ultimately show ?thesis
    using sample_admitted [OF res] by (simp add: decide_def agent_facts_of_def rd)
qed

lemma bot_succeeds:
  "(drain store_kube [])\<^sup>*\<^sup>* (sample_reader, {bot_key}) (rd, q) \<Longrightarrow> key \<in> q \<Longrightarrow>
   \<exists>rd'. Agent_Reconcile store_kube [] key rd = (None, rd')"
  using bot_drains [of rd q] bot_pass [of rd] by (metis singletonD subsetD)

lemma bot_rests:
  obtains rd where "(drain store_kube [])\<^sup>*\<^sup>* (sample_reader, {bot_key}) (rd, {})"
  using store_lock.drain_to_empty [of "(sample_reader, {bot_key})" "[]"] bot_succeeds sample_keyed by auto

lemma unqueued_verdict:
  assumes "locking_server k admitDeployment admitService" and "loop_run k url l s"
    and "getAgent (reads k (lp_world s)) key = Found a" and "refs_carry_names a"
    and "key \<notin> lp_queue s" and "\<And>b. lp_flight s \<noteq> Some (key, b)"
  shows "verdict_right (parseQuantity k) (reads k (lp_world s)) a"
proof -
  have "covered k s key a" by (rule loop_invD(3) [OF locking_server.loop_run_inv [OF assms(1,2)] assms(3,4)])
  moreover have "pending s key a = a" using assms(6) by (auto simp: pending_def split: option.splits)
  ultimately show ?thesis using assms(5) by (simp add: covered_def)
qed

section \<open>Properties\<close>



text \<open>
  C6. Left alone, the controller comes to rest with every verdict right. However the queued Agents
  are ordered, at most two successful reconciliations per queued key fit in before the queue is
  empty, the events of their own writes included; and if none fails, the queue does become
  empty, every Agent then carrying the verdict its cluster calls for.
\<close>

theorem controller_comes_to_rest:
  assumes "locking_server k admitDeployment admitService"
    and "loop_run k url l s" and "lp_flight s = None" and "finite (lp_queue s)"
    and "\<And>w q key. (drain k url)\<^sup>*\<^sup>* (lp_world s, lp_queue s) (w, q) \<Longrightarrow> key \<in> q \<Longrightarrow>
           \<exists>w'. Agent_Reconcile k url key w = (None, w')"
  shows "(\<forall>n w q. (drain k url ^^ n) (lp_world s, lp_queue s) (w, q) \<longrightarrow> n + card q \<le> 2 * card (lp_queue s)) \<and>
         (\<exists>w. (drain k url)\<^sup>*\<^sup>* (lp_world s, lp_queue s) (w, {}) \<and>
            (\<forall>key a. getAgent (reads k w) key = Found a \<longrightarrow> refs_carry_names a \<longrightarrow>
               verdict_right (parseQuantity k) (reads k w) a))"
proof (intro conjI allI impI)
  let ?s = "(lp_world s, lp_queue s)"
  note api = locking_server.axioms(1) [OF assms(1)]
  have keyed: "agents_keyed (reads k (fst ?s))" using loop_invD(1) [OF locking_server.loop_run_inv [OF assms(1,2)]] by simp
  have fin: "finite (snd ?s)" using assms(4) by simp
  show "n + card q \<le> 2 * card (lp_queue s)" if n: "(drain k url ^^ n) ?s (w, q)" for n w q
  proof -
    have q: "finite (snd (w, q))" by (rule drain_finite [OF relpowp_imp_rtranclp [OF n] fin])
    have "card q \<le> api_server.work_left k admitDeployment admitService url (w, q)"
      "api_server.work_left k admitDeployment admitService url ?s \<le> 2 * card (lp_queue s)"
      using api_server.work_left_bounds [OF api q, of url] api_server.work_left_bounds [OF api fin, of url] by simp_all
    with api_server.drain_bounded [OF api n fin keyed] show ?thesis by linarith
  qed
  obtain w where w: "(drain k url)\<^sup>*\<^sup>* ?s (w, {})"
    using locking_server.drain_to_empty [OF assms(1) fin keyed] assms(5) by blast
  have "loop_run k url l \<lparr>lp_world = fst ?s, lp_queue = snd ?s, lp_flight = None\<rparr>"
    using assms(2,3) by (cases s) simp
  from locking_server.drain_run [OF assms(1) w this]
  have inv: "loop_inv k \<lparr>lp_world = w, lp_queue = {}, lp_flight = None\<rparr>"
    using locking_server.loop_run_inv [OF assms(1)] by simp
  have "verdict_right (parseQuantity k) (reads k w) a" if "getAgent (reads k w) key = Found a" "refs_carry_names a" for key a
    using loop_invD(3) [OF inv] that by (simp add: covered_def pending_def)
  with w show "\<exists>w. (drain k url)\<^sup>*\<^sup>* ?s (w, {}) \<and>
      (\<forall>key a. getAgent (reads k w) key = Found a \<longrightarrow> refs_carry_names a \<longrightarrow> verdict_right (parseQuantity k) (reads k w) a)"
    by blast
qed

theorem controller_comes_to_rest_witness:
  "\<exists>rd a n. (drain store_kube [] ^^ n) (sample_reader, {bot_key}) (rd, {}) \<and> n \<le> 2 \<and> getAgent rd bot_key = Found a \<and>
     verdict_right (parseQuantity store_kube) rd a"
proof -
  have f: "lp_flight bot_start = None" "finite (lp_queue bot_start)" by (simp_all add: bot_start_def)
  have s: "lp_world bot_start = sample_reader" "lp_queue bot_start = {bot_key}" by (simp_all add: bot_start_def)
  have rest: "(\<forall>n w q. (drain store_kube [] ^^ n) (sample_reader, {bot_key}) (w, q) \<longrightarrow> n + card q \<le> 2 * card {bot_key}) \<and>
      (\<exists>w. (drain store_kube [])\<^sup>*\<^sup>* (sample_reader, {bot_key}) (w, {}) \<and>
         (\<forall>key a. getAgent (reads store_kube w) key = Found a \<longrightarrow> refs_carry_names a \<longrightarrow>
            verdict_right (parseQuantity store_kube) (reads store_kube w) a))"
    by (rule controller_comes_to_rest [OF store_lock.locking_server_axioms bot_run f, unfolded s]) (rule bot_succeeds)
  then obtain rd where rd: "(drain store_kube [])\<^sup>*\<^sup>* (sample_reader, {bot_key}) (rd, {})"
    and v: "\<And>key a. getAgent rd key = Found a \<Longrightarrow> refs_carry_names a \<Longrightarrow> verdict_right (parseQuantity store_kube) rd a"
    by auto
  from bot_drains [OF rd] obtain a where a: "getAgent rd bot_key = Found a" "alike a sample_agent" by (auto simp: bot_kept_def)
  have "refs_carry_names a" using a(2) by (rule bot_names)
  then have "verdict_right (parseQuantity store_kube) rd a" by (rule v [OF a(1)])
  moreover obtain n where n: "(drain store_kube [] ^^ n) (sample_reader, {bot_key}) (rd, {})"
    using rtranclp_imp_relpowp [OF rd] by blast
  moreover have "n \<le> 2" using conjunct1 [OF rest, rule_format, OF n] by simp
  ultimately show ?thesis using a(1) by auto
qed

end
