(* ===== verification/Event_Stream.thy ===== *)
theory Event_Stream
  imports Hub
begin

text \<open>
  The watch stream on the wire: what \<^verbatim>\<open>writeSSE\<close> and the keepalive of \<^verbatim>\<open>handleWatch\<close>
  (\<^verbatim>\<open>cmd/registry/main.go\<close>) write, and a client that reads it as the event-stream format says. The
  JSON of a config is the SDK's, a parameter. The property: the client sees exactly the configs
  that were sent, in order, and never a keepalive.
\<close>

section \<open>The writer\<close>

definition LF :: char where "LF = CHR 0x0A"

definition CR :: char where "CR = CHR 0x0D"

text \<open>A config that cannot be encoded is skipped.\<close>

definition writeSSE :: "(agent_config \<Rightarrow> string + string) \<Rightarrow> agent_config \<Rightarrow> string" where
  "writeSSE encode cfg = (case encode cfg of Inl e \<Rightarrow> [] | Inr b \<Rightarrow> ''data: '' @ b @ [LF, LF])"

fun sseText :: "(agent_config \<Rightarrow> string + string) \<Rightarrow> sse \<Rightarrow> string" where
  "sseText encode (Data rv cfg) = writeSSE encode cfg"
| "sseText encode Keepalive = '': keepalive'' @ [LF, LF]"

definition streamText :: "(agent_config \<Rightarrow> string + string) \<Rightarrow> sse list \<Rightarrow> string" where
  "streamText encode out = concat (map (sseText encode) out)"

section \<open>The reader\<close>

text \<open>
  The lines of a stream, each ended by a line feed or a carriage return, without an unfinished last
  one; the lines of the stream written here end in line feeds. A line that starts with a colon is
  a comment, \<^verbatim>\<open>data:\<close> adds to the event, an empty line ends the event unless it has no data.
\<close>

fun sse_lines :: "string \<Rightarrow> string \<Rightarrow> string list" where
  "sse_lines cur [] = []"
| "sse_lines cur (c # cs) = (if c = LF \<or> c = CR then cur # sse_lines [] cs else sse_lines (cur @ [c]) cs)"

fun sse_dispatch :: "string list \<Rightarrow> string list \<Rightarrow> string list" where
  "sse_dispatch buf [] = []"
| "sse_dispatch buf (l # ls) =
    (if l = [] then (if buf = [] then sse_dispatch [] ls else join_sep [LF] buf # sse_dispatch [] ls)
     else if take 1 l = '':'' then sse_dispatch buf ls
     else if take 6 l = ''data: '' then sse_dispatch (buf @ [drop 6 l]) ls
     else if take 5 l = ''data:'' then sse_dispatch (buf @ [drop 5 l]) ls
     else sse_dispatch buf ls)"

definition sse_events :: "string \<Rightarrow> string list" where
  "sse_events s = sse_dispatch [] (sse_lines [] s)"

text \<open>The encodings of what was sent.\<close>

fun sent :: "(agent_config \<Rightarrow> string + string) \<Rightarrow> sse list \<Rightarrow> string list" where
  "sent encode [] = []"
| "sent encode (Data rv cfg # out) = (case encode cfg of Inl e \<Rightarrow> sent encode out | Inr b \<Rightarrow> b # sent encode out)"
| "sent encode (Keepalive # out) = sent encode out"

definition one_line :: "string \<Rightarrow> bool" where
  "one_line s \<longleftrightarrow> LF \<notin> set s \<and> CR \<notin> set s"

lemma sse_lines_line: "one_line l \<Longrightarrow> sse_lines cur (l @ LF # s) = (cur @ l) # sse_lines [] s"
  by (induction l arbitrary: cur) (auto simp: one_line_def)

lemma sse_events_data:
  assumes "one_line b"
  shows "sse_events (''data: '' @ b @ [LF, LF] @ s) = b # sse_events s"
proof -
  have "one_line (''data: '' @ b)" using assms by (simp add: one_line_def LF_def CR_def)
  from sse_lines_line [OF this, of "[]" "LF # s"] show ?thesis
    by (simp add: sse_events_def)
qed

lemma sse_events_comment: "sse_events ('': keepalive'' @ [LF, LF] @ s) = sse_events s"
proof -
  have "one_line '': keepalive''" by (simp add: one_line_def LF_def CR_def)
  from sse_lines_line [OF this, of "[]" "LF # s"] show ?thesis by (simp add: sse_events_def)
qed

section \<open>Properties\<close>

text \<open>
  C28. The watch stream decodes: a client that reads the bytes written for any sequence of configs and
  keepalives gets exactly the encodings of the configs, in the order they were sent, each as one
  event. It needs of the encoder that its text has no line breaks, which JSON escapes.
\<close>

theorem stream_decodes:
  assumes "\<And>cfg b. encode cfg = Inr b \<Longrightarrow> one_line b"
  shows "sse_events (streamText encode out) = sent encode out"
proof (induction out)
  case (Cons x out)
  show ?case
  proof (cases x)
    case (Data rv cfg)
    then show ?thesis
      using Cons sse_events_data assms by (cases "encode cfg") (simp_all add: streamText_def writeSSE_def)
  next
    case Keepalive
    then show ?thesis using Cons sse_events_comment by (simp add: streamText_def)
  qed
qed (simp add: streamText_def sse_events_def)

theorem stream_decodes_witness:
  "\<forall>cfg cfg'. sse_events (streamText (\<lambda>cfg. Inr ''{}'') [Data ''1'' cfg, Keepalive, Data ''2'' cfg']) = [''{}'', ''{}'']"
proof -
  have "one_line ''{}''" by (simp add: one_line_def LF_def CR_def)
  then have "sse_events (streamText (\<lambda>cfg. Inr ''{}'') out) = sent (\<lambda>cfg. Inr ''{}'') out" for out
    by (intro stream_decodes) auto
  then show ?thesis by simp
qed

end
