(* ===== verification/Go_Heap.thy ===== *)
theory Go_Heap
  imports Prelude
begin

text \<open>
  Go values with their memory, for the code whose point is what it shares: a pointer and a slice
  are addresses of cells, a struct is its named fields. A value in a heap denotes a tree, which
  forgets the addresses; two values with the same tree are equal for everyone who only reads
  them. The statements that the generated copy functions are made of are combinators here, and
  the contract of a deep copy is a locale: the same tree, in cells that did not exist before.
\<close>

section \<open>Values, cells and trees\<close>

text \<open>
  \<open>Slice a off n\<close> views \<open>n\<close> elements of the array \<open>a\<close> from \<open>off\<close> on. A heap is the list of its cells
  in the order they were allocated; a cell is the array, or the one variable, at that address.
\<close>

datatype gval = Scalar string | Nil | Ptr nat | Slice nat nat nat | Struct "(string \<times> gval) list"

type_synonym heap = "gval list list"

datatype tree = TScalar string | TNil | TPtr tree | TSlice "tree list" | TStruct "(string \<times> tree) list"

text \<open>
  \<open>denotes n h v t\<close>: in \<open>h\<close> the value \<open>v\<close> reads as \<open>t\<close>, and every cell on the way has an address of at
  least \<open>n\<close>.
\<close>

fun denotes :: "nat \<Rightarrow> heap \<Rightarrow> gval \<Rightarrow> tree \<Rightarrow> bool"
  and denotes_all :: "nat \<Rightarrow> heap \<Rightarrow> gval list \<Rightarrow> tree list \<Rightarrow> bool"
  and denotes_fields :: "nat \<Rightarrow> heap \<Rightarrow> (string \<times> gval) list \<Rightarrow> (string \<times> tree) list \<Rightarrow> bool" where
  "denotes n h v (TScalar s) \<longleftrightarrow> v = Scalar s"
| "denotes n h v TNil \<longleftrightarrow> v = Nil"
| "denotes n h v (TPtr t) \<longleftrightarrow>
    (case v of Ptr a \<Rightarrow> n \<le> a \<and> a < length h \<and> length (h ! a) = 1 \<and> denotes n h (h ! a ! 0) t | _ \<Rightarrow> False)"
| "denotes n h v (TSlice ts) \<longleftrightarrow>
    (case v of Slice a off m \<Rightarrow> n \<le> a \<and> a < length h \<and> off + m \<le> length (h ! a) \<and>
                 denotes_all n h (take m (drop off (h ! a))) ts
     | _ \<Rightarrow> False)"
| "denotes n h v (TStruct gs) \<longleftrightarrow> (case v of Struct fs \<Rightarrow> denotes_fields n h fs gs | _ \<Rightarrow> False)"
| "denotes_all n h vs [] \<longleftrightarrow> vs = []"
| "denotes_all n h vs (t # ts) \<longleftrightarrow> (case vs of [] \<Rightarrow> False | v # vs' \<Rightarrow> denotes n h v t \<and> denotes_all n h vs' ts)"
| "denotes_fields n h fs [] \<longleftrightarrow> fs = []"
| "denotes_fields n h fs ((m, t) # gs) \<longleftrightarrow>
    (case fs of [] \<Rightarrow> False | (m', v) # fs' \<Rightarrow> m' = m \<and> denotes n h v t \<and> denotes_fields n h fs' gs)"

text \<open>The cells a value reaches.\<close>

fun footprint :: "heap \<Rightarrow> gval \<Rightarrow> tree \<Rightarrow> nat set"
  and footprint_all :: "heap \<Rightarrow> gval list \<Rightarrow> tree list \<Rightarrow> nat set"
  and footprint_fields :: "heap \<Rightarrow> (string \<times> gval) list \<Rightarrow> (string \<times> tree) list \<Rightarrow> nat set" where
  "footprint h (Ptr a) (TPtr t) = insert a (footprint h (h ! a ! 0) t)"
| "footprint h (Slice a off m) (TSlice ts) = insert a (footprint_all h (take m (drop off (h ! a))) ts)"
| "footprint h (Struct fs) (TStruct gs) = footprint_fields h fs gs"
| "footprint h v t = {}"
| "footprint_all h (v # vs) (t # ts) = footprint h v t \<union> footprint_all h vs ts"
| "footprint_all h vs ts = {}"
| "footprint_fields h ((m', v) # fs) ((m, t) # gs) = footprint h v t \<union> footprint_fields h fs gs"
| "footprint_fields h fs gs = {}"

section \<open>Types\<close>

text \<open>
  The layout of a type of the API: \<open>TyScalar\<close> is a type without references (string, bool, int32 and
  their named variants), \<open>TyForeign\<close> a type of another module, whose values are a parameter.
\<close>

datatype gtype = TyScalar | TyPtr gtype | TySlice gtype | TyStruct "(string \<times> gtype) list" | TyForeign string

fun has_type :: "(string \<Rightarrow> tree \<Rightarrow> bool) \<Rightarrow> gtype \<Rightarrow> tree \<Rightarrow> bool"
  and has_fields :: "(string \<Rightarrow> tree \<Rightarrow> bool) \<Rightarrow> (string \<times> gtype) list \<Rightarrow> (string \<times> tree) list \<Rightarrow> bool" where
  "has_type F TyScalar t \<longleftrightarrow> (case t of TScalar s \<Rightarrow> True | _ \<Rightarrow> False)"
| "has_type F (TyPtr T) t \<longleftrightarrow> (case t of TNil \<Rightarrow> True | TPtr u \<Rightarrow> has_type F T u | _ \<Rightarrow> False)"
| "has_type F (TySlice T) t \<longleftrightarrow> (case t of TNil \<Rightarrow> True | TSlice us \<Rightarrow> (\<forall>u\<in>set us. has_type F T u) | _ \<Rightarrow> False)"
| "has_type F (TyStruct fs) t \<longleftrightarrow> (case t of TStruct gs \<Rightarrow> has_fields F fs gs | _ \<Rightarrow> False)"
| "has_type F (TyForeign n) t \<longleftrightarrow> F n t"
| "has_fields F [] gs \<longleftrightarrow> gs = []"
| "has_fields F ((n, T) # fs) gs \<longleftrightarrow>
    (case gs of [] \<Rightarrow> False | (m, t) # gs' \<Rightarrow> m = n \<and> has_type F T t \<and> has_fields F fs gs')"

text \<open>A type is flat when its values hold no address, so that assigning one copies all of it.\<close>

fun flat :: "gtype \<Rightarrow> bool" where
  "flat TyScalar = True"
| "flat (TyStruct fs) = (\<forall>f\<in>set fs. flat (snd f))"
| "flat T = False"

section \<open>The statements of a copy function\<close>

type_synonym copier = "gval \<Rightarrow> heap \<Rightarrow> gval \<times> heap"

text \<open>
  What a fresh variable holds before its first write. Every cell allocated below is written before
  it is read.
\<close>

definition zero_value :: gval where
  "zero_value = Nil"

definition shallow :: copier where
  "shallow v h = (v, h)"

text \<open>
  \<^verbatim>\<open>if in != nil { *out = new(T); (*in).DeepCopyInto(*out) }\<close>; with \<^const>\<open>shallow\<close> it is \<^verbatim>\<open>**out = **in\<close>.
\<close>

definition copyPtr :: "copier \<Rightarrow> copier" where
  "copyPtr f v h =
    (case v of
       Ptr a \<Rightarrow> (let p = length h; (x, h') = f (h ! a ! 0) (h @ [[zero_value]]) in (Ptr p, h'[p := [x]]))
     | _ \<Rightarrow> (v, h))"

text \<open>\<^verbatim>\<open>if in != nil { x := (*in).DeepCopy(); *out = &x }\<close>, for a method that returns a value.\<close>

definition copyPtrValue :: "copier \<Rightarrow> copier" where
  "copyPtrValue f v h =
    (case v of Ptr a \<Rightarrow> (let (x, h') = f (h ! a ! 0) h in (Ptr (length h'), h' @ [[x]])) | _ \<Rightarrow> (v, h))"

text \<open>\<^verbatim>\<open>if in != nil { *out = make([]T, len(*in)); copy(*out, *in) }\<close>.\<close>

definition copySliceFlat :: copier where
  "copySliceFlat v h =
    (case v of
       Slice a off n \<Rightarrow>
         (let p = length h; h' = h @ [replicate n zero_value] in (Slice p 0 n, h'[p := take n (drop off (h' ! a))]))
     | _ \<Rightarrow> (v, h))"

text \<open>The loop \<^verbatim>\<open>for i := range *in { (*in)[i].DeepCopyInto(&(*out)[i]) }\<close>, from \<open>i\<close> on.\<close>

fun copyElems :: "copier \<Rightarrow> nat \<Rightarrow> nat \<Rightarrow> nat \<Rightarrow> nat \<Rightarrow> nat \<Rightarrow> heap \<Rightarrow> heap" where
  "copyElems f a off p i 0 h = h"
| "copyElems f a off p i (Suc m) h =
    (let (x, h') = f (h ! a ! (off + i)) h in copyElems f a off p (Suc i) m (h'[p := (h' ! p)[i := x]]))"

definition copySlice :: "copier \<Rightarrow> copier" where
  "copySlice f v h =
    (case v of
       Slice a off n \<Rightarrow>
         (let p = length h in (Slice p 0 n, copyElems f a off p 0 n (h @ [replicate n zero_value])))
     | _ \<Rightarrow> (v, h))"

definition getField :: "string \<Rightarrow> gval \<Rightarrow> gval" where
  "getField n v = (case v of Struct fs \<Rightarrow> (case map_of fs n of Some x \<Rightarrow> x | None \<Rightarrow> Nil) | _ \<Rightarrow> Nil)"

definition setField :: "string \<Rightarrow> gval \<Rightarrow> gval \<Rightarrow> gval" where
  "setField n x v =
    (case v of Struct fs \<Rightarrow> Struct (map (\<lambda>(m, y). (m, if m = n then x else y)) fs) | _ \<Rightarrow> v)"

text \<open>
  A copy function starts with \<^verbatim>\<open>*out = *in\<close> and then replaces fields of \<open>out\<close> one by one by what a
  statement makes of the same field of \<open>in\<close>.
\<close>

fun copyFields :: "(string \<times> copier) list \<Rightarrow> gval \<Rightarrow> gval \<Rightarrow> heap \<Rightarrow> gval \<times> heap" where
  "copyFields [] v out h = (out, h)"
| "copyFields ((n, f) # steps) v out h =
    (let (x, h') = f (getField n v) h in copyFields steps v (setField n x out) h')"

definition copyStruct :: "(string \<times> copier) list \<Rightarrow> copier" where
  "copyStruct steps v h = copyFields steps v v h"

text \<open>
  \<^verbatim>\<open>DeepCopy\<close> of a pointer receiver, and \<^verbatim>\<open>DeepCopyObject\<close>, whose result is an interface value: \<^const>\<open>None\<close>
  is the nil interface, otherwise the dynamic type and the pointer.
\<close>

definition deepCopy :: "copier \<Rightarrow> copier" where
  "deepCopy f v h = (if v = Nil then (Nil, h) else copyPtr f v h)"

definition deepCopyObject :: "string \<Rightarrow> copier \<Rightarrow> gval \<Rightarrow> heap \<Rightarrow> (string \<times> gval) option \<times> heap" where
  "deepCopyObject ty f v h = (let (c, h') = f v h in if c \<noteq> Nil then (Some (ty, c), h') else (None, h'))"

section \<open>Reading a heap\<close>

lemma denotes_all_iff: "denotes_all n h vs ts \<longleftrightarrow> list_all2 (denotes n h) vs ts"
proof (induction ts arbitrary: vs)
  case (Cons t ts)
  then show ?case by (cases vs) simp_all
qed simp

lemma denotes_fields_iff:
  "denotes_fields n h fs gs \<longleftrightarrow> map fst fs = map fst gs \<and> denotes_all n h (map snd fs) (map snd gs)"
proof (induction gs arbitrary: fs)
  case (Cons g gs)
  then show ?case by (cases fs; cases g) (auto split: prod.split)
qed simp

lemma has_fields_iff:
  "has_fields F fs gs \<longleftrightarrow> map fst gs = map fst fs \<and> list_all2 (has_type F) (map snd fs) (map snd gs)"
proof (induction fs arbitrary: gs)
  case (Cons f fs)
  then show ?case by (cases gs; cases f) (auto split: prod.split)
qed simp

text \<open>Cells below the bound may change, and new cells may appear.\<close>

definition agrees_above :: "nat \<Rightarrow> heap \<Rightarrow> heap \<Rightarrow> bool" where
  "agrees_above n h h' \<longleftrightarrow> (\<forall>a. n \<le> a \<longrightarrow> a < length h \<longrightarrow> a < length h' \<and> h' ! a = h ! a)"

lemma denotes_frame:
  "agrees_above n h h' \<Longrightarrow> denotes n h v t \<Longrightarrow> denotes n h' v t"
  "agrees_above n h h' \<Longrightarrow> denotes_all n h vs ts \<Longrightarrow> denotes_all n h' vs ts"
  "agrees_above n h h' \<Longrightarrow> denotes_fields n h fs gs \<Longrightarrow> denotes_fields n h' fs gs"
  by (induction n h v t and n h vs ts and n h fs gs rule: denotes_denotes_all_denotes_fields.induct)
     (auto simp: agrees_above_def split: gval.splits list.splits)

lemma denotes_weaken:
  "m \<le> n \<Longrightarrow> denotes n h v t \<Longrightarrow> denotes m h v t"
  "m \<le> n \<Longrightarrow> denotes_all n h vs ts \<Longrightarrow> denotes_all m h vs ts"
  "m \<le> n \<Longrightarrow> denotes_fields n h fs gs \<Longrightarrow> denotes_fields m h fs gs"
  by (induction n h v t and n h vs ts and n h fs gs rule: denotes_denotes_all_denotes_fields.induct)
     (auto split: gval.splits list.splits)

lemma denotes_footprint:
  "denotes n h v t \<Longrightarrow> footprint h v t \<subseteq> {n..<length h}"
  "denotes_all n h vs ts \<Longrightarrow> footprint_all h vs ts \<subseteq> {n..<length h}"
  "denotes_fields n h fs gs \<Longrightarrow> footprint_fields h fs gs \<subseteq> {n..<length h}"
  by (induction h v t and h vs ts and h fs gs rule: footprint_footprint_all_footprint_fields.induct) auto

lemma agrees_append [simp]: "agrees_above n h (h @ new)"
  by (simp add: agrees_above_def nth_append)

lemma agrees_update [simp]: "p < n \<Longrightarrow> agrees_above n h (h[p := c])"
  by (simp add: agrees_above_def)

lemma denotes_append: "denotes n h v t \<Longrightarrow> denotes n (h @ new) v t"
  using denotes_frame(1) [OF agrees_append] .

lemma denotes_flat:
  "has_type F T t \<Longrightarrow> flat T \<Longrightarrow> denotes n h v t \<Longrightarrow> denotes n' h' v t"
  "has_fields F fs gs \<Longrightarrow> \<forall>f\<in>set fs. flat (snd f) \<Longrightarrow> denotes_fields n h vs gs \<Longrightarrow> denotes_fields n' h' vs gs"
  by (induction F T t and F fs gs arbitrary: v and vs rule: has_type_has_fields.induct)
     (auto split: tree.splits gval.splits list.splits)

text \<open>Somebody overwrites cells, one after the other.\<close>

fun writes :: "(nat \<times> gval list) list \<Rightarrow> heap \<Rightarrow> heap" where
  "writes [] h = h"
| "writes ((a, c) # ws) h = writes ws (h[a := c])"

lemma length_writes [simp]: "length (writes ws h) = length h"
  by (induction ws h rule: writes.induct) simp_all

lemma writes_frame: "\<forall>w\<in>set ws. fst w \<noteq> a \<Longrightarrow> writes ws h ! a = h ! a"
  by (induction ws h rule: writes.induct) auto

section \<open>The contract of a deep copy\<close>

text \<open>
  The copy reads as the original did, every cell it reaches is new, and no existing cell was
  written.
\<close>

locale deep_copier =
  fixes F :: "string \<Rightarrow> tree \<Rightarrow> bool" and T :: gtype and copy :: copier
  assumes copies: "denotes 0 h v t \<Longrightarrow> has_type F T t \<Longrightarrow> copy v h = (v', h') \<Longrightarrow>
    (\<exists>new. h' = h @ new) \<and> denotes (length h) h' v' t"
begin

lemma original_kept:
  assumes "denotes 0 h v t" "has_type F T t" "copy v h = (v', h')"
  shows "denotes 0 h' v t"
  using copies [OF assms] denotes_append [OF assms(1)] by auto

lemma nothing_shared:
  assumes "denotes 0 h v t" "has_type F T t" "copy v h = (v', h')"
  shows "footprint h v t \<inter> footprint h' v' t = {}"
proof -
  have "footprint h v t \<subseteq> {0..<length h}" by (rule denotes_footprint(1) [OF assms(1)])
  moreover have "footprint h' v' t \<subseteq> {length h..<length h'}"
    using denotes_footprint(1) copies [OF assms] by blast
  ultimately show ?thesis by fastforce
qed

lemma writes_to_copy_unseen:
  assumes "denotes 0 h v t" "has_type F T t" "copy v h = (v', h')"
    and "\<forall>w\<in>set ws. fst w \<in> footprint h' v' t"
  shows "denotes 0 (writes ws h') v t"
proof -
  obtain new where n: "h' = h @ new" and "denotes (length h) h' v' t" using copies [OF assms(1-3)] by blast
  with assms(4) denotes_footprint(1) have "\<forall>w\<in>set ws. length h \<le> fst w" by fastforce
  then have "agrees_above 0 h (writes ws h')"
    unfolding n by (auto simp: agrees_above_def nth_append intro!: writes_frame [THEN trans])
  from denotes_frame(1) [OF this assms(1)] show ?thesis .
qed

lemma writes_to_original_unseen:
  assumes "denotes 0 h v t" "has_type F T t" "copy v h = (v', h')"
    and "\<forall>w\<in>set ws. fst w \<in> footprint h v t"
  shows "denotes (length h) (writes ws h') v' t"
proof -
  have d: "denotes (length h) h' v' t" using copies [OF assms(1-3)] by blast
  from assms(4) denotes_footprint(1) [OF assms(1)] have "\<forall>w\<in>set ws. fst w < length h" by fastforce
  then have "agrees_above (length h) h' (writes ws h')"
    by (auto simp: agrees_above_def intro!: writes_frame)
  from denotes_frame(1) [OF this d] show ?thesis .
qed

end

section \<open>Every statement keeps the contract\<close>

named_theorems deep_copy_intros \<open>how the contract of a copy function follows from its statements\<close>

lemma deep_shallow [deep_copy_intros]: "flat T \<Longrightarrow> deep_copier F T shallow"
  by (unfold_locales) (auto simp: shallow_def intro: denotes_flat(1))

text \<open>A cell that is filled after its contents were made.\<close>

lemma denotes_cell:
  assumes "denotes (Suc p) h x t" "p < length h" "m \<le> p"
  shows "denotes m (h[p := [x]]) (Ptr p) (TPtr t)"
proof -
  have "denotes m (h[p := [x]]) x t"
    using denotes_weaken(1) [OF _ denotes_frame(1) [OF agrees_update assms(1)]] assms(3) by simp
  with assms(2,3) show ?thesis by simp
qed

lemma deep_ptr [deep_copy_intros]:
  assumes "deep_copier F T f"
  shows "deep_copier F (TyPtr T) (copyPtr f)"
proof
  fix h v t v' h'
  assume d: "denotes 0 h v t" and ty: "has_type F (TyPtr T) t" and c: "copyPtr f v h = (v', h')"
  show "(\<exists>new. h' = h @ new) \<and> denotes (length h) h' v' t"
  proof (cases t)
    case (TPtr u)
    with d obtain a where a: "v = Ptr a" "a < length h" "denotes 0 h (h ! a ! 0) u"
      by (auto split: gval.splits)
    let ?h1 = "h @ [[zero_value]]"
    obtain x h2 where f: "f (h ! a ! 0) ?h1 = (x, h2)" by fastforce
    with deep_copier.copies [OF assms denotes_append [OF a(3)] _ f] ty TPtr
    obtain new where n: "h2 = ?h1 @ new" "denotes (Suc (length h)) h2 x u" by auto
    then have "h2[length h := [x]] = h @ [[x]] @ new" by (simp add: list_update_append)
    moreover have "denotes (length h) (h2[length h := [x]]) (Ptr (length h)) (TPtr u)"
      using denotes_cell [OF n(2)] n(1) by simp
    moreover have "v' = Ptr (length h)" "h' = h2[length h := [x]]"
      using c a(1) f by (simp_all add: copyPtr_def Let_def)
    ultimately show ?thesis using TPtr by blast
  qed (use d ty c in \<open>auto simp: copyPtr_def\<close>)
qed

lemma deep_ptr_value [deep_copy_intros]:
  assumes "deep_copier F T f"
  shows "deep_copier F (TyPtr T) (copyPtrValue f)"
proof
  fix h v t v' h'
  assume d: "denotes 0 h v t" and ty: "has_type F (TyPtr T) t" and c: "copyPtrValue f v h = (v', h')"
  show "(\<exists>new. h' = h @ new) \<and> denotes (length h) h' v' t"
  proof (cases t)
    case (TPtr u)
    with d obtain a where a: "v = Ptr a" "denotes 0 h (h ! a ! 0) u" by (auto split: gval.splits)
    obtain x h2 where f: "f (h ! a ! 0) h = (x, h2)" by fastforce
    with deep_copier.copies [OF assms a(2) _ f] ty TPtr
    obtain new where n: "h2 = h @ new" "denotes (length h) h2 x u" by auto
    with denotes_append [OF n(2), of "[[x]]"] c a(1) f TPtr show ?thesis
      by (auto simp: copyPtrValue_def nth_append)
  qed (use d ty c in \<open>auto simp: copyPtrValue_def\<close>)
qed

lemma deep_slice_flat [deep_copy_intros]:
  assumes "flat T"
  shows "deep_copier F (TySlice T) copySliceFlat"
proof
  fix h v t v' h'
  assume d: "denotes 0 h v t" and ty: "has_type F (TySlice T) t" and c: "copySliceFlat v h = (v', h')"
  show "(\<exists>new. h' = h @ new) \<and> denotes (length h) h' v' t"
  proof (cases t)
    case (TSlice us)
    with d obtain a off n where a: "v = Slice a off n" "a < length h" "off + n \<le> length (h ! a)"
      and el: "list_all2 (denotes 0 h) (take n (drop off (h ! a))) us"
      by (auto simp: denotes_all_iff split: gval.splits)
    let ?h = "h @ [take n (drop off (h ! a))]"
    have "list_all2 (denotes (length h) ?h) (take n (drop off (h ! a))) us"
      using el by (rule list.rel_mono_strong)
        (use ty TSlice in \<open>auto intro: denotes_flat(1) [OF _ assms]\<close>)
    with c a TSlice show ?thesis by (auto simp: copySliceFlat_def Let_def nth_append denotes_all_iff)
  qed (use d ty c in \<open>auto simp: copySliceFlat_def\<close>)
qed

text \<open>
  The loop over a slice: the array of the copy stands behind the cells of the start, its first \<open>i\<close>
  elements are copied into cells behind it.
\<close>

definition partly_copied :: "heap \<Rightarrow> tree list \<Rightarrow> nat \<Rightarrow> heap \<Rightarrow> bool" where
  "partly_copied h0 us i h \<longleftrightarrow>
    (\<exists>c new. h = h0 @ c # new \<and> length c = length us \<and> (\<forall>j<i. denotes (Suc (length h0)) h (c ! j) (us ! j)))"

lemma partly_copied_step:
  assumes "partly_copied h0 us i h" "i < length us" "h' = h @ more" "denotes (length h) h' x (us ! i)"
  shows "partly_copied h0 us (Suc i) (h'[length h0 := (h' ! length h0)[i := x]])"
proof -
  from assms(1) obtain c new where h: "h = h0 @ c # new" "length c = length us"
    and el: "\<And>j. j < i \<Longrightarrow> denotes (Suc (length h0)) h (c ! j) (us ! j)"
    by (auto simp: partly_copied_def)
  let ?h = "h'[length h0 := (h' ! length h0)[i := x]]"
  have u: "?h = h0 @ c[i := x] # (new @ more)" by (simp add: assms(3) h list_update_append)
  have keep: "denotes (Suc (length h0)) ?h y t" if "denotes (Suc (length h0)) h' y t" for y t
    using denotes_frame(1) [OF agrees_update that] by simp
  have "denotes (Suc (length h0)) ?h (c[i := x] ! j) (us ! j)" if "j < Suc i" for j
  proof (cases "j = i")
    case True
    have "denotes (Suc (length h0)) h' x (us ! i)"
      using denotes_weaken(1) [OF _ assms(4)] by (simp add: h)
    with keep True assms(2) h(2) show ?thesis by simp
  next
    case False
    with that el [of j] denotes_append [of _ h _ _ more] keep assms(3) show ?thesis by simp
  qed
  then show ?thesis using u h(2) unfolding partly_copied_def by (metis length_list_update)
qed

lemma copyElems_copied:
  assumes "deep_copier F T f" and "a < length h0" and "off + length us \<le> length (h0 ! a)"
    and "\<And>j. j < length us \<Longrightarrow> denotes 0 h0 (h0 ! a ! (off + j)) (us ! j) \<and> has_type F T (us ! j)"
    and "i + m = length us" and "partly_copied h0 us i h"
  shows "partly_copied h0 us (length us) (copyElems f a off (length h0) i m h)"
  using assms(5,6)
proof (induction m arbitrary: i h)
  case (Suc m)
  let ?y = "h ! a ! (off + i)"
  obtain c new where h: "h = h0 @ c # new" using Suc.prems(2) by (auto simp: partly_copied_def)
  have y: "?y = h0 ! a ! (off + i)" using assms(2) by (simp add: h nth_append)
  obtain x h' where f: "f ?y h = (x, h')" by fastforce
  have i: "i < length us" using Suc.prems(1) by simp
  have "denotes 0 h ?y (us ! i)"
    unfolding y unfolding h by (rule denotes_append) (use assms(4) [OF i] in blast)
  from deep_copier.copies [OF assms(1) this _ f] assms(4) [OF i]
  obtain more where "h' = h @ more" "denotes (length h) h' x (us ! i)" by blast
  from partly_copied_step [OF Suc.prems(2) i this] Suc.IH Suc.prems(1) f show ?case by simp
qed simp

lemma deep_slice [deep_copy_intros]:
  assumes "deep_copier F T f"
  shows "deep_copier F (TySlice T) (copySlice f)"
proof
  fix h v t v' h'
  assume d: "denotes 0 h v t" and ty: "has_type F (TySlice T) t" and c: "copySlice f v h = (v', h')"
  show "(\<exists>new. h' = h @ new) \<and> denotes (length h) h' v' t"
  proof (cases t)
    case (TSlice us)
    with d obtain a off n where a: "v = Slice a off n" "a < length h" "off + n \<le> length (h ! a)"
      and el: "list_all2 (denotes 0 h) (take n (drop off (h ! a))) us"
      by (auto simp: denotes_all_iff split: gval.splits)
    have n: "n = length us" using list_all2_lengthD [OF el] a(3) by simp
    have "denotes 0 h (h ! a ! (off + j)) (us ! j) \<and> has_type F T (us ! j)" if "j < length us" for j
      using list_all2_nthD2 [OF el that] that a(3) n ty TSlice by (simp add: add.commute)
    moreover have "partly_copied h us 0 (h @ [replicate n zero_value])"
      by (auto simp: partly_copied_def n)
    ultimately have "partly_copied h us (length us) h'"
      using copyElems_copied [OF assms a(2), of off us 0 n] a c n by (auto simp: copySlice_def Let_def)
    then obtain cell new where h': "h' = h @ cell # new" "length cell = length us"
        "\<And>j. j < length us \<Longrightarrow> denotes (Suc (length h)) h' (cell ! j) (us ! j)"
      by (auto simp: partly_copied_def)
    have "list_all2 (denotes (length h) h') cell us"
      using h'(2) denotes_weaken(1) [OF _ h'(3)] by (simp add: list_all2_conv_all_nth)
    with h'(1,2) a(1) c TSlice n show ?thesis by (auto simp: copySlice_def Let_def denotes_all_iff)
  qed (use d ty c in \<open>auto simp: copySlice_def\<close>)
qed

text \<open>The fields of a struct by name, and a struct whose fields were replaced by name.\<close>

lemma map_of_has_fields:
  "has_fields F fs gs \<Longrightarrow> map_of fs m = Some T \<Longrightarrow> \<exists>t. map_of gs m = Some t \<and> has_type F T t"
  "has_fields F fs gs \<Longrightarrow> map_of gs m = Some t \<Longrightarrow> \<exists>T. map_of fs m = Some T \<and> has_type F T t"
proof (induction fs arbitrary: gs)
  case (Cons f fs)
  {
    case 1
    then show ?case using Cons.IH(1) by (cases f) (auto split: list.splits if_splits)
  next
    case 2
    then show ?case using Cons.IH(2) by (cases f) (auto split: list.splits if_splits)
  }
qed simp_all

lemma getField_denotes:
  "denotes_fields n h fs gs \<Longrightarrow> map_of gs m = Some t \<Longrightarrow> denotes n h (getField m (Struct fs)) t"
proof (induction gs arbitrary: fs)
  case (Cons g gs)
  then show ?case by (cases g; cases fs) (auto simp: getField_def split: if_splits)
qed simp

definition fields_by :: "string list \<Rightarrow> (string \<Rightarrow> gval) \<Rightarrow> gval" where
  "fields_by ns val = Struct (map (\<lambda>m. (m, val m)) ns)"

lemma fields_by_setField: "setField n x (fields_by ns val) = fields_by ns (val(n := x))"
  by (simp add: setField_def fields_by_def)

lemma fields_by_getField: "distinct (map fst fs) \<Longrightarrow> Struct fs = fields_by (map fst fs) (\<lambda>m. getField m (Struct fs))"
  by (auto simp: fields_by_def getField_def comp_def intro!: map_idI [symmetric])

lemma fields_by_denotes:
  assumes "distinct (map fst gs)" "\<And>m t. map_of gs m = Some t \<Longrightarrow> denotes n h (val m) t"
  shows "denotes n h (fields_by (map fst gs) val) (TStruct gs)"
  using assms by (auto simp: fields_by_def denotes_fields_iff denotes_all_iff list_all2_conv_all_nth comp_def)

lemma copyFields_copied:
  assumes "list_all (\<lambda>(n, f). case map_of fs n of Some T \<Rightarrow> deep_copier F T f | None \<Rightarrow> False) steps"
    and "has_fields F fs gs" and "\<And>m t. map_of gs m = Some t \<Longrightarrow> denotes 0 h (getField m v) t"
    and "copyFields steps v (fields_by ns val) h = (out, h')"
  shows "\<exists>new val'. h' = h @ new \<and> out = fields_by ns val' \<and>
           (\<forall>m. m \<notin> fst ` set steps \<longrightarrow> val' m = val m) \<and>
           (\<forall>m t. m \<in> fst ` set steps \<longrightarrow> map_of gs m = Some t \<longrightarrow> denotes (length h) h' (val' m) t)"
  using assms(1,3,4)
proof (induction steps arbitrary: h val)
  case (Cons s steps)
  obtain n f where s: "s = (n, f)" by fastforce
  obtain x h1 where f: "f (getField n v) h = (x, h1)" by fastforce
  from Cons.prems(1) s obtain T where T: "map_of fs n = Some T" "deep_copier F T f"
    by (auto split: option.splits)
  with map_of_has_fields(1) [OF assms(2)] obtain t where t: "map_of gs n = Some t" "has_type F T t" by blast
  from deep_copier.copies [OF T(2) Cons.prems(2) [OF t(1)] t(2) f]
  obtain new where new: "h1 = h @ new" "denotes (length h) h1 x t" by blast
  have in_v: "denotes 0 h1 (getField m v) u" if "map_of gs m = Some u" for m u
    unfolding new(1) by (rule denotes_append) (rule Cons.prems(2) [OF that])
  have c: "copyFields steps v (fields_by ns (val(n := x))) h1 = (out, h')"
    using Cons.prems(3) s f by (simp add: fields_by_setField)
  have l: "list_all (\<lambda>(n, f). case map_of fs n of Some T \<Rightarrow> deep_copier F T f | None \<Rightarrow> False) steps"
    using Cons.prems(1) by simp
  obtain new' val' where r: "h' = h1 @ new'" "out = fields_by ns val'"
      "\<And>m. m \<notin> fst ` set steps \<Longrightarrow> val' m = (val(n := x)) m"
      "\<And>m u. m \<in> fst ` set steps \<Longrightarrow> map_of gs m = Some u \<Longrightarrow> denotes (length h1) h' (val' m) u"
    using Cons.IH [OF l in_v c] by blast
  have "denotes (length h) h' (val' m) u" if "m \<in> fst ` set (s # steps)" "map_of gs m = Some u" for m u
  proof (cases "m \<in> fst ` set steps")
    case True
    from denotes_weaken(1) [OF _ r(4) [OF True that(2)]] show ?thesis by (simp add: new(1))
  next
    case False
    with that s r(3) t(1) have "val' m = x" "u = t" by auto
    with denotes_append [OF new(2)] r(1) show ?thesis by simp
  qed
  with r(1-3) new(1) s show ?case by (intro exI [of _ "new @ new'"] exI [of _ val']) auto
qed auto

lemma deep_struct:
  assumes "distinct (map fst fs)"
    and "list_all (\<lambda>(n, f). case map_of fs n of Some T \<Rightarrow> deep_copier F T f | None \<Rightarrow> False) steps"
    and "list_all (\<lambda>(n, T). flat T \<or> n \<in> fst ` set steps) fs"
  shows "deep_copier F (TyStruct fs) (copyStruct steps)"
proof
  fix h v t v' h'
  assume d: "denotes 0 h v t" and ty: "has_type F (TyStruct fs) t" and c: "copyStruct steps v h = (v', h')"
  from d ty obtain gs vs where gs: "t = TStruct gs" "has_fields F fs gs" "v = Struct vs" "denotes_fields 0 h vs gs"
    by (auto split: tree.splits gval.splits)
  then have names: "map fst vs = map fst fs" "map fst gs = map fst fs"
    by (auto simp: denotes_fields_iff has_fields_iff)
  have in_v: "denotes 0 h (getField m v) u" if "map_of gs m = Some u" for m u
    using getField_denotes [OF gs(4) that] gs(3) by simp
  have v: "v = fields_by (map fst fs) (\<lambda>m. getField m v)"
    using fields_by_getField [of vs] assms(1) names gs(3) by simp
  from c v have "copyFields steps v (fields_by (map fst fs) (\<lambda>m. getField m v)) h = (v', h')"
    by (simp add: copyStruct_def)
  from copyFields_copied [OF assms(2) gs(2) in_v this] obtain new val where
    r: "h' = h @ new" "v' = fields_by (map fst fs) val" "\<And>m. m \<notin> fst ` set steps \<Longrightarrow> val m = getField m v"
      "\<And>m u. m \<in> fst ` set steps \<Longrightarrow> map_of gs m = Some u \<Longrightarrow> denotes (length h) h' (val m) u"
    by blast
  have "denotes (length h) h' (val m) u" if u: "map_of gs m = Some u" for m u
  proof (cases "m \<in> fst ` set steps")
    case False
    from map_of_has_fields(2) [OF gs(2) u] obtain T where T: "map_of fs m = Some T" "has_type F T u" by blast
    from map_of_SomeD [OF T(1)] assms(3) False have "flat T" by (force simp: list_all_iff)
    from denotes_flat(1) [OF T(2) this in_v [OF u]] r(3) [OF False] show ?thesis by simp
  qed (use r(4) u in blast)
  then have "denotes (length h) h' v' t"
    using fields_by_denotes [of gs] assms(1) names gs(1) r(2) by simp
  with r(1) show "(\<exists>new. h' = h @ new) \<and> denotes (length h) h' v' t" by blast
qed

lemma deep_copy_pointer: "deep_copier F T f \<Longrightarrow> deep_copier F (TyPtr T) (deepCopy f)"
proof -
  have "deepCopy f = copyPtr f" by (auto simp: deepCopy_def copyPtr_def fun_eq_iff)
  then show "deep_copier F T f \<Longrightarrow> deep_copier F (TyPtr T) (deepCopy f)" using deep_ptr by simp
qed

end
