(* ===== verification/Deep_Copy.thy ===== *)
theory Deep_Copy
  imports Go_Heap
begin

text \<open>
  The deep copies of the API types, \<^verbatim>\<open>api/v1alpha1/zz_generated.deepcopy.go\<close>: the layout of every
  type as its declaration has it, and for every type the three methods the generator writes. The
  client's cache hands out objects through these methods, and every value in the rest of the
  development is immutable; the properties here are why that is right: what a caller does to its
  copy is never seen by anybody who holds the original.
\<close>

section \<open>Layouts\<close>

text \<open>
  One field per declared field; an embedded type is a field of its own name. \<^verbatim>\<open>TypeMeta\<close> is two strings.
\<close>

definition TypeMeta_T :: gtype where
  "TypeMeta_T = TyStruct [(''Kind'', TyScalar), (''APIVersion'', TyScalar)]"

definition AccessRule_T :: gtype where
  "AccessRule_T = TyStruct
    [(''Allow'', TySlice TyScalar), (''Deny'', TySlice TyScalar)]"

definition AgentExposeSpec_T :: gtype where
  "AgentExposeSpec_T = TyStruct
    [(''Port'', TyScalar), (''Description'', TyScalar)]"

definition AgentEmptyDirVolumeSource_T :: gtype where
  "AgentEmptyDirVolumeSource_T = TyStruct
    [(''SizeLimit'', TyPtr (TyForeign ''Quantity'')), (''Medium'', TyScalar)]"

definition AgentObjectVolumeSource_T :: gtype where
  "AgentObjectVolumeSource_T = TyStruct
    [(''Name'', TyScalar), (''Optional'', TyPtr TyScalar)]"

definition AgentPVCVolumeSource_T :: gtype where
  "AgentPVCVolumeSource_T = TyStruct
    [(''ClaimName'', TyScalar)]"

definition AgentVolume_T :: gtype where
  "AgentVolume_T = TyStruct
    [(''Name'', TyScalar), (''MountPath'', TyScalar), (''ReadOnly'', TyScalar),
     (''PersistentVolumeClaim'', TyPtr AgentPVCVolumeSource_T),
     (''ConfigMap'', TyPtr AgentObjectVolumeSource_T), (''Secret'', TyPtr AgentObjectVolumeSource_T),
     (''EmptyDir'', TyPtr AgentEmptyDirVolumeSource_T)]"

definition AgentRuntimeSpec_T :: gtype where
  "AgentRuntimeSpec_T = TyStruct
    [(''Image'', TyScalar), (''Replicas'', TyScalar), (''Port'', TyScalar),
     (''Env'', TySlice (TyForeign ''EnvVar'')), (''ServiceAccountName'', TyScalar),
     (''Resources'', TyForeign ''ResourceRequirements''), (''ReadinessProbe'', TyPtr (TyForeign ''Probe'')),
     (''RuntimeClassName'', TyScalar), (''Volumes'', TySlice AgentVolume_T)]"

definition LocalReference_T :: gtype where
  "LocalReference_T = TyStruct
    [(''Name'', TyScalar)]"

definition AgentWorkspaceSpec_T :: gtype where
  "AgentWorkspaceSpec_T = TyStruct
    [(''Repository'', TyScalar), (''Branch'', TyScalar), (''CredentialRef'', TyPtr LocalReference_T),
     (''MountPath'', TyScalar), (''Size'', TyScalar), (''StorageClassName'', TyPtr TyScalar)]"

definition AgentSpec_T :: gtype where
  "AgentSpec_T = TyStruct
    [(''Description'', TyScalar), (''AgentClassRef'', TyPtr LocalReference_T),
     (''ModelRef'', TyPtr LocalReference_T), (''PromptRef'', TyPtr LocalReference_T),
     (''ToolRefs'', TySlice LocalReference_T), (''ToolSetRefs'', TySlice LocalReference_T),
     (''SkillRefs'', TySlice LocalReference_T), (''PolicyRefs'', TySlice LocalReference_T),
     (''ToolPolicyRefs'', TySlice LocalReference_T), (''CredentialRefs'', TySlice LocalReference_T),
     (''Runtime'', TyPtr AgentRuntimeSpec_T), (''Workspace'', TyPtr AgentWorkspaceSpec_T),
     (''Expose'', TyPtr AgentExposeSpec_T)]"

definition AgentStatus_T :: gtype where
  "AgentStatus_T = TyStruct
    [(''Conditions'', TySlice (TyForeign ''Condition'')), (''ObservedGeneration'', TyScalar),
     (''Phase'', TyScalar), (''ResolvedConfigHash'', TyScalar), (''ResolvedRefs'', TyScalar),
     (''RuntimeAvailableReplicas'', TyScalar), (''PeerEndpoint'', TyScalar), (''WorkspaceClaim'', TyScalar)]"

definition Agent_T :: gtype where
  "Agent_T = TyStruct
    [(''TypeMeta'', TypeMeta_T), (''ObjectMeta'', TyForeign ''ObjectMeta''), (''Spec'', AgentSpec_T),
     (''Status'', AgentStatus_T)]"

definition AgentClassSpec_T :: gtype where
  "AgentClassSpec_T = TyStruct
    [(''Description'', TyScalar), (''DefaultModelRef'', TyPtr LocalReference_T),
     (''DefaultPromptRef'', TyPtr LocalReference_T), (''DefaultPolicyRefs'', TySlice LocalReference_T),
     (''DefaultToolPolicyRefs'', TySlice LocalReference_T), (''DefaultToolRefs'', TySlice LocalReference_T),
     (''DefaultSkillRefs'', TySlice LocalReference_T)]"

definition AgentClassStatus_T :: gtype where
  "AgentClassStatus_T = TyStruct
    [(''Conditions'', TySlice (TyForeign ''Condition'')), (''ObservedGeneration'', TyScalar)]"

definition AgentClass_T :: gtype where
  "AgentClass_T = TyStruct
    [(''TypeMeta'', TypeMeta_T), (''ObjectMeta'', TyForeign ''ObjectMeta''), (''Spec'', AgentClassSpec_T),
     (''Status'', AgentClassStatus_T)]"

definition AgentClassList_T :: gtype where
  "AgentClassList_T = TyStruct
    [(''TypeMeta'', TypeMeta_T), (''ListMeta'', TyForeign ''ListMeta''), (''Items'', TySlice AgentClass_T)]"

definition AgentList_T :: gtype where
  "AgentList_T = TyStruct
    [(''TypeMeta'', TypeMeta_T), (''ListMeta'', TyForeign ''ListMeta''), (''Items'', TySlice Agent_T)]"

definition AgentReferences_T :: gtype where
  "AgentReferences_T = TyStruct
    [(''Model'', TyScalar), (''Tools'', TySlice TyScalar), (''MCPServers'', TySlice TyScalar)]"

definition ConfigMapKeyReference_T :: gtype where
  "ConfigMapKeyReference_T = TyStruct
    [(''Name'', TyScalar), (''Key'', TyScalar)]"

definition SecretKeyReference_T :: gtype where
  "SecretKeyReference_T = TyStruct
    [(''Name'', TyScalar), (''Key'', TyScalar)]"

definition CredentialSpec_T :: gtype where
  "CredentialSpec_T = TyStruct
    [(''SecretRef'', SecretKeyReference_T), (''Description'', TyScalar)]"

definition CredentialStatus_T :: gtype where
  "CredentialStatus_T = TyStruct
    [(''Conditions'', TySlice (TyForeign ''Condition'')), (''ObservedGeneration'', TyScalar),
     (''SecretFound'', TyPtr TyScalar)]"

definition Credential_T :: gtype where
  "Credential_T = TyStruct
    [(''TypeMeta'', TypeMeta_T), (''ObjectMeta'', TyForeign ''ObjectMeta''), (''Spec'', CredentialSpec_T),
     (''Status'', CredentialStatus_T)]"

definition CredentialList_T :: gtype where
  "CredentialList_T = TyStruct
    [(''TypeMeta'', TypeMeta_T), (''ListMeta'', TyForeign ''ListMeta''), (''Items'', TySlice Credential_T)]"

definition ToolRule_T :: gtype where
  "ToolRule_T = TyStruct
    [(''Tool'', TyScalar), (''Action'', TyScalar), (''MaxCallsPerSession'', TyPtr TyScalar)]"

definition EffectivePolicy_T :: gtype where
  "EffectivePolicy_T = TyStruct
    [(''Sources'', TySlice TyScalar), (''Models'', TyPtr AccessRule_T), (''MCP'', TyPtr AccessRule_T),
     (''Tools'', TyPtr AccessRule_T), (''ToolRules'', TySlice ToolRule_T), (''DefaultToolAction'', TyScalar)]"

definition FewShotExample_T :: gtype where
  "FewShotExample_T = TyStruct
    [(''Input'', TyScalar), (''Output'', TyScalar)]"

definition MCPServerSpec_T :: gtype where
  "MCPServerSpec_T = TyStruct
    [(''Image'', TyScalar), (''ExternalEndpoint'', TyScalar), (''Transport'', TyScalar),
     (''Port'', TyScalar), (''Replicas'', TyScalar), (''Env'', TySlice (TyForeign ''EnvVar'')),
     (''Resources'', TyForeign ''ResourceRequirements'')]"

definition MCPServerStatus_T :: gtype where
  "MCPServerStatus_T = TyStruct
    [(''Conditions'', TySlice (TyForeign ''Condition'')), (''ObservedGeneration'', TyScalar),
     (''Endpoint'', TyScalar), (''AvailableReplicas'', TyScalar)]"

definition MCPServer_T :: gtype where
  "MCPServer_T = TyStruct
    [(''TypeMeta'', TypeMeta_T), (''ObjectMeta'', TyForeign ''ObjectMeta''), (''Spec'', MCPServerSpec_T),
     (''Status'', MCPServerStatus_T)]"

definition MCPServerList_T :: gtype where
  "MCPServerList_T = TyStruct
    [(''TypeMeta'', TypeMeta_T), (''ListMeta'', TyForeign ''ListMeta''), (''Items'', TySlice MCPServer_T)]"

definition ModelDefaults_T :: gtype where
  "ModelDefaults_T = TyStruct
    [(''Temperature'', TyPtr TyScalar), (''MaxTokens'', TyPtr TyScalar)]"

definition ModelSpec_T :: gtype where
  "ModelSpec_T = TyStruct
    [(''Provider'', TyScalar), (''ModelName'', TyScalar), (''Endpoint'', TyScalar),
     (''CredentialRef'', TyPtr LocalReference_T), (''Defaults'', TyPtr ModelDefaults_T)]"

definition ModelStatus_T :: gtype where
  "ModelStatus_T = TyStruct
    [(''Conditions'', TySlice (TyForeign ''Condition'')), (''ObservedGeneration'', TyScalar)]"

definition Model_T :: gtype where
  "Model_T = TyStruct
    [(''TypeMeta'', TypeMeta_T), (''ObjectMeta'', TyForeign ''ObjectMeta''), (''Spec'', ModelSpec_T),
     (''Status'', ModelStatus_T)]"

definition ModelList_T :: gtype where
  "ModelList_T = TyStruct
    [(''TypeMeta'', TypeMeta_T), (''ListMeta'', TyForeign ''ListMeta''), (''Items'', TySlice Model_T)]"

definition PolicySpec_T :: gtype where
  "PolicySpec_T = TyStruct
    [(''Models'', TyPtr AccessRule_T), (''MCP'', TyPtr AccessRule_T), (''Tools'', TyPtr AccessRule_T)]"

definition PolicyStatus_T :: gtype where
  "PolicyStatus_T = TyStruct
    [(''Conditions'', TySlice (TyForeign ''Condition'')), (''ObservedGeneration'', TyScalar)]"

definition Policy_T :: gtype where
  "Policy_T = TyStruct
    [(''TypeMeta'', TypeMeta_T), (''ObjectMeta'', TyForeign ''ObjectMeta''), (''Spec'', PolicySpec_T),
     (''Status'', PolicyStatus_T)]"

definition PolicyList_T :: gtype where
  "PolicyList_T = TyStruct
    [(''TypeMeta'', TypeMeta_T), (''ListMeta'', TyForeign ''ListMeta''), (''Items'', TySlice Policy_T)]"

definition RolePrompt_T :: gtype where
  "RolePrompt_T = TyStruct
    [(''Role'', TyScalar), (''Content'', TyScalar)]"

definition PromptTemplateSpec_T :: gtype where
  "PromptTemplateSpec_T = TyStruct
    [(''Version'', TyScalar), (''System'', TyScalar), (''Roles'', TySlice RolePrompt_T),
     (''FewShot'', TySlice FewShotExample_T), (''Template'', TyScalar)]"

definition PromptTemplateStatus_T :: gtype where
  "PromptTemplateStatus_T = TyStruct
    [(''Conditions'', TySlice (TyForeign ''Condition'')), (''ObservedGeneration'', TyScalar)]"

definition PromptTemplate_T :: gtype where
  "PromptTemplate_T = TyStruct
    [(''TypeMeta'', TypeMeta_T), (''ObjectMeta'', TyForeign ''ObjectMeta''),
     (''Spec'', PromptTemplateSpec_T), (''Status'', PromptTemplateStatus_T)]"

definition PromptTemplateList_T :: gtype where
  "PromptTemplateList_T = TyStruct
    [(''TypeMeta'', TypeMeta_T), (''ListMeta'', TyForeign ''ListMeta''),
     (''Items'', TySlice PromptTemplate_T)]"

definition SkillSpec_T :: gtype where
  "SkillSpec_T = TyStruct
    [(''Description'', TyScalar), (''Version'', TyScalar), (''Content'', TyScalar),
     (''ContentConfigMapRef'', TyPtr ConfigMapKeyReference_T), (''AllowedTools'', TySlice TyScalar)]"

definition SkillStatus_T :: gtype where
  "SkillStatus_T = TyStruct
    [(''Conditions'', TySlice (TyForeign ''Condition'')), (''ObservedGeneration'', TyScalar),
     (''ContentSource'', TyScalar)]"

definition Skill_T :: gtype where
  "Skill_T = TyStruct
    [(''TypeMeta'', TypeMeta_T), (''ObjectMeta'', TyForeign ''ObjectMeta''), (''Spec'', SkillSpec_T),
     (''Status'', SkillStatus_T)]"

definition SkillList_T :: gtype where
  "SkillList_T = TyStruct
    [(''TypeMeta'', TypeMeta_T), (''ListMeta'', TyForeign ''ListMeta''), (''Items'', TySlice Skill_T)]"

definition SkillToolScope_T :: gtype where
  "SkillToolScope_T = TyStruct
    [(''Skill'', TyScalar), (''AllowedTools'', TySlice TyScalar)]"

definition ToolSpec_T :: gtype where
  "ToolSpec_T = TyStruct
    [(''Type'', TyScalar), (''Description'', TyScalar), (''Version'', TyScalar),
     (''MCPToolName'', TyScalar), (''Endpoint'', TyScalar), (''MCPServerRef'', TyPtr LocalReference_T),
     (''AgentRef'', TyPtr LocalReference_T), (''TimeoutSeconds'', TyPtr TyScalar),
     (''InputSchema'', TyPtr (TyForeign ''RawExtension'')),
     (''OutputSchema'', TyPtr (TyForeign ''RawExtension''))]"

definition ToolStatus_T :: gtype where
  "ToolStatus_T = TyStruct
    [(''Conditions'', TySlice (TyForeign ''Condition'')), (''ObservedGeneration'', TyScalar),
     (''Healthy'', TyPtr TyScalar)]"

definition Tool_T :: gtype where
  "Tool_T = TyStruct
    [(''TypeMeta'', TypeMeta_T), (''ObjectMeta'', TyForeign ''ObjectMeta''), (''Spec'', ToolSpec_T),
     (''Status'', ToolStatus_T)]"

definition ToolList_T :: gtype where
  "ToolList_T = TyStruct
    [(''TypeMeta'', TypeMeta_T), (''ListMeta'', TyForeign ''ListMeta''), (''Items'', TySlice Tool_T)]"

definition ToolPolicySpec_T :: gtype where
  "ToolPolicySpec_T = TyStruct
    [(''Rules'', TySlice ToolRule_T), (''DefaultAction'', TyScalar)]"

definition ToolPolicyStatus_T :: gtype where
  "ToolPolicyStatus_T = TyStruct
    [(''Conditions'', TySlice (TyForeign ''Condition'')), (''ObservedGeneration'', TyScalar)]"

definition ToolPolicy_T :: gtype where
  "ToolPolicy_T = TyStruct
    [(''TypeMeta'', TypeMeta_T), (''ObjectMeta'', TyForeign ''ObjectMeta''), (''Spec'', ToolPolicySpec_T),
     (''Status'', ToolPolicyStatus_T)]"

definition ToolPolicyList_T :: gtype where
  "ToolPolicyList_T = TyStruct
    [(''TypeMeta'', TypeMeta_T), (''ListMeta'', TyForeign ''ListMeta''), (''Items'', TySlice ToolPolicy_T)]"

definition ToolSetSpec_T :: gtype where
  "ToolSetSpec_T = TyStruct
    [(''Description'', TyScalar), (''ToolRefs'', TySlice LocalReference_T)]"

definition ToolSetStatus_T :: gtype where
  "ToolSetStatus_T = TyStruct
    [(''Conditions'', TySlice (TyForeign ''Condition'')), (''ObservedGeneration'', TyScalar),
     (''ResolvedTools'', TyScalar)]"

definition ToolSet_T :: gtype where
  "ToolSet_T = TyStruct
    [(''TypeMeta'', TypeMeta_T), (''ObjectMeta'', TyForeign ''ObjectMeta''), (''Spec'', ToolSetSpec_T),
     (''Status'', ToolSetStatus_T)]"

definition ToolSetList_T :: gtype where
  "ToolSetList_T = TyStruct
    [(''TypeMeta'', TypeMeta_T), (''ListMeta'', TyForeign ''ListMeta''), (''Items'', TySlice ToolSet_T)]"

definition TriggerSpec_T :: gtype where
  "TriggerSpec_T = TyStruct
    [(''AgentRef'', LocalReference_T), (''Image'', TyScalar), (''CredentialRef'', TyPtr LocalReference_T),
     (''Config'', TyPtr (TyForeign ''RawExtension'')), (''Replicas'', TyScalar),
     (''Env'', TySlice (TyForeign ''EnvVar'')), (''Resources'', TyForeign ''ResourceRequirements'')]"

definition TriggerStatus_T :: gtype where
  "TriggerStatus_T = TyStruct
    [(''Conditions'', TySlice (TyForeign ''Condition'')), (''ObservedGeneration'', TyScalar),
     (''Phase'', TyScalar), (''AvailableReplicas'', TyScalar), (''AgentEndpoint'', TyScalar)]"

definition Trigger_T :: gtype where
  "Trigger_T = TyStruct
    [(''TypeMeta'', TypeMeta_T), (''ObjectMeta'', TyForeign ''ObjectMeta''), (''Spec'', TriggerSpec_T),
     (''Status'', TriggerStatus_T)]"

definition TriggerList_T :: gtype where
  "TriggerList_T = TyStruct
    [(''TypeMeta'', TypeMeta_T), (''ListMeta'', TyForeign ''ListMeta''), (''Items'', TySlice Trigger_T)]"

section \<open>The copy functions\<close>

text \<open>\<open>ext\<close> is the \<^verbatim>\<open>DeepCopyInto\<close>, or \<^verbatim>\<open>DeepCopy\<close>, of a type of another module, by name.\<close>

definition AccessRule_DeepCopyInto :: "copier" where
  "AccessRule_DeepCopyInto = copyStruct
    [(''Allow'', copySliceFlat), (''Deny'', copySliceFlat)]"

definition AgentExposeSpec_DeepCopyInto :: "copier" where
  "AgentExposeSpec_DeepCopyInto = copyStruct []"

definition AgentEmptyDirVolumeSource_DeepCopyInto :: "(string \<Rightarrow> copier) \<Rightarrow> copier" where
  "AgentEmptyDirVolumeSource_DeepCopyInto ext = copyStruct
    [(''SizeLimit'', copyPtrValue (ext ''Quantity''))]"

definition AgentObjectVolumeSource_DeepCopyInto :: "copier" where
  "AgentObjectVolumeSource_DeepCopyInto = copyStruct
    [(''Optional'', copyPtr shallow)]"

definition AgentPVCVolumeSource_DeepCopyInto :: "copier" where
  "AgentPVCVolumeSource_DeepCopyInto = copyStruct []"

definition AgentVolume_DeepCopyInto :: "(string \<Rightarrow> copier) \<Rightarrow> copier" where
  "AgentVolume_DeepCopyInto ext = copyStruct
    [(''PersistentVolumeClaim'', copyPtr shallow),
     (''ConfigMap'', copyPtr AgentObjectVolumeSource_DeepCopyInto),
     (''Secret'', copyPtr AgentObjectVolumeSource_DeepCopyInto),
     (''EmptyDir'', copyPtr (AgentEmptyDirVolumeSource_DeepCopyInto ext))]"

definition AgentRuntimeSpec_DeepCopyInto :: "(string \<Rightarrow> copier) \<Rightarrow> copier" where
  "AgentRuntimeSpec_DeepCopyInto ext = copyStruct
    [(''Env'', copySlice (ext ''EnvVar'')), (''Resources'', ext ''ResourceRequirements''),
     (''ReadinessProbe'', copyPtr (ext ''Probe'')), (''Volumes'', copySlice (AgentVolume_DeepCopyInto ext))]"

definition LocalReference_DeepCopyInto :: "copier" where
  "LocalReference_DeepCopyInto = copyStruct []"

definition AgentWorkspaceSpec_DeepCopyInto :: "copier" where
  "AgentWorkspaceSpec_DeepCopyInto = copyStruct
    [(''CredentialRef'', copyPtr shallow), (''StorageClassName'', copyPtr shallow)]"

definition AgentSpec_DeepCopyInto :: "(string \<Rightarrow> copier) \<Rightarrow> copier" where
  "AgentSpec_DeepCopyInto ext = copyStruct
    [(''AgentClassRef'', copyPtr shallow), (''ModelRef'', copyPtr shallow),
     (''PromptRef'', copyPtr shallow), (''ToolRefs'', copySliceFlat), (''ToolSetRefs'', copySliceFlat),
     (''SkillRefs'', copySliceFlat), (''PolicyRefs'', copySliceFlat), (''ToolPolicyRefs'', copySliceFlat),
     (''CredentialRefs'', copySliceFlat), (''Runtime'', copyPtr (AgentRuntimeSpec_DeepCopyInto ext)),
     (''Workspace'', copyPtr AgentWorkspaceSpec_DeepCopyInto), (''Expose'', copyPtr shallow)]"

definition AgentStatus_DeepCopyInto :: "(string \<Rightarrow> copier) \<Rightarrow> copier" where
  "AgentStatus_DeepCopyInto ext = copyStruct
    [(''Conditions'', copySlice (ext ''Condition''))]"

definition Agent_DeepCopyInto :: "(string \<Rightarrow> copier) \<Rightarrow> copier" where
  "Agent_DeepCopyInto ext = copyStruct
    [(''TypeMeta'', shallow), (''ObjectMeta'', ext ''ObjectMeta''), (''Spec'', AgentSpec_DeepCopyInto ext),
     (''Status'', AgentStatus_DeepCopyInto ext)]"

definition AgentClassSpec_DeepCopyInto :: "copier" where
  "AgentClassSpec_DeepCopyInto = copyStruct
    [(''DefaultModelRef'', copyPtr shallow), (''DefaultPromptRef'', copyPtr shallow),
     (''DefaultPolicyRefs'', copySliceFlat), (''DefaultToolPolicyRefs'', copySliceFlat),
     (''DefaultToolRefs'', copySliceFlat), (''DefaultSkillRefs'', copySliceFlat)]"

definition AgentClassStatus_DeepCopyInto :: "(string \<Rightarrow> copier) \<Rightarrow> copier" where
  "AgentClassStatus_DeepCopyInto ext = copyStruct
    [(''Conditions'', copySlice (ext ''Condition''))]"

definition AgentClass_DeepCopyInto :: "(string \<Rightarrow> copier) \<Rightarrow> copier" where
  "AgentClass_DeepCopyInto ext = copyStruct
    [(''TypeMeta'', shallow), (''ObjectMeta'', ext ''ObjectMeta''), (''Spec'', AgentClassSpec_DeepCopyInto),
     (''Status'', AgentClassStatus_DeepCopyInto ext)]"

definition AgentClassList_DeepCopyInto :: "(string \<Rightarrow> copier) \<Rightarrow> copier" where
  "AgentClassList_DeepCopyInto ext = copyStruct
    [(''TypeMeta'', shallow), (''ListMeta'', ext ''ListMeta''),
     (''Items'', copySlice (AgentClass_DeepCopyInto ext))]"

definition AgentList_DeepCopyInto :: "(string \<Rightarrow> copier) \<Rightarrow> copier" where
  "AgentList_DeepCopyInto ext = copyStruct
    [(''TypeMeta'', shallow), (''ListMeta'', ext ''ListMeta''),
     (''Items'', copySlice (Agent_DeepCopyInto ext))]"

definition AgentReferences_DeepCopyInto :: "copier" where
  "AgentReferences_DeepCopyInto = copyStruct
    [(''Tools'', copySliceFlat), (''MCPServers'', copySliceFlat)]"

definition ConfigMapKeyReference_DeepCopyInto :: "copier" where
  "ConfigMapKeyReference_DeepCopyInto = copyStruct []"

definition SecretKeyReference_DeepCopyInto :: "copier" where
  "SecretKeyReference_DeepCopyInto = copyStruct []"

definition CredentialSpec_DeepCopyInto :: "copier" where
  "CredentialSpec_DeepCopyInto = copyStruct
    [(''SecretRef'', shallow)]"

definition CredentialStatus_DeepCopyInto :: "(string \<Rightarrow> copier) \<Rightarrow> copier" where
  "CredentialStatus_DeepCopyInto ext = copyStruct
    [(''Conditions'', copySlice (ext ''Condition'')), (''SecretFound'', copyPtr shallow)]"

definition Credential_DeepCopyInto :: "(string \<Rightarrow> copier) \<Rightarrow> copier" where
  "Credential_DeepCopyInto ext = copyStruct
    [(''TypeMeta'', shallow), (''ObjectMeta'', ext ''ObjectMeta''), (''Spec'', shallow),
     (''Status'', CredentialStatus_DeepCopyInto ext)]"

definition CredentialList_DeepCopyInto :: "(string \<Rightarrow> copier) \<Rightarrow> copier" where
  "CredentialList_DeepCopyInto ext = copyStruct
    [(''TypeMeta'', shallow), (''ListMeta'', ext ''ListMeta''),
     (''Items'', copySlice (Credential_DeepCopyInto ext))]"

definition ToolRule_DeepCopyInto :: "copier" where
  "ToolRule_DeepCopyInto = copyStruct
    [(''MaxCallsPerSession'', copyPtr shallow)]"

definition EffectivePolicy_DeepCopyInto :: "copier" where
  "EffectivePolicy_DeepCopyInto = copyStruct
    [(''Sources'', copySliceFlat), (''Models'', copyPtr AccessRule_DeepCopyInto),
     (''MCP'', copyPtr AccessRule_DeepCopyInto), (''Tools'', copyPtr AccessRule_DeepCopyInto),
     (''ToolRules'', copySlice ToolRule_DeepCopyInto)]"

definition FewShotExample_DeepCopyInto :: "copier" where
  "FewShotExample_DeepCopyInto = copyStruct []"

definition MCPServerSpec_DeepCopyInto :: "(string \<Rightarrow> copier) \<Rightarrow> copier" where
  "MCPServerSpec_DeepCopyInto ext = copyStruct
    [(''Env'', copySlice (ext ''EnvVar'')), (''Resources'', ext ''ResourceRequirements'')]"

definition MCPServerStatus_DeepCopyInto :: "(string \<Rightarrow> copier) \<Rightarrow> copier" where
  "MCPServerStatus_DeepCopyInto ext = copyStruct
    [(''Conditions'', copySlice (ext ''Condition''))]"

definition MCPServer_DeepCopyInto :: "(string \<Rightarrow> copier) \<Rightarrow> copier" where
  "MCPServer_DeepCopyInto ext = copyStruct
    [(''TypeMeta'', shallow), (''ObjectMeta'', ext ''ObjectMeta''),
     (''Spec'', MCPServerSpec_DeepCopyInto ext), (''Status'', MCPServerStatus_DeepCopyInto ext)]"

definition MCPServerList_DeepCopyInto :: "(string \<Rightarrow> copier) \<Rightarrow> copier" where
  "MCPServerList_DeepCopyInto ext = copyStruct
    [(''TypeMeta'', shallow), (''ListMeta'', ext ''ListMeta''),
     (''Items'', copySlice (MCPServer_DeepCopyInto ext))]"

definition ModelDefaults_DeepCopyInto :: "copier" where
  "ModelDefaults_DeepCopyInto = copyStruct
    [(''Temperature'', copyPtr shallow), (''MaxTokens'', copyPtr shallow)]"

definition ModelSpec_DeepCopyInto :: "copier" where
  "ModelSpec_DeepCopyInto = copyStruct
    [(''CredentialRef'', copyPtr shallow), (''Defaults'', copyPtr ModelDefaults_DeepCopyInto)]"

definition ModelStatus_DeepCopyInto :: "(string \<Rightarrow> copier) \<Rightarrow> copier" where
  "ModelStatus_DeepCopyInto ext = copyStruct
    [(''Conditions'', copySlice (ext ''Condition''))]"

definition Model_DeepCopyInto :: "(string \<Rightarrow> copier) \<Rightarrow> copier" where
  "Model_DeepCopyInto ext = copyStruct
    [(''TypeMeta'', shallow), (''ObjectMeta'', ext ''ObjectMeta''), (''Spec'', ModelSpec_DeepCopyInto),
     (''Status'', ModelStatus_DeepCopyInto ext)]"

definition ModelList_DeepCopyInto :: "(string \<Rightarrow> copier) \<Rightarrow> copier" where
  "ModelList_DeepCopyInto ext = copyStruct
    [(''TypeMeta'', shallow), (''ListMeta'', ext ''ListMeta''),
     (''Items'', copySlice (Model_DeepCopyInto ext))]"

definition PolicySpec_DeepCopyInto :: "copier" where
  "PolicySpec_DeepCopyInto = copyStruct
    [(''Models'', copyPtr AccessRule_DeepCopyInto), (''MCP'', copyPtr AccessRule_DeepCopyInto),
     (''Tools'', copyPtr AccessRule_DeepCopyInto)]"

definition PolicyStatus_DeepCopyInto :: "(string \<Rightarrow> copier) \<Rightarrow> copier" where
  "PolicyStatus_DeepCopyInto ext = copyStruct
    [(''Conditions'', copySlice (ext ''Condition''))]"

definition Policy_DeepCopyInto :: "(string \<Rightarrow> copier) \<Rightarrow> copier" where
  "Policy_DeepCopyInto ext = copyStruct
    [(''TypeMeta'', shallow), (''ObjectMeta'', ext ''ObjectMeta''), (''Spec'', PolicySpec_DeepCopyInto),
     (''Status'', PolicyStatus_DeepCopyInto ext)]"

definition PolicyList_DeepCopyInto :: "(string \<Rightarrow> copier) \<Rightarrow> copier" where
  "PolicyList_DeepCopyInto ext = copyStruct
    [(''TypeMeta'', shallow), (''ListMeta'', ext ''ListMeta''),
     (''Items'', copySlice (Policy_DeepCopyInto ext))]"

definition RolePrompt_DeepCopyInto :: "copier" where
  "RolePrompt_DeepCopyInto = copyStruct []"

definition PromptTemplateSpec_DeepCopyInto :: "copier" where
  "PromptTemplateSpec_DeepCopyInto = copyStruct
    [(''Roles'', copySliceFlat), (''FewShot'', copySliceFlat)]"

definition PromptTemplateStatus_DeepCopyInto :: "(string \<Rightarrow> copier) \<Rightarrow> copier" where
  "PromptTemplateStatus_DeepCopyInto ext = copyStruct
    [(''Conditions'', copySlice (ext ''Condition''))]"

definition PromptTemplate_DeepCopyInto :: "(string \<Rightarrow> copier) \<Rightarrow> copier" where
  "PromptTemplate_DeepCopyInto ext = copyStruct
    [(''TypeMeta'', shallow), (''ObjectMeta'', ext ''ObjectMeta''),
     (''Spec'', PromptTemplateSpec_DeepCopyInto), (''Status'', PromptTemplateStatus_DeepCopyInto ext)]"

definition PromptTemplateList_DeepCopyInto :: "(string \<Rightarrow> copier) \<Rightarrow> copier" where
  "PromptTemplateList_DeepCopyInto ext = copyStruct
    [(''TypeMeta'', shallow), (''ListMeta'', ext ''ListMeta''),
     (''Items'', copySlice (PromptTemplate_DeepCopyInto ext))]"

definition SkillSpec_DeepCopyInto :: "copier" where
  "SkillSpec_DeepCopyInto = copyStruct
    [(''ContentConfigMapRef'', copyPtr shallow), (''AllowedTools'', copySliceFlat)]"

definition SkillStatus_DeepCopyInto :: "(string \<Rightarrow> copier) \<Rightarrow> copier" where
  "SkillStatus_DeepCopyInto ext = copyStruct
    [(''Conditions'', copySlice (ext ''Condition''))]"

definition Skill_DeepCopyInto :: "(string \<Rightarrow> copier) \<Rightarrow> copier" where
  "Skill_DeepCopyInto ext = copyStruct
    [(''TypeMeta'', shallow), (''ObjectMeta'', ext ''ObjectMeta''), (''Spec'', SkillSpec_DeepCopyInto),
     (''Status'', SkillStatus_DeepCopyInto ext)]"

definition SkillList_DeepCopyInto :: "(string \<Rightarrow> copier) \<Rightarrow> copier" where
  "SkillList_DeepCopyInto ext = copyStruct
    [(''TypeMeta'', shallow), (''ListMeta'', ext ''ListMeta''),
     (''Items'', copySlice (Skill_DeepCopyInto ext))]"

definition SkillToolScope_DeepCopyInto :: "copier" where
  "SkillToolScope_DeepCopyInto = copyStruct
    [(''AllowedTools'', copySliceFlat)]"

definition ToolSpec_DeepCopyInto :: "(string \<Rightarrow> copier) \<Rightarrow> copier" where
  "ToolSpec_DeepCopyInto ext = copyStruct
    [(''MCPServerRef'', copyPtr shallow), (''AgentRef'', copyPtr shallow),
     (''TimeoutSeconds'', copyPtr shallow), (''InputSchema'', copyPtr (ext ''RawExtension'')),
     (''OutputSchema'', copyPtr (ext ''RawExtension''))]"

definition ToolStatus_DeepCopyInto :: "(string \<Rightarrow> copier) \<Rightarrow> copier" where
  "ToolStatus_DeepCopyInto ext = copyStruct
    [(''Conditions'', copySlice (ext ''Condition'')), (''Healthy'', copyPtr shallow)]"

definition Tool_DeepCopyInto :: "(string \<Rightarrow> copier) \<Rightarrow> copier" where
  "Tool_DeepCopyInto ext = copyStruct
    [(''TypeMeta'', shallow), (''ObjectMeta'', ext ''ObjectMeta''), (''Spec'', ToolSpec_DeepCopyInto ext),
     (''Status'', ToolStatus_DeepCopyInto ext)]"

definition ToolList_DeepCopyInto :: "(string \<Rightarrow> copier) \<Rightarrow> copier" where
  "ToolList_DeepCopyInto ext = copyStruct
    [(''TypeMeta'', shallow), (''ListMeta'', ext ''ListMeta''),
     (''Items'', copySlice (Tool_DeepCopyInto ext))]"

definition ToolPolicySpec_DeepCopyInto :: "copier" where
  "ToolPolicySpec_DeepCopyInto = copyStruct
    [(''Rules'', copySlice ToolRule_DeepCopyInto)]"

definition ToolPolicyStatus_DeepCopyInto :: "(string \<Rightarrow> copier) \<Rightarrow> copier" where
  "ToolPolicyStatus_DeepCopyInto ext = copyStruct
    [(''Conditions'', copySlice (ext ''Condition''))]"

definition ToolPolicy_DeepCopyInto :: "(string \<Rightarrow> copier) \<Rightarrow> copier" where
  "ToolPolicy_DeepCopyInto ext = copyStruct
    [(''TypeMeta'', shallow), (''ObjectMeta'', ext ''ObjectMeta''), (''Spec'', ToolPolicySpec_DeepCopyInto),
     (''Status'', ToolPolicyStatus_DeepCopyInto ext)]"

definition ToolPolicyList_DeepCopyInto :: "(string \<Rightarrow> copier) \<Rightarrow> copier" where
  "ToolPolicyList_DeepCopyInto ext = copyStruct
    [(''TypeMeta'', shallow), (''ListMeta'', ext ''ListMeta''),
     (''Items'', copySlice (ToolPolicy_DeepCopyInto ext))]"

definition ToolSetSpec_DeepCopyInto :: "copier" where
  "ToolSetSpec_DeepCopyInto = copyStruct
    [(''ToolRefs'', copySliceFlat)]"

definition ToolSetStatus_DeepCopyInto :: "(string \<Rightarrow> copier) \<Rightarrow> copier" where
  "ToolSetStatus_DeepCopyInto ext = copyStruct
    [(''Conditions'', copySlice (ext ''Condition''))]"

definition ToolSet_DeepCopyInto :: "(string \<Rightarrow> copier) \<Rightarrow> copier" where
  "ToolSet_DeepCopyInto ext = copyStruct
    [(''TypeMeta'', shallow), (''ObjectMeta'', ext ''ObjectMeta''), (''Spec'', ToolSetSpec_DeepCopyInto),
     (''Status'', ToolSetStatus_DeepCopyInto ext)]"

definition ToolSetList_DeepCopyInto :: "(string \<Rightarrow> copier) \<Rightarrow> copier" where
  "ToolSetList_DeepCopyInto ext = copyStruct
    [(''TypeMeta'', shallow), (''ListMeta'', ext ''ListMeta''),
     (''Items'', copySlice (ToolSet_DeepCopyInto ext))]"

definition TriggerSpec_DeepCopyInto :: "(string \<Rightarrow> copier) \<Rightarrow> copier" where
  "TriggerSpec_DeepCopyInto ext = copyStruct
    [(''AgentRef'', shallow), (''CredentialRef'', copyPtr shallow),
     (''Config'', copyPtr (ext ''RawExtension'')), (''Env'', copySlice (ext ''EnvVar'')),
     (''Resources'', ext ''ResourceRequirements'')]"

definition TriggerStatus_DeepCopyInto :: "(string \<Rightarrow> copier) \<Rightarrow> copier" where
  "TriggerStatus_DeepCopyInto ext = copyStruct
    [(''Conditions'', copySlice (ext ''Condition''))]"

definition Trigger_DeepCopyInto :: "(string \<Rightarrow> copier) \<Rightarrow> copier" where
  "Trigger_DeepCopyInto ext = copyStruct
    [(''TypeMeta'', shallow), (''ObjectMeta'', ext ''ObjectMeta''),
     (''Spec'', TriggerSpec_DeepCopyInto ext), (''Status'', TriggerStatus_DeepCopyInto ext)]"

definition TriggerList_DeepCopyInto :: "(string \<Rightarrow> copier) \<Rightarrow> copier" where
  "TriggerList_DeepCopyInto ext = copyStruct
    [(''TypeMeta'', shallow), (''ListMeta'', ext ''ListMeta''),
     (''Items'', copySlice (Trigger_DeepCopyInto ext))]"

definition AccessRule_DeepCopy :: "copier" where
  "AccessRule_DeepCopy = deepCopy AccessRule_DeepCopyInto"

definition AgentExposeSpec_DeepCopy :: "copier" where
  "AgentExposeSpec_DeepCopy = deepCopy AgentExposeSpec_DeepCopyInto"

definition AgentEmptyDirVolumeSource_DeepCopy :: "(string \<Rightarrow> copier) \<Rightarrow> copier" where
  "AgentEmptyDirVolumeSource_DeepCopy ext = deepCopy (AgentEmptyDirVolumeSource_DeepCopyInto ext)"

definition AgentObjectVolumeSource_DeepCopy :: "copier" where
  "AgentObjectVolumeSource_DeepCopy = deepCopy AgentObjectVolumeSource_DeepCopyInto"

definition AgentPVCVolumeSource_DeepCopy :: "copier" where
  "AgentPVCVolumeSource_DeepCopy = deepCopy AgentPVCVolumeSource_DeepCopyInto"

definition AgentVolume_DeepCopy :: "(string \<Rightarrow> copier) \<Rightarrow> copier" where
  "AgentVolume_DeepCopy ext = deepCopy (AgentVolume_DeepCopyInto ext)"

definition AgentRuntimeSpec_DeepCopy :: "(string \<Rightarrow> copier) \<Rightarrow> copier" where
  "AgentRuntimeSpec_DeepCopy ext = deepCopy (AgentRuntimeSpec_DeepCopyInto ext)"

definition LocalReference_DeepCopy :: "copier" where
  "LocalReference_DeepCopy = deepCopy LocalReference_DeepCopyInto"

definition AgentWorkspaceSpec_DeepCopy :: "copier" where
  "AgentWorkspaceSpec_DeepCopy = deepCopy AgentWorkspaceSpec_DeepCopyInto"

definition AgentSpec_DeepCopy :: "(string \<Rightarrow> copier) \<Rightarrow> copier" where
  "AgentSpec_DeepCopy ext = deepCopy (AgentSpec_DeepCopyInto ext)"

definition AgentStatus_DeepCopy :: "(string \<Rightarrow> copier) \<Rightarrow> copier" where
  "AgentStatus_DeepCopy ext = deepCopy (AgentStatus_DeepCopyInto ext)"

definition Agent_DeepCopy :: "(string \<Rightarrow> copier) \<Rightarrow> copier" where
  "Agent_DeepCopy ext = deepCopy (Agent_DeepCopyInto ext)"

definition AgentClassSpec_DeepCopy :: "copier" where
  "AgentClassSpec_DeepCopy = deepCopy AgentClassSpec_DeepCopyInto"

definition AgentClassStatus_DeepCopy :: "(string \<Rightarrow> copier) \<Rightarrow> copier" where
  "AgentClassStatus_DeepCopy ext = deepCopy (AgentClassStatus_DeepCopyInto ext)"

definition AgentClass_DeepCopy :: "(string \<Rightarrow> copier) \<Rightarrow> copier" where
  "AgentClass_DeepCopy ext = deepCopy (AgentClass_DeepCopyInto ext)"

definition AgentClassList_DeepCopy :: "(string \<Rightarrow> copier) \<Rightarrow> copier" where
  "AgentClassList_DeepCopy ext = deepCopy (AgentClassList_DeepCopyInto ext)"

definition AgentList_DeepCopy :: "(string \<Rightarrow> copier) \<Rightarrow> copier" where
  "AgentList_DeepCopy ext = deepCopy (AgentList_DeepCopyInto ext)"

definition AgentReferences_DeepCopy :: "copier" where
  "AgentReferences_DeepCopy = deepCopy AgentReferences_DeepCopyInto"

definition ConfigMapKeyReference_DeepCopy :: "copier" where
  "ConfigMapKeyReference_DeepCopy = deepCopy ConfigMapKeyReference_DeepCopyInto"

definition SecretKeyReference_DeepCopy :: "copier" where
  "SecretKeyReference_DeepCopy = deepCopy SecretKeyReference_DeepCopyInto"

definition CredentialSpec_DeepCopy :: "copier" where
  "CredentialSpec_DeepCopy = deepCopy CredentialSpec_DeepCopyInto"

definition CredentialStatus_DeepCopy :: "(string \<Rightarrow> copier) \<Rightarrow> copier" where
  "CredentialStatus_DeepCopy ext = deepCopy (CredentialStatus_DeepCopyInto ext)"

definition Credential_DeepCopy :: "(string \<Rightarrow> copier) \<Rightarrow> copier" where
  "Credential_DeepCopy ext = deepCopy (Credential_DeepCopyInto ext)"

definition CredentialList_DeepCopy :: "(string \<Rightarrow> copier) \<Rightarrow> copier" where
  "CredentialList_DeepCopy ext = deepCopy (CredentialList_DeepCopyInto ext)"

definition ToolRule_DeepCopy :: "copier" where
  "ToolRule_DeepCopy = deepCopy ToolRule_DeepCopyInto"

definition EffectivePolicy_DeepCopy :: "copier" where
  "EffectivePolicy_DeepCopy = deepCopy EffectivePolicy_DeepCopyInto"

definition FewShotExample_DeepCopy :: "copier" where
  "FewShotExample_DeepCopy = deepCopy FewShotExample_DeepCopyInto"

definition MCPServerSpec_DeepCopy :: "(string \<Rightarrow> copier) \<Rightarrow> copier" where
  "MCPServerSpec_DeepCopy ext = deepCopy (MCPServerSpec_DeepCopyInto ext)"

definition MCPServerStatus_DeepCopy :: "(string \<Rightarrow> copier) \<Rightarrow> copier" where
  "MCPServerStatus_DeepCopy ext = deepCopy (MCPServerStatus_DeepCopyInto ext)"

definition MCPServer_DeepCopy :: "(string \<Rightarrow> copier) \<Rightarrow> copier" where
  "MCPServer_DeepCopy ext = deepCopy (MCPServer_DeepCopyInto ext)"

definition MCPServerList_DeepCopy :: "(string \<Rightarrow> copier) \<Rightarrow> copier" where
  "MCPServerList_DeepCopy ext = deepCopy (MCPServerList_DeepCopyInto ext)"

definition ModelDefaults_DeepCopy :: "copier" where
  "ModelDefaults_DeepCopy = deepCopy ModelDefaults_DeepCopyInto"

definition ModelSpec_DeepCopy :: "copier" where
  "ModelSpec_DeepCopy = deepCopy ModelSpec_DeepCopyInto"

definition ModelStatus_DeepCopy :: "(string \<Rightarrow> copier) \<Rightarrow> copier" where
  "ModelStatus_DeepCopy ext = deepCopy (ModelStatus_DeepCopyInto ext)"

definition Model_DeepCopy :: "(string \<Rightarrow> copier) \<Rightarrow> copier" where
  "Model_DeepCopy ext = deepCopy (Model_DeepCopyInto ext)"

definition ModelList_DeepCopy :: "(string \<Rightarrow> copier) \<Rightarrow> copier" where
  "ModelList_DeepCopy ext = deepCopy (ModelList_DeepCopyInto ext)"

definition PolicySpec_DeepCopy :: "copier" where
  "PolicySpec_DeepCopy = deepCopy PolicySpec_DeepCopyInto"

definition PolicyStatus_DeepCopy :: "(string \<Rightarrow> copier) \<Rightarrow> copier" where
  "PolicyStatus_DeepCopy ext = deepCopy (PolicyStatus_DeepCopyInto ext)"

definition Policy_DeepCopy :: "(string \<Rightarrow> copier) \<Rightarrow> copier" where
  "Policy_DeepCopy ext = deepCopy (Policy_DeepCopyInto ext)"

definition PolicyList_DeepCopy :: "(string \<Rightarrow> copier) \<Rightarrow> copier" where
  "PolicyList_DeepCopy ext = deepCopy (PolicyList_DeepCopyInto ext)"

definition RolePrompt_DeepCopy :: "copier" where
  "RolePrompt_DeepCopy = deepCopy RolePrompt_DeepCopyInto"

definition PromptTemplateSpec_DeepCopy :: "copier" where
  "PromptTemplateSpec_DeepCopy = deepCopy PromptTemplateSpec_DeepCopyInto"

definition PromptTemplateStatus_DeepCopy :: "(string \<Rightarrow> copier) \<Rightarrow> copier" where
  "PromptTemplateStatus_DeepCopy ext = deepCopy (PromptTemplateStatus_DeepCopyInto ext)"

definition PromptTemplate_DeepCopy :: "(string \<Rightarrow> copier) \<Rightarrow> copier" where
  "PromptTemplate_DeepCopy ext = deepCopy (PromptTemplate_DeepCopyInto ext)"

definition PromptTemplateList_DeepCopy :: "(string \<Rightarrow> copier) \<Rightarrow> copier" where
  "PromptTemplateList_DeepCopy ext = deepCopy (PromptTemplateList_DeepCopyInto ext)"

definition SkillSpec_DeepCopy :: "copier" where
  "SkillSpec_DeepCopy = deepCopy SkillSpec_DeepCopyInto"

definition SkillStatus_DeepCopy :: "(string \<Rightarrow> copier) \<Rightarrow> copier" where
  "SkillStatus_DeepCopy ext = deepCopy (SkillStatus_DeepCopyInto ext)"

definition Skill_DeepCopy :: "(string \<Rightarrow> copier) \<Rightarrow> copier" where
  "Skill_DeepCopy ext = deepCopy (Skill_DeepCopyInto ext)"

definition SkillList_DeepCopy :: "(string \<Rightarrow> copier) \<Rightarrow> copier" where
  "SkillList_DeepCopy ext = deepCopy (SkillList_DeepCopyInto ext)"

definition SkillToolScope_DeepCopy :: "copier" where
  "SkillToolScope_DeepCopy = deepCopy SkillToolScope_DeepCopyInto"

definition ToolSpec_DeepCopy :: "(string \<Rightarrow> copier) \<Rightarrow> copier" where
  "ToolSpec_DeepCopy ext = deepCopy (ToolSpec_DeepCopyInto ext)"

definition ToolStatus_DeepCopy :: "(string \<Rightarrow> copier) \<Rightarrow> copier" where
  "ToolStatus_DeepCopy ext = deepCopy (ToolStatus_DeepCopyInto ext)"

definition Tool_DeepCopy :: "(string \<Rightarrow> copier) \<Rightarrow> copier" where
  "Tool_DeepCopy ext = deepCopy (Tool_DeepCopyInto ext)"

definition ToolList_DeepCopy :: "(string \<Rightarrow> copier) \<Rightarrow> copier" where
  "ToolList_DeepCopy ext = deepCopy (ToolList_DeepCopyInto ext)"

definition ToolPolicySpec_DeepCopy :: "copier" where
  "ToolPolicySpec_DeepCopy = deepCopy ToolPolicySpec_DeepCopyInto"

definition ToolPolicyStatus_DeepCopy :: "(string \<Rightarrow> copier) \<Rightarrow> copier" where
  "ToolPolicyStatus_DeepCopy ext = deepCopy (ToolPolicyStatus_DeepCopyInto ext)"

definition ToolPolicy_DeepCopy :: "(string \<Rightarrow> copier) \<Rightarrow> copier" where
  "ToolPolicy_DeepCopy ext = deepCopy (ToolPolicy_DeepCopyInto ext)"

definition ToolPolicyList_DeepCopy :: "(string \<Rightarrow> copier) \<Rightarrow> copier" where
  "ToolPolicyList_DeepCopy ext = deepCopy (ToolPolicyList_DeepCopyInto ext)"

definition ToolSetSpec_DeepCopy :: "copier" where
  "ToolSetSpec_DeepCopy = deepCopy ToolSetSpec_DeepCopyInto"

definition ToolSetStatus_DeepCopy :: "(string \<Rightarrow> copier) \<Rightarrow> copier" where
  "ToolSetStatus_DeepCopy ext = deepCopy (ToolSetStatus_DeepCopyInto ext)"

definition ToolSet_DeepCopy :: "(string \<Rightarrow> copier) \<Rightarrow> copier" where
  "ToolSet_DeepCopy ext = deepCopy (ToolSet_DeepCopyInto ext)"

definition ToolSetList_DeepCopy :: "(string \<Rightarrow> copier) \<Rightarrow> copier" where
  "ToolSetList_DeepCopy ext = deepCopy (ToolSetList_DeepCopyInto ext)"

definition TriggerSpec_DeepCopy :: "(string \<Rightarrow> copier) \<Rightarrow> copier" where
  "TriggerSpec_DeepCopy ext = deepCopy (TriggerSpec_DeepCopyInto ext)"

definition TriggerStatus_DeepCopy :: "(string \<Rightarrow> copier) \<Rightarrow> copier" where
  "TriggerStatus_DeepCopy ext = deepCopy (TriggerStatus_DeepCopyInto ext)"

definition Trigger_DeepCopy :: "(string \<Rightarrow> copier) \<Rightarrow> copier" where
  "Trigger_DeepCopy ext = deepCopy (Trigger_DeepCopyInto ext)"

definition TriggerList_DeepCopy :: "(string \<Rightarrow> copier) \<Rightarrow> copier" where
  "TriggerList_DeepCopy ext = deepCopy (TriggerList_DeepCopyInto ext)"

definition Agent_DeepCopyObject :: "(string \<Rightarrow> copier) \<Rightarrow> gval \<Rightarrow> heap \<Rightarrow> (string \<times> gval) option \<times> heap" where
  "Agent_DeepCopyObject ext = deepCopyObject ''Agent'' (Agent_DeepCopy ext)"

definition AgentClass_DeepCopyObject :: "(string \<Rightarrow> copier) \<Rightarrow> gval \<Rightarrow> heap \<Rightarrow> (string \<times> gval) option \<times> heap" where
  "AgentClass_DeepCopyObject ext = deepCopyObject ''AgentClass'' (AgentClass_DeepCopy ext)"

definition AgentClassList_DeepCopyObject :: "(string \<Rightarrow> copier) \<Rightarrow> gval \<Rightarrow> heap \<Rightarrow> (string \<times> gval) option \<times> heap" where
  "AgentClassList_DeepCopyObject ext = deepCopyObject ''AgentClassList'' (AgentClassList_DeepCopy ext)"

definition AgentList_DeepCopyObject :: "(string \<Rightarrow> copier) \<Rightarrow> gval \<Rightarrow> heap \<Rightarrow> (string \<times> gval) option \<times> heap" where
  "AgentList_DeepCopyObject ext = deepCopyObject ''AgentList'' (AgentList_DeepCopy ext)"

definition Credential_DeepCopyObject :: "(string \<Rightarrow> copier) \<Rightarrow> gval \<Rightarrow> heap \<Rightarrow> (string \<times> gval) option \<times> heap" where
  "Credential_DeepCopyObject ext = deepCopyObject ''Credential'' (Credential_DeepCopy ext)"

definition CredentialList_DeepCopyObject :: "(string \<Rightarrow> copier) \<Rightarrow> gval \<Rightarrow> heap \<Rightarrow> (string \<times> gval) option \<times> heap" where
  "CredentialList_DeepCopyObject ext = deepCopyObject ''CredentialList'' (CredentialList_DeepCopy ext)"

definition MCPServer_DeepCopyObject :: "(string \<Rightarrow> copier) \<Rightarrow> gval \<Rightarrow> heap \<Rightarrow> (string \<times> gval) option \<times> heap" where
  "MCPServer_DeepCopyObject ext = deepCopyObject ''MCPServer'' (MCPServer_DeepCopy ext)"

definition MCPServerList_DeepCopyObject :: "(string \<Rightarrow> copier) \<Rightarrow> gval \<Rightarrow> heap \<Rightarrow> (string \<times> gval) option \<times> heap" where
  "MCPServerList_DeepCopyObject ext = deepCopyObject ''MCPServerList'' (MCPServerList_DeepCopy ext)"

definition Model_DeepCopyObject :: "(string \<Rightarrow> copier) \<Rightarrow> gval \<Rightarrow> heap \<Rightarrow> (string \<times> gval) option \<times> heap" where
  "Model_DeepCopyObject ext = deepCopyObject ''Model'' (Model_DeepCopy ext)"

definition ModelList_DeepCopyObject :: "(string \<Rightarrow> copier) \<Rightarrow> gval \<Rightarrow> heap \<Rightarrow> (string \<times> gval) option \<times> heap" where
  "ModelList_DeepCopyObject ext = deepCopyObject ''ModelList'' (ModelList_DeepCopy ext)"

definition Policy_DeepCopyObject :: "(string \<Rightarrow> copier) \<Rightarrow> gval \<Rightarrow> heap \<Rightarrow> (string \<times> gval) option \<times> heap" where
  "Policy_DeepCopyObject ext = deepCopyObject ''Policy'' (Policy_DeepCopy ext)"

definition PolicyList_DeepCopyObject :: "(string \<Rightarrow> copier) \<Rightarrow> gval \<Rightarrow> heap \<Rightarrow> (string \<times> gval) option \<times> heap" where
  "PolicyList_DeepCopyObject ext = deepCopyObject ''PolicyList'' (PolicyList_DeepCopy ext)"

definition PromptTemplate_DeepCopyObject :: "(string \<Rightarrow> copier) \<Rightarrow> gval \<Rightarrow> heap \<Rightarrow> (string \<times> gval) option \<times> heap" where
  "PromptTemplate_DeepCopyObject ext = deepCopyObject ''PromptTemplate'' (PromptTemplate_DeepCopy ext)"

definition PromptTemplateList_DeepCopyObject :: "(string \<Rightarrow> copier) \<Rightarrow> gval \<Rightarrow> heap \<Rightarrow> (string \<times> gval) option \<times> heap" where
  "PromptTemplateList_DeepCopyObject ext = deepCopyObject ''PromptTemplateList'' (PromptTemplateList_DeepCopy ext)"

definition Skill_DeepCopyObject :: "(string \<Rightarrow> copier) \<Rightarrow> gval \<Rightarrow> heap \<Rightarrow> (string \<times> gval) option \<times> heap" where
  "Skill_DeepCopyObject ext = deepCopyObject ''Skill'' (Skill_DeepCopy ext)"

definition SkillList_DeepCopyObject :: "(string \<Rightarrow> copier) \<Rightarrow> gval \<Rightarrow> heap \<Rightarrow> (string \<times> gval) option \<times> heap" where
  "SkillList_DeepCopyObject ext = deepCopyObject ''SkillList'' (SkillList_DeepCopy ext)"

definition Tool_DeepCopyObject :: "(string \<Rightarrow> copier) \<Rightarrow> gval \<Rightarrow> heap \<Rightarrow> (string \<times> gval) option \<times> heap" where
  "Tool_DeepCopyObject ext = deepCopyObject ''Tool'' (Tool_DeepCopy ext)"

definition ToolList_DeepCopyObject :: "(string \<Rightarrow> copier) \<Rightarrow> gval \<Rightarrow> heap \<Rightarrow> (string \<times> gval) option \<times> heap" where
  "ToolList_DeepCopyObject ext = deepCopyObject ''ToolList'' (ToolList_DeepCopy ext)"

definition ToolPolicy_DeepCopyObject :: "(string \<Rightarrow> copier) \<Rightarrow> gval \<Rightarrow> heap \<Rightarrow> (string \<times> gval) option \<times> heap" where
  "ToolPolicy_DeepCopyObject ext = deepCopyObject ''ToolPolicy'' (ToolPolicy_DeepCopy ext)"

definition ToolPolicyList_DeepCopyObject :: "(string \<Rightarrow> copier) \<Rightarrow> gval \<Rightarrow> heap \<Rightarrow> (string \<times> gval) option \<times> heap" where
  "ToolPolicyList_DeepCopyObject ext = deepCopyObject ''ToolPolicyList'' (ToolPolicyList_DeepCopy ext)"

definition ToolSet_DeepCopyObject :: "(string \<Rightarrow> copier) \<Rightarrow> gval \<Rightarrow> heap \<Rightarrow> (string \<times> gval) option \<times> heap" where
  "ToolSet_DeepCopyObject ext = deepCopyObject ''ToolSet'' (ToolSet_DeepCopy ext)"

definition ToolSetList_DeepCopyObject :: "(string \<Rightarrow> copier) \<Rightarrow> gval \<Rightarrow> heap \<Rightarrow> (string \<times> gval) option \<times> heap" where
  "ToolSetList_DeepCopyObject ext = deepCopyObject ''ToolSetList'' (ToolSetList_DeepCopy ext)"

definition Trigger_DeepCopyObject :: "(string \<Rightarrow> copier) \<Rightarrow> gval \<Rightarrow> heap \<Rightarrow> (string \<times> gval) option \<times> heap" where
  "Trigger_DeepCopyObject ext = deepCopyObject ''Trigger'' (Trigger_DeepCopy ext)"

definition TriggerList_DeepCopyObject :: "(string \<Rightarrow> copier) \<Rightarrow> gval \<Rightarrow> heap \<Rightarrow> (string \<times> gval) option \<times> heap" where
  "TriggerList_DeepCopyObject ext = deepCopyObject ''TriggerList'' (TriggerList_DeepCopy ext)"

section \<open>All of them\<close>

definition foreignTypes :: "string list" where
  "foreignTypes = [''Condition'', ''EnvVar'', ''ListMeta'', ''ObjectMeta'', ''Probe'', ''Quantity'', ''RawExtension'',
     ''ResourceRequirements'']"

definition foreign_copiers :: "(string \<Rightarrow> tree \<Rightarrow> bool) \<Rightarrow> (string \<Rightarrow> copier) \<Rightarrow> bool" where
  "foreign_copiers F ext \<longleftrightarrow> (\<forall>n\<in>set foreignTypes. deep_copier F (TyForeign n) (ext n))"

text \<open>A type with its layout, its \<^verbatim>\<open>DeepCopyInto\<close> and its \<^verbatim>\<open>DeepCopy\<close>.\<close>

definition generatedCopies :: "(string \<Rightarrow> copier) \<Rightarrow> (string \<times> gtype \<times> copier \<times> copier) list" where
  "generatedCopies ext =
    [(''AccessRule'', AccessRule_T, AccessRule_DeepCopyInto, AccessRule_DeepCopy),
     (''AgentExposeSpec'', AgentExposeSpec_T, AgentExposeSpec_DeepCopyInto, AgentExposeSpec_DeepCopy),
     (''AgentEmptyDirVolumeSource'', AgentEmptyDirVolumeSource_T, AgentEmptyDirVolumeSource_DeepCopyInto ext, AgentEmptyDirVolumeSource_DeepCopy ext),
     (''AgentObjectVolumeSource'', AgentObjectVolumeSource_T, AgentObjectVolumeSource_DeepCopyInto, AgentObjectVolumeSource_DeepCopy),
     (''AgentPVCVolumeSource'', AgentPVCVolumeSource_T, AgentPVCVolumeSource_DeepCopyInto, AgentPVCVolumeSource_DeepCopy),
     (''AgentVolume'', AgentVolume_T, AgentVolume_DeepCopyInto ext, AgentVolume_DeepCopy ext),
     (''AgentRuntimeSpec'', AgentRuntimeSpec_T, AgentRuntimeSpec_DeepCopyInto ext, AgentRuntimeSpec_DeepCopy ext),
     (''LocalReference'', LocalReference_T, LocalReference_DeepCopyInto, LocalReference_DeepCopy),
     (''AgentWorkspaceSpec'', AgentWorkspaceSpec_T, AgentWorkspaceSpec_DeepCopyInto, AgentWorkspaceSpec_DeepCopy),
     (''AgentSpec'', AgentSpec_T, AgentSpec_DeepCopyInto ext, AgentSpec_DeepCopy ext),
     (''AgentStatus'', AgentStatus_T, AgentStatus_DeepCopyInto ext, AgentStatus_DeepCopy ext),
     (''Agent'', Agent_T, Agent_DeepCopyInto ext, Agent_DeepCopy ext),
     (''AgentClassSpec'', AgentClassSpec_T, AgentClassSpec_DeepCopyInto, AgentClassSpec_DeepCopy),
     (''AgentClassStatus'', AgentClassStatus_T, AgentClassStatus_DeepCopyInto ext, AgentClassStatus_DeepCopy ext),
     (''AgentClass'', AgentClass_T, AgentClass_DeepCopyInto ext, AgentClass_DeepCopy ext),
     (''AgentClassList'', AgentClassList_T, AgentClassList_DeepCopyInto ext, AgentClassList_DeepCopy ext),
     (''AgentList'', AgentList_T, AgentList_DeepCopyInto ext, AgentList_DeepCopy ext),
     (''AgentReferences'', AgentReferences_T, AgentReferences_DeepCopyInto, AgentReferences_DeepCopy),
     (''ConfigMapKeyReference'', ConfigMapKeyReference_T, ConfigMapKeyReference_DeepCopyInto, ConfigMapKeyReference_DeepCopy),
     (''SecretKeyReference'', SecretKeyReference_T, SecretKeyReference_DeepCopyInto, SecretKeyReference_DeepCopy),
     (''CredentialSpec'', CredentialSpec_T, CredentialSpec_DeepCopyInto, CredentialSpec_DeepCopy),
     (''CredentialStatus'', CredentialStatus_T, CredentialStatus_DeepCopyInto ext, CredentialStatus_DeepCopy ext),
     (''Credential'', Credential_T, Credential_DeepCopyInto ext, Credential_DeepCopy ext),
     (''CredentialList'', CredentialList_T, CredentialList_DeepCopyInto ext, CredentialList_DeepCopy ext),
     (''ToolRule'', ToolRule_T, ToolRule_DeepCopyInto, ToolRule_DeepCopy),
     (''EffectivePolicy'', EffectivePolicy_T, EffectivePolicy_DeepCopyInto, EffectivePolicy_DeepCopy),
     (''FewShotExample'', FewShotExample_T, FewShotExample_DeepCopyInto, FewShotExample_DeepCopy),
     (''MCPServerSpec'', MCPServerSpec_T, MCPServerSpec_DeepCopyInto ext, MCPServerSpec_DeepCopy ext),
     (''MCPServerStatus'', MCPServerStatus_T, MCPServerStatus_DeepCopyInto ext, MCPServerStatus_DeepCopy ext),
     (''MCPServer'', MCPServer_T, MCPServer_DeepCopyInto ext, MCPServer_DeepCopy ext),
     (''MCPServerList'', MCPServerList_T, MCPServerList_DeepCopyInto ext, MCPServerList_DeepCopy ext),
     (''ModelDefaults'', ModelDefaults_T, ModelDefaults_DeepCopyInto, ModelDefaults_DeepCopy),
     (''ModelSpec'', ModelSpec_T, ModelSpec_DeepCopyInto, ModelSpec_DeepCopy),
     (''ModelStatus'', ModelStatus_T, ModelStatus_DeepCopyInto ext, ModelStatus_DeepCopy ext),
     (''Model'', Model_T, Model_DeepCopyInto ext, Model_DeepCopy ext),
     (''ModelList'', ModelList_T, ModelList_DeepCopyInto ext, ModelList_DeepCopy ext),
     (''PolicySpec'', PolicySpec_T, PolicySpec_DeepCopyInto, PolicySpec_DeepCopy),
     (''PolicyStatus'', PolicyStatus_T, PolicyStatus_DeepCopyInto ext, PolicyStatus_DeepCopy ext),
     (''Policy'', Policy_T, Policy_DeepCopyInto ext, Policy_DeepCopy ext),
     (''PolicyList'', PolicyList_T, PolicyList_DeepCopyInto ext, PolicyList_DeepCopy ext),
     (''RolePrompt'', RolePrompt_T, RolePrompt_DeepCopyInto, RolePrompt_DeepCopy),
     (''PromptTemplateSpec'', PromptTemplateSpec_T, PromptTemplateSpec_DeepCopyInto, PromptTemplateSpec_DeepCopy),
     (''PromptTemplateStatus'', PromptTemplateStatus_T, PromptTemplateStatus_DeepCopyInto ext, PromptTemplateStatus_DeepCopy ext),
     (''PromptTemplate'', PromptTemplate_T, PromptTemplate_DeepCopyInto ext, PromptTemplate_DeepCopy ext),
     (''PromptTemplateList'', PromptTemplateList_T, PromptTemplateList_DeepCopyInto ext, PromptTemplateList_DeepCopy ext),
     (''SkillSpec'', SkillSpec_T, SkillSpec_DeepCopyInto, SkillSpec_DeepCopy),
     (''SkillStatus'', SkillStatus_T, SkillStatus_DeepCopyInto ext, SkillStatus_DeepCopy ext),
     (''Skill'', Skill_T, Skill_DeepCopyInto ext, Skill_DeepCopy ext),
     (''SkillList'', SkillList_T, SkillList_DeepCopyInto ext, SkillList_DeepCopy ext),
     (''SkillToolScope'', SkillToolScope_T, SkillToolScope_DeepCopyInto, SkillToolScope_DeepCopy),
     (''ToolSpec'', ToolSpec_T, ToolSpec_DeepCopyInto ext, ToolSpec_DeepCopy ext),
     (''ToolStatus'', ToolStatus_T, ToolStatus_DeepCopyInto ext, ToolStatus_DeepCopy ext),
     (''Tool'', Tool_T, Tool_DeepCopyInto ext, Tool_DeepCopy ext),
     (''ToolList'', ToolList_T, ToolList_DeepCopyInto ext, ToolList_DeepCopy ext),
     (''ToolPolicySpec'', ToolPolicySpec_T, ToolPolicySpec_DeepCopyInto, ToolPolicySpec_DeepCopy),
     (''ToolPolicyStatus'', ToolPolicyStatus_T, ToolPolicyStatus_DeepCopyInto ext, ToolPolicyStatus_DeepCopy ext),
     (''ToolPolicy'', ToolPolicy_T, ToolPolicy_DeepCopyInto ext, ToolPolicy_DeepCopy ext),
     (''ToolPolicyList'', ToolPolicyList_T, ToolPolicyList_DeepCopyInto ext, ToolPolicyList_DeepCopy ext),
     (''ToolSetSpec'', ToolSetSpec_T, ToolSetSpec_DeepCopyInto, ToolSetSpec_DeepCopy),
     (''ToolSetStatus'', ToolSetStatus_T, ToolSetStatus_DeepCopyInto ext, ToolSetStatus_DeepCopy ext),
     (''ToolSet'', ToolSet_T, ToolSet_DeepCopyInto ext, ToolSet_DeepCopy ext),
     (''ToolSetList'', ToolSetList_T, ToolSetList_DeepCopyInto ext, ToolSetList_DeepCopy ext),
     (''TriggerSpec'', TriggerSpec_T, TriggerSpec_DeepCopyInto ext, TriggerSpec_DeepCopy ext),
     (''TriggerStatus'', TriggerStatus_T, TriggerStatus_DeepCopyInto ext, TriggerStatus_DeepCopy ext),
     (''Trigger'', Trigger_T, Trigger_DeepCopyInto ext, Trigger_DeepCopy ext),
     (''TriggerList'', TriggerList_T, TriggerList_DeepCopyInto ext, TriggerList_DeepCopy ext)]"

definition generatedObjects :: "(string \<Rightarrow> copier) \<Rightarrow> (string \<times> gtype \<times> (gval \<Rightarrow> heap \<Rightarrow> (string \<times> gval) option \<times> heap)) list" where
  "generatedObjects ext =
    [(''Agent'', Agent_T, Agent_DeepCopyObject ext),
     (''AgentClass'', AgentClass_T, AgentClass_DeepCopyObject ext),
     (''AgentClassList'', AgentClassList_T, AgentClassList_DeepCopyObject ext),
     (''AgentList'', AgentList_T, AgentList_DeepCopyObject ext),
     (''Credential'', Credential_T, Credential_DeepCopyObject ext),
     (''CredentialList'', CredentialList_T, CredentialList_DeepCopyObject ext),
     (''MCPServer'', MCPServer_T, MCPServer_DeepCopyObject ext),
     (''MCPServerList'', MCPServerList_T, MCPServerList_DeepCopyObject ext),
     (''Model'', Model_T, Model_DeepCopyObject ext),
     (''ModelList'', ModelList_T, ModelList_DeepCopyObject ext),
     (''Policy'', Policy_T, Policy_DeepCopyObject ext),
     (''PolicyList'', PolicyList_T, PolicyList_DeepCopyObject ext),
     (''PromptTemplate'', PromptTemplate_T, PromptTemplate_DeepCopyObject ext),
     (''PromptTemplateList'', PromptTemplateList_T, PromptTemplateList_DeepCopyObject ext),
     (''Skill'', Skill_T, Skill_DeepCopyObject ext),
     (''SkillList'', SkillList_T, SkillList_DeepCopyObject ext),
     (''Tool'', Tool_T, Tool_DeepCopyObject ext),
     (''ToolList'', ToolList_T, ToolList_DeepCopyObject ext),
     (''ToolPolicy'', ToolPolicy_T, ToolPolicy_DeepCopyObject ext),
     (''ToolPolicyList'', ToolPolicyList_T, ToolPolicyList_DeepCopyObject ext),
     (''ToolSet'', ToolSet_T, ToolSet_DeepCopyObject ext),
     (''ToolSetList'', ToolSetList_T, ToolSetList_DeepCopyObject ext),
     (''Trigger'', Trigger_T, Trigger_DeepCopyObject ext),
     (''TriggerList'', TriggerList_T, TriggerList_DeepCopyObject ext)]"

section \<open>Every copy function keeps the contract\<close>

text \<open>
  The proofs follow the nesting of the types: a function is a deep copy when every field that holds
  a reference is copied by a function that is one.
\<close>

lemmas flat_layouts = TypeMeta_T_def AgentExposeSpec_T_def AgentPVCVolumeSource_T_def LocalReference_T_def ConfigMapKeyReference_T_def
  SecretKeyReference_T_def CredentialSpec_T_def FewShotExample_T_def RolePrompt_T_def

lemma flat_types [simp]:
  "flat TypeMeta_T"
  "flat AgentExposeSpec_T"
  "flat AgentPVCVolumeSource_T"
  "flat LocalReference_T"
  "flat ConfigMapKeyReference_T"
  "flat SecretKeyReference_T"
  "flat CredentialSpec_T"
  "flat FewShotExample_T"
  "flat RolePrompt_T"
  by (simp_all add: flat_layouts)

lemma foreign_deep [simp]: "foreign_copiers F ext \<Longrightarrow> n \<in> set foreignTypes \<Longrightarrow> deep_copier F (TyForeign n) (ext n)"
  by (simp add: foreign_copiers_def)

lemmas struct_simps = deep_copy_intros foreignTypes_def

lemma deep_level_0_own [simp]:
  "deep_copier F AgentExposeSpec_T AgentExposeSpec_DeepCopyInto"
  "deep_copier F AgentPVCVolumeSource_T AgentPVCVolumeSource_DeepCopyInto"
  "deep_copier F LocalReference_T LocalReference_DeepCopyInto"
  "deep_copier F ConfigMapKeyReference_T ConfigMapKeyReference_DeepCopyInto"
  "deep_copier F SecretKeyReference_T SecretKeyReference_DeepCopyInto"
  "deep_copier F CredentialSpec_T CredentialSpec_DeepCopyInto"
  "deep_copier F FewShotExample_T FewShotExample_DeepCopyInto"
  "deep_copier F RolePrompt_T RolePrompt_DeepCopyInto"
  unfolding AgentExposeSpec_T_def AgentExposeSpec_DeepCopyInto_def AgentPVCVolumeSource_T_def
    AgentPVCVolumeSource_DeepCopyInto_def LocalReference_T_def LocalReference_DeepCopyInto_def
    ConfigMapKeyReference_T_def ConfigMapKeyReference_DeepCopyInto_def SecretKeyReference_T_def
    SecretKeyReference_DeepCopyInto_def CredentialSpec_T_def CredentialSpec_DeepCopyInto_def
    FewShotExample_T_def FewShotExample_DeepCopyInto_def RolePrompt_T_def RolePrompt_DeepCopyInto_def
  by (rule deep_struct; simp add: struct_simps)+

lemma deep_level_1_own [simp]:
  "deep_copier F AccessRule_T AccessRule_DeepCopyInto"
  "deep_copier F AgentObjectVolumeSource_T AgentObjectVolumeSource_DeepCopyInto"
  "deep_copier F AgentWorkspaceSpec_T AgentWorkspaceSpec_DeepCopyInto"
  "deep_copier F AgentClassSpec_T AgentClassSpec_DeepCopyInto"
  "deep_copier F AgentReferences_T AgentReferences_DeepCopyInto"
  "deep_copier F ToolRule_T ToolRule_DeepCopyInto"
  "deep_copier F ModelDefaults_T ModelDefaults_DeepCopyInto"
  "deep_copier F PromptTemplateSpec_T PromptTemplateSpec_DeepCopyInto"
  "deep_copier F SkillSpec_T SkillSpec_DeepCopyInto"
  "deep_copier F SkillToolScope_T SkillToolScope_DeepCopyInto"
  "deep_copier F ToolSetSpec_T ToolSetSpec_DeepCopyInto"
  unfolding AccessRule_T_def AccessRule_DeepCopyInto_def AgentObjectVolumeSource_T_def
    AgentObjectVolumeSource_DeepCopyInto_def AgentWorkspaceSpec_T_def AgentWorkspaceSpec_DeepCopyInto_def
    AgentClassSpec_T_def AgentClassSpec_DeepCopyInto_def AgentReferences_T_def
    AgentReferences_DeepCopyInto_def ToolRule_T_def ToolRule_DeepCopyInto_def ModelDefaults_T_def
    ModelDefaults_DeepCopyInto_def PromptTemplateSpec_T_def PromptTemplateSpec_DeepCopyInto_def
    SkillSpec_T_def SkillSpec_DeepCopyInto_def SkillToolScope_T_def SkillToolScope_DeepCopyInto_def
    ToolSetSpec_T_def ToolSetSpec_DeepCopyInto_def
  by (rule deep_struct; simp add: struct_simps)+

lemma deep_level_1 [simp]:
  assumes "foreign_copiers F ext"
  shows "deep_copier F AgentEmptyDirVolumeSource_T (AgentEmptyDirVolumeSource_DeepCopyInto ext)"
    and "deep_copier F AgentStatus_T (AgentStatus_DeepCopyInto ext)"
    and "deep_copier F AgentClassStatus_T (AgentClassStatus_DeepCopyInto ext)"
    and "deep_copier F CredentialStatus_T (CredentialStatus_DeepCopyInto ext)"
    and "deep_copier F MCPServerSpec_T (MCPServerSpec_DeepCopyInto ext)"
    and "deep_copier F MCPServerStatus_T (MCPServerStatus_DeepCopyInto ext)"
    and "deep_copier F ModelStatus_T (ModelStatus_DeepCopyInto ext)"
    and "deep_copier F PolicyStatus_T (PolicyStatus_DeepCopyInto ext)"
    and "deep_copier F PromptTemplateStatus_T (PromptTemplateStatus_DeepCopyInto ext)"
    and "deep_copier F SkillStatus_T (SkillStatus_DeepCopyInto ext)"
    and "deep_copier F ToolSpec_T (ToolSpec_DeepCopyInto ext)"
    and "deep_copier F ToolStatus_T (ToolStatus_DeepCopyInto ext)"
    and "deep_copier F ToolPolicyStatus_T (ToolPolicyStatus_DeepCopyInto ext)"
    and "deep_copier F ToolSetStatus_T (ToolSetStatus_DeepCopyInto ext)"
    and "deep_copier F TriggerSpec_T (TriggerSpec_DeepCopyInto ext)"
    and "deep_copier F TriggerStatus_T (TriggerStatus_DeepCopyInto ext)"
  unfolding AgentEmptyDirVolumeSource_T_def AgentEmptyDirVolumeSource_DeepCopyInto_def AgentStatus_T_def
    AgentStatus_DeepCopyInto_def AgentClassStatus_T_def AgentClassStatus_DeepCopyInto_def
    CredentialStatus_T_def CredentialStatus_DeepCopyInto_def MCPServerSpec_T_def
    MCPServerSpec_DeepCopyInto_def MCPServerStatus_T_def MCPServerStatus_DeepCopyInto_def
    ModelStatus_T_def ModelStatus_DeepCopyInto_def PolicyStatus_T_def PolicyStatus_DeepCopyInto_def
    PromptTemplateStatus_T_def PromptTemplateStatus_DeepCopyInto_def SkillStatus_T_def
    SkillStatus_DeepCopyInto_def ToolSpec_T_def ToolSpec_DeepCopyInto_def ToolStatus_T_def
    ToolStatus_DeepCopyInto_def ToolPolicyStatus_T_def ToolPolicyStatus_DeepCopyInto_def
    ToolSetStatus_T_def ToolSetStatus_DeepCopyInto_def TriggerSpec_T_def TriggerSpec_DeepCopyInto_def
    TriggerStatus_T_def TriggerStatus_DeepCopyInto_def
  by (rule deep_struct; simp add: struct_simps assms)+

lemma deep_level_2_own [simp]:
  "deep_copier F EffectivePolicy_T EffectivePolicy_DeepCopyInto"
  "deep_copier F ModelSpec_T ModelSpec_DeepCopyInto"
  "deep_copier F PolicySpec_T PolicySpec_DeepCopyInto"
  "deep_copier F ToolPolicySpec_T ToolPolicySpec_DeepCopyInto"
  unfolding EffectivePolicy_T_def EffectivePolicy_DeepCopyInto_def ModelSpec_T_def ModelSpec_DeepCopyInto_def
    PolicySpec_T_def PolicySpec_DeepCopyInto_def ToolPolicySpec_T_def ToolPolicySpec_DeepCopyInto_def
  by (rule deep_struct; simp add: struct_simps)+

lemma deep_level_2 [simp]:
  assumes "foreign_copiers F ext"
  shows "deep_copier F AgentVolume_T (AgentVolume_DeepCopyInto ext)"
    and "deep_copier F AgentClass_T (AgentClass_DeepCopyInto ext)"
    and "deep_copier F Credential_T (Credential_DeepCopyInto ext)"
    and "deep_copier F MCPServer_T (MCPServer_DeepCopyInto ext)"
    and "deep_copier F PromptTemplate_T (PromptTemplate_DeepCopyInto ext)"
    and "deep_copier F Skill_T (Skill_DeepCopyInto ext)"
    and "deep_copier F Tool_T (Tool_DeepCopyInto ext)"
    and "deep_copier F ToolSet_T (ToolSet_DeepCopyInto ext)"
    and "deep_copier F Trigger_T (Trigger_DeepCopyInto ext)"
  unfolding AgentVolume_T_def AgentVolume_DeepCopyInto_def AgentClass_T_def AgentClass_DeepCopyInto_def
    Credential_T_def Credential_DeepCopyInto_def MCPServer_T_def MCPServer_DeepCopyInto_def
    PromptTemplate_T_def PromptTemplate_DeepCopyInto_def Skill_T_def Skill_DeepCopyInto_def Tool_T_def
    Tool_DeepCopyInto_def ToolSet_T_def ToolSet_DeepCopyInto_def Trigger_T_def Trigger_DeepCopyInto_def
  by (rule deep_struct; simp add: struct_simps assms)+

lemma deep_level_3 [simp]:
  assumes "foreign_copiers F ext"
  shows "deep_copier F AgentRuntimeSpec_T (AgentRuntimeSpec_DeepCopyInto ext)"
    and "deep_copier F AgentClassList_T (AgentClassList_DeepCopyInto ext)"
    and "deep_copier F CredentialList_T (CredentialList_DeepCopyInto ext)"
    and "deep_copier F MCPServerList_T (MCPServerList_DeepCopyInto ext)"
    and "deep_copier F Model_T (Model_DeepCopyInto ext)"
    and "deep_copier F Policy_T (Policy_DeepCopyInto ext)"
    and "deep_copier F PromptTemplateList_T (PromptTemplateList_DeepCopyInto ext)"
    and "deep_copier F SkillList_T (SkillList_DeepCopyInto ext)"
    and "deep_copier F ToolList_T (ToolList_DeepCopyInto ext)"
    and "deep_copier F ToolPolicy_T (ToolPolicy_DeepCopyInto ext)"
    and "deep_copier F ToolSetList_T (ToolSetList_DeepCopyInto ext)"
    and "deep_copier F TriggerList_T (TriggerList_DeepCopyInto ext)"
  unfolding AgentRuntimeSpec_T_def AgentRuntimeSpec_DeepCopyInto_def AgentClassList_T_def
    AgentClassList_DeepCopyInto_def CredentialList_T_def CredentialList_DeepCopyInto_def
    MCPServerList_T_def MCPServerList_DeepCopyInto_def Model_T_def Model_DeepCopyInto_def Policy_T_def
    Policy_DeepCopyInto_def PromptTemplateList_T_def PromptTemplateList_DeepCopyInto_def SkillList_T_def
    SkillList_DeepCopyInto_def ToolList_T_def ToolList_DeepCopyInto_def ToolPolicy_T_def
    ToolPolicy_DeepCopyInto_def ToolSetList_T_def ToolSetList_DeepCopyInto_def TriggerList_T_def
    TriggerList_DeepCopyInto_def
  by (rule deep_struct; simp add: struct_simps assms)+

lemma deep_level_4 [simp]:
  assumes "foreign_copiers F ext"
  shows "deep_copier F AgentSpec_T (AgentSpec_DeepCopyInto ext)"
    and "deep_copier F ModelList_T (ModelList_DeepCopyInto ext)"
    and "deep_copier F PolicyList_T (PolicyList_DeepCopyInto ext)"
    and "deep_copier F ToolPolicyList_T (ToolPolicyList_DeepCopyInto ext)"
  unfolding AgentSpec_T_def AgentSpec_DeepCopyInto_def ModelList_T_def ModelList_DeepCopyInto_def
    PolicyList_T_def PolicyList_DeepCopyInto_def ToolPolicyList_T_def ToolPolicyList_DeepCopyInto_def
  by (rule deep_struct; simp add: struct_simps assms)+

lemma deep_level_5 [simp]:
  assumes "foreign_copiers F ext"
  shows "deep_copier F Agent_T (Agent_DeepCopyInto ext)"
  unfolding Agent_T_def Agent_DeepCopyInto_def
  by (rule deep_struct; simp add: struct_simps assms)+

lemma deep_level_6 [simp]:
  assumes "foreign_copiers F ext"
  shows "deep_copier F AgentList_T (AgentList_DeepCopyInto ext)"
  unfolding AgentList_T_def AgentList_DeepCopyInto_def
  by (rule deep_struct; simp add: struct_simps assms)+

lemmas deepCopy_defs = AccessRule_DeepCopy_def AgentExposeSpec_DeepCopy_def AgentEmptyDirVolumeSource_DeepCopy_def
  AgentObjectVolumeSource_DeepCopy_def AgentPVCVolumeSource_DeepCopy_def AgentVolume_DeepCopy_def
  AgentRuntimeSpec_DeepCopy_def LocalReference_DeepCopy_def AgentWorkspaceSpec_DeepCopy_def
  AgentSpec_DeepCopy_def AgentStatus_DeepCopy_def Agent_DeepCopy_def AgentClassSpec_DeepCopy_def
  AgentClassStatus_DeepCopy_def AgentClass_DeepCopy_def AgentClassList_DeepCopy_def
  AgentList_DeepCopy_def AgentReferences_DeepCopy_def ConfigMapKeyReference_DeepCopy_def
  SecretKeyReference_DeepCopy_def CredentialSpec_DeepCopy_def CredentialStatus_DeepCopy_def
  Credential_DeepCopy_def CredentialList_DeepCopy_def ToolRule_DeepCopy_def EffectivePolicy_DeepCopy_def
  FewShotExample_DeepCopy_def MCPServerSpec_DeepCopy_def MCPServerStatus_DeepCopy_def
  MCPServer_DeepCopy_def MCPServerList_DeepCopy_def ModelDefaults_DeepCopy_def ModelSpec_DeepCopy_def
  ModelStatus_DeepCopy_def Model_DeepCopy_def ModelList_DeepCopy_def PolicySpec_DeepCopy_def
  PolicyStatus_DeepCopy_def Policy_DeepCopy_def PolicyList_DeepCopy_def RolePrompt_DeepCopy_def
  PromptTemplateSpec_DeepCopy_def PromptTemplateStatus_DeepCopy_def PromptTemplate_DeepCopy_def
  PromptTemplateList_DeepCopy_def SkillSpec_DeepCopy_def SkillStatus_DeepCopy_def Skill_DeepCopy_def
  SkillList_DeepCopy_def SkillToolScope_DeepCopy_def ToolSpec_DeepCopy_def ToolStatus_DeepCopy_def
  Tool_DeepCopy_def ToolList_DeepCopy_def ToolPolicySpec_DeepCopy_def ToolPolicyStatus_DeepCopy_def
  ToolPolicy_DeepCopy_def ToolPolicyList_DeepCopy_def ToolSetSpec_DeepCopy_def
  ToolSetStatus_DeepCopy_def ToolSet_DeepCopy_def ToolSetList_DeepCopy_def TriggerSpec_DeepCopy_def
  TriggerStatus_DeepCopy_def Trigger_DeepCopy_def TriggerList_DeepCopy_def

lemmas object_defs = Agent_DeepCopyObject_def AgentClass_DeepCopyObject_def AgentClassList_DeepCopyObject_def
  AgentList_DeepCopyObject_def Credential_DeepCopyObject_def CredentialList_DeepCopyObject_def
  MCPServer_DeepCopyObject_def MCPServerList_DeepCopyObject_def Model_DeepCopyObject_def
  ModelList_DeepCopyObject_def Policy_DeepCopyObject_def PolicyList_DeepCopyObject_def
  PromptTemplate_DeepCopyObject_def PromptTemplateList_DeepCopyObject_def Skill_DeepCopyObject_def
  SkillList_DeepCopyObject_def Tool_DeepCopyObject_def ToolList_DeepCopyObject_def
  ToolPolicy_DeepCopyObject_def ToolPolicyList_DeepCopyObject_def ToolSet_DeepCopyObject_def
  ToolSetList_DeepCopyObject_def Trigger_DeepCopyObject_def TriggerList_DeepCopyObject_def
  Agent_DeepCopy_def AgentClass_DeepCopy_def AgentClassList_DeepCopy_def AgentList_DeepCopy_def
  Credential_DeepCopy_def CredentialList_DeepCopy_def MCPServer_DeepCopy_def MCPServerList_DeepCopy_def
  Model_DeepCopy_def ModelList_DeepCopy_def Policy_DeepCopy_def PolicyList_DeepCopy_def
  PromptTemplate_DeepCopy_def PromptTemplateList_DeepCopy_def Skill_DeepCopy_def SkillList_DeepCopy_def
  Tool_DeepCopy_def ToolList_DeepCopy_def ToolPolicy_DeepCopy_def ToolPolicyList_DeepCopy_def
  ToolSet_DeepCopy_def ToolSetList_DeepCopy_def Trigger_DeepCopy_def TriggerList_DeepCopy_def

interpretation rule_copy: deep_copier F AccessRule_T AccessRule_DeepCopyInto for F
  by (rule deep_level_1_own)

interpretation policy_copy: deep_copier F EffectivePolicy_T EffectivePolicy_DeepCopyInto for F
  by (rule deep_level_2_own)

lemma generatedCopies_deep:
  assumes "foreign_copiers F ext"
  shows "list_all (\<lambda>(n, T, into, dc). deep_copier F T into \<and> dc = deepCopy into) (generatedCopies ext)"
  unfolding generatedCopies_def by (simp add: assms deepCopy_defs)

lemma deepCopy_Nil: "fst (deepCopy f v h) = Nil \<longleftrightarrow> v = Nil"
  by (simp add: deepCopy_def copyPtr_def Let_def split: gval.split prod.split)

definition copies_object ::
  "(string \<Rightarrow> tree \<Rightarrow> bool) \<Rightarrow> string \<Rightarrow> gtype \<Rightarrow> (gval \<Rightarrow> heap \<Rightarrow> (string \<times> gval) option \<times> heap) \<Rightarrow> bool" where
  "copies_object F ty T obj \<longleftrightarrow> (\<exists>into. obj = deepCopyObject ty (deepCopy into) \<and> deep_copier F T into)"

lemma deepCopyObject_copies: "deep_copier F T into \<Longrightarrow> copies_object F ty T (deepCopyObject ty (deepCopy into))"
  by (auto simp: copies_object_def)

lemma generatedObjects_deep:
  assumes "foreign_copiers F ext"
  shows "list_all (\<lambda>(n, T, obj). copies_object F n T obj) (generatedObjects ext)"
  unfolding generatedObjects_def object_defs by (simp add: assms deepCopyObject_copies)

section \<open>A concrete object\<close>

definition scalar_foreign :: "string \<Rightarrow> tree \<Rightarrow> bool" where
  "scalar_foreign n t \<longleftrightarrow> (case t of TScalar s \<Rightarrow> True | _ \<Rightarrow> False)"

lemma scalar_foreign_copiers: "foreign_copiers scalar_foreign (\<lambda>n. shallow)"
proof -
  have "deep_copier scalar_foreign (TyForeign n) shallow" for n
    by unfold_locales (auto simp: shallow_def scalar_foreign_def split: tree.splits)
  then show ?thesis by (simp add: foreign_copiers_def)
qed

definition toolset_tree :: tree where
  "toolset_tree = TStruct
    [(''TypeMeta'', TStruct [(''Kind'', TScalar ''ToolSet''), (''APIVersion'', TScalar ''v1alpha1'')]),
     (''ObjectMeta'', TScalar ''set''),
     (''Spec'', TStruct [(''Description'', TScalar []), (''ToolRefs'', TSlice [TStruct [(''Name'', TScalar ''search'')]])]),
     (''Status'', TStruct [(''Conditions'', TNil), (''ObservedGeneration'', TScalar ''1''), (''ResolvedTools'', TScalar ''1'')])]"

definition toolset_heap :: heap where
  "toolset_heap =
    [[Struct [(''Name'', Scalar ''search'')]],
     [Struct
       [(''TypeMeta'', Struct [(''Kind'', Scalar ''ToolSet''), (''APIVersion'', Scalar ''v1alpha1'')]),
        (''ObjectMeta'', Scalar ''set''),
        (''Spec'', Struct [(''Description'', Scalar []), (''ToolRefs'', Slice 0 0 1)]),
        (''Status'', Struct [(''Conditions'', Nil), (''ObservedGeneration'', Scalar ''1''), (''ResolvedTools'', Scalar ''1'')])]]]"

lemma toolset_denotes: "denotes 0 toolset_heap (Ptr 1) (TPtr toolset_tree)"
  by (simp add: toolset_heap_def toolset_tree_def)

lemma toolset_typed: "has_type scalar_foreign (TyPtr ToolSet_T) (TPtr toolset_tree)"
  by (simp add: toolset_tree_def ToolSet_T_def TypeMeta_T_def ToolSetSpec_T_def ToolSetStatus_T_def
      LocalReference_T_def scalar_foreign_def)

section \<open>Properties\<close>

text \<open>
  C27. All 66 types are copied deeply: given a value that reads as a tree of the type, \<^verbatim>\<open>DeepCopyInto\<close>
  gives a value that reads as the same tree, in which every cell is new, and writes no existing
  cell; \<^verbatim>\<open>DeepCopy\<close> does so for a pointer, and gives nil exactly for nil. The types of other
  modules are assumed to be copied deeply by their own functions.
\<close>

theorem generated_copies_deep:
  assumes "foreign_copiers F ext" and "(name, T, into, dc) \<in> set (generatedCopies ext)"
    and "denotes 0 h v t"
  shows "(has_type F T t \<longrightarrow>
            (\<exists>v' new. into v h = (v', h @ new) \<and> denotes (length h) (h @ new) v' t)) \<and>
         (has_type F (TyPtr T) t \<longrightarrow>
            (\<exists>v' new. dc v h = (v', h @ new) \<and> denotes (length h) (h @ new) v' t \<and> (v' = Nil \<longleftrightarrow> v = Nil)))"
proof -
  from generatedCopies_deep [OF assms(1)] assms(2)
  have into: "deep_copier F T into" and dc: "dc = deepCopy into" by (auto simp: list_all_iff)
  obtain v1 h1 v2 h2 where r: "into v h = (v1, h1)" "deepCopy into v h = (v2, h2)" by (meson surj_pair)
  from deepCopy_Nil [of into v h] r(2) have nil: "v2 = Nil \<longleftrightarrow> v = Nil" by simp
  from deep_copier.copies [OF into assms(3) _ r(1)]
    deep_copier.copies [OF deep_copy_pointer [OF into] assms(3) _ r(2)] r dc nil
  show ?thesis by auto
qed

theorem generated_copies_deep_witness:
  "length (generatedCopies (\<lambda>n. shallow)) = 66 \<and>
   (\<exists>v' new. ToolSet_DeepCopy (\<lambda>n. shallow) (Ptr 1) toolset_heap = (v', toolset_heap @ new) \<and>
      denotes 2 (toolset_heap @ new) v' (TPtr toolset_tree))"
proof -
  have l: "length (generatedCopies (\<lambda>n. shallow)) = 66" by (simp add: generatedCopies_def)
  have m: "(''ToolSet'', ToolSet_T, ToolSet_DeepCopyInto (\<lambda>n. shallow), ToolSet_DeepCopy (\<lambda>n. shallow))
      \<in> set (generatedCopies (\<lambda>n. shallow))"
    by (simp add: generatedCopies_def)
  have "length toolset_heap = 2" by (simp add: toolset_heap_def)
  with l generated_copies_deep [OF scalar_foreign_copiers m toolset_denotes] toolset_typed show ?thesis by auto
qed

text \<open>
  C16. An object handed out by the cache is the caller's own: \<^verbatim>\<open>DeepCopyObject\<close> gives the nil interface
  exactly for a nil pointer, otherwise a pointer of the same dynamic type that reads the same and
  shares no cell with the original; whatever is then written into the cells of the copy, the
  original still reads the same, and the other way round.
\<close>

theorem cached_object_isolated:
  assumes "foreign_copiers F ext" and "(ty, T, copyObject) \<in> set (generatedObjects ext)"
    and "denotes 0 h v t" and "has_type F (TyPtr T) t" and "copyObject v h = (r, h')"
  shows "(r = None \<longleftrightarrow> v = Nil) \<and>
         (\<forall>ty' c. r = Some (ty', c) \<longrightarrow>
            ty' = ty \<and> denotes 0 h' c t \<and> footprint h v t \<inter> footprint h' c t = {} \<and>
            (\<forall>ws. (\<forall>w\<in>set ws. fst w \<in> footprint h' c t) \<longrightarrow> denotes 0 (writes ws h') v t) \<and>
            (\<forall>ws. (\<forall>w\<in>set ws. fst w \<in> footprint h v t) \<longrightarrow> denotes 0 (writes ws h') c t))"
proof -
  from generatedObjects_deep [OF assms(1)] assms(2) obtain into where
    o: "copyObject = deepCopyObject ty (deepCopy into)" and "deep_copier F T into"
    by (auto simp: list_all_iff copies_object_def)
  then have dc: "deep_copier F (TyPtr T) (deepCopy into)" by (blast intro: deep_copy_pointer)
  obtain c h1 where c: "deepCopy into v h = (c, h1)" by fastforce
  have nil: "c = Nil \<longleftrightarrow> v = Nil" using deepCopy_Nil [of into v h] c by simp
  have r: "h' = h1" "r = (if c = Nil then None else Some (ty, c))"
    using assms(5) c unfolding o deepCopyObject_def by (auto split: if_splits)
  note facts = assms(3,4) c
  have "denotes 0 h1 c t" using deep_copier.copies [OF dc facts] denotes_weaken(1) by blast
  moreover have "denotes 0 (writes ws h1) c t" if "\<forall>w\<in>set ws. fst w \<in> footprint h v t" for ws
    using deep_copier.writes_to_original_unseen [OF dc facts that] denotes_weaken(1) by blast
  ultimately show ?thesis
    using r nil deep_copier.nothing_shared [OF dc facts] deep_copier.writes_to_copy_unseen [OF dc facts]
    by simp
qed

theorem cached_object_isolated_witness:
  "\<exists>c h'. ToolSet_DeepCopyObject (\<lambda>n. shallow) (Ptr 1) toolset_heap = (Some (''ToolSet'', c), h') \<and>
     denotes 0 h' c (TPtr toolset_tree) \<and>
     footprint toolset_heap (Ptr 1) (TPtr toolset_tree) \<inter> footprint h' c (TPtr toolset_tree) = {}"
proof -
  have m: "(''ToolSet'', ToolSet_T, ToolSet_DeepCopyObject (\<lambda>n. shallow)) \<in> set (generatedObjects (\<lambda>n. shallow))"
    by (simp add: generatedObjects_def)
  obtain r h' where r: "ToolSet_DeepCopyObject (\<lambda>n. shallow) (Ptr 1) toolset_heap = (r, h')" by fastforce
  note iso = cached_object_isolated [OF scalar_foreign_copiers m toolset_denotes toolset_typed r]
  from iso [THEN conjunct1] obtain o' where o: "r = Some o'" by (cases r) simp_all
  obtain ty c where o': "o' = (ty, c)" by fastforce
  from iso [THEN conjunct2, rule_format, of ty c] o o'
  have "ty = ''ToolSet''" "denotes 0 h' c (TPtr toolset_tree)"
    "footprint toolset_heap (Ptr 1) (TPtr toolset_tree) \<inter> footprint h' c (TPtr toolset_tree) = {}"
    by (simp_all only: simp_thms)
  with r o o' show ?thesis by blast
qed

end
