(* ===== verification/Spec2Isabelle.thy ===== *)
theory Spec2Isabelle
  imports Hub Webhooks Builders Example_Mcp Control_Rest Event_Stream Deep_Copy
begin

text \<open>
  A verification library for Agent Plane, a Kubernetes Operator with a config Registry.

  \<^bold>\<open>The program.\<close> Users declare Agents and the things they use (models, prompts, tools, skills,
  policies, credentials) as custom resources. The Operator (\<^verbatim>\<open>src/internal/controller\<close>) reconciles
  each kind: it checks references, merges policies, decides whether an Agent may run, writes
  the Deployments, Services and claims it needs, and publishes a status with a hash of what was
  resolved. The admission webhooks (\<^verbatim>\<open>src/internal/webhook\<close>) validate specs early. The Registry
  (\<^verbatim>\<open>src/cmd/registry\<close>) serves runtimes a snapshot of the resolved configuration and streams
  updates of it. The types, the validation and the policy merge are shared
  (\<^verbatim>\<open>src/api/v1alpha1\<close>).

  \<^bold>\<open>The theories.\<close>
  \<^item> \<open>Prelude\<close>: Go results and errors, formatting, and the loops over a set of names seen.
  \<^item> \<open>Api_Types\<close>: one record per struct of \<^verbatim>\<open>api/v1alpha1/*_types.go\<close>, and \<open>ApplyClassDefaults\<close>.
  \<^item> \<open>Policy_Merge\<close>: \<^verbatim>\<open>policy_merge.go\<close> and \<^verbatim>\<open>skill_scope.go\<close>. Merging is exact in each dimension (locale
    \<open>narrowing_merge\<close>), the violation report is sound and complete.
  \<^item> \<open>Validation\<close>: \<^verbatim>\<open>validation.go\<close>, each \<^verbatim>\<open>Validate\<close> against a declarative specification.
  \<^item> \<open>Kube\<close>: the client as the record \<open>kube\<close> of parameters, workload objects, a recording instance
    that keeps every write, and the law of status conditions (locale \<open>status_conditions\<close>).
  \<^item> \<open>Ref_Controllers\<close>: the nine controllers that check references or content and publish Ready (locale
    \<open>reference_controller\<close> for the three that share one shape).
  \<^item> \<open>Go_Hash\<close>: \<^verbatim>\<open>encoding/json\<close> string escaping, SHA-256 on 32-bit words, hexadecimal output.
  \<^item> \<open>Agent_Resolve\<close>: reference resolution of an Agent and its config hash (locale \<open>gathered\<close>).
  \<^item> \<open>Agent_Runtime\<close>: the workload of an Agent: pod, volumes, credentials, clone script, Services, claim.
  \<^item> \<open>Agent_Controller\<close>: the whole reconcile pass of an Agent (locale \<open>condition_writer\<close>).
  \<^item> \<open>Agent_Decision\<close>: the abstract decision about an Agent and the refinement of the pass to it.
  \<^item> \<open>Workload_Controllers\<close>: the MCPServer and Trigger controllers.
  \<^item> \<open>Field_Index\<close>: the reverse-reference indexes and the watches of the Agent controller, with the
    routes through a class or a ToolSet (locale \<open>indexed_cluster\<close>).
  \<^item> \<open>Watches\<close>: the whole table of indexes and its registration (locale \<open>field_indexer\<close>), and the
    watches of the other controllers (locale \<open>indexed_kind\<close>).
  \<^item> \<open>Registry\<close>: the snapshot and the HTTP routes of the Registry.
  \<^item> \<open>Hub\<close>: the fan-out hub, its bounded channels and the watch handlers as a transition function with
    panics as outcomes (locale \<open>fan_out\<close>).
  \<^item> \<open>Webhooks\<close>: the admission handlers.
  \<^item> \<open>Go_Json\<close>: JSON values, their text as \<^verbatim>\<open>encoding/json\<close> writes it, a reader and the round trip.
  \<^item> \<open>Example_Mcp\<close>: the example MCP server (\<^verbatim>\<open>src/cmd/example-mcp\<close>): decoding, dispatch, tools, replies.
  \<^item> \<open>Startup\<close>: the start-up of the Operator (\<^verbatim>\<open>src/cmd/main.go\<close>) and of the Registry: server options,
    the order of the set-up calls, and that nothing runs after one has failed.
  \<^item> \<open>Builders\<close>: what every \<^verbatim>\<open>SetupWithManager\<close> registers, in agreement with the start-up and the watches;
    a change of an owned workload wakes its owner (locale \<open>owner_handler\<close>).
  \<^item> \<open>Agent_Settles\<close>: the API server as a locale (\<open>api_server\<close>, interpreted on a server in memory), and
    that an Agent's passes change nothing after the first successful one.
  \<^item> \<open>Control_Loop\<close>: cluster, work queue and worker of the Agent controller as a step relation, with
    users who change objects at any moment (locales \<open>same_dependencies\<close> for what a verdict depends
    on, \<open>locking_server\<close> for the optimistic lock on a status update). Invariant: an Agent is queued, in
    the worker's hands, or carries the verdict its cluster calls for.
  \<^item> \<open>Control_Rest\<close>: Agents do not disturb each other's workloads, so the queue is worked off with at most
    two reconciliations per key in any order; with the invariant, the controller comes to rest
    with every verdict right.
  \<^item> \<open>Event_Stream\<close>: the bytes of a watch stream and a reader of the event-stream format.
  \<^item> \<open>Go_Heap\<close>, \<open>Deep_Copy\<close>: Go values with their cells, the layouts of all API types and the generated
    copy functions (\<^verbatim>\<open>zz_generated.deepcopy.go\<close>); the contract of a deep copy is the locale
    \<open>deep_copier\<close>. Everywhere else values are immutable, which these theories justify: an object
    handed out as a copy shares nothing with the one it was copied from.
  This theory holds what spans components: a Ready Agent is served exactly within its policies,
  after a pass and in every state the controller reaches, and what admission accepts is never
  refused later for its structure.

  \<^bold>\<open>How state and effects are modelled.\<close> A reconcile reads a snapshot (\<open>reader\<close>, what \<^verbatim>\<open>Get\<close> answers
  for every key: the object, NotFound, or another error) and returns its error with the next
  state of the cluster; every early return is a branch. The API server, controller-runtime and
  apimachinery are not part of the repository: they are the fields of \<open>kube\<close> and of \<open>lister\<close>, and
  what the theorems use of them are the hypotheses of the locales named above, each interpreted
  on a concrete instance. One pass reads one snapshot before its first write, the manager's
  cache. In the control loop a pass with its workload writes is one step and the status update a
  later one, with other steps in between; a change and the event that reports it are one step,
  and there is one worker, the default of controller-runtime. The loop leaves out one kind of
  change, whether an Agent that some Tool names answers its peers: nothing reports it
  (\<open>peer_exposure_not_watched\<close>). Go maps that are printed or iterated in order are association lists; a map used as a set
  is a set. Machine integers are words where they can wrap or overflow (\<^verbatim>\<open>uint64\<close> resource
  versions, SHA-256) and integers where the API schema bounds them. Every loop of the sources
  runs over a list, and the Registry's endless loops are steps of a transition system, so no
  model of code uses fuel; the JSON reader, which states a round trip, takes the length of its
  input as fuel, and the round trip shows that this is enough.

  \<^bold>\<open>Not modelled.\<close> Logging; the parsing of the command line; the socket behind an HTTP
  reply; the registration of the API group with the scheme; the Kubernetes types' own copy
  functions; timeouts and cancellation of a request's context, other than as the end of a stream.
\<close>

section \<open>Between the Operator and the Registry\<close>

text \<open>The effective spec, and with it the references resolved, do not depend on the status.\<close>

lemma agent_eff_same: "same_agent b a \<Longrightarrow> agent_eff rd b = agent_eff rd a"
  by (auto simp: same_agent_def agent_eff_def agentClassOf_def split: option.split)

lemma published_Ready:
  assumes "status_conditions (setStatusCondition k)"
    and "getAgent (reads k w) key = Found a" and "agentPass k url key w = (Publish a', w')"
    and "ast_phase (ag_status a') = AgentPhaseReady"
  obtains res where "resolveRefs (reads k w) a = Inr res" "references_exist (reads k w) a"
    "admitted (reads k w') a res" "ast_resolvedConfigHash (ag_status a') = configHash (res_refs res)"
    "same_agent a' a"
  using agent_ready_lemma [OF assms(1-3)] assms(4)
  by (auto simp: status_ready_def status_degraded_def status_current_def split: if_splits)

lemma served_tool_names:
  assumes "resolveRefs rd a = Inr res" and "buildConfigFrom marshal rd a' = Inr cfg" and "same_agent a' a"
    and "\<forall>tk t. getTool rd tk = Found t \<longrightarrow> meta_name (to_meta t) = nn_name tk"
  shows "map tv_name (cfg_tools cfg) =
           filter (\<lambda>n. is_found (getTool rd (NamespacedName (ag_namespace a) n))) (refs_tools (res_declared res))"
  using assms(3,4) by (simp add: buildConfigFrom_Inr(8) [OF assms(2)] resolveRefs_declared(2) [OF assms(1)]
      agent_eff_same [OF assms(3)] tool_views_names same_agent_def)

lemma sample_pass_Ready:
  "\<exists>a'. agentPass recording_kube [] (NamespacedName ''default'' ''bot'') (sample_reader, []) =
          (Publish a', sample_reader, []) \<and> ast_phase (ag_status a') = AgentPhaseReady"
proof -
  obtain res where r: "resolveRefs sample_reader sample_agent = Inr res"
    using resolveRefs_total sample_readable by blast
  obtain a' where p: "agentPass recording_kube [] (NamespacedName ''default'' ''bot'') (sample_reader, []) =
      (Publish a', sample_reader, [])" by (rule sample_pass)
  from agent_ready_lemma [OF recording_kube_conditions sample_get p] p sample_valid r sample_exists sample_admitted [OF r]
  show ?thesis by (auto simp: status_ready_def)
qed

text \<open>What the Registry serves of an admitted Agent whose status says Ready.\<close>

lemma served_within_policy:
  assumes "resolveRefs rd a = Inr res" "references_exist rd a" "admitted rd' a res" "same_agent a' a"
    and "ast_phase (ag_status a') = AgentPhaseReady" "ast_resolvedConfigHash (ag_status a') = configHash (res_refs res)"
    and "buildConfigFrom marshal rd a' = Inr cfg"
    and "\<forall>tk t. getTool rd tk = Found t \<longrightarrow> meta_name (to_meta t) = nn_name tk"
  shows "let ns = ag_namespace a; eff = agent_eff rd a;
             ps = found_all (getPolicy rd) ns (as_policyRefs eff);
             tps = found_all (getToolPolicy rd) ns (as_toolPolicyRefs eff) in
         cfg_phase cfg = AgentPhaseReady \<and>
         (\<exists>res. resolveRefs rd a = Inr res \<and> cfg_configHash cfg = configHash (res_refs res)) \<and>
         cfg_policy cfg = map_option policyView (MergePolicies ps tps) \<and>
         distinct (map tv_name (cfg_tools cfg)) \<and>
         ref_name ` set (as_toolRefs eff) \<subseteq> tv_name ` set (cfg_tools cfg) \<and>
         (\<forall>tv\<in>set (cfg_tools cfg).
            policies_permit pos_tools ps (tv_name tv) \<and> \<not> tool_denied tps (tv_name tv))"
proof -
  note names = served_tool_names [OF assms(1,7,4,8)]
    and b = buildConfigFrom_Inr [OF assms(7)] and f = resolveRefs_fields(1,2) [OF assms(1)]
    and d = resolveRefs_declared(2) [OF assms(1)]
  have served: "tv_name ` set (cfg_tools cfg) =
      {n \<in> set (refs_tools (res_declared res)). is_found (getTool rd (NamespacedName (ag_namespace a) n))}"
    using arg_cong [OF names, of set] by auto
  have "ref_name ` set (as_toolRefs (agent_eff rd a)) \<subseteq> tv_name ` set (cfg_tools cfg)"
    using assms(2) by (auto simp: served d set_toolNames reaches_tool_def references_exist_def Let_def)
  moreover have "policies_permit pos_tools (res_policies res) (tv_name tv) \<and> \<not> tool_denied (res_toolPolicies res) (tv_name tv)"
    if "tv \<in> set (cfg_tools cfg)" for tv
    using that assms(3) served by (auto simp: admitted_def declaration_permitted_def)
  moreover have "distinct (map tv_name (cfg_tools cfg))"
    unfolding names by (simp add: d dedupe_def)
  moreover have "cfg_policy cfg = map_option policyView (MergePolicies (res_policies res) (res_toolPolicies res))"
    using assms(4) by (simp add: b(9) f resolvePolicy_merged agent_eff_same [OF assms(4)] same_agent_def)
  ultimately show ?thesis
    using assms(1,5,6) by (simp add: b(3,4) f Let_def)
qed

text \<open>An Agent whose verdict is right and says Ready is admitted.\<close>

lemma ready_verdict:
  assumes "decide (agent_facts_of pq rd rd a) = v" "state_phase v = AgentPhaseReady"
  obtains res where "resolveRefs rd a = Inr res" "references_exist rd a" "admitted rd a res"
    "state_hash v = configHash (res_refs res)"
  using assms
  by (cases "resolveRefs rd a") (auto simp: decide_def agent_facts_of_def split: if_splits)

section \<open>Properties across components\<close>

text \<open>
  C1. From policy to prompt: when a reconcile pass publishes an Agent as Ready, the snapshot the
  Registry builds of the published Agent from the state the pass read says so, carries the
  hash of exactly the references the pass resolved and the policy merged from exactly the
  Policy and ToolPolicy objects of the effective spec; every direct tool is served, every
  tool is served once, and every served tool is permitted by each of those Policies and
  denied by none of the ToolPolicies.
\<close>

theorem ready_agent_served_within_policy:
  assumes "status_conditions (setStatusCondition k)"
    and "getAgent (reads k w) key = Found a" and "agentPass k url key w = (Publish a', w')"
    and "ast_phase (ag_status a') = AgentPhaseReady"
    and "buildConfigFrom marshal (reads k w) a' = Inr cfg"
    and "\<forall>tk t. getTool (reads k w) tk = Found t \<longrightarrow> meta_name (to_meta t) = nn_name tk"
  shows "let rd = reads k w; ns = ag_namespace a; eff = agent_eff rd a;
             ps = found_all (getPolicy rd) ns (as_policyRefs eff);
             tps = found_all (getToolPolicy rd) ns (as_toolPolicyRefs eff) in
         cfg_phase cfg = AgentPhaseReady \<and>
         (\<exists>res. resolveRefs rd a = Inr res \<and> cfg_configHash cfg = configHash (res_refs res)) \<and>
         cfg_policy cfg = map_option policyView (MergePolicies ps tps) \<and>
         distinct (map tv_name (cfg_tools cfg)) \<and>
         ref_name ` set (as_toolRefs eff) \<subseteq> tv_name ` set (cfg_tools cfg) \<and>
         (\<forall>tv\<in>set (cfg_tools cfg).
            policies_permit pos_tools ps (tv_name tv) \<and> \<not> tool_denied tps (tv_name tv))"
proof -
  obtain res where r: "resolveRefs (reads k w) a = Inr res" "references_exist (reads k w) a"
      "admitted (reads k w') a res" "ast_resolvedConfigHash (ag_status a') = configHash (res_refs res)"
      "same_agent a' a"
    using published_Ready [OF assms(1-4)] by blast
  from served_within_policy [OF r(1-3,5) assms(4) r(4) assms(5,6)] show ?thesis by simp
qed

theorem ready_agent_served_within_policy_witness:
  "\<exists>a' cfg. agentPass recording_kube [] (NamespacedName ''default'' ''bot'') (sample_reader, []) =
              (Publish a', sample_reader, []) \<and>
            buildConfigFrom no_spec sample_reader a' = Inr cfg \<and> cfg_phase cfg = AgentPhaseReady \<and>
            ''search'' \<in> tv_name ` set (cfg_tools cfg)"
proof -
  obtain a' where p: "agentPass recording_kube [] (NamespacedName ''default'' ''bot'') (sample_reader, []) =
      (Publish a', sample_reader, [])" and ph: "ast_phase (ag_status a') = AgentPhaseReady"
    using sample_pass_Ready by blast
  obtain cfg where c: "buildConfigFrom no_spec sample_reader a' = Inr cfg"
    by (simp add: buildConfigFrom_def Let_def)
  have n: "\<forall>tk t. getTool (reads recording_kube (sample_reader, [])) tk = Found t \<longrightarrow> meta_name (to_meta t) = nn_name tk"
    by (simp add: sample_reader_def sample_objects sample_defs)
  have t: "as_toolRefs (agent_eff sample_reader sample_agent) = [LocalReference ''search'']"
    by (simp add: sample_agent_eff) (simp add: sample_agent_spec_def)
  from ready_agent_served_within_policy [OF recording_kube_conditions sample_get p ph _ n, of no_spec cfg] c p t
  show ?thesis by (simp add: Let_def)
qed

text \<open>
  C2. The same without reference to a pass: in every state the Agent controller can reach, for an
  Agent that is neither queued nor in the worker's hands and whose status says Ready, the snapshot
  the Registry builds from the cluster as it is now carries the hash of the references as they
  are now and the policy merged from the Policies as they are now, and serves only tools those
  permit. A change of a Policy is thus either on its way through the queue or in force.
\<close>

theorem settled_agent_served_within_policy:
  assumes "locking_server k admitDeployment admitService" and "loop_run k url l s"
    and "getAgent (reads k (lp_world s)) key = Found a" and "refs_carry_names a"
    and "key \<notin> lp_queue s" and "\<And>b. lp_flight s \<noteq> Some (key, b)"
    and "ast_phase (ag_status a) = AgentPhaseReady"
    and "buildConfigFrom marshal (reads k (lp_world s)) a = Inr cfg"
    and "\<forall>tk t. getTool (reads k (lp_world s)) tk = Found t \<longrightarrow> meta_name (to_meta t) = nn_name tk"
  shows "let rd = reads k (lp_world s); ns = ag_namespace a; eff = agent_eff rd a;
             ps = found_all (getPolicy rd) ns (as_policyRefs eff);
             tps = found_all (getToolPolicy rd) ns (as_toolPolicyRefs eff) in
         cfg_phase cfg = AgentPhaseReady \<and>
         (\<exists>res. resolveRefs rd a = Inr res \<and> cfg_configHash cfg = configHash (res_refs res)) \<and>
         cfg_policy cfg = map_option policyView (MergePolicies ps tps) \<and>
         distinct (map tv_name (cfg_tools cfg)) \<and>
         ref_name ` set (as_toolRefs eff) \<subseteq> tv_name ` set (cfg_tools cfg) \<and>
         (\<forall>tv\<in>set (cfg_tools cfg).
            policies_permit pos_tools ps (tv_name tv) \<and> \<not> tool_denied tps (tv_name tv))"
proof -
  let ?rd = "reads k (lp_world s)"
  have v: "verdict_right (parseQuantity k) ?rd a" by (rule unqueued_verdict [OF assms(1-6)])
  obtain res where r: "resolveRefs ?rd a = Inr res" "references_exist ?rd a" "admitted ?rd a res"
    and h: "ast_resolvedConfigHash (ag_status a) = configHash (res_refs res)"
    using ready_verdict [OF refl, of "parseQuantity k" ?rd a] v assms(7)
    by (auto simp: verdict_right_def implements_def)
  have "same_agent a a" by (simp add: same_agent_def)
  from served_within_policy [OF r this assms(7) h assms(8,9)] show ?thesis by simp
qed

theorem settled_agent_served_within_policy_witness:
  "\<exists>s a cfg. loop_run store_kube [] bot_lister s \<and> lp_queue s = {} \<and> getAgent (lp_world s) bot_key = Found a \<and>
     buildConfigFrom no_spec (lp_world s) a = Inr cfg \<and> cfg_phase cfg = AgentPhaseReady \<and> distinct (map tv_name (cfg_tools cfg))"
proof -
  obtain rd where rd: "(drain store_kube [])\<^sup>*\<^sup>* (sample_reader, {bot_key}) (rd, {})" by (rule bot_rests)
  then have kept: "bot_kept rd" using bot_drains by blast
  then obtain a where a: "getAgent rd bot_key = Found a" "alike a sample_agent" and refs: "same_refs rd sample_reader"
    by (auto simp: bot_kept_def)
  let ?s = "\<lparr>lp_world = rd, lp_queue = {}, lp_flight = None\<rparr>"
  have run: "loop_run store_kube [] bot_lister ?s"
    using store_lock.drain_run [OF rd] bot_run by (simp add: bot_start_def)
  have at: "getAgent (reads store_kube (lp_world ?s)) bot_key = Found a" "refs_carry_names a"
    "bot_key \<notin> lp_queue ?s" "\<And>b. lp_flight ?s \<noteq> Some (bot_key, b)"
    using a bot_names by simp_all
  have ph: "ast_phase (ag_status a) = AgentPhaseReady"
    using unqueued_verdict [OF store_lock.locking_server_axioms run at] bot_ready [OF kept a(1)]
    by (simp add: verdict_right_def implements_def)
  obtain cfg where c: "buildConfigFrom no_spec rd a = Inr cfg" by (simp add: buildConfigFrom_def Let_def)
  have "getTool rd = getTool sample_reader" by (rule same_refsD(4) [OF refs])
  then have n: "\<forall>tk t. getTool (reads store_kube (lp_world ?s)) tk = Found t \<longrightarrow> meta_name (to_meta t) = nn_name tk"
    by (simp add: sample_reader_def sample_objects sample_defs)
  have "cfg_phase cfg = AgentPhaseReady \<and> distinct (map tv_name (cfg_tools cfg))"
    using settled_agent_served_within_policy [OF store_lock.locking_server_axioms run at ph _ n, of no_spec cfg] c
    by (simp add: Let_def)
  with run a(1) c show ?thesis by (intro exI [of _ ?s] exI [of _ a] exI [of _ cfg]) simp
qed

text \<open>
  C40. Admission and reconciliation agree: an Agent the webhook admits, on create or on update, is
  never turned away by the controller for its structure. A published status is then Ready
  exactly when its references exist and its policies, skills and peers admit it.
\<close>

theorem admitted_agent_decided_on_references:
  assumes "Agent_ValidateCreate (parseQuantity k) (OAgent a) = None \<or>
           Agent_ValidateUpdate (parseQuantity k) old (OAgent a) = None"
    and "status_conditions (setStatusCondition k)"
    and "getAgent (reads k w) key = Found a" and "agentPass k url key w = (Publish a', w')"
  shows "ast_phase (ag_status a') = AgentPhaseReady \<longleftrightarrow>
           references_exist (reads k w) a \<and>
           (\<exists>res. resolveRefs (reads k w) a = Inr res \<and> admitted (reads k w') a res)"
  using agent_ready_lemma [OF assms(2-4)] assms(1)
  by (auto simp: Agent_admission status_ready_def status_degraded_def split: if_splits)

theorem admitted_agent_decided_on_references_witness:
  "\<exists>a'. agentPass recording_kube [] (NamespacedName ''default'' ''bot'') (sample_reader, []) =
          (Publish a', sample_reader, []) \<and>
        (ast_phase (ag_status a') = AgentPhaseReady \<longleftrightarrow>
           references_exist sample_reader sample_agent \<and>
           (\<exists>res. resolveRefs sample_reader sample_agent = Inr res \<and> admitted sample_reader sample_agent res))"
proof -
  have "Agent_ValidateCreate (parseQuantity recording_kube) (OAgent sample_agent) = None"
    using sample_valid by (simp add: Agent_admission)
  moreover obtain a' where p: "agentPass recording_kube [] (NamespacedName ''default'' ''bot'') (sample_reader, []) =
      (Publish a', sample_reader, [])"
    using sample_pass_Ready by blast
  ultimately show ?thesis
    using admitted_agent_decided_on_references [OF disjI1 recording_kube_conditions sample_get p] by simp
qed

end
